(* ===== verification/Go_Prelude.thy ===== *)
theory Go_Prelude
  imports Main "HOL-Library.Word"
begin

text \<open>
  The part of Go and of its standard library that the operator's source uses: fixed-width
  integers, strings and the functions of \<^verbatim>\<open>strings\<close> and \<^verbatim>\<open>strconv\<close>, maps
  with their zero value, error values and run-time panics, and the search loops over
  slices. The lemmas here are shared by every component.

  Go strings are byte strings, which \<open>string\<close> (a list of 8-bit characters) is too.
  A Go map is a partial function; reading a missing key gives the zero value
  (\<open>map_get\<close>). A pointer is an \<open>option\<close>, \<open>None\<close> for nil; reading through nil
  panics, and a panic is the error value \<open>Panic\<close>, which every caller passes on.
\<close>

named_theorems go_defs \<open>definitions of the library functions that proofs unfold\<close>
named_theorems frame_simps \<open>what an operation leaves unchanged\<close>

section \<open>Errors\<close>

datatype api_reason = ReasonNotFound | ReasonAlreadyExists | ReasonConflict | ReasonOther string

datatype go_error =
    StatusError api_reason string
  | ErrorString string
  | Wrapped string go_error
  | Panic string

fun error_text :: "go_error \<Rightarrow> string" where
  "error_text (StatusError r t) = t"
| "error_text (ErrorString t) = t"
| "error_text (Wrapped p e) = p @ error_text e"
| "error_text (Panic t) = t"

fun error_reason :: "go_error \<Rightarrow> api_reason option" where
  "error_reason (StatusError r t) = Some r"
| "error_reason (ErrorString t) = None"
| "error_reason (Wrapped p e) = error_reason e"
| "error_reason (Panic t) = None"

definition IsNotFound :: "go_error \<Rightarrow> bool" where
  "IsNotFound e = (error_reason e = Some ReasonNotFound)"

definition IsAlreadyExists :: "go_error \<Rightarrow> bool" where
  "IsAlreadyExists e = (error_reason e = Some ReasonAlreadyExists)"

definition IsConflict :: "go_error \<Rightarrow> bool" where
  "IsConflict e = (error_reason e = Some ReasonConflict)"

fun is_panic :: "go_error \<Rightarrow> bool" where
  "is_panic (Panic t) = True"
| "is_panic e = False"

text \<open>A computation that may fail or panic, continued on its result.\<close>

definition bindE :: "'e + 'a \<Rightarrow> ('a \<Rightarrow> 'e + 'b) \<Rightarrow> 'e + 'b" where
  "bindE m f = (case m of Inl e \<Rightarrow> Inl e | Inr a \<Rightarrow> f a)"

lemma bindE_simps [simp]: "bindE (Inl e) f = Inl e" "bindE (Inr a) f = f a"
  by (simp_all add: bindE_def)

lemma bindE_Inr_iff: "bindE m f = Inr b \<longleftrightarrow> (\<exists>a. m = Inr a \<and> f a = Inr b)"
  by (cases m) auto

text \<open>The same for a computation that also reads and changes the outside world.\<close>

definition bindW ::
    "('w \<Rightarrow> ('e + 'a) \<times> 'w) \<Rightarrow> ('a \<Rightarrow> 'w \<Rightarrow> ('e + 'b) \<times> 'w) \<Rightarrow> 'w \<Rightarrow> ('e + 'b) \<times> 'w" where
  "bindW m f w = (case m w of (Inl e, w) \<Rightarrow> (Inl e, w) | (Inr a, w) \<Rightarrow> f a w)"

definition liftW :: "'e + 'a \<Rightarrow> 'w \<Rightarrow> ('e + 'a) \<times> 'w" where
  "liftW r w = (r, w)"

definition readW :: "('w \<Rightarrow> 'a \<times> 'w) \<Rightarrow> 'w \<Rightarrow> ('e + 'a) \<times> 'w" where
  "readW m w = (case m w of (a, w) \<Rightarrow> (Inr a, w))"

lemma bindW_lift [simp]: "bindW (liftW r) f w = (case r of Inl e \<Rightarrow> (Inl e, w) | Inr a \<Rightarrow> f a w)"
  by (simp add: bindW_def liftW_def split: sum.split)

lemma bindW_read [simp]: "bindW (readW m) f w = (case m w of (a, w) \<Rightarrow> f a w)"
  by (simp add: bindW_def readW_def split: prod.split)

lemma bindW_Inr_iff:
  "bindW m f w = (Inr b, w') \<longleftrightarrow> (\<exists>a w1. m w = (Inr a, w1) \<and> f a w1 = (Inr b, w'))"
  by (auto simp: bindW_def split: prod.splits sum.splits)

text \<open>A call that returns only an error, in a sequence that ends with the first one.\<close>

definition runW :: "('w \<Rightarrow> 'e option \<times> 'w) \<Rightarrow> 'w \<Rightarrow> ('e + unit) \<times> 'w" where
  "runW m w = (case m w of (None, w) \<Rightarrow> (Inr (), w) | (Some e, w) \<Rightarrow> (Inl e, w))"

definition actW :: "('w \<Rightarrow> 'w) \<Rightarrow> 'w \<Rightarrow> ('e + unit) \<times> 'w" where
  "actW f w = (Inr (), f w)"

text \<open>\<^verbatim>\<open>utils.MergeError\<close>: nil is \<open>None\<close>.\<close>

fun MergeError :: "go_error option \<Rightarrow> go_error option \<Rightarrow> go_error option" where
  "MergeError None None = None"
| "MergeError None (Some e) = Some e"
| "MergeError (Some e) None = Some e"
| "MergeError (Some a) (Some b) = Some (ErrorString (error_text a @ ''; '' @ error_text b))"

section \<open>Fixed-width integers\<close>

text \<open>
  Integers are \<open>int\<close> values in the range of their Go type; where the source computes a
  value that can leave the range, the wrap-around is written out.
\<close>

definition wrap32 :: "int \<Rightarrow> int" where
  "wrap32 x = signed_take_bit 31 x"

definition wrap64 :: "int \<Rightarrow> int" where
  "wrap64 x = signed_take_bit 63 x"

definition in_int32 :: "int \<Rightarrow> bool" where
  "in_int32 x = (- (2 ^ 31) \<le> x \<and> x < 2 ^ 31)"

definition in_int64 :: "int \<Rightarrow> bool" where
  "in_int64 x = (- (2 ^ 63) \<le> x \<and> x < 2 ^ 63)"

section \<open>Strings\<close>

definition HasPrefix :: "string \<Rightarrow> string \<Rightarrow> bool" where
  "HasPrefix s p = (take (length p) s = p)"

text \<open>\<^verbatim>\<open>strings.ToLower\<close> on ASCII.\<close>

definition ToLower :: "string \<Rightarrow> string" where
  "ToLower s = map (\<lambda>c. let n = of_char c :: nat in if 65 \<le> n \<and> n \<le> 90 then char_of (n + 32) else c) s"

text \<open>\<^verbatim>\<open>strings.TrimSpace\<close> on ASCII text.\<close>

definition is_space :: "char \<Rightarrow> bool" where
  "is_space c = (c \<in> set [CHR '' '', CHR 0x09, CHR 0x0A, CHR 0x0B, CHR 0x0C, CHR 0x0D])"

definition TrimSpace :: "string \<Rightarrow> string" where
  "TrimSpace s = rev (dropWhile is_space (rev (dropWhile is_space s)))"

definition HasSuffix :: "string \<Rightarrow> string \<Rightarrow> bool" where
  "HasSuffix s p = (drop (length s - length p) s = p)"

text \<open>\<^verbatim>\<open>strings.ReplaceAll\<close> for a one-byte pattern and a one-byte replacement.\<close>

definition ReplaceAll :: "string \<Rightarrow> char \<Rightarrow> char \<Rightarrow> string" where
  "ReplaceAll s a b = map (\<lambda>c. if c = a then b else c) s"

text \<open>
  \<^verbatim>\<open>strings.Split\<close> with a non-empty separator: the parts between the leftmost
  non-overlapping occurrences. \<open>cut_at\<close> splits at the first occurrence.
\<close>

fun cut_at :: "string \<Rightarrow> string \<Rightarrow> (string \<times> string) option" where
  "cut_at sep [] = (if sep = [] then Some ([], []) else None)"
| "cut_at sep (c # cs) =
     (if HasPrefix (c # cs) sep then Some ([], drop (length sep) (c # cs))
      else map_option (\<lambda>(a, b). (c # a, b)) (cut_at sep cs))"

lemma cut_at_length: "cut_at sep s = Some (a, b) \<Longrightarrow> length a + length sep + length b = length s"
proof (induction sep s arbitrary: a b rule: cut_at.induct)
  case (1 sep)
  then show ?case by (simp split: if_splits)
next
  case (2 sep c cs)
  show ?case
  proof (cases "HasPrefix (c # cs) sep")
    case True
    then have "length sep \<le> length (c # cs)"
      by (metis HasPrefix_def length_take min.cobounded1)
    with True "2.prems" show ?thesis by auto
  next
    case False
    with "2.prems" obtain a' where "cut_at sep cs = Some (a', b)" and "a = c # a'"
      by auto
    with "2.IH" [OF False this(1)] show ?thesis by simp
  qed
qed

function Split :: "string \<Rightarrow> string \<Rightarrow> string list" where
  "Split s sep =
     (if sep = [] then map (\<lambda>c. [c]) s
      else case cut_at sep s of None \<Rightarrow> [s] | Some (a, b) \<Rightarrow> a # Split b sep)"
  by pat_completeness auto
termination
proof (relation "measure (\<lambda>(s, sep). length s)")
  fix s sep :: string and x a b
  assume "sep \<noteq> []" and "cut_at sep s = Some x" and "(a, b) = x"
  then have "length sep + length b \<le> length s" and "0 < length sep"
    using cut_at_length [of sep s a b] by auto
  then have "length b < length s" by linarith
  then show "((b, sep), (s, sep)) \<in> measure (\<lambda>(s, sep). length s)"
    by simp
qed simp

declare Split.simps [simp del]

text \<open>Decimal digits: \<^verbatim>\<open>strconv.Itoa\<close>, \<^verbatim>\<open>strconv.ParseInt\<close> in base 10.\<close>

definition digit_char :: "nat \<Rightarrow> char" where
  "digit_char d = char_of (48 + d)"

definition char_digit :: "char \<Rightarrow> nat option" where
  "char_digit c = (let n = of_char c :: nat in if 48 \<le> n \<and> n \<le> 57 then Some (n - 48) else None)"

fun dec_nat :: "nat \<Rightarrow> string" where
  "dec_nat n = (if n < 10 then [digit_char n] else dec_nat (n div 10) @ [digit_char (n mod 10)])"

declare dec_nat.simps [simp del]

definition Itoa :: "int \<Rightarrow> string" where
  "Itoa i = (if i < 0 then ''-'' @ dec_nat (nat (- i)) else dec_nat (nat i))"

fun digits_value :: "nat \<Rightarrow> string \<Rightarrow> nat option" where
  "digits_value acc [] = Some acc"
| "digits_value acc (c # cs) =
     (case char_digit c of None \<Rightarrow> None | Some d \<Rightarrow> digits_value (10 * acc + d) cs)"

text \<open>
  \<open>ParseInt s bits\<close> is \<^verbatim>\<open>strconv.ParseInt(s, 10, bits)\<close> with \<open>None\<close> for an error: an
  optional sign, at least one digit, and the value in range. \<open>ParseIntValue\<close> is the value
  returned beside the error that a caller may drop: 0 for a syntax error, the nearest bound
  for a value out of range.
\<close>

definition parse_signed :: "string \<Rightarrow> int option" where
  "parse_signed s =
     (let (neg, ds) = (case s of [] \<Rightarrow> (False, [])
                       | c # cs \<Rightarrow> if c = CHR ''-'' then (True, cs)
                                 else if c = CHR ''+'' then (False, cs) else (False, s))
      in if ds = [] then None
         else map_option (\<lambda>v. if neg then - int v else int v) (digits_value 0 ds))"

definition ParseInt :: "string \<Rightarrow> nat \<Rightarrow> int option" where
  "ParseInt s bits =
     (case parse_signed s of
        None \<Rightarrow> None
      | Some i \<Rightarrow> if - (2 ^ (bits - 1)) \<le> i \<and> i < 2 ^ (bits - 1) then Some i else None)"

definition ParseIntValue :: "string \<Rightarrow> nat \<Rightarrow> int" where
  "ParseIntValue s bits =
     (case parse_signed s of
        None \<Rightarrow> 0
      | Some i \<Rightarrow> max (- (2 ^ (bits - 1))) (min i (2 ^ (bits - 1) - 1)))"

definition Atoi :: "string \<Rightarrow> int option" where
  "Atoi s = ParseInt s 64"

definition fmt_bool :: "bool \<Rightarrow> string" where
  "fmt_bool b = (if b then ''true'' else ''false'')"

section \<open>Maps and slices\<close>

type_synonym string_map = "string \<rightharpoonup> string"

definition map_get :: "string_map \<Rightarrow> string \<Rightarrow> string" where
  "map_get m k = (case m k of None \<Rightarrow> '''' | Some v \<Rightarrow> v)"

text \<open>A loop that writes through a pointer to the first element that satisfies a test.\<close>

fun update_first :: "('a \<Rightarrow> bool) \<Rightarrow> ('a \<Rightarrow> 'a) \<Rightarrow> 'a list \<Rightarrow> 'a list" where
  "update_first P f [] = []"
| "update_first P f (x # xs) = (if P x then f x # xs else x # update_first P f xs)"

section \<open>Lemmas on the library\<close>

subsection \<open>Errors\<close>

lemma MergeError_None_iff [simp]: "MergeError a b = None \<longleftrightarrow> a = None \<and> b = None"
  by (cases a; cases b) auto

lemma is_panic_not_found [simp]: "IsNotFound e \<Longrightarrow> \<not> is_panic e"
  by (cases e) (auto simp: IsNotFound_def)

subsection \<open>Integers\<close>

lemma wrap32_id [simp]: "in_int32 x \<Longrightarrow> wrap32 x = x"
  unfolding wrap32_def in_int32_def by (rule signed_take_bit_int_eq_self) auto

lemma wrap64_id [simp]: "in_int64 x \<Longrightarrow> wrap64 x = x"
  unfolding wrap64_def in_int64_def by (rule signed_take_bit_int_eq_self) auto

lemma wrap32_range: "in_int32 (wrap32 x)"
  unfolding wrap32_def in_int32_def
  using signed_take_bit_int_greater_eq_minus_exp [of 31 x] signed_take_bit_int_less_exp [of 31 x]
  by simp

lemma wrap64_range: "in_int64 (wrap64 x)"
  unfolding wrap64_def in_int64_def
  using signed_take_bit_int_greater_eq_minus_exp [of 63 x] signed_take_bit_int_less_exp [of 63 x]
  by simp

subsection \<open>Decimal notation\<close>

lemma char_digit_digit_char [simp]: "d < 10 \<Longrightarrow> char_digit (digit_char d) = Some d"
  by (simp add: char_digit_def digit_char_def Let_def)

lemma digits_value_append:
  "digits_value acc (xs @ ys) =
     (case digits_value acc xs of None \<Rightarrow> None | Some v \<Rightarrow> digits_value v ys)"
  by (induction acc xs rule: digits_value.induct) (auto split: option.splits)

lemma digits_value_dec_nat [simp]: "digits_value 0 (dec_nat n) = Some n"
proof (induction n rule: dec_nat.induct)
  case (1 n)
  show ?case
  proof (cases "n < 10")
    case True
    then show ?thesis by (subst dec_nat.simps) simp
  next
    case False
    with "1.IH" show ?thesis
      by (subst dec_nat.simps) (simp add: digits_value_append)
  qed
qed

lemma dec_nat_nonempty [simp]: "dec_nat n \<noteq> []"
  by (subst dec_nat.simps) simp

lemma dec_nat_digits: "c \<in> set (dec_nat n) \<Longrightarrow> \<exists>d < 10. c = digit_char d"
proof (induction n rule: dec_nat.induct)
  case (1 n)
  show ?case
  proof (cases "n < 10")
    case True
    with "1.prems" have "c = digit_char n"
      by (subst (asm) dec_nat.simps) simp
    with True show ?thesis by blast
  next
    case False
    with "1.prems" have "c \<in> set (dec_nat (n div 10)) \<or> c = digit_char (n mod 10)"
      by (subst (asm) dec_nat.simps) auto
    moreover have "n mod 10 < 10" by simp
    ultimately show ?thesis using "1.IH" [OF False] by blast
  qed
qed

lemma digit_char_code: "d < 10 \<Longrightarrow> (of_char (digit_char d) :: nat) = 48 + d"
  by (simp add: digit_char_def)

lemma digit_char_neq [simp]:
  "d < 10 \<Longrightarrow> digit_char d \<noteq> CHR ''-''"
  "d < 10 \<Longrightarrow> digit_char d \<noteq> CHR ''+''"
  "d < 10 \<Longrightarrow> digit_char d \<noteq> CHR ''.''"
  by (auto dest: arg_cong [where f = "of_char :: char \<Rightarrow> nat"] simp: digit_char_code)

lemma dec_nat_no_sign:
  "CHR ''-'' \<notin> set (dec_nat n)" "CHR ''+'' \<notin> set (dec_nat n)" "CHR ''.'' \<notin> set (dec_nat n)"
  by (metis dec_nat_digits digit_char_neq)+

lemma ParseInt_dec_nat:
  assumes "int n < 2 ^ (bits - 1)"
  shows "ParseInt (dec_nat n) bits = Some (int n)"
proof (cases "dec_nat n")
  case Nil
  then show ?thesis by simp
next
  case (Cons c cs)
  then have c: "c \<noteq> CHR ''-''" "c \<noteq> CHR ''+''"
    using dec_nat_no_sign [of n] by auto
  have "digits_value 0 (c # cs) = Some n"
    using digits_value_dec_nat [of n] Cons by simp
  moreover have "- (2 ^ (bits - 1)) \<le> int n"
    by (rule order_trans [of _ 0]) auto
  ultimately show ?thesis
    using Cons c assms by (simp add: ParseInt_def parse_signed_def del: digits_value.simps)
qed

lemma Atoi_dec_nat: "int n < 2 ^ 63 \<Longrightarrow> Atoi (dec_nat n) = Some (int n)"
  by (simp add: Atoi_def ParseInt_dec_nat)

text \<open>The digits computed on \<open>int\<close>, which the evaluator does in binary.\<close>

function dec_int :: "int \<Rightarrow> string" where
  "dec_int i = (if i < 10 then [digit_char (nat i)] else dec_int (i div 10) @ [digit_char (nat (i mod 10))])"
  by auto
termination by (relation "measure nat") auto

declare dec_int.simps [simp del]

lemma dec_int_of_nat: "dec_int (int n) = dec_nat n"
proof (induction n rule: dec_nat.induct)
  case (1 n)
  show ?case
  proof (cases "n < 10")
    case True
    then show ?thesis by (simp add: dec_int.simps [of "int n"] dec_nat.simps [of n])
  next
    case False
    then have "dec_int (int n div 10) = dec_nat (n div 10)"
      using "1.IH" by (metis of_nat_div of_nat_numeral)
    with False show ?thesis
      by (simp add: dec_int.simps [of "int n"] dec_nat.simps [of n] nat_mod_distrib)
  qed
qed

lemma Itoa_code [code]:
  "Itoa i = (if i < 0 then ''-'' @ dec_int (- i) else dec_int i)"
  using dec_int_of_nat [of "nat i"] dec_int_of_nat [of "nat (- i)"] by (auto simp: Itoa_def)

lemma Itoa_of_nat [simp]: "Itoa (int n) = dec_nat n"
  by (simp add: Itoa_def)

subsection \<open>Strings\<close>

lemma HasPrefix_append [simp]: "HasPrefix (p @ s) p"
  by (simp add: HasPrefix_def)

lemma HasPrefix_iff: "HasPrefix s p \<longleftrightarrow> (\<exists>t. s = p @ t)"
  unfolding HasPrefix_def by (metis append_eq_conv_conj append_take_drop_id)

subsection \<open>Splitting at a character\<close>

lemma cut_at_char_None: "x \<notin> set s \<Longrightarrow> cut_at [x] s = None"
  by (induction s) (auto simp: HasPrefix_def)

lemma cut_at_char: "x \<notin> set a \<Longrightarrow> cut_at [x] (a @ x # b) = Some (a, b)"
  by (induction a) (auto simp: HasPrefix_def)

lemma Split_none: "x \<notin> set s \<Longrightarrow> Split s [x] = [s]"
  by (simp add: Split.simps [of s] cut_at_char_None)

lemma Split_first: "x \<notin> set a \<Longrightarrow> Split (a @ x # b) [x] = a # Split b [x]"
  by (simp add: Split.simps [of "a @ x # b"] cut_at_char)

lemma Split_nonempty: "sep \<noteq> [] \<Longrightarrow> Split s sep \<noteq> []"
  by (subst Split.simps) (simp split: option.split)

lemma hd_Split: "x \<notin> set a \<Longrightarrow> hd (Split (a @ x # b) [x]) = a"
  by (simp add: Split_first)

lemma last_Split: "x \<notin> set b \<Longrightarrow> last (Split (a @ x # b) [x]) = b"
proof (induction "length a" arbitrary: a rule: less_induct)
  case less
  show ?case
  proof (cases "x \<in> set a")
    case True
    then obtain c d where a: "a = c @ x # d" and c: "x \<notin> set c" by (meson split_list_first)
    have "last (Split (d @ x # b) [x]) = b" using less a by simp
    then show ?thesis using c by (simp add: a Split_first Split_nonempty)
  next
    case False
    then show ?thesis using less.prems by (simp add: Split_first Split_none)
  qed
qed

end
