(* ===== verification/Go_Json.thy ===== *)
theory Go_Json
  imports Go_Prelude
begin

text \<open>
  The decoder half of \<^verbatim>\<open>encoding/json\<close> as the operator uses it:
  \<^verbatim>\<open>json.Unmarshal\<close> into \<^verbatim>\<open>map[string]interface{}\<close> and into a slice of such
  maps. A number keeps its literal; its conversion to a float and the float's printed form
  are left to the caller (\<open>FmtFloat\<close> of the environment). The text is taken to be valid
  UTF-8, which a MySQL text column and a Kubernetes object guarantee.

  The mutually recursive parser stops because every call is on a shorter rest; the test
  \<open>length r < length s\<close> after an element only makes that visible to the termination
  proof, and \<open>json_value_shorter\<close> shows that it always holds.
\<close>

datatype json =
    JNull
  | JBool bool
  | JNum string
  | JStr string
  | JArr "json list"
  | JObj "(string \<times> json) list"

section \<open>Lexical level\<close>

definition is_ws :: "char \<Rightarrow> bool" where
  "is_ws c = (of_char c \<in> {9, 10, 13, 32 :: nat})"

definition skip_ws :: "string \<Rightarrow> string" where
  "skip_ws s = dropWhile is_ws s"

definition is_digit :: "char \<Rightarrow> bool" where
  "is_digit c = (char_digit c \<noteq> None)"

definition hex_digit :: "char \<Rightarrow> nat option" where
  "hex_digit c = (let n = of_char c :: nat in
     if 48 \<le> n \<and> n \<le> 57 then Some (n - 48)
     else if 65 \<le> n \<and> n \<le> 70 then Some (n - 55)
     else if 97 \<le> n \<and> n \<le> 102 then Some (n - 87)
     else None)"

fun hex4 :: "string \<Rightarrow> (nat \<times> string) option" where
  "hex4 (a # b # c # d # r) =
     (case (hex_digit a, hex_digit b, hex_digit c, hex_digit d) of
        (Some w, Some x, Some y, Some z) \<Rightarrow> Some (((w * 16 + x) * 16 + y) * 16 + z, r)
      | _ \<Rightarrow> None)"
| "hex4 s = None"

definition utf8 :: "nat \<Rightarrow> string" where
  "utf8 n =
     (if n < 128 then [char_of n]
      else if n < 2048 then [char_of (192 + n div 64), char_of (128 + n mod 64)]
      else if n < 65536 then
        [char_of (224 + n div 4096), char_of (128 + n div 64 mod 64), char_of (128 + n mod 64)]
      else
        [char_of (240 + n div 262144), char_of (128 + n div 4096 mod 64),
         char_of (128 + n div 64 mod 64), char_of (128 + n mod 64)])"

text \<open>
  The code point of a \<^verbatim>\<open>\u\<close> escape, given what follows its four digits: a high
  surrogate followed by an escaped low surrogate is one code point, any other surrogate is
  replaced by U+FFFD.
\<close>

definition unescape_u :: "nat \<Rightarrow> string \<Rightarrow> nat \<times> string" where
  "unescape_u n r =
     (if n < 55296 \<or> 57343 < n then (n, r)
      else case r of
          b # u # r' \<Rightarrow>
            (if n < 56320 \<and> b = CHR 0x5C \<and> u = CHR ''u'' then
               case hex4 r' of
                 Some (m, r'') \<Rightarrow>
                   if 56320 \<le> m \<and> m \<le> 57343
                   then (65536 + (n - 55296) * 1024 + (m - 56320), r'') else (65533, r)
               | None \<Rightarrow> (65533, r)
             else (65533, r))
        | _ \<Rightarrow> (65533, r))"

definition simple_escape :: "char \<Rightarrow> char option" where
  "simple_escape e =
     (if e = CHR 0x22 \<or> e = CHR 0x5C \<or> e = CHR ''/'' then Some e
      else if e = CHR ''b'' then Some (CHR 0x08)
      else if e = CHR ''f'' then Some (CHR 0x0C)
      else if e = CHR ''n'' then Some (CHR 0x0A)
      else if e = CHR ''r'' then Some (CHR 0x0D)
      else if e = CHR ''t'' then Some (CHR 0x09)
      else None)"

definition str_cons :: "string \<Rightarrow> (string \<times> string) option \<Rightarrow> (string \<times> string) option" where
  "str_cons a p = map_option (\<lambda>(t, r). (a @ t, r)) p"

text \<open>The rest of a string literal after its opening quote.\<close>

function json_string :: "string \<Rightarrow> (string \<times> string) option" where
  "json_string [] = None"
| "json_string (c # cs) =
     (if c = CHR 0x22 then Some ([], cs)
      else if c = CHR 0x5C then
        (case cs of
           [] \<Rightarrow> None
         | e # r \<Rightarrow>
             (case simple_escape e of
                Some d \<Rightarrow> str_cons [d] (json_string r)
              | None \<Rightarrow>
                  (if e = CHR ''u'' then
                     case hex4 r of
                       None \<Rightarrow> None
                     | Some (n, r1) \<Rightarrow>
                         let (k, r2) = unescape_u n r1
                         in if length r2 \<le> length r then str_cons (utf8 k) (json_string r2) else None
                   else None)))
      else if (of_char c :: nat) < 32 then None
      else str_cons [c] (json_string cs))"
  by pat_completeness auto
termination
  by (relation "measure length") auto

declare json_string.simps [simp del]

definition take_digits :: "string \<Rightarrow> string \<times> string" where
  "take_digits s = (takeWhile is_digit s, dropWhile is_digit s)"

definition opt_char :: "char \<Rightarrow> string \<Rightarrow> string \<times> string" where
  "opt_char c s = (case s of x # r \<Rightarrow> if x = c then ([c], r) else ([], s) | [] \<Rightarrow> ([], []))"

text \<open>
  A number literal: optional minus, an integer part without leading zeros, optional
  fraction, optional exponent.
\<close>

definition json_int :: "string \<Rightarrow> (string \<times> string) option" where
  "json_int s =
     (let (m, r) = opt_char (CHR ''-'') s; (ds, r1) = take_digits r
      in case ds of
           [] \<Rightarrow> None
         | d # ds' \<Rightarrow> if d = CHR ''0'' then Some (m @ [d], ds' @ r1) else Some (m @ ds, r1))"

definition json_frac :: "string \<Rightarrow> (string \<times> string) option" where
  "json_frac s =
     (case opt_char (CHR ''.'') s of
        ([], r) \<Rightarrow> Some ([], r)
      | (p, r) \<Rightarrow> (case take_digits r of ([], _) \<Rightarrow> None | (ds, r1) \<Rightarrow> Some (p @ ds, r1)))"

definition json_exp :: "string \<Rightarrow> (string \<times> string) option" where
  "json_exp s =
     (case s of
        [] \<Rightarrow> Some ([], [])
      | c # cs \<Rightarrow>
          (if c = CHR ''e'' \<or> c = CHR ''E'' then
             let (p, r) = opt_char (CHR ''+'') cs;
                 (q, r') = (if p = [] then opt_char (CHR ''-'') r else ([], r));
                 (ds, r1) = take_digits r'
             in if ds = [] then None else Some (c # p @ q @ ds, r1)
           else Some ([], s)))"

definition json_number :: "string \<Rightarrow> (json \<times> string) option" where
  "json_number s =
     (case json_int s of None \<Rightarrow> None | Some (a, r) \<Rightarrow>
      (case json_frac r of None \<Rightarrow> None | Some (b, r1) \<Rightarrow>
       (case json_exp r1 of None \<Rightarrow> None | Some (c, r2) \<Rightarrow> Some (JNum (a @ b @ c), r2))))"

definition lit :: "string \<Rightarrow> json \<Rightarrow> string \<Rightarrow> (json \<times> string) option" where
  "lit w v s = (if HasPrefix s w then Some (v, drop (length w) s) else None)"

section \<open>Values\<close>

lemma skip_ws_length: "skip_ws s = c # r \<Longrightarrow> length r < length s"
proof -
  assume "skip_ws s = c # r"
  then have "length (c # r) \<le> length s"
    by (metis skip_ws_def length_dropWhile_le)
  then show ?thesis by simp
qed

lemma skip_ws_length2: "skip_ws s = c # r \<Longrightarrow> skip_ws r = d # q \<Longrightarrow> Suc (length q) < length s"
  using skip_ws_length [of s c r] skip_ws_length [of r d q] by simp

text \<open>
  \<open>json_value\<close> reads one value after optional white space; \<open>json_elems\<close> and
  \<open>json_members\<close> read the non-empty contents of an array or object up to and including
  the closing bracket.
\<close>

function (sequential) json_value :: "string \<Rightarrow> (json \<times> string) option"
  and json_elems :: "string \<Rightarrow> (json list \<times> string) option"
  and json_members :: "string \<Rightarrow> ((string \<times> json) list \<times> string) option"
where
  "json_value s =
     (case skip_ws s of
        [] \<Rightarrow> None
      | c # r \<Rightarrow>
          (if c = CHR ''['' then
             (case skip_ws r of
                [] \<Rightarrow> None
              | d # r' \<Rightarrow>
                  (if d = CHR '']'' then Some (JArr [], r')
                   else map_option (\<lambda>(vs, q). (JArr vs, q)) (json_elems (d # r'))))
           else if c = CHR 0x7B then
             (case skip_ws r of
                [] \<Rightarrow> None
              | d # r' \<Rightarrow>
                  (if d = CHR 0x7D then Some (JObj [], r')
                   else map_option (\<lambda>(ms, q). (JObj ms, q)) (json_members (d # r'))))
           else if c = CHR 0x22 then map_option (\<lambda>(t, q). (JStr t, q)) (json_string r)
           else if c = CHR ''t'' then lit ''true'' (JBool True) (c # r)
           else if c = CHR ''f'' then lit ''false'' (JBool False) (c # r)
           else if c = CHR ''n'' then lit ''null'' JNull (c # r)
           else json_number (c # r)))"
| "json_elems s =
     (case json_value s of
        None \<Rightarrow> None
      | Some (v, r) \<Rightarrow>
          (if length r < length s then
             (case skip_ws r of
                [] \<Rightarrow> None
              | c # r' \<Rightarrow>
                  (if c = CHR '','' then map_option (\<lambda>(vs, q). (v # vs, q)) (json_elems r')
                   else if c = CHR '']'' then Some ([v], r')
                   else None))
           else None))"
| "json_members s =
     (case skip_ws s of
        [] \<Rightarrow> None
      | c # r \<Rightarrow>
          (if c \<noteq> CHR 0x22 then None
           else case json_string r of
               None \<Rightarrow> None
             | Some (k, r1) \<Rightarrow>
                 (if length r1 < length s then
                    (case skip_ws r1 of
                       [] \<Rightarrow> None
                     | c1 # r2 \<Rightarrow>
                         (if c1 \<noteq> CHR '':'' then None
                          else case json_value r2 of
                              None \<Rightarrow> None
                            | Some (v, r3) \<Rightarrow>
                                (if length r3 < length s then
                                   (case skip_ws r3 of
                                      [] \<Rightarrow> None
                                    | c3 # r4 \<Rightarrow>
                                        (if c3 = CHR '','' then
                                           map_option (\<lambda>(ms, q). ((k, v) # ms, q)) (json_members r4)
                                         else if c3 = CHR 0x7D then Some ([(k, v)], r4)
                                         else None))
                                 else None)))
                  else None)))"
  by pat_completeness auto

termination
  by (relation "measures [case_sum length (case_sum length length),
        case_sum (\<lambda>_. 0) (case_sum (\<lambda>_. 1) (\<lambda>_. 1))]")
    (auto dest: skip_ws_length skip_ws_length2)

declare json_value.simps [simp del] json_elems.simps [simp del] json_members.simps [simp del]

text \<open>A whole document: one value with nothing but white space after it.\<close>

definition json_parse :: "string \<Rightarrow> json option" where
  "json_parse s =
     (case json_value s of
        None \<Rightarrow> None
      | Some (v, r) \<Rightarrow> if skip_ws r = [] then Some v else None)"

text \<open>
  \<^verbatim>\<open>json.Unmarshal\<close> into a \<^verbatim>\<open>map[string]interface{}\<close>: the last of several equal
  keys wins, the literal null leaves the map nil, any other value is an error.
\<close>

definition unmarshal_map :: "string \<Rightarrow> (string \<rightharpoonup> json) option" where
  "unmarshal_map s =
     (case json_parse s of
        Some (JObj ms) \<Rightarrow> Some (map_of (rev ms))
      | Some JNull \<Rightarrow> Some Map.empty
      | _ \<Rightarrow> None)"

section \<open>Every value is shorter than its text\<close>

lemma hex4_length: "hex4 s = Some (n, r) \<Longrightarrow> length r < length s"
  by (induction s rule: hex4.induct) (auto split: option.splits)

lemma str_cons_Some: "str_cons a p = Some (t, r) \<longleftrightarrow> (\<exists>t'. p = Some (t', r) \<and> t = a @ t')"
  by (auto simp: str_cons_def)

lemma json_string_shorter_bound:
  "length s \<le> n \<Longrightarrow> json_string s = Some (t, r) \<Longrightarrow> length r < length s"
proof (induction n arbitrary: s t r)
  case 0
  then show ?case by (simp add: json_string.simps)
next
  case (Suc n)
  then have IH: "length s' \<le> n \<Longrightarrow> json_string s' = Some (t', r') \<Longrightarrow> length r' < length s'" for s' t' r'
    by blast
  show ?case
  proof (cases s)
    case Nil
    with Suc.prems show ?thesis by (simp add: json_string.simps)
  next
    case (Cons c cs)
    then have n: "length cs \<le> n" using Suc.prems by simp
    from Suc.prems have "json_string (c # cs) = Some (t, r)" by (simp only: Cons)
    then show ?thesis unfolding Cons using n
      by (subst (asm) json_string.simps)
        (auto simp: str_cons_Some Let_def split: if_splits list.splits option.splits prod.splits
           dest!: IH [rotated])
  qed
qed

lemmas json_string_shorter = json_string_shorter_bound [OF order_refl]

lemma take_digits_length: "take_digits s = (ds, r) \<Longrightarrow> length ds + length r = length s"
  by (auto simp: take_digits_def simp flip: length_append)

lemma opt_char_length: "opt_char c s = (m, r) \<Longrightarrow> length m + length r = length s"
  by (auto simp: opt_char_def split: list.splits if_splits)

lemma json_int_shorter: "json_int s = Some (a, r) \<Longrightarrow> length r < length s"
  by (auto simp: json_int_def Let_def split: prod.splits list.splits if_splits
      dest!: take_digits_length opt_char_length)

lemma json_frac_le: "json_frac s = Some (a, r) \<Longrightarrow> length r \<le> length s"
  by (auto simp: json_frac_def split: prod.splits list.splits
      dest!: take_digits_length opt_char_length)

lemma json_exp_le: "json_exp s = Some (a, r) \<Longrightarrow> length r \<le> length s"
  by (auto simp: json_exp_def Let_def split: prod.splits list.splits if_splits
      dest!: take_digits_length opt_char_length)

lemma json_number_shorter: "json_number s = Some (v, r) \<Longrightarrow> length r < length s"
  by (auto simp: json_number_def split: option.splits prod.splits
      dest!: json_int_shorter json_frac_le json_exp_le)

lemma lit_shorter: "lit w v s = Some (x, r) \<Longrightarrow> w \<noteq> [] \<Longrightarrow> length r < length s"
  by (cases s) (auto simp: lit_def HasPrefix_def split: if_splits)

lemma json_shorter_bound:
  "length s \<le> n \<Longrightarrow>
     (\<forall>v r. json_value s = Some (v, r) \<longrightarrow> length r < length s) \<and>
     (\<forall>vs r. json_elems s = Some (vs, r) \<longrightarrow> length r < length s) \<and>
     (\<forall>ms r. json_members s = Some (ms, r) \<longrightarrow> length r < length s)"
proof (induction n arbitrary: s)
  case 0
  then show ?case
    by (simp add: json_value.simps json_elems.simps json_members.simps skip_ws_def)
next
  case (Suc n)
  have elems: "json_elems q = Some (vs, r) \<Longrightarrow> length q \<le> n \<Longrightarrow> length r < length q" for q vs r
    using Suc.IH by blast
  have members: "json_members q = Some (ms, r) \<Longrightarrow> length q \<le> n \<Longrightarrow> length r < length q" for q ms r
    using Suc.IH by blast
  have "json_value s = Some (v, r) \<Longrightarrow> length r < length s" for v r
    using Suc.prems
    by (subst (asm) json_value.simps)
      (auto split: list.splits if_splits dest!: skip_ws_length
         dest: json_string_shorter lit_shorter json_number_shorter elems members)
  moreover have "json_elems s = Some (vs, r) \<Longrightarrow> length r < length s" for vs r
    using Suc.prems
    by (subst (asm) json_elems.simps)
      (auto split: list.splits if_splits option.splits dest!: skip_ws_length elems)
  moreover have "json_members s = Some (ms, r) \<Longrightarrow> length r < length s" for ms r
    using Suc.prems
    by (subst (asm) json_members.simps)
      (auto split: list.splits if_splits option.splits dest!: skip_ws_length members)
  ultimately show ?case by blast
qed

lemma json_value_shorter: "json_value s = Some (v, r) \<Longrightarrow> length r < length s"
  using json_shorter_bound [OF order_refl] by blast

end
