(* ===== verification/Kube_Types.thy ===== *)
theory Kube_Types
  imports Go_Prelude
begin

text \<open>
  The Kubernetes objects the operator reads and writes, with the fields its source uses.
  The Go structs are those of \<^verbatim>\<open>k8s.io/api\<close>; a pointer field is an \<open>option\<close>, and
  each \<open>zero_\<close> constant is the Go zero value of the struct. Times are nanoseconds since
  Go's zero time, so that \<open>0\<close> is the zero \<^verbatim>\<open>metav1.Time\<close>.
\<close>

type_synonym time = int

record owner_ref =
  or_Name :: string
  or_UID :: string

text \<open>
  A struct that the operator only copies from the specification to an object (a toleration,
  a security context, an affinity term) is opaque: a text that stands for its value.
\<close>

type_synonym opaque = string

record env_var =
  ev_Name :: string
  ev_Value :: string
  ev_FieldPath :: "string option"

record volume_mount =
  vm_Name :: string
  vm_MountPath :: string

record container_port =
  cp_Name :: string
  cp_ContainerPort :: int
  cp_Protocol :: string

record resource_requirements =
  rr_LimitsCpu :: string
  rr_Other :: opaque

datatype probe_handler =
    NoHandler
  | TCPSocket int
  | HTTPGet string int
  | ExecAction "string list"

record probe =
  pr_PeriodSeconds :: int
  pr_FailureThreshold :: int
  pr_InitialDelaySeconds :: int
  pr_TimeoutSeconds :: int
  pr_Handler :: probe_handler

record security_context =
  scx_Privileged :: "bool option"
  scx_Other :: opaque

record container =
  c_Name :: string
  c_Image :: string
  c_ImagePullPolicy :: string
  c_Command :: "string list"
  c_Args :: "string list"
  c_Ports :: "container_port list"
  c_Env :: "env_var list"
  c_Resources :: resource_requirements
  c_SecurityContext :: "security_context option"
  c_VolumeMounts :: "volume_mount list"
  c_PreStop :: "string list option"
  c_LivenessProbe :: "probe option"
  c_StartupProbe :: "probe option"
  c_ReadinessProbe :: "probe option"

datatype volume_source =
    EmptyDir
  | ClaimSource string
  | ConfigMapSource string
  | SecretSource string
  | DownwardAPI "(string \<times> string) list"

record volume =
  v_Name :: string
  v_Source :: volume_source

text \<open>
  A preferred term is a weight, the requirement on a label (an expression over values or a
  label to match) and the topology key, or copied.
\<close>

datatype affinity_term =
    LabelTerm int string "string list" string
  | MatchTerm int string string string
  | OtherTerm opaque

record pod_affinity_terms =
  paa_Required :: "opaque list"
  paa_Preferred :: "affinity_term list"

record affinity =
  af_NodeAffinity :: "opaque option"
  af_PodAffinity :: "pod_affinity_terms option"
  af_PodAntiAffinity :: "pod_affinity_terms option"

record pod_template =
  pt_Name :: string
  pt_Labels :: string_map
  pt_Annotations :: string_map
  pt_ImagePullSecrets :: "string list"
  pt_NodeSelector :: string_map
  pt_ServiceAccountName :: string
  pt_Affinity :: "affinity option"
  pt_Tolerations :: "opaque list"
  pt_HostAliases :: "opaque list"
  pt_SecurityContext :: "opaque option"
  pt_InitContainers :: "container list"
  pt_Containers :: "container list"
  pt_Volumes :: "volume list"
  pt_TerminationGracePeriodSeconds :: "int option"

record claim_spec =
  cl_AccessModes :: "string list"
  cl_StorageClassName :: "string option"
  cl_Storage :: int
  cl_VolumeMode :: "string option"

record pvc =
  pvc_Name :: string
  pvc_Namespace :: string
  pvc_Labels :: string_map
  pvc_Annotations :: string_map
  pvc_Finalizers :: "string list"
  pvc_Spec :: claim_spec

record container_status =
  cs_Name :: string
  cs_Ready :: bool
  cs_RestartCount :: int
  cs_ContainerID :: string
  cs_Terminated :: bool

datatype pod_phase = PodPending | PodRunning | PodSucceeded | PodFailed | PodUnknown

record pod =
  pod_Name :: string
  pod_Namespace :: string
  pod_UID :: string
  pod_Labels :: string_map
  pod_Annotations :: string_map
  pod_TerminationGracePeriodSeconds :: "int option"
  pod_Phase :: pod_phase
  pod_Reason :: string
  pod_Message :: string
  pod_PodIP :: string
  pod_ContainerStatuses :: "container_status list option"

text \<open>
  An event on a pod, as a watch is told of it. An update gives the pod before and after; its
  comparison by address is the first argument, which says that both are one object.
\<close>

datatype pod_event = PodCreated pod | PodUpdated bool pod pod | PodDeleted pod

record update_strategy =
  us_Type :: string
  us_RollingUpdate :: "int option option"

record statefulset =
  sts_Name :: string
  sts_Namespace :: string
  sts_Labels :: string_map
  sts_Annotations :: string_map
  sts_OwnerReferences :: "owner_ref list"
  sts_ResourceVersion :: string
  sts_Replicas :: "int option"
  sts_Selector :: string_map
  sts_Template :: pod_template
  sts_VolumeClaimTemplates :: "pvc list"
  sts_ServiceName :: string
  sts_PodManagementPolicy :: string
  sts_RevisionHistoryLimit :: "int option"
  sts_UpdateStrategy :: update_strategy
  sts_CurrentRevision :: string
  sts_UpdateRevision :: string

record service_port =
  sp_Name :: string
  sp_Port :: int
  sp_TargetPort :: int
  sp_NodePort :: int

record service =
  svc_Name :: string
  svc_Namespace :: string
  svc_Labels :: string_map
  svc_Annotations :: string_map
  svc_OwnerReferences :: "owner_ref list"
  svc_ResourceVersion :: string
  svc_ClusterIP :: string
  svc_ClusterIPs :: "string list"
  svc_Type :: string
  svc_Selector :: string_map
  svc_Ports :: "service_port list"
  svc_SessionAffinity :: string
  svc_PublishNotReadyAddresses :: bool
  svc_LoadBalancerIP :: string

record config_map =
  cm_Data :: "string_map option"

record secret =
  secret_Name :: string
  secret_Namespace :: string
  secret_Data :: "string_map option"

definition OnDeleteStrategy :: string where
  "OnDeleteStrategy = ''OnDelete''"

definition RollingUpdateStrategy :: string where
  "RollingUpdateStrategy = ''RollingUpdate''"

definition zero_update_strategy :: update_strategy where
  "zero_update_strategy = \<lparr>us_Type = '''', us_RollingUpdate = None\<rparr>"

definition zero_pod_template :: pod_template where
  "zero_pod_template = \<lparr>pt_Name = '''', pt_Labels = Map.empty, pt_Annotations = Map.empty,
     pt_ImagePullSecrets = [], pt_NodeSelector = Map.empty, pt_ServiceAccountName = '''',
     pt_Affinity = None, pt_Tolerations = [], pt_HostAliases = [], pt_SecurityContext = None,
     pt_InitContainers = [], pt_Containers = [], pt_Volumes = [],
     pt_TerminationGracePeriodSeconds = None\<rparr>"

definition zero_resources :: resource_requirements where
  "zero_resources = \<lparr>rr_LimitsCpu = ''0'', rr_Other = ''''\<rparr>"

definition zero_container :: container where
  "zero_container = \<lparr>c_Name = '''', c_Image = '''', c_ImagePullPolicy = '''', c_Command = [], c_Args = [],
     c_Ports = [], c_Env = [], c_Resources = zero_resources, c_SecurityContext = None,
     c_VolumeMounts = [], c_PreStop = None, c_LivenessProbe = None, c_StartupProbe = None,
     c_ReadinessProbe = None\<rparr>"

definition zero_pod :: pod where
  "zero_pod = \<lparr>pod_Name = '''', pod_Namespace = '''', pod_UID = '''', pod_Labels = Map.empty,
     pod_Annotations = Map.empty, pod_TerminationGracePeriodSeconds = None, pod_Phase = PodUnknown,
     pod_Reason = '''', pod_Message = '''', pod_PodIP = '''', pod_ContainerStatuses = None\<rparr>"

definition zero_sts :: statefulset where
  "zero_sts = \<lparr>sts_Name = '''', sts_Namespace = '''', sts_Labels = Map.empty,
     sts_Annotations = Map.empty, sts_OwnerReferences = [], sts_ResourceVersion = '''',
     sts_Replicas = None, sts_Selector = Map.empty, sts_Template = zero_pod_template,
     sts_VolumeClaimTemplates = [], sts_ServiceName = '''', sts_PodManagementPolicy = '''',
     sts_RevisionHistoryLimit = None,
     sts_UpdateStrategy = zero_update_strategy, sts_CurrentRevision = '''',
     sts_UpdateRevision = ''''\<rparr>"

section \<open>Readiness of a pod\<close>

text \<open>\<^verbatim>\<open>k8s.PodIsReady\<close>: a pod with no container statuses is not ready.\<close>

definition PodIsReady :: "pod \<Rightarrow> bool" where
  "PodIsReady p =
     (case pod_ContainerStatuses p of
        None \<Rightarrow> False
      | Some css \<Rightarrow> list_all cs_Ready css)"

definition container_statuses :: "pod \<Rightarrow> container_status list" where
  "container_statuses p = (case pod_ContainerStatuses p of None \<Rightarrow> [] | Some css \<Rightarrow> css)"

text \<open>The first status of the named container, as the loops over the statuses find it.\<close>

definition find_container :: "pod \<Rightarrow> string \<Rightarrow> container_status option" where
  "find_container p n = List.find (\<lambda>cs. cs_Name cs = n) (container_statuses p)"

end
