(* ===== verification/Doris_Sql.thy ===== *)
theory Doris_Sql
  imports Go_Json Kube_Types "HOL-Library.List_Lexorder" "HOL-Library.Char_ord"
begin

text \<open>
  The SQL client of \<^verbatim>\<open>pkg/common/utils/mysql\<close>: connections to the FE, the rows of
  \<^verbatim>\<open>show frontends\<close> and \<^verbatim>\<open>show backends\<close>, the statements that drop or decommission
  nodes, and the choice of observers to remove.

  The driver (\<^verbatim>\<open>sqlx\<close>, \<^verbatim>\<open>go-sql-driver\<close>) and the certificate checks of
  \<^verbatim>\<open>crypto\<close> are the fields of \<open>sql_env\<close>; a connection is a number the driver hands
  out. Every operation takes the state of the outside world and returns the next one.
\<close>

record Frontend =
  fe_Name :: string
  fe_Host :: string
  fe_EditLogPort :: int
  fe_Role :: string
  fe_IsMaster :: bool
  fe_Alive :: bool
  fe_CurrentConnected :: string

record Backend =
  be_BackendID :: string
  be_Host :: string
  be_HeartbeatPort :: int
  be_LastStartTime :: "string option"
  be_Alive :: bool
  be_SystemDecommissioned :: bool
  be_TabletNum :: int
  be_Tag :: string
  be_ErrMsg :: string
  be_Status :: string
  be_HeartbeatFailureCounter :: int

definition zero_Frontend :: Frontend where
  "zero_Frontend = \<lparr>fe_Name = '''', fe_Host = '''', fe_EditLogPort = 0, fe_Role = '''',
     fe_IsMaster = False, fe_Alive = False, fe_CurrentConnected = ''''\<rparr>"

definition zero_Backend :: Backend where
  "zero_Backend = \<lparr>be_BackendID = '''', be_Host = '''', be_HeartbeatPort = 0,
     be_LastStartTime = None, be_Alive = False, be_SystemDecommissioned = False, be_TabletNum = 0,
     be_Tag = '''', be_ErrMsg = '''', be_Status = '''', be_HeartbeatFailureCounter = 0\<rparr>"

record DBConfig =
  db_User :: string
  db_Password :: string
  db_Host :: string
  db_Port :: string
  db_Database :: string

record TLSConfig =
  tls_CAFileName :: string
  tls_ClientCertFileName :: string
  tls_ClientKeyFileName :: string

type_synonym conn = nat

record 'w sql_env =
  AppendCertsFromPEM :: "string \<Rightarrow> bool"
  X509KeyPair :: "string \<Rightarrow> string \<Rightarrow> go_error option"
  RegisterTLSConfig :: "string \<Rightarrow> string \<Rightarrow> string \<Rightarrow> string \<Rightarrow> 'w \<Rightarrow> go_error option \<times> 'w"
  SqlxOpen :: "string \<Rightarrow> 'w \<Rightarrow> (go_error + conn) \<times> 'w"
  Ping :: "conn \<Rightarrow> 'w \<Rightarrow> go_error option \<times> 'w"
  CloseDB :: "conn \<Rightarrow> 'w \<Rightarrow> 'w"
  SelectFrontends :: "conn \<Rightarrow> 'w \<Rightarrow> (go_error + Frontend list) \<times> 'w"
  SelectBackends :: "conn \<Rightarrow> 'w \<Rightarrow> (go_error + Backend list) \<times> 'w"
  ExecSql :: "conn \<Rightarrow> string \<Rightarrow> 'w \<Rightarrow> go_error option \<times> 'w"
  FmtFloat :: "string \<Rightarrow> string"
  JsonErrorText :: "string \<Rightarrow> string"

section \<open>Connections\<close>

definition NewDBConfig :: DBConfig where
  "NewDBConfig = \<lparr>db_User = '''', db_Password = '''', db_Host = '''', db_Port = '''',
     db_Database = ''mysql''\<rparr>"

definition openAndPing :: "('w, 'x) sql_env_scheme \<Rightarrow> string \<Rightarrow> 'w \<Rightarrow> (go_error + conn) \<times> 'w" where
  "openAndPing K dsn w =
     (case SqlxOpen K dsn w of
        (Inl e, w) \<Rightarrow> (Inl e, w)
      | (Inr db, w) \<Rightarrow>
          (case Ping K db w of
             (Some e, w) \<Rightarrow> (Inl e, w)
           | (None, w) \<Rightarrow> (Inr db, w)))"

definition secret_bytes :: "secret \<Rightarrow> string \<Rightarrow> string" where
  "secret_bytes s k = (case secret_Data s of None \<Rightarrow> '''' | Some d \<Rightarrow> map_get d k)"

definition NewDorisSqlDB ::
    "('w, 'x) sql_env_scheme \<Rightarrow> DBConfig \<Rightarrow> TLSConfig option \<Rightarrow> secret option \<Rightarrow> 'w
     \<Rightarrow> (go_error + conn) \<times> 'w" where
  "NewDorisSqlDB K cfg tlsConfig sec w =
     (let dsn = db_User cfg @ '':'' @ db_Password cfg @ ''@tcp('' @ db_Host cfg @ '':'' @
                db_Port cfg @ '')/'' @ db_Database cfg
      in case (tlsConfig, sec) of
           (Some t, Some s) \<Rightarrow>
             (let ca = secret_bytes s (tls_CAFileName t);
                  clientCert = secret_bytes s (tls_ClientCertFileName t);
                  clientKey = secret_bytes s (tls_ClientKeyFileName t)
              in if \<not> AppendCertsFromPEM K ca
                 then (Inl (ErrorString ''NewDorisSqlDB append cert from pem failed''), w)
                 else case X509KeyPair K clientCert clientKey of
                     Some e \<Rightarrow>
                       (Inl (ErrorString (''NewDorisSqlDB load x509 key pair failed,'' @ error_text e)), w)
                   | None \<Rightarrow>
                       (let registerKey = secret_Namespace s @ ''-'' @ secret_Name s
                        in case RegisterTLSConfig K registerKey ca clientCert clientKey w of
                             (Some e, w) \<Rightarrow>
                               (Inl (ErrorString (''NewDorisSqlDB register tls config failed,'' @
                                       error_text e)), w)
                           | (None, w) \<Rightarrow> openAndPing K (dsn @ ''?tls='' @ registerKey) w))
         | _ \<Rightarrow> openAndPing K dsn w)"

text \<open>\<^verbatim>\<open>GetFollowers\<close>: the last follower marked as master, and every follower.\<close>

definition FE_FOLLOWER_ROLE :: string where "FE_FOLLOWER_ROLE = ''FOLLOWER''"
definition FE_OBSERVE_ROLE :: string where "FE_OBSERVE_ROLE = ''OBSERVER''"

definition followers_of :: "Frontend list \<Rightarrow> Frontend option \<times> Frontend list" where
  "followers_of fes =
     foldl (\<lambda>(master, res) fe.
         if fe_Role fe = FE_FOLLOWER_ROLE
         then (if fe_IsMaster fe then Some fe else master, res @ [fe])
         else (master, res)) (None, []) fes"

definition GetFollowers ::
    "('w, 'x) sql_env_scheme \<Rightarrow> conn \<Rightarrow> 'w \<Rightarrow> (go_error + Frontend option \<times> Frontend list) \<times> 'w" where
  "GetFollowers K db w =
     (case SelectFrontends K db w of
        (Inl e, w) \<Rightarrow> (Inl e, w)
      | (Inr fes, w) \<Rightarrow> (Inr (followers_of fes), w))"

definition GetObservers ::
    "('w, 'x) sql_env_scheme \<Rightarrow> conn \<Rightarrow> 'w \<Rightarrow> (go_error + Frontend list) \<times> 'w" where
  "GetObservers K db w =
     (case SelectFrontends K db w of
        (Inl e, w) \<Rightarrow> (Inl e, w)
      | (Inr fes, w) \<Rightarrow> (Inr (filter (\<lambda>fe. fe_Role fe = FE_OBSERVE_ROLE) fes), w))"

text \<open>
  \<^verbatim>\<open>NewDorisMasterSqlDB\<close>: the load-balanced connection is used when it already reaches
  the master; otherwise a second connection is opened to the master's host and the first
  is closed on return. With no master among the followers the source dereferences nil.
\<close>

definition NewDorisMasterSqlDB ::
    "('w, 'x) sql_env_scheme \<Rightarrow> DBConfig \<Rightarrow> TLSConfig option \<Rightarrow> secret option \<Rightarrow> 'w
     \<Rightarrow> (go_error + conn) \<times> 'w" where
  "NewDorisMasterSqlDB K dbConf tlsConfig sec w =
     (case NewDorisSqlDB K dbConf tlsConfig sec w of
        (Inl e, w) \<Rightarrow> (Inl e, w)
      | (Inr lb, w) \<Rightarrow>
          (case GetFollowers K lb w of
             (Inl e, w) \<Rightarrow> (Inl e, w)
           | (Inr (None, _), w) \<Rightarrow> (Inl (Panic ''master.CurrentConnected''), w)
           | (Inr (Some master, _), w) \<Rightarrow>
               (if fe_CurrentConnected master = ''Yes'' then (Inr lb, w)
                else
                  (let (r, w) = NewDorisSqlDB K
                         \<lparr>db_User = db_User dbConf, db_Password = db_Password dbConf,
                          db_Host = fe_Host master, db_Port = db_Port dbConf,
                          db_Database = ''mysql''\<rparr> tlsConfig sec w
                   in (r, CloseDB K lb w)))))"

section \<open>Backends of a compute group\<close>

definition COMPUTE_GROUP_ID :: string where "COMPUTE_GROUP_ID = ''compute_group_id''"

text \<open>
  The text of a decoded value under \<^verbatim>\<open>%v\<close> and \<^verbatim>\<open>%s\<close>: a slice prints its
  elements between brackets, a map its entries in the order of their keys. \<open>FmtFloat\<close>
  gives the printed form of a number literal.
\<close>

fun last_wins :: "(string \<times> 'a) list \<Rightarrow> (string \<times> 'a) list" where
  "last_wins [] = []"
| "last_wins (x # xs) = (if fst x \<in> fst ` set xs then last_wins xs else x # last_wins xs)"

fun join_with :: "string \<Rightarrow> string list \<Rightarrow> string" where
  "join_with sep [] = ''''"
| "join_with sep [x] = x"
| "join_with sep (x # y # ys) = x @ sep @ join_with sep (y # ys)"

definition map_text :: "(string \<times> string) list \<Rightarrow> string" where
  "map_text kvs =
     ''map['' @ join_with '' '' (map (\<lambda>(k, v). k @ '':'' @ v) (sort_key fst (last_wins kvs))) @ '']''"

fun fmt_v :: "('w, 'x) sql_env_scheme \<Rightarrow> json \<Rightarrow> string" where
  "fmt_v K JNull = ''<nil>''"
| "fmt_v K (JBool b) = fmt_bool b"
| "fmt_v K (JNum n) = FmtFloat K n"
| "fmt_v K (JStr s) = s"
| "fmt_v K (JArr vs) = ''['' @ join_with '' '' (map (fmt_v K) vs) @ '']''"
| "fmt_v K (JObj ms) = map_text (map (\<lambda>(k, v). (k, fmt_v K v)) ms)"

fun fmt_s :: "('w, 'x) sql_env_scheme \<Rightarrow> json \<Rightarrow> string" where
  "fmt_s K JNull = ''%!s(<nil>)''"
| "fmt_s K (JBool b) = ''%!s(bool='' @ fmt_bool b @ '')''"
| "fmt_s K (JNum n) = ''%!s(float64='' @ FmtFloat K n @ '')''"
| "fmt_s K (JStr s) = s"
| "fmt_s K (JArr vs) = ''['' @ join_with '' '' (map (fmt_s K) vs) @ '']''"
| "fmt_s K (JObj ms) = map_text (map (\<lambda>(k, v). (k, fmt_s K v)) ms)"

fun filter_by_group ::
    "('w, 'x) sql_env_scheme \<Rightarrow> string \<Rightarrow> Backend list \<Rightarrow> go_error + Backend list" where
  "filter_by_group K cgid [] = Inr []"
| "filter_by_group K cgid (be # bes) =
     (case unmarshal_map (be_Tag be) of
        None \<Rightarrow> Inl (ErrorString (JsonErrorText K (be_Tag be)))
      | Some m \<Rightarrow>
          (case m COMPUTE_GROUP_ID of
             None \<Rightarrow> Inl (ErrorString (''GetBackendsByComputeGroupId backends tag get compute_group_name failed, tag: ''
                @ be_Tag be @ '', err: no compute_group_id field found''))
           | Some v \<Rightarrow>
               (case filter_by_group K cgid bes of
                  Inl e \<Rightarrow> Inl e
                | Inr res \<Rightarrow> Inr (if fmt_s K v = cgid then be # res else res))))"

definition GetBackendsByComputeGroupId ::
    "('w, 'x) sql_env_scheme \<Rightarrow> conn \<Rightarrow> string \<Rightarrow> 'w \<Rightarrow> (go_error + Backend list) \<times> 'w" where
  "GetBackendsByComputeGroupId K db cgid w =
     (case SelectBackends K db w of
        (Inl e, w) \<Rightarrow> (Inl e, w)
      | (Inr bes, w) \<Rightarrow> (filter_by_group K cgid bes, w))"

section \<open>Statements\<close>

definition node_text :: "Backend \<Rightarrow> string" where
  "node_text b = [CHR 0x22] @ be_Host b @ '':'' @ Itoa (be_HeartbeatPort b) @ [CHR 0x22]"

fun nodesString :: "Backend list \<Rightarrow> string" where
  "nodesString [] = ''''"
| "nodesString (b # bs) = node_text b @ concat (map (\<lambda>n. '','' @ node_text n) bs)"

definition DecommissionBE ::
    "('w, 'x) sql_env_scheme \<Rightarrow> conn \<Rightarrow> Backend list \<Rightarrow> 'w \<Rightarrow> go_error option \<times> 'w" where
  "DecommissionBE K db nodes w =
     (if nodes = [] then (None, w)
      else ExecSql K db (''ALTER SYSTEM DECOMMISSION BACKEND '' @ nodesString nodes @ '';'') w)"

definition DropBE ::
    "('w, 'x) sql_env_scheme \<Rightarrow> conn \<Rightarrow> Backend list \<Rightarrow> 'w \<Rightarrow> go_error option \<times> 'w" where
  "DropBE K db nodes w =
     (if nodes = [] then (None, w)
      else ExecSql K db (''ALTER SYSTEM DROPP BACKEND '' @ nodesString nodes @ '';'') w)"

definition DropObserver ::
    "('w, 'x) sql_env_scheme \<Rightarrow> conn \<Rightarrow> Frontend list \<Rightarrow> 'w \<Rightarrow> go_error option \<times> 'w" where
  "DropObserver K db nodes w =
     (if nodes = [] then (None, w)
      else ExecSql K db
        (concat (map (\<lambda>n. ''ALTER SYSTEM DROP OBSERVER '' @ [CHR 0x22] @ fe_Host n @ '':'' @
                          Itoa (fe_EditLogPort n) @ [CHR 0x22] @ '';'') nodes)) w)"

section \<open>Choosing observers to remove\<close>

text \<open>
  \<^verbatim>\<open>BuildSeqNumberToFrontendMap\<close>: the ordinal of each frontend's pod. Indexing the
  second part of a split that has one part panics.
\<close>

definition AtoiError :: "string \<Rightarrow> go_error" where
  "AtoiError s = ErrorString (''strconv.Atoi: parsing '' @ [CHR 0x22] @ s @ [CHR 0x22] @ '': '' @
     (if list_all (\<lambda>c. is_digit c) s \<and> s \<noteq> [] then ''value out of range'' else ''invalid syntax''))"

definition seq_number :: "string_map \<Rightarrow> string \<Rightarrow> Frontend \<Rightarrow> go_error + int" where
  "seq_number ipMap podTemplateName fe =
     (let podSignName = (if HasPrefix (fe_Host fe) podTemplateName then fe_Host fe
                         else map_get ipMap (fe_Host fe))
      in case Split podSignName podTemplateName of
           _ # tail # _ \<Rightarrow>
             (case Atoi (last (Split (hd (Split tail ''.'')) ''-'')) of
                None \<Rightarrow> Inl (AtoiError (last (Split (hd (Split tail ''.'')) ''-'')))
              | Some n \<Rightarrow> Inr n)
         | _ \<Rightarrow> Inl (Panic ''index out of range''))"

fun BuildSeqNumberToFrontendMap ::
    "Frontend list \<Rightarrow> string_map \<Rightarrow> string \<Rightarrow> (int \<times> Frontend) list \<Rightarrow> go_error + (int \<times> Frontend) list" where
  "BuildSeqNumberToFrontendMap [] ipMap podTemplateName m = Inr m"
| "BuildSeqNumberToFrontendMap (fe # fes) ipMap podTemplateName m =
     (case seq_number ipMap podTemplateName fe of
        Inl e \<Rightarrow> Inl e
      | Inr n \<Rightarrow>
          BuildSeqNumberToFrontendMap fes ipMap podTemplateName
            ((n, fe) # filter (\<lambda>(k, _). k \<noteq> n) m))"

text \<open>
  \<^verbatim>\<open>FindNeedDeletedObservers\<close>: the frontends with the highest ordinals. The map is an
  association list with distinct keys; a request for more than there are gives none.
\<close>

definition FindNeedDeletedObservers :: "(int \<times> Frontend) list \<Rightarrow> int \<Rightarrow> Frontend list" where
  "FindNeedDeletedObservers frontendMap needRemovedAmount =
     (if needRemovedAmount \<le> int (length frontendMap)
      then map snd (take (nat needRemovedAmount) (sort_key (\<lambda>(k, _). - k) frontendMap))
      else [])"

section \<open>What the filter depends on\<close>

lemma fmt_v_env: "FmtFloat K' = FmtFloat K \<Longrightarrow> fmt_v K' v = fmt_v K v"
  by (induction v rule: fmt_v.induct)
    (auto intro!: arg_cong [of _ _ map_text] arg_cong [of _ _ "join_with '' ''"])

lemma fmt_s_env: "FmtFloat K' = FmtFloat K \<Longrightarrow> fmt_s K' v = fmt_s K v"
  by (induction v rule: fmt_s.induct)
    (auto intro!: arg_cong [of _ _ map_text] arg_cong [of _ _ "join_with '' ''"])

lemma filter_by_group_env:
  assumes "FmtFloat K' = FmtFloat K" and "JsonErrorText K' = JsonErrorText K"
  shows "filter_by_group K' cgid bes = filter_by_group K cgid bes"
proof (induction bes)
  case (Cons be bes)
  show ?case unfolding filter_by_group.simps Cons.IH fmt_s_env [OF assms(1)] assms(2) by (rule refl)
qed simp

end
