(* ===== verification/Kube_Client.thy ===== *)
theory Kube_Client
  imports Doris_Sql
begin

text \<open>
  The Kubernetes client layer of \<^verbatim>\<open>pkg/common/utils/k8s\<close> (\<^verbatim>\<open>client.go\<close>,
  \<^verbatim>\<open>exec.go\<close>): create, patch and delete with the treatment of the API server's
  answers, and \<open>ApplyStatefulSet\<close> and \<open>ApplyService\<close>, which every controller uses to
  bring an object to its wanted state.

  The controller-runtime client, the event recorder, the clock, the remote executor and
  the \<^verbatim>\<open>viper\<close> reader are the fields of \<open>kube_env\<close>. Nothing is assumed of them here:
  each is any function of its arguments and of the state of the outside world. A theorem
  that needs more of the API server states it.
\<close>

datatype EventType = EventNormal | EventWarning

record event =
  event_Type :: EventType
  event_Reason :: string
  event_Message :: string

datatype conf_value = ConfString string | ConfOther

type_synonym conf = "(string \<times> conf_value) list"

record 'w kube_env = "'w sql_env" +
  GetSts :: "string \<Rightarrow> string \<Rightarrow> 'w \<Rightarrow> (go_error + statefulset) \<times> 'w"
  ListSts :: "string \<Rightarrow> string_map \<Rightarrow> 'w \<Rightarrow> (go_error + statefulset list) \<times> 'w"
  CreateSts :: "statefulset \<Rightarrow> 'w \<Rightarrow> go_error option \<times> 'w"
  UpdateSts :: "statefulset \<Rightarrow> 'w \<Rightarrow> go_error option \<times> 'w"
  PatchSts :: "statefulset \<Rightarrow> 'w \<Rightarrow> go_error option \<times> 'w"
  RawPatchSts :: "string \<Rightarrow> string \<Rightarrow> string \<Rightarrow> 'w \<Rightarrow> go_error option \<times> 'w"
  DeleteStsObj :: "statefulset \<Rightarrow> 'w \<Rightarrow> go_error option \<times> 'w"
  GetSvc :: "string \<Rightarrow> string \<Rightarrow> 'w \<Rightarrow> (go_error + service) \<times> 'w"
  ListSvcs :: "string \<Rightarrow> string_map \<Rightarrow> 'w \<Rightarrow> (go_error + service list) \<times> 'w"
  CreateSvc :: "service \<Rightarrow> 'w \<Rightarrow> go_error option \<times> 'w"
  PatchSvc :: "service \<Rightarrow> 'w \<Rightarrow> go_error option \<times> 'w"
  DeleteSvcObj :: "service \<Rightarrow> 'w \<Rightarrow> go_error option \<times> 'w"
  GetPodObj :: "string \<Rightarrow> string \<Rightarrow> 'w \<Rightarrow> (go_error + pod) \<times> 'w"
  ListPods :: "string \<Rightarrow> string_map \<Rightarrow> 'w \<Rightarrow> (go_error + pod list) \<times> 'w"
  DeletePodObj :: "pod \<Rightarrow> 'w \<Rightarrow> go_error option \<times> 'w"
  ListPvcs :: "string \<Rightarrow> string_map \<Rightarrow> 'w \<Rightarrow> (go_error + pvc list) \<times> 'w"
  CreatePvc :: "pvc \<Rightarrow> 'w \<Rightarrow> go_error option \<times> 'w"
  PatchPvc :: "pvc \<Rightarrow> 'w \<Rightarrow> go_error option \<times> 'w"
  DeletePvcObj :: "string \<Rightarrow> string \<Rightarrow> string_map \<Rightarrow> 'w \<Rightarrow> go_error option \<times> 'w"
  GetEndpoints :: "string \<Rightarrow> string \<Rightarrow> 'w \<Rightarrow> (go_error + string list list) \<times> 'w"
  GetConfigMapObj :: "string \<Rightarrow> string \<Rightarrow> 'w \<Rightarrow> (go_error + config_map) \<times> 'w"
  GetSecretObj :: "string \<Rightarrow> string \<Rightarrow> 'w \<Rightarrow> (go_error + secret) \<times> 'w"
  SelectorError :: "string_map \<Rightarrow> go_error option"
  ExecInPod :: "string \<Rightarrow> string \<Rightarrow> string \<Rightarrow> string list \<Rightarrow> 'w
                \<Rightarrow> (string \<times> string \<times> go_error option) \<times> 'w"
  Now :: "'w \<Rightarrow> time \<times> 'w"
  Eventf :: "event \<Rightarrow> 'w \<Rightarrow> 'w"
  FormatTime :: "time \<Rightarrow> string"
  ViperSettings :: "string \<Rightarrow> string \<Rightarrow> conf"

definition warn :: "('w, 'x) kube_env_scheme \<Rightarrow> string \<Rightarrow> string \<Rightarrow> 'w \<Rightarrow> 'w" where
  "warn K r m = Eventf K \<lparr>event_Type = EventWarning, event_Reason = r, event_Message = m\<rparr>"

definition notice :: "('w, 'x) kube_env_scheme \<Rightarrow> string \<Rightarrow> string \<Rightarrow> 'w \<Rightarrow> 'w" where
  "notice K r m = Eventf K \<lparr>event_Type = EventNormal, event_Reason = r, event_Message = m\<rparr>"

section \<open>Delete, list and get\<close>

definition DeleteStatefulset ::
    "('w, 'x) kube_env_scheme \<Rightarrow> string \<Rightarrow> string \<Rightarrow> 'w \<Rightarrow> go_error option \<times> 'w" where
  "DeleteStatefulset K ns name w =
     (case GetSts K ns name w of
        (Inl e, w) \<Rightarrow> (if IsNotFound e then (None, w) else (Some e, w))
      | (Inr st, w) \<Rightarrow> DeleteStsObj K st w)"

definition DeleteService ::
    "('w, 'x) kube_env_scheme \<Rightarrow> string \<Rightarrow> string \<Rightarrow> 'w \<Rightarrow> go_error option \<times> 'w" where
  "DeleteService K ns name w =
     (case GetSvc K ns name w of
        (Inl e, w) \<Rightarrow> (if IsNotFound e then (None, w) else (Some e, w))
      | (Inr svc, w) \<Rightarrow> DeleteSvcObj K svc w)"

definition DeletePVC ::
    "('w, 'x) kube_env_scheme \<Rightarrow> string \<Rightarrow> string \<Rightarrow> string_map \<Rightarrow> 'w \<Rightarrow> go_error option \<times> 'w" where
  "DeletePVC K ns pvcName labels w =
     (case DeletePvcObj K ns pvcName labels w of
        (Some e, w) \<Rightarrow> (if IsNotFound e then (None, w) else (Some e, w))
      | (None, w) \<Rightarrow> (None, w))"

text \<open>\<^verbatim>\<open>GetSecret\<close> where the caller drops the error: nil when it fails.\<close>

definition GetSecret :: "('w, 'x) kube_env_scheme \<Rightarrow> string \<Rightarrow> string \<Rightarrow> 'w \<Rightarrow> secret option \<times> 'w" where
  "GetSecret K ns name w =
     (case GetSecretObj K ns name w of
        (Inl e, w) \<Rightarrow> (None, w)
      | (Inr s, w) \<Rightarrow> (Some s, w))"

section \<open>Apply\<close>

text \<open>
  The comparison function of \<^verbatim>\<open>ApplyStatefulSet\<close> and \<^verbatim>\<open>ApplyService\<close> is a closure
  that may write annotations of the new object and of what it captures: \<open>equal st est s\<close>
  returns the verdict, the new object and the captured state after the call.
\<close>

definition ApplyStatefulSet ::
    "('w, 'x) kube_env_scheme \<Rightarrow> statefulset
     \<Rightarrow> (statefulset \<Rightarrow> statefulset \<Rightarrow> 's \<Rightarrow> bool \<times> statefulset \<times> 's)
     \<Rightarrow> (statefulset \<Rightarrow> statefulset) \<Rightarrow> 's \<Rightarrow> 'w
     \<Rightarrow> (go_error option \<times> 's) \<times> 'w" where
  "ApplyStatefulSet K st equal pasf s w =
     (case GetSts K (sts_Namespace st) (sts_Name st) w of
        (Inl e, w) \<Rightarrow>
          (if IsNotFound e then
             (let (ev, st, s) = equal st zero_sts s;
                  (r, w) = CreateSts K (pasf st) w
              in ((r, s), w))
           else ((Some e, s), w))
      | (Inr est, w) \<Rightarrow>
          (let (ev, st, s) = equal st est s; st = pasf st
           in if ev then ((None, s), w)
              else
                (case PatchSts K (st\<lparr>sts_ResourceVersion := sts_ResourceVersion est\<rparr>) w of
                   (None, w) \<Rightarrow> ((None, s), w)
                 | (Some e, w) \<Rightarrow> if IsConflict e then ((None, s), w) else ((Some e, s), w))))"

text \<open>
  \<^verbatim>\<open>ApplyService\<close>. The second branch of the source tests \<^verbatim>\<open>IsNotFound\<close> again, so an
  error other than not-found falls through to the comparison with the zero Service.
\<close>

definition zero_service :: service where
  "zero_service = \<lparr>svc_Name = '''', svc_Namespace = '''', svc_Labels = Map.empty,
     svc_Annotations = Map.empty, svc_OwnerReferences = [], svc_ResourceVersion = '''',
     svc_ClusterIP = '''', svc_ClusterIPs = [], svc_Type = '''', svc_Selector = Map.empty,
     svc_Ports = [], svc_SessionAffinity = '''', svc_PublishNotReadyAddresses = False,
     svc_LoadBalancerIP = ''''\<rparr>"

definition ApplyService ::
    "('w, 'x) kube_env_scheme \<Rightarrow> service \<Rightarrow> (service \<Rightarrow> service \<Rightarrow> bool \<times> service) \<Rightarrow> 'w
     \<Rightarrow> go_error option \<times> 'w" where
  "ApplyService K svc equal w =
     (let svc = svc\<lparr>svc_ClusterIPs := []\<rparr>;
          compare = (\<lambda>esvc w.
            let (ev, svc) = equal svc esvc
            in if ev then (None, w)
               else PatchSvc K (svc\<lparr>svc_ResourceVersion := svc_ResourceVersion esvc\<rparr>) w)
      in case GetSvc K (svc_Namespace svc) (svc_Name svc) w of
           (Inl e, w) \<Rightarrow>
             (if IsNotFound e then
                (case CreateSvc K (svc\<lparr>svc_ResourceVersion := ''''\<rparr>) w of
                   (None, w) \<Rightarrow> (None, w)
                 | (Some e, w) \<Rightarrow> if IsAlreadyExists e then (None, w) else (Some e, w))
              else compare zero_service w)
         | (Inr esvc, w) \<Rightarrow> compare esvc w)"

section \<open>What the helpers guarantee\<close>

text \<open>Deleting what does not exist succeeds and reaches no delete call.\<close>

lemma DeleteStatefulset_absent:
  "GetSts K ns name w = (Inl e, w') \<Longrightarrow> IsNotFound e \<Longrightarrow> DeleteStatefulset K ns name w = (None, w')"
  by (simp add: DeleteStatefulset_def)

lemma DeleteService_absent:
  "GetSvc K ns name w = (Inl e, w') \<Longrightarrow> IsNotFound e \<Longrightarrow> DeleteService K ns name w = (None, w')"
  by (simp add: DeleteService_def)

end
