(* ===== verification/Statefulset_Equal.thy ===== *)
theory Statefulset_Equal
  imports Kube_Client
begin

text \<open>
  Deciding whether a StatefulSet has changed: the object that is hashed
  (\<^verbatim>\<open>resource/statefulset.go\<close>), the FNV-1a hash over its printed form
  (\<^verbatim>\<open>hash/hash.go\<close>) and the comparison through a hash annotation. The printer
  (\<^verbatim>\<open>go-spew\<close>) is the parameter \<open>SpewDump\<close>; the hash itself is computed.

  The lemmas show when the comparison says "equal", that it leaves everything but the hash
  annotation of the new object alone, and that an object applied once is equal to itself
  at the next comparison.
\<close>

unbundle bit_operations_syntax

record hashStatefulsetObject =
  hso_name :: string
  hso_namespace :: string
  hso_labels :: string_map
  hso_selector :: string_map
  hso_podTemplate :: pod_template
  hso_serviceName :: string
  hso_volumeClaimTemplates :: "pvc list"
  hso_replicas :: int

record hashService =
  hsv_name :: string
  hsv_namespace :: string
  hsv_ports :: "service_port list"
  hsv_selector :: string_map
  hsv_serviceType :: string
  hsv_labels :: string_map
  hsv_annotations :: string_map

record 'w hash_env = "'w kube_env" +
  SpewDump :: "hashStatefulsetObject \<Rightarrow> string"
  SpewService :: "hashService \<Rightarrow> string"
  SpewClaim :: "claim_spec \<Rightarrow> string"

text \<open>\<^verbatim>\<open>fnv.New32a\<close>: 32-bit words, so the multiplication wraps.\<close>

definition fnv32a :: "string \<Rightarrow> 32 word" where
  "fnv32a s = foldl (\<lambda>h c. (h XOR of_nat (of_char c)) * 16777619) 2166136261 s"

definition hash_text :: "string \<Rightarrow> string" where
  "hash_text s = dec_nat (unat (fnv32a s))"

lemma hash_text_code [code]: "hash_text s = Itoa (uint (fnv32a s))"
  by (simp add: hash_text_def flip: Itoa_of_nat)

lemma hash_text_nonempty [simp]: "hash_text s \<noteq> ''''"
  by (simp add: hash_text_def)

definition HashObject :: "('w, 'x) hash_env_scheme \<Rightarrow> hashStatefulsetObject \<Rightarrow> string" where
  "HashObject K ob = hash_text (SpewDump K ob)"

definition statefulSetHashObject :: "statefulset \<Rightarrow> bool \<Rightarrow> hashStatefulsetObject" where
  "statefulSetHashObject st excludeReplica =
     \<lparr>hso_name = sts_Name st,
      hso_namespace = sts_Namespace st,
      hso_labels = sts_Labels st,
      hso_selector = sts_Selector st,
      hso_podTemplate = sts_Template st,
      hso_serviceName = sts_ServiceName st,
      hso_volumeClaimTemplates = sts_VolumeClaimTemplates st,
      hso_replicas =
        (if excludeReplica then - 1
         else case sts_Replicas st of None \<Rightarrow> - 1 | Some r \<Rightarrow> r)\<rparr>"

definition ComponentResourceHash :: string where
  "ComponentResourceHash = ''app.doris.components/hash''"

definition hash_of :: "('w, 'x) hash_env_scheme \<Rightarrow> statefulset \<Rightarrow> string \<Rightarrow> bool \<Rightarrow> string" where
  "hash_of K st annoKey excludeReplicas =
     (case sts_Annotations st annoKey of
        Some h \<Rightarrow> h
      | None \<Rightarrow> HashObject K (statefulSetHashObject st excludeReplicas))"

definition StatefulsetDeepEqualWithKey ::
    "('w, 'x) hash_env_scheme \<Rightarrow> statefulset \<Rightarrow> statefulset \<Rightarrow> string \<Rightarrow> bool \<Rightarrow> bool \<times> statefulset" where
  "StatefulsetDeepEqualWithKey K new old annoKey excludeReplicas =
     (let annoKey = (if annoKey = '''' then ComponentResourceHash else annoKey);
          newHashv = hash_of K new annoKey excludeReplicas;
          oldHashv = hash_of K old annoKey excludeReplicas
      in (newHashv = oldHashv \<and> sts_Namespace new = sts_Namespace old,
          new\<lparr>sts_Annotations := (sts_Annotations new)(annoKey \<mapsto> newHashv)\<rparr>))"

text \<open>\<^verbatim>\<open>RestrictConditionsEqual\<close>: claim templates never change after creation.\<close>

definition RestrictConditionsEqual :: "statefulset \<Rightarrow> statefulset \<Rightarrow> statefulset" where
  "RestrictConditionsEqual new old =
     (if sts_VolumeClaimTemplates old \<noteq> []
      then new\<lparr>sts_VolumeClaimTemplates := sts_VolumeClaimTemplates old\<rparr> else new)"

section \<open>What the comparison guarantees\<close>

lemma hash_of_added: "hash_of K (st\<lparr>sts_Annotations := m(k \<mapsto> h)\<rparr>) k x = h"
  by (simp add: hash_of_def)

lemma HashObject_nonempty [simp]: "HashObject K ob \<noteq> ''''"
  by (simp add: HashObject_def)

text \<open>
  An object stored with the hash of the wanted one is equal to it; the comparison touches
  only the hash annotation of the new object.
\<close>

lemma StatefulsetDeepEqual_stored:
  assumes "k \<noteq> ''''" and "sts_Annotations new k = None"
    and "sts_Annotations live k = Some (HashObject K (statefulSetHashObject new x))"
    and "sts_Namespace live = sts_Namespace new"
  shows "fst (StatefulsetDeepEqualWithKey K new live k x)"
  using assms by (simp add: StatefulsetDeepEqualWithKey_def Let_def hash_of_def)

lemma StatefulsetDeepEqual_stores:
  assumes "k \<noteq> ''''" and "sts_Annotations new k = None"
  shows "snd (StatefulsetDeepEqualWithKey K new old k x) =
    new\<lparr>sts_Annotations := (sts_Annotations new)(k \<mapsto> HashObject K (statefulSetHashObject new x))\<rparr>"
  using assms by (simp add: StatefulsetDeepEqualWithKey_def Let_def hash_of_def)

lemma RestrictConditions_fields [simp]:
  "sts_Annotations (RestrictConditionsEqual new old) = sts_Annotations new"
  "sts_Namespace (RestrictConditionsEqual new old) = sts_Namespace new"
  "sts_Name (RestrictConditionsEqual new old) = sts_Name new"
  by (simp_all add: RestrictConditionsEqual_def)

text \<open>Taking the claim templates of what was stored with them gives the same object again.\<close>

lemma RestrictConditions_again:
  "sts_VolumeClaimTemplates live = sts_VolumeClaimTemplates (RestrictConditionsEqual st est) \<Longrightarrow>
   RestrictConditionsEqual st live = RestrictConditionsEqual st est"
  by (simp add: RestrictConditionsEqual_def split: if_splits)

end
