(* ===== verification/Disagg_Types.thy ===== *)
theory Disagg_Types
  imports Kube_Types
begin

text \<open>
  The API types of \<^verbatim>\<open>api/disaggregated/v1\<close> (\<^verbatim>\<open>types.go\<close>), the label and annotation
  keys (\<^verbatim>\<open>utils.go\<close>) and the names of the Kubernetes objects of a cluster
  (\<^verbatim>\<open>unique_id.go\<close>); what the naming scheme guarantees is shown in
  \<open>Compute_Props\<close>. String-typed enumerations keep a constructor for any other string,
  because they are read back from the cluster's status and annotations.
\<close>

section \<open>Specification\<close>

record cm_mount =
  cmm_Name :: string
  cmm_MountPath :: string

record secret_mount =
  sm_SecretName :: string
  sm_MountPath :: string

record admin_user =
  au_Name :: string
  au_Password :: string

record persistent_volume =
  pv_ClaimSpec :: claim_spec
  pv_MountPaths :: "string list"
  pv_LogNotStore :: bool
  pv_Annotations :: string_map
  pv_PVCProvisioner :: string

record readiness_probe_policy =
  rpp_TimeoutSeconds :: int
  rpp_FailureThreshold :: int
  rpp_PeriodSeconds :: int

record system_initialization =
  si_InitImage :: string
  si_Command :: "string list"
  si_Args :: "string list"
  si_Resources :: resource_requirements

record port_map =
  pm_NodePort :: int
  pm_TargetPort :: int

record export_service =
  es_Type :: string
  es_Annotations :: string_map
  es_PortMaps :: "port_map list"

record common_spec =
  cms_Replicas :: "int option"
  cms_Image :: string
  cms_ImagePullSecrets :: "string list"
  cms_StartTimeout :: int
  cms_LiveTimeout :: int
  cms_ReadinessProbePolicy :: "readiness_probe_policy option"
  cms_Resources :: resource_requirements
  cms_Labels :: string_map
  cms_Annotations :: string_map
  cms_Affinity :: "affinity option"
  cms_PersistentVolume :: "persistent_volume option"
  cms_LogNotStore :: bool
  cms_PersistentVolumes :: "persistent_volume list"
  cms_Tolerations :: "opaque list"
  cms_Service :: "export_service option"
  cms_ConfigMaps :: "cm_mount list"
  cms_NodeSelector :: string_map
  cms_ServiceAccount :: string
  cms_HostAliases :: "opaque list"
  cms_SecurityContext :: "opaque option"
  cms_ContainerSecurityContext :: "security_context option"
  cms_EnvVars :: "env_var list"
  cms_SystemInitialization :: "system_initialization option"
  cms_Secrets :: "secret_mount list"

record compute_group =
  cg_UniqueId :: string
  cg_EnableWorkloadGroup :: bool
  cg_CommonSpec :: common_spec
  cg_SkipDefaultSystemInit :: bool
  cg_AutoResolveLimitCPU :: bool

record fe_spec =
  fes_ElectionNumber :: "int option"
  fes_CommonSpec :: common_spec

record FDB =
  fdb_Address :: string
  fdb_ConfigMapNamespace :: string
  fdb_ConfigMapName :: string

record meta_service =
  ms_CommonSpec :: common_spec
  ms_FDB :: FDB

record kerberos_info =
  ki_Krb5ConfigMap :: string
  ki_KeytabSecretName :: string
  ki_KeytabPath :: string

record ddc_spec =
  spec_MetaService :: meta_service
  spec_FeSpec :: fe_spec
  spec_ComputeGroups :: "compute_group list"
  spec_AuthSecret :: string
  spec_AdminUser :: "admin_user option"
  spec_EnableDecommission :: bool
  spec_KerberosInfo :: "kerberos_info option"

section \<open>Status\<close>

datatype Phase =
    Ready
  | Reconciling
  | Scaling
  | Decommissioning
  | ScaleDownFailed
  | ResumeFailed
  | SuspendFailed
  | Suspended
  | GracefulRolling
  | GracefulScaling
  | GracefulDeleting
  | PhaseOther string

datatype GracefulActionType =
    GracefulActionRollingUpdate
  | GracefulActionScaleDown
  | GracefulActionDelete
  | GracefulActionOther string

datatype GracefulActionPhase =
    GracefulPhaseTriggerDrain
  | GracefulPhaseWaitDrain
  | GracefulPhaseDeletePod
  | GracefulPhaseWaitPodReady
  | GracefulPhaseWaitBEAlive
  | GracefulPhaseDone
  | GracefulPhaseFailed
  | GracefulPhaseOther string

record GracefulAction =
  ga_Type :: GracefulActionType
  ga_Phase :: GracefulActionPhase
  ga_CurrentPod :: string
  ga_CurrentOrdinal :: int
  ga_TargetRevision :: string
  ga_DesiredReplicas :: "int option"
  ga_StartedAt :: time
  ga_DeadlineAt :: time
  ga_LastMessage :: string
  ga_DrainTriggered :: bool
  ga_InitialRestartCount :: int
  ga_SentinelWritten :: bool
  ga_RestartAnomalyDetected :: bool
  ga_InitialPodUID :: string
  ga_InitialContainerID :: string
  ga_InitialBackendStartTime :: string
  ga_InitialBackendEpoch :: string
  ga_ReplacementPodUID :: string
  ga_ReplacementContainerID :: string
  ga_ReplacementBackendStartTime :: string
  ga_ReplacementBackendEpoch :: string
  ga_StableBackendObservations :: int

definition zero_GracefulAction :: GracefulAction where
  "zero_GracefulAction = \<lparr>ga_Type = GracefulActionOther '''', ga_Phase = GracefulPhaseOther '''',
     ga_CurrentPod = '''', ga_CurrentOrdinal = 0, ga_TargetRevision = '''',
     ga_DesiredReplicas = None, ga_StartedAt = 0, ga_DeadlineAt = 0, ga_LastMessage = '''',
     ga_DrainTriggered = False, ga_InitialRestartCount = 0, ga_SentinelWritten = False,
     ga_RestartAnomalyDetected = False, ga_InitialPodUID = '''', ga_InitialContainerID = '''',
     ga_InitialBackendStartTime = '''', ga_InitialBackendEpoch = '''', ga_ReplacementPodUID = '''',
     ga_ReplacementContainerID = '''', ga_ReplacementBackendStartTime = '''',
     ga_ReplacementBackendEpoch = '''', ga_StableBackendObservations = 0\<rparr>"

record ComputeGroupStatus =
  cgs_Phase :: Phase
  cgs_StatefulsetName :: string
  cgs_ServiceName :: string
  cgs_UniqueId :: string
  cgs_ComputeGroupId :: string
  cgs_AvailableStatus :: string
  cgs_SuspendReplicas :: int
  cgs_Replicas :: int
  cgs_AvailableReplicas :: int
  cgs_GracefulAction :: "GracefulAction option"

definition zero_ComputeGroupStatus :: ComputeGroupStatus where
  "zero_ComputeGroupStatus = \<lparr>cgs_Phase = PhaseOther '''', cgs_StatefulsetName = '''',
     cgs_ServiceName = '''', cgs_UniqueId = '''', cgs_ComputeGroupId = '''',
     cgs_AvailableStatus = '''', cgs_SuspendReplicas = 0, cgs_Replicas = 0,
     cgs_AvailableReplicas = 0, cgs_GracefulAction = None\<rparr>"

record cluster_health =
  ch_Health :: string
  ch_FeAvailable :: bool
  ch_CGCount :: int
  ch_CGAvailableCount :: int
  ch_CGFullAvailableCount :: int

record FEStatus =
  fs_Phase :: Phase
  fs_AvailableStatus :: string
  fs_ClusterId :: string

record MetaServiceStatus =
  mss_Phase :: Phase
  mss_AvailableStatus :: string
  mss_MetaServiceEndpoint :: string
  mss_MsToken :: string

record ddc_status =
  status_ObservedGeneration :: int
  status_MetaServiceStatus :: MetaServiceStatus
  status_FEStatus :: FEStatus
  status_ClusterHealth :: cluster_health
  status_ComputeGroupStatuses :: "ComputeGroupStatus list"

record DorisDisaggregatedCluster =
  ddc_Name :: string
  ddc_Namespace :: string
  ddc_UID :: string
  ddc_DeletionTimestamp :: time
  ddc_Generation :: int
  ddc_ResourceVersion :: string
  ddc_Annotations :: string_map
  ddc_Spec :: ddc_spec
  ddc_Status :: ddc_status

definition zero_common_spec :: common_spec where
  "zero_common_spec = \<lparr>cms_Replicas = None, cms_Image = '''', cms_ImagePullSecrets = [],
     cms_StartTimeout = 0, cms_LiveTimeout = 0, cms_ReadinessProbePolicy = None,
     cms_Resources = zero_resources, cms_Labels = Map.empty,
     cms_Annotations = Map.empty, cms_Affinity = None, cms_PersistentVolume = None,
     cms_LogNotStore = False, cms_PersistentVolumes = [], cms_Tolerations = [], cms_Service = None,
     cms_ConfigMaps = [], cms_NodeSelector = Map.empty, cms_ServiceAccount = '''',
     cms_HostAliases = [], cms_SecurityContext = None, cms_ContainerSecurityContext = None,
     cms_EnvVars = [], cms_SystemInitialization = None, cms_Secrets = []\<rparr>"

definition zero_compute_group :: compute_group where
  "zero_compute_group = \<lparr>cg_UniqueId = '''', cg_EnableWorkloadGroup = False,
     cg_CommonSpec = zero_common_spec, cg_SkipDefaultSystemInit = False,
     cg_AutoResolveLimitCPU = False\<rparr>"

definition zero_ddc :: DorisDisaggregatedCluster where
  "zero_ddc = \<lparr>ddc_Name = '''', ddc_Namespace = '''', ddc_UID = '''', ddc_DeletionTimestamp = 0,
     ddc_Generation = 0, ddc_ResourceVersion = '''',
     ddc_Annotations = Map.empty,
     ddc_Spec = \<lparr>spec_MetaService = \<lparr>ms_CommonSpec = zero_common_spec,
         ms_FDB = \<lparr>fdb_Address = '''', fdb_ConfigMapNamespace = '''', fdb_ConfigMapName = ''''\<rparr>\<rparr>,
       spec_FeSpec = \<lparr>fes_ElectionNumber = None, fes_CommonSpec = zero_common_spec\<rparr>,
       spec_ComputeGroups = [], spec_AuthSecret = '''', spec_AdminUser = None,
       spec_EnableDecommission = False, spec_KerberosInfo = None\<rparr>,
     ddc_Status = \<lparr>status_ObservedGeneration = 0,
       status_MetaServiceStatus = \<lparr>mss_Phase = PhaseOther '''', mss_AvailableStatus = '''',
         mss_MetaServiceEndpoint = '''', mss_MsToken = ''''\<rparr>,
       status_FEStatus = \<lparr>fs_Phase = PhaseOther '''', fs_AvailableStatus = '''', fs_ClusterId = ''''\<rparr>,
       status_ClusterHealth = \<lparr>ch_Health = '''', ch_FeAvailable = False, ch_CGCount = 0,
         ch_CGAvailableCount = 0, ch_CGFullAvailableCount = 0\<rparr>,
       status_ComputeGroupStatuses = []\<rparr>\<rparr>"

abbreviation cg_Replicas :: "compute_group \<Rightarrow> int option" where
  "cg_Replicas cg \<equiv> cms_Replicas (cg_CommonSpec cg)"

abbreviation ddc_ComputeGroups :: "DorisDisaggregatedCluster \<Rightarrow> compute_group list" where
  "ddc_ComputeGroups ddc \<equiv> spec_ComputeGroups (ddc_Spec ddc)"

abbreviation ddc_ComputeGroupStatuses :: "DorisDisaggregatedCluster \<Rightarrow> ComputeGroupStatus list" where
  "ddc_ComputeGroupStatuses ddc \<equiv> status_ComputeGroupStatuses (ddc_Status ddc)"

definition set_ComputeGroupStatuses ::
    "ComputeGroupStatus list \<Rightarrow> DorisDisaggregatedCluster \<Rightarrow> DorisDisaggregatedCluster" where
  "set_ComputeGroupStatuses css ddc =
     ddc\<lparr>ddc_Status := (ddc_Status ddc)\<lparr>status_ComputeGroupStatuses := css\<rparr>\<rparr>"

abbreviation fe_Replicas :: "DorisDisaggregatedCluster \<Rightarrow> int option" where
  "fe_Replicas ddc \<equiv> cms_Replicas (fes_CommonSpec (spec_FeSpec (ddc_Spec ddc)))"

definition set_FeReplicas :: "int \<Rightarrow> DorisDisaggregatedCluster \<Rightarrow> DorisDisaggregatedCluster" where
  "set_FeReplicas n ddc =
     ddc\<lparr>ddc_Spec := (ddc_Spec ddc)\<lparr>spec_FeSpec := (spec_FeSpec (ddc_Spec ddc))\<lparr>fes_CommonSpec :=
       (fes_CommonSpec (spec_FeSpec (ddc_Spec ddc)))\<lparr>cms_Replicas := Some n\<rparr>\<rparr>\<rparr>\<rparr>"

definition set_FeCommonSpec :: "common_spec \<Rightarrow> DorisDisaggregatedCluster \<Rightarrow> DorisDisaggregatedCluster" where
  "set_FeCommonSpec cs ddc =
     ddc\<lparr>ddc_Spec := (ddc_Spec ddc)\<lparr>spec_FeSpec := (spec_FeSpec (ddc_Spec ddc))\<lparr>fes_CommonSpec := cs\<rparr>\<rparr>\<rparr>"

definition set_MsCommonSpec :: "common_spec \<Rightarrow> DorisDisaggregatedCluster \<Rightarrow> DorisDisaggregatedCluster" where
  "set_MsCommonSpec cs ddc =
     ddc\<lparr>ddc_Spec := (ddc_Spec ddc)\<lparr>spec_MetaService := (spec_MetaService (ddc_Spec ddc))\<lparr>ms_CommonSpec := cs\<rparr>\<rparr>\<rparr>"

abbreviation ddc_MSStatus :: "DorisDisaggregatedCluster \<Rightarrow> MetaServiceStatus" where
  "ddc_MSStatus ddc \<equiv> status_MetaServiceStatus (ddc_Status ddc)"

definition set_MSStatus :: "MetaServiceStatus \<Rightarrow> DorisDisaggregatedCluster \<Rightarrow> DorisDisaggregatedCluster" where
  "set_MSStatus s ddc = ddc\<lparr>ddc_Status := (ddc_Status ddc)\<lparr>status_MetaServiceStatus := s\<rparr>\<rparr>"

definition Available :: string where "Available = ''Available''"
definition UnAvailable :: string where "UnAvailable = ''UnAvailable''"

abbreviation ddc_FEStatus :: "DorisDisaggregatedCluster \<Rightarrow> FEStatus" where
  "ddc_FEStatus ddc \<equiv> status_FEStatus (ddc_Status ddc)"

definition set_FEStatus :: "FEStatus \<Rightarrow> DorisDisaggregatedCluster \<Rightarrow> DorisDisaggregatedCluster" where
  "set_FEStatus s ddc = ddc\<lparr>ddc_Status := (ddc_Status ddc)\<lparr>status_FEStatus := s\<rparr>\<rparr>"

definition set_FEPhase :: "Phase \<Rightarrow> DorisDisaggregatedCluster \<Rightarrow> DorisDisaggregatedCluster" where
  "set_FEPhase p ddc = set_FEStatus ((ddc_FEStatus ddc)\<lparr>fs_Phase := p\<rparr>) ddc"

section \<open>Keys and names\<close>

definition DorisDisaggregatedClusterName :: string where
  "DorisDisaggregatedClusterName = ''app.doris.disaggregated.cluster''"

definition DorisDisaggregatedOwnerReference :: string where
  "DorisDisaggregatedOwnerReference = ''app.doris.disaggregated.ownerreference/name''"

definition DorisDisaggregatedComputeGroupUniqueId :: string where
  "DorisDisaggregatedComputeGroupUniqueId = ''app.doris.disaggregated.cg-uniqueid''"

definition DorisDisaggregatedPodType :: string where
  "DorisDisaggregatedPodType = ''app.doris.disaggregated.type''"

definition DisaggregatedSpecHashValueAnnotation :: string where
  "DisaggregatedSpecHashValueAnnotation = ''doris.disaggregated.cluster/hash''"

definition UpdateStatefulsetGeneration :: string where
  "UpdateStatefulsetGeneration = ''doris.disaggregated.cluster/generation''"

lemma annotation_keys [simp]:
  "UpdateStatefulsetGeneration \<noteq> DisaggregatedSpecHashValueAnnotation"
  "DisaggregatedSpecHashValueAnnotation \<noteq> UpdateStatefulsetGeneration"
  "DisaggregatedSpecHashValueAnnotation \<noteq> ''''"
  by (simp_all add: DisaggregatedSpecHashValueAnnotation_def UpdateStatefulsetGeneration_def)

text \<open>The format \<^verbatim>\<open>UpdateStatefulsetName\<close> applied to a StatefulSet's name.\<close>

definition UpdateStatefulsetName :: "string \<Rightarrow> string" where
  "UpdateStatefulsetName n = ''doris.disaggregated.cluster/'' @ n"

definition GetElectionNumber :: "DorisDisaggregatedCluster \<Rightarrow> int" where
  "GetElectionNumber ddc =
     (case fes_ElectionNumber (spec_FeSpec (ddc_Spec ddc)) of Some n \<Rightarrow> n | None \<Rightarrow> 1)"

definition GetCGStatefulsetName :: "DorisDisaggregatedCluster \<Rightarrow> compute_group \<Rightarrow> string" where
  "GetCGStatefulsetName ddc cg =
     ReplaceAll (ddc_Name ddc @ ''-'' @ cg_UniqueId cg) (CHR ''_'') (CHR ''-'')"

definition GetFEStatefulsetName :: "DorisDisaggregatedCluster \<Rightarrow> string" where
  "GetFEStatefulsetName ddc = ddc_Name ddc @ ''-'' @ ''fe''"

definition GetMSStatefulsetName :: "DorisDisaggregatedCluster \<Rightarrow> string" where
  "GetMSStatefulsetName ddc = ddc_Name ddc @ ''-'' @ ''ms''"

definition GetCGServiceName :: "DorisDisaggregatedCluster \<Rightarrow> compute_group \<Rightarrow> string" where
  "GetCGServiceName ddc cg =
     (let svcName = ddc_Name ddc @ ''-'' @ cg_UniqueId cg
      in ReplaceAll svcName (CHR ''_'') (CHR ''-''))"

definition GetCGExternalServiceName :: "DorisDisaggregatedCluster \<Rightarrow> compute_group \<Rightarrow> string" where
  "GetCGExternalServiceName ddc cg = GetCGServiceName ddc cg @ ''-external''"

definition GetFEServiceName :: "DorisDisaggregatedCluster \<Rightarrow> string" where
  "GetFEServiceName ddc = ddc_Name ddc @ ''-'' @ ''fe''"

definition GetFEVIPAddresss :: "DorisDisaggregatedCluster \<Rightarrow> string" where
  "GetFEVIPAddresss ddc = GetFEServiceName ddc @ ''.'' @ ddc_Namespace ddc"

definition GetFEInternalServiceName :: "DorisDisaggregatedCluster \<Rightarrow> string" where
  "GetFEInternalServiceName ddc = ddc_Name ddc @ ''-'' @ ''fe-internal''"

definition GetMSServiceName :: "DorisDisaggregatedCluster \<Rightarrow> string" where
  "GetMSServiceName ddc = ddc_Name ddc @ ''-'' @ ''ms''"

definition GetCGName :: "compute_group \<Rightarrow> string" where
  "GetCGName cg = ReplaceAll (cg_UniqueId cg) (CHR ''-'') (CHR ''_'')"

section \<open>The status of a compute group\<close>

text \<open>
  The loops that look a status up by unique id take the first match; the pointer they
  keep writes back to that element.
\<close>

definition find_status :: "string \<Rightarrow> DorisDisaggregatedCluster \<Rightarrow> ComputeGroupStatus option" where
  "find_status uid ddc = List.find (\<lambda>s. cgs_UniqueId s = uid) (ddc_ComputeGroupStatuses ddc)"

definition write_status ::
    "string \<Rightarrow> ComputeGroupStatus \<Rightarrow> DorisDisaggregatedCluster \<Rightarrow> DorisDisaggregatedCluster" where
  "write_status uid s ddc =
     set_ComputeGroupStatuses
       (update_first (\<lambda>t. cgs_UniqueId t = uid) (\<lambda>_. s) (ddc_ComputeGroupStatuses ddc)) ddc"

end
