(* ===== verification/Disagg_Sub.thy ===== *)
theory Disagg_Sub
  imports Statefulset_Equal Disagg_Types
begin

text \<open>
  The part of the disaggregated sub-controllers' common code
  (\<^verbatim>\<open>sub_controller/disaggregated_subcontroller.go\<close>, \<^verbatim>\<open>resource/convert.go\<close>,
  \<^verbatim>\<open>resource/secret.go\<close>) that the compute-group controller calls: the start
  configuration read from config maps, ports, log and meta paths, the account and the TLS
  material for a connection to the FE, and the two checks of a StatefulSet's progress.
\<close>

section \<open>Start configuration\<close>

definition FE_RESOLVEKEY :: string where "FE_RESOLVEKEY = ''fe.conf''"
definition BE_RESOLVEKEY :: string where "BE_RESOLVEKEY = ''be.conf''"
definition MS_RESOLVEKEY :: string where "MS_RESOLVEKEY = ''doris_cloud.conf''"
definition DEFAULT_ROOT_PATH :: string where "DEFAULT_ROOT_PATH = ''/opt/apache-doris''"

definition resolveStartConfig :: "('w, 'x) kube_env_scheme \<Rightarrow> string \<Rightarrow> string \<Rightarrow> conf" where
  "resolveStartConfig K vb resolveKey = ViperSettings K resolveKey vb"

fun GetConfigValuesFromConfigMaps ::
    "('w, 'x) kube_env_scheme \<Rightarrow> string \<Rightarrow> string \<Rightarrow> cm_mount list \<Rightarrow> 'w \<Rightarrow> conf \<times> 'w" where
  "GetConfigValuesFromConfigMaps K ns resolveKey [] w = ([], w)"
| "GetConfigValuesFromConfigMaps K ns resolveKey (cm # cms) w =
     (case GetConfigMapObj K ns (cmm_Name cm) w of
        (Inl e, w) \<Rightarrow> GetConfigValuesFromConfigMaps K ns resolveKey cms w
      | (Inr kcm, w) \<Rightarrow>
          (case Option.bind (cm_Data kcm) (\<lambda>d. d resolveKey) of
             None \<Rightarrow> GetConfigValuesFromConfigMaps K ns resolveKey cms w
           | Some v \<Rightarrow> (resolveStartConfig K v resolveKey, w)))"

text \<open>
  The default ports (\<^verbatim>\<open>defMap\<close> of \<^verbatim>\<open>resource/configmap.go\<close>); a key it does not
  hold reads as 0.
\<close>

definition defMap :: "string \<Rightarrow> int" where
  "defMap key =
     (case map_of
       [(''http_port'', 8030), (''rpc_port'', 9020), (''query_port'', 9030),
        (''edit_log_port'', 9010), (''thrift_port'', 9060), (''be_port'', 9060),
        (''webserver_port'', 8040), (''heartbeat_service_port'', 9050), (''brpc_port'', 8060),
        (''broker_ipc_port'', 8000), (''brpc_listen_port'', 5000),
        (''arrow_flight_sql_port'', - 1)] key of
        None \<Rightarrow> 0
      | Some p \<Rightarrow> p)"

definition QUERY_PORT :: string where "QUERY_PORT = ''query_port''"

text \<open>A value that is not a string fails the type assertion, a run-time panic.\<close>

definition GetPort :: "conf \<Rightarrow> string \<Rightarrow> go_error + int" where
  "GetPort config key =
     (case map_of config key of
        Some (ConfString v) \<Rightarrow>
          (case ParseInt v 32 of Some port \<Rightarrow> Inr port | None \<Rightarrow> Inr (defMap key))
      | Some ConfOther \<Rightarrow> Inl (Panic ''interface conversion'')
      | None \<Rightarrow> Inr (defMap key))"

definition GetString :: "conf \<Rightarrow> string \<Rightarrow> go_error + string" where
  "GetString config key =
     (case map_of config key of
        Some (ConfString v) \<Rightarrow> Inr v
      | Some ConfOther \<Rightarrow> Inl (Panic ''interface conversion'')
      | None \<Rightarrow> Inr '''')"

definition GetTerminationGracePeriodSeconds :: "conf \<Rightarrow> go_error + int" where
  "GetTerminationGracePeriodSeconds config =
     (case map_of config ''grace_shutdown_wait_seconds'' of
        Some (ConfString v) \<Rightarrow>
          (case ParseInt v 64 of Some seconds \<Rightarrow> Inr seconds | None \<Rightarrow> Inr 0)
      | Some ConfOther \<Rightarrow> Inl (Panic ''interface conversion'')
      | None \<Rightarrow> Inr 0)"

text \<open>Whether the nodes know each other by name or by address.\<close>

definition START_MODEL_FQDN :: string where "START_MODEL_FQDN = ''FQDN''"
definition START_MODEL_IP :: string where "START_MODEL_IP = ''IP''"
definition ENABLE_FQDN :: string where "ENABLE_FQDN = ''enable_fqdn_mode''"

definition GetStartMode :: "conf \<Rightarrow> go_error + string" where
  "GetStartMode config =
     (if config = [] then Inr START_MODEL_FQDN
      else case map_of config ENABLE_FQDN of
          None \<Rightarrow> Inr START_MODEL_IP
        | Some (ConfString v) \<Rightarrow> Inr (if v = ''true'' then START_MODEL_FQDN else START_MODEL_IP)
        | Some ConfOther \<Rightarrow> Inl (Panic ''interface conversion''))"

section \<open>Log and meta directories\<close>

datatype DisaggregatedComponentType =
    DisaggregatedFE | DisaggregatedBE | DisaggregatedMS | DisaggregatedOther string

definition oldLogPathKey :: string where "oldLogPathKey = ''LOG_DIR''"
definition newLogPathKey :: string where "newLogPathKey = ''sys_log_dir''"
definition FEMetaPathKey :: string where "FEMetaPathKey = ''meta_dir''"

fun default_log_path :: "DisaggregatedComponentType \<Rightarrow> string" where
  "default_log_path DisaggregatedMS = DEFAULT_ROOT_PATH @ ''/ms/log''"
| "default_log_path DisaggregatedFE = DEFAULT_ROOT_PATH @ ''/fe/log''"
| "default_log_path DisaggregatedBE = DEFAULT_ROOT_PATH @ ''/be/log''"
| "default_log_path (DisaggregatedOther t) = ''''"

definition string_of_conf :: "conf_value \<Rightarrow> go_error + string" where
  "string_of_conf v =
     (case v of ConfString s \<Rightarrow> Inr s | ConfOther \<Rightarrow> Inl (Panic ''interface conversion''))"

definition getLogPath :: "conf \<Rightarrow> DisaggregatedComponentType \<Rightarrow> go_error + string" where
  "getLogPath confMap componentType =
     (case map_of confMap oldLogPathKey of
        Some v \<Rightarrow> string_of_conf v
      | None \<Rightarrow>
          (case map_of confMap newLogPathKey of
             Some v \<Rightarrow> string_of_conf v
           | None \<Rightarrow> Inr (default_log_path componentType)))"

definition getFEMetaPath :: "conf \<Rightarrow> go_error + string" where
  "getFEMetaPath confMap =
     (case map_of confMap FEMetaPathKey of
        None \<Rightarrow> Inr (DEFAULT_ROOT_PATH @ ''/fe/doris-meta'')
      | Some v \<Rightarrow> string_of_conf v)"

section \<open>Paths\<close>

text \<open>
  \<^verbatim>\<open>path.Base\<close>, \<^verbatim>\<open>path.Clean\<close> and \<^verbatim>\<open>filepath.Dir\<close> on slash-separated paths.
\<close>

definition path_Base :: "string \<Rightarrow> string" where
  "path_Base p =
     (if p = '''' then ''.''
      else let r = dropWhile (\<lambda>c. c = CHR ''/'') (rev p)
           in if r = [] then ''/'' else rev (takeWhile (\<lambda>c. c \<noteq> CHR ''/'') r))"

fun clean_parts :: "bool \<Rightarrow> string list \<Rightarrow> string list \<Rightarrow> string list" where
  "clean_parts rooted acc [] = rev acc"
| "clean_parts rooted acc (c # cs) =
     (if c = '''' \<or> c = ''.'' then clean_parts rooted acc cs
      else if c = ''..'' then
        (case acc of
           [] \<Rightarrow> clean_parts rooted (if rooted then [] else [''..'']) cs
         | a # acc' \<Rightarrow>
             if a = ''..'' then clean_parts rooted (''..'' # acc) cs
             else clean_parts rooted acc' cs)
      else clean_parts rooted (c # acc) cs)"

definition path_Clean :: "string \<Rightarrow> string" where
  "path_Clean p =
     (let rooted = HasPrefix p ''/'';
          r = join_with ''/'' (clean_parts rooted [] (Split p ''/''))
      in if rooted then ''/'' @ r else if r = '''' then ''.'' else r)"

definition filepath_Dir :: "string \<Rightarrow> string" where
  "filepath_Dir p = path_Clean (rev (dropWhile (\<lambda>c. c \<noteq> CHR ''/'') (rev p)))"

section \<open>Account and TLS material\<close>

definition GetDorisLoginInformation :: "secret option \<Rightarrow> string \<times> string" where
  "GetDorisLoginInformation sec =
     (case sec of
        None \<Rightarrow> (''root'', '''')
      | Some s \<Rightarrow>
          (case secret_Data s of
             None \<Rightarrow> (''root'', '''')
           | Some d \<Rightarrow>
               ((case d ''username'' of None \<Rightarrow> ''root'' | Some u \<Rightarrow> u), map_get d ''password'')))"

definition GetManagementAdminUserAndPWD ::
    "('w, 'x) kube_env_scheme \<Rightarrow> DorisDisaggregatedCluster \<Rightarrow> 'w \<Rightarrow> (string \<times> string) \<times> 'w" where
  "GetManagementAdminUserAndPWD K ddc w =
     (if spec_AuthSecret (ddc_Spec ddc) \<noteq> '''' then
        (case GetSecret K (ddc_Namespace ddc) (spec_AuthSecret (ddc_Spec ddc)) w of
           (sec, w) \<Rightarrow> (GetDorisLoginInformation sec, w))
      else
        (case spec_AdminUser (ddc_Spec ddc) of
           Some u \<Rightarrow> ((au_Name u, au_Password u), w)
         | None \<Rightarrow> ((''root'', ''''), w)))"

text \<open>\<^verbatim>\<open>FindSecretTLSConfig\<close>: the secret mounted where the CA certificate is.\<close>

definition FindSecretTLSConfig ::
    "conf \<Rightarrow> DorisDisaggregatedCluster \<Rightarrow> go_error + TLSConfig option \<times> string" where
  "FindSecretTLSConfig feConfMap ddc =
     (case GetString feConfMap ''enable_tls'' of
        Inl e \<Rightarrow> Inl e
      | Inr enableTLS \<Rightarrow>
          (if enableTLS = '''' then Inr (None, '''')
           else case (GetString feConfMap ''tls_ca_certificate_path'',
                      GetString feConfMap ''tls_certificate_path'',
                      GetString feConfMap ''tls_private_key_path'') of
               (Inr caCertFile, Inr clientCertFile, Inr clientKeyFile) \<Rightarrow>
                 (let caCertDir = filepath_Dir caCertFile;
                      secretName =
                        (case List.find (\<lambda>sn. sm_MountPath sn = caCertDir)
                                (cms_Secrets (fes_CommonSpec (spec_FeSpec (ddc_Spec ddc)))) of
                           None \<Rightarrow> '''' | Some sn \<Rightarrow> sm_SecretName sn)
                  in Inr (Some \<lparr>tls_CAFileName = path_Base caCertFile,
                                tls_ClientCertFileName = path_Base clientCertFile,
                                tls_ClientKeyFileName = path_Base clientKeyFile\<rparr>, secretName))
             | _ \<Rightarrow> Inl (Panic ''interface conversion'')))"

text \<open>
  \<^verbatim>\<open>getMasterSqlClient\<close> of the compute-group controller: account, FE address and query
  port, TLS material, then the connection to the master.
\<close>

definition getMasterSqlClient ::
    "('w, 'x) kube_env_scheme \<Rightarrow> DorisDisaggregatedCluster \<Rightarrow> 'w \<Rightarrow> (go_error + conn) \<times> 'w" where
  "getMasterSqlClient K cluster w =
     (case GetManagementAdminUserAndPWD K cluster w of ((adminUserName, password), w) \<Rightarrow>
      (case GetConfigValuesFromConfigMaps K (ddc_Namespace cluster) FE_RESOLVEKEY
              (cms_ConfigMaps (fes_CommonSpec (spec_FeSpec (ddc_Spec cluster)))) w of (confMap, w) \<Rightarrow>
       (case GetPort confMap QUERY_PORT of
          Inl e \<Rightarrow> (Inl e, w)
        | Inr queryPort \<Rightarrow>
            (case FindSecretTLSConfig confMap cluster of
               Inl e \<Rightarrow> (Inl e, w)
             | Inr (tlsConfig, secretName) \<Rightarrow>
                 (case GetSecret K (ddc_Namespace cluster) secretName w of (sec, w) \<Rightarrow>
                    NewDorisMasterSqlDB K
                      \<lparr>db_User = adminUserName, db_Password = password,
                       db_Host = GetFEVIPAddresss cluster, db_Port = Itoa queryPort,
                       db_Database = ''mysql''\<rparr> tlsConfig sec w)))))"

section \<open>Progress of a StatefulSet\<close>

definition POD_CONTROLLER_REVISION_HASH_KEY :: string where
  "POD_CONTROLLER_REVISION_HASH_KEY = ''controller-revision-hash''"

definition ReturnStatefulsetUpdatedGeneration :: "statefulset option \<Rightarrow> string \<Rightarrow> int" where
  "ReturnStatefulsetUpdatedGeneration sts annoGenerationKey =
     (case sts of
        None \<Rightarrow> 0
      | Some s \<Rightarrow>
          (if sts_Annotations s = Map.empty then 0
           else ParseIntValue (map_get (sts_Annotations s) annoGenerationKey) 64))"

text \<open>Without annotations the key is missing too, and the missing key already reads as 0.\<close>

lemma ReturnStatefulsetUpdatedGeneration_code [code]:
  "ReturnStatefulsetUpdatedGeneration sts annoGenerationKey =
     (case sts of None \<Rightarrow> 0 | Some s \<Rightarrow> ParseIntValue (map_get (sts_Annotations s) annoGenerationKey) 64)"
  by (auto simp: ReturnStatefulsetUpdatedGeneration_def map_get_def ParseIntValue_def parse_signed_def
      split: option.split)

definition StatefulsetControlledPodsAllUseNewUpdateRevision :: "string \<Rightarrow> pod list \<Rightarrow> bool" where
  "StatefulsetControlledPodsAllUseNewUpdateRevision stsUpdateRevision pods =
     (if stsUpdateRevision = '''' then False
      else if pods = [] then False
      else list_all (\<lambda>p. map_get (pod_Labels p) POD_CONTROLLER_REVISION_HASH_KEY = stsUpdateRevision)
             pods)"

section \<open>Marking a change\<close>

text \<open>The comparison that marks a changed StatefulSet and the cluster, for the FE and the meta service.\<close>

definition markedEqual ::
    "('w, 'x) hash_env_scheme \<Rightarrow> (DorisDisaggregatedCluster \<Rightarrow> string) \<Rightarrow> statefulset \<Rightarrow> statefulset
     \<Rightarrow> DorisDisaggregatedCluster \<Rightarrow> bool \<times> statefulset \<times> DorisDisaggregatedCluster" where
  "markedEqual K stsName new est cluster =
     (case StatefulsetDeepEqualWithKey K (RestrictConditionsEqual new est) est
             DisaggregatedSpecHashValueAnnotation False of
        (equal, new) \<Rightarrow>
          (if equal then (True, new, cluster)
           else (False,
             new\<lparr>sts_Annotations := (sts_Annotations new)
               (UpdateStatefulsetGeneration \<mapsto> Itoa (ddc_Generation cluster))\<rparr>,
             cluster\<lparr>ddc_Annotations := (ddc_Annotations cluster)
               (ToLower (UpdateStatefulsetName (stsName cluster)) \<mapsto> ''true'')\<rparr>)))"

text \<open>
  What a JSON merge patch makes of the stored StatefulSet, in the fields the comparisons
  read: an annotation of the patch is set and the others stay as they were, a list is
  replaced as a whole, and an empty field is not part of the patch. Nothing is said of the
  rest of the object, where the API server also fills in defaults.
\<close>

definition merge_patched :: "statefulset \<Rightarrow> statefulset \<Rightarrow> statefulset \<Rightarrow> bool" where
  "merge_patched old sent live \<longleftrightarrow>
     sts_Namespace live = sts_Namespace sent \<and>
     sts_Annotations live = sts_Annotations old ++ sts_Annotations sent \<and>
     sts_VolumeClaimTemplates live =
       (if sts_VolumeClaimTemplates sent = [] then sts_VolumeClaimTemplates old
        else sts_VolumeClaimTemplates sent) \<and>
     us_Type (sts_UpdateStrategy live) =
       (if us_Type (sts_UpdateStrategy sent) = '''' then us_Type (sts_UpdateStrategy old)
        else us_Type (sts_UpdateStrategy sent))"

text \<open>
  What the comparison functions of the controllers promise \<^verbatim>\<open>ApplyStatefulSet\<close>: they
  write nothing to the cluster but the mark that this reconcile changes the StatefulSet,
  with the mark goes the generation on the StatefulSet, and a StatefulSet that was patched
  after the comparison is equal to the wanted one the next time, unless the merge patch
  leaves something behind that the comparison looks at (\<open>clean st est\<close> says that it does
  not). \<open>pasf\<close> is what runs on the object between comparison and patch.
\<close>

locale change_marker =
  fixes mark :: "statefulset \<Rightarrow> statefulset \<Rightarrow> DorisDisaggregatedCluster
                 \<Rightarrow> bool \<times> statefulset \<times> DorisDisaggregatedCluster"
    and pasf :: "statefulset \<Rightarrow> statefulset"
    and name :: "DorisDisaggregatedCluster \<Rightarrow> string"
    and clean :: "statefulset \<Rightarrow> statefulset \<Rightarrow> bool"
  assumes marks: "mark st est c = (ev, st1, c1) \<Longrightarrow> c1 = c \<or>
      c1 = c\<lparr>ddc_Annotations := (ddc_Annotations c)(ToLower (UpdateStatefulsetName (name c)) \<mapsto> ''true'')\<rparr> \<and>
      sts_Annotations st1 UpdateStatefulsetGeneration = Some (Itoa (ddc_Generation c))"
    and settles: "sts_Annotations st DisaggregatedSpecHashValueAnnotation = None \<Longrightarrow>
      clean st est \<Longrightarrow> mark st est c = (ev, st1, c1) \<Longrightarrow> merge_patched est (pasf st1) live \<Longrightarrow>
      \<exists>st2. mark st live c1 = (True, st2, c1)"
begin

text \<open>
  The status updates read the generation under the key of the mark, where the marked
  StatefulSet does not have it: they wait in every reconcile that marks.
\<close>

lemma mark_waits:
  assumes "mark st est c = (ev, st1, c1)" and "c1 \<noteq> c" and "ddc_Generation c \<noteq> 0"
    and "key = ToLower (UpdateStatefulsetName (name c))" and "sts_Annotations sts key = None"
  shows "ddc_Annotations c1 key \<noteq> None \<and>
    ddc_Generation c1 \<noteq> ReturnStatefulsetUpdatedGeneration (Some sts) key"
proof -
  have "ReturnStatefulsetUpdatedGeneration (Some sts) key = 0"
    using assms(5)
    by (simp add: ReturnStatefulsetUpdatedGeneration_def map_get_def ParseIntValue_def parse_signed_def)
  then show ?thesis using marks [OF assms(1)] assms(2,3,4) by auto
qed

text \<open>Under the key where it is stored the generation of the cluster is read back.\<close>

lemma generation_stored:
  assumes "mark st est c = (ev, st1, c1)" and "c1 \<noteq> c"
    and "0 \<le> ddc_Generation c" and "ddc_Generation c < 2 ^ 63"
  shows "ReturnStatefulsetUpdatedGeneration (Some st1) UpdateStatefulsetGeneration = ddc_Generation c"
proof -
  have a: "sts_Annotations st1 UpdateStatefulsetGeneration = Some (dec_nat (nat (ddc_Generation c)))"
    using marks [OF assms(1)] assms(2,3) by (auto simp: Itoa_def)
  have "ParseInt (dec_nat (nat (ddc_Generation c))) 64 = Some (ddc_Generation c)"
    using assms(3,4) ParseInt_dec_nat [of "nat (ddc_Generation c)" 64] by simp
  then have "parse_signed (dec_nat (nat (ddc_Generation c))) = Some (ddc_Generation c)"
    by (auto simp: ParseInt_def split: option.splits if_splits)
  then have "ParseIntValue (dec_nat (nat (ddc_Generation c))) 64 = ddc_Generation c"
    using assms(3,4) by (simp add: ParseIntValue_def)
  with a show ?thesis by (auto simp: ReturnStatefulsetUpdatedGeneration_def map_get_def)
qed

text \<open>
  Two applies of one wanted StatefulSet on an API server that merges what is patched: the
  second one patches nothing and marks nothing.
\<close>

lemma apply_twice:
  assumes "sts_Annotations st DisaggregatedSpecHashValueAnnotation = None" and "clean st est"
    and "GetSts K (sts_Namespace st) (sts_Name st) w = (Inr est, w1)"
    and "mark st est c = (False, st1, c1)"
    and "PatchSts K ((pasf st1)\<lparr>sts_ResourceVersion := sts_ResourceVersion est\<rparr>) w1 = (None, w2)"
    and "GetSts K (sts_Namespace st) (sts_Name st) w2 = (Inr live, w3)"
    and "merge_patched est (pasf st1) live"
  shows "ApplyStatefulSet K st mark pasf c w = ((None, c1), w2) \<and>
         ApplyStatefulSet K st mark pasf c1 w2 = ((None, c1), w3)"
proof -
  obtain st2 where "mark st live c1 = (True, st2, c1)"
    using settles [OF assms(1,2,4,7)] by blast
  then show ?thesis using assms(3-6) by (simp add: ApplyStatefulSet_def)
qed

end

lemma markedEqual_marks:
  assumes "markedEqual K name st est c = (ev, st1, c1)"
  shows "c1 = c \<or>
    c1 = c\<lparr>ddc_Annotations := (ddc_Annotations c)(ToLower (UpdateStatefulsetName (name c)) \<mapsto> ''true'')\<rparr> \<and>
    sts_Annotations st1 UpdateStatefulsetGeneration = Some (Itoa (ddc_Generation c))"
  using assms by (auto simp: markedEqual_def split: prod.splits if_splits)

text \<open>
  The claim templates and the annotations of the patch survive the merge: the templates
  sent are those that were stored, or there were none.
\<close>

lemma merged_templates:
  "merge_patched est st1 live \<Longrightarrow>
   sts_VolumeClaimTemplates st1 = sts_VolumeClaimTemplates (RestrictConditionsEqual st est) \<Longrightarrow>
   RestrictConditionsEqual st live = RestrictConditionsEqual st est"
  by (rule RestrictConditions_again) (auto simp: merge_patched_def RestrictConditionsEqual_def split: if_splits)

lemma merged_annotation:
  "merge_patched est st1 live \<Longrightarrow> sts_Annotations st1 k = Some v \<Longrightarrow> sts_Annotations live k = Some v"
  by (simp add: merge_patched_def)

lemma markedEqual_settles:
  assumes "sts_Annotations st DisaggregatedSpecHashValueAnnotation = None"
    and "markedEqual K name st est c = (ev, st1, c1)" and "merge_patched est (id st1) live"
  shows "\<exists>st2. markedEqual K name st live c1 = (True, st2, c1)"
proof -
  let ?k = DisaggregatedSpecHashValueAnnotation and ?new = "RestrictConditionsEqual st est"
  let ?stored = "?new\<lparr>sts_Annotations := (sts_Annotations st)(?k \<mapsto> HashObject K (statefulSetHashObject ?new False))\<rparr>"
  obtain eq where deep: "StatefulsetDeepEqualWithKey K ?new est ?k False = (eq, ?stored)"
    using StatefulsetDeepEqual_stores [of ?k ?new K est False] assms(1) by (metis annotation_keys(3)
        RestrictConditions_fields(1) prod.collapse)
  have st1: "st1 = (if eq then ?stored else ?stored\<lparr>sts_Annotations := (sts_Annotations ?stored)
      (UpdateStatefulsetGeneration \<mapsto> Itoa (ddc_Generation c))\<rparr>)"
    using assms(2) deep by (simp add: markedEqual_def split: if_splits)
  have m: "merge_patched est st1 live" using assms(3) by simp
  have "RestrictConditionsEqual st live = ?new"
    by (rule merged_templates [OF m]) (simp add: st1)
  moreover have "fst (StatefulsetDeepEqualWithKey K ?new live ?k False)"
  proof (rule StatefulsetDeepEqual_stored)
    show "sts_Annotations live ?k = Some (HashObject K (statefulSetHashObject ?new False))"
      by (rule merged_annotation [OF m]) (simp add: st1)
    show "sts_Namespace live = sts_Namespace ?new" using m by (simp add: merge_patched_def st1)
  qed (use assms(1) in simp_all)
  ultimately show ?thesis by (auto simp: markedEqual_def split: prod.split)
qed

interpretation marked: change_marker "markedEqual K name" id name "\<lambda>_ _. True" for K name
  by unfold_locales (fact markedEqual_marks, rule markedEqual_settles)

end
