(* ===== verification/Graceful_Rollout.thy ===== *)
theory Graceful_Rollout
  imports Disagg_Sub
begin

text \<open>
  The graceful two-phase restart and shutdown of compute groups:
  \<^verbatim>\<open>computegroups/graceful_rollout.go\<close>. The state of an action is the record
  \<open>GracefulAction\<close>, kept as JSON in an annotation of the StatefulSet. Each reconcile
  detects whether an action is needed, runs one step of the phase machine
  TriggerDrain, WaitDrain, DeletePod, WaitPodReady, WaitBEAlive, Done, and writes the action
  back. A handler returns the action it leaves behind (the source writes through a pointer,
  also on its error paths) and its error. Log lines are not modelled; events and the
  message kept in the action are.

  \<^verbatim>\<open>MarshalGA\<close> and \<^verbatim>\<open>UnmarshalGA\<close> stand for \<^verbatim>\<open>json.Marshal\<close> and
  \<^verbatim>\<open>json.Unmarshal\<close> on the action, which use the time format of
  \<^verbatim>\<open>k8s.io/apimachinery\<close>.
\<close>

record 'w rollout_env = "'w hash_env" +
  MarshalGA :: "GracefulAction \<Rightarrow> go_error + string"
  UnmarshalGA :: "string \<Rightarrow> go_error + GracefulAction"

section \<open>Constants\<close>

definition stopBEGraceCommand :: "string list" where
  "stopBEGraceCommand = [''/opt/apache-doris/be/bin/stop_be.sh'', ''--grace'']"

definition beMainContainerName :: string where
  "beMainContainerName = ''compute''"

definition gracefulActionAnnotation :: string where
  "gracefulActionAnnotation = ''doris.disaggregated.cluster/graceful-action''"

definition DEFAULT_BE_TERMINATION_GRACE_PERIOD_SECONDS :: int where
  "DEFAULT_BE_TERMINATION_GRACE_PERIOD_SECONDS = 200"

definition waitPodReadyTimeoutFactor :: int where "waitPodReadyTimeoutFactor = 2"
definition waitBEAliveTimeoutFactor :: int where "waitBEAliveTimeoutFactor = 2"

definition gracefulRuntimeMountPath :: string where
  "gracefulRuntimeMountPath = ''/var/run/doris-operator''"

definition beTerminatingSentinelPath :: string where
  "beTerminatingSentinelPath = gracefulRuntimeMountPath @ ''/terminating''"

definition requiredStableBackendObservations :: int where
  "requiredStableBackendObservations = 2"

text \<open>\<^verbatim>\<open>now.Add(time.Duration(secs) * time.Second)\<close>: the duration is an \<^verbatim>\<open>int64\<close>.\<close>

definition add_seconds :: "time \<Rightarrow> int \<Rightarrow> time" where
  "add_seconds t secs = t + wrap64 (secs * 1000000000)"

section \<open>The action on the StatefulSet\<close>

definition ensureOnDeleteStrategy :: "statefulset \<Rightarrow> statefulset" where
  "ensureOnDeleteStrategy st =
     st\<lparr>sts_UpdateStrategy := \<lparr>us_Type = OnDeleteStrategy, us_RollingUpdate = None\<rparr>\<rparr>"

definition prepareGracefulStatefulSet ::
    "statefulset \<Rightarrow> statefulset \<Rightarrow> GracefulAction \<Rightarrow> statefulset" where
  "prepareGracefulStatefulSet st est ga =
     (let st = ensureOnDeleteStrategy st
      in if ga_Type ga = GracefulActionScaleDown \<or> ga_Type ga = GracefulActionDelete
         then st\<lparr>sts_Replicas := sts_Replicas est\<rparr> else st)"

definition gracefulAnnotationValue :: "statefulset \<Rightarrow> string" where
  "gracefulAnnotationValue st = map_get (sts_Annotations st) gracefulActionAnnotation"

definition getGracefulAction ::
    "('w, 'x) rollout_env_scheme \<Rightarrow> statefulset \<Rightarrow> go_error + GracefulAction option" where
  "getGracefulAction K st =
     (let raw = map_get (sts_Annotations st) gracefulActionAnnotation
      in if raw = '''' then Inr None
         else case UnmarshalGA K raw of
             Inl e \<Rightarrow>
               Inl (Wrapped (''failed to decode graceful action annotation on statefulset '' @
                      sts_Namespace st @ ''/'' @ sts_Name st @ '': '') e)
           | Inr ga \<Rightarrow> Inr (Some ga))"

definition setGracefulAction ::
    "('w, 'x) rollout_env_scheme \<Rightarrow> statefulset \<Rightarrow> GracefulAction \<Rightarrow> statefulset" where
  "setGracefulAction K st ga =
     (case MarshalGA K ga of
        Inl e \<Rightarrow> st
      | Inr bs \<Rightarrow> st\<lparr>sts_Annotations := (sts_Annotations st)(gracefulActionAnnotation \<mapsto> bs)\<rparr>)"

definition clearGracefulAction :: "statefulset \<Rightarrow> statefulset" where
  "clearGracefulAction st =
     st\<lparr>sts_Annotations := (sts_Annotations st)(gracefulActionAnnotation := None)\<rparr>"

definition normalizeGracefulStatefulSetForCompare :: "statefulset \<Rightarrow> statefulset" where
  "normalizeGracefulStatefulSetForCompare st =
     clearGracefulAction (st\<lparr>sts_UpdateStrategy := zero_update_strategy\<rparr>)"

definition statefulSetSpecChanged ::
    "('w, 'x) rollout_env_scheme \<Rightarrow> statefulset \<Rightarrow> statefulset \<Rightarrow> bool" where
  "statefulSetSpecChanged K st est =
     (let nst = normalizeGracefulStatefulSetForCompare (RestrictConditionsEqual st est);
          eSt = normalizeGracefulStatefulSetForCompare est
      in \<not> fst (StatefulsetDeepEqualWithKey K nst eSt DisaggregatedSpecHashValueAnnotation False))"

definition gracefulStatefulSetControlEqual :: "statefulset \<Rightarrow> statefulset \<Rightarrow> bool" where
  "gracefulStatefulSetControlEqual new old =
     (if us_Type (sts_UpdateStrategy new) \<noteq> us_Type (sts_UpdateStrategy old) then False
      else if gracefulAnnotationValue new \<noteq> gracefulAnnotationValue old then False
      else True)"

definition finalizePatch :: string where
  "finalizePatch = [CHR 0x7B] @ [CHR 0x22] @ ''metadata'' @ [CHR 0x22] @ '':'' @ [CHR 0x7B] @
     [CHR 0x22] @ ''annotations'' @ [CHR 0x22] @ '':'' @ [CHR 0x7B] @ [CHR 0x22] @
     gracefulActionAnnotation @ [CHR 0x22] @ '':null'' @ [CHR 0x7D] @ [CHR 0x7D] @ [CHR 0x7D]"

definition finalizeGracefulAction ::
    "('w, 'x) rollout_env_scheme \<Rightarrow> statefulset \<Rightarrow> 'w \<Rightarrow> (statefulset \<times> go_error option) \<times> 'w" where
  "finalizeGracefulAction K st w =
     (case RawPatchSts K (sts_Namespace st) (sts_Name st) finalizePatch w of
        (Some e, w) \<Rightarrow>
          ((st, Some (Wrapped (''failed to finalize graceful action for statefulset '' @
              sts_Namespace st @ ''/'' @ sts_Name st @ '': '') e)), w)
      | (None, w) \<Rightarrow> ((clearGracefulAction (ensureOnDeleteStrategy st), None), w))"

section \<open>Observing pods and backends\<close>

definition isContainerTerminated :: "pod \<Rightarrow> string \<Rightarrow> bool" where
  "isContainerTerminated p n =
     (case find_container p n of None \<Rightarrow> False | Some cs \<Rightarrow> cs_Terminated cs)"

definition getContainerRestartCount :: "pod \<Rightarrow> string \<Rightarrow> int" where
  "getContainerRestartCount p n =
     (case find_container p n of None \<Rightarrow> 0 | Some cs \<Rightarrow> cs_RestartCount cs)"

definition getContainerID :: "pod \<Rightarrow> string \<Rightarrow> string" where
  "getContainerID p n =
     (case find_container p n of None \<Rightarrow> '''' | Some cs \<Rightarrow> cs_ContainerID cs)"

definition backendLastStartTime :: "Backend \<Rightarrow> string" where
  "backendLastStartTime b = (case be_LastStartTime b of None \<Rightarrow> '''' | Some t \<Rightarrow> TrimSpace t)"

fun first_key :: "(string \<rightharpoonup> json) \<Rightarrow> string list \<Rightarrow> json option" where
  "first_key m [] = None"
| "first_key m (k # ks) = (case m k of Some v \<Rightarrow> Some v | None \<Rightarrow> first_key m ks)"

definition backendProcessEpoch :: "('w, 'x) sql_env_scheme \<Rightarrow> Backend \<Rightarrow> string \<times> bool" where
  "backendProcessEpoch K b =
     (if be_Status b = '''' then ('''', False)
      else case unmarshal_map (be_Status b) of
          None \<Rightarrow> ('''', False)
        | Some status \<Rightarrow>
            (case first_key status
                    [''processEpoch'', ''process_epoch'', ''beStartTime'', ''be_start_time''] of
               Some raw \<Rightarrow> (fmt_v K raw, True)
             | None \<Rightarrow> ('''', False)))"

fun json_go_type :: "json \<Rightarrow> string" where
  "json_go_type JNull = ''<nil>''"
| "json_go_type (JBool b) = ''bool''"
| "json_go_type (JNum n) = ''float64''"
| "json_go_type (JStr s) = ''string''"
| "json_go_type (JArr vs) = ''[]interface {}''"
| "json_go_type (JObj ms) = ''map[string]interface {}''"

definition backendIsShutdown :: "('w, 'x) sql_env_scheme \<Rightarrow> Backend \<Rightarrow> go_error + bool" where
  "backendIsShutdown K b =
     (if be_Status b = '''' then Inr False
      else case unmarshal_map (be_Status b) of
          None \<Rightarrow> Inl (ErrorString (JsonErrorText K (be_Status b)))
        | Some status \<Rightarrow>
            (case status ''isShutdown'' of
               None \<Rightarrow> Inr False
             | Some (JBool shutdown) \<Rightarrow> Inr shutdown
             | Some raw \<Rightarrow>
                 Inl (ErrorString (''backend status isShutdown has unexpected type '' @
                        json_go_type raw))))"

definition backendMatchesPod :: "Backend \<Rightarrow> string \<Rightarrow> bool" where
  "backendMatchesPod b podName = (HasPrefix (be_Host b) (podName @ ''.'') \<or> be_Host b = podName)"

definition getBackendByPodName ::
    "('w, 'x) rollout_env_scheme \<Rightarrow> DorisDisaggregatedCluster \<Rightarrow> ComputeGroupStatus \<Rightarrow> string \<Rightarrow> 'w
     \<Rightarrow> (go_error + Backend) \<times> 'w" where
  "getBackendByPodName K cluster cgStatus podName w =
     (case getMasterSqlClient K cluster w of
        (Inl e, w) \<Rightarrow> (Inl e, w)
      | (Inr db, w) \<Rightarrow>
          (case GetBackendsByComputeGroupId K db (cgs_ComputeGroupId cgStatus) w of
             (Inl e, w) \<Rightarrow> (Inl e, CloseDB K db w)
           | (Inr backends, w) \<Rightarrow>
               (case List.find (\<lambda>b. backendMatchesPod b podName) backends of
                  Some b \<Rightarrow> (Inr b, CloseDB K db w)
                | None \<Rightarrow>
                    (Inl (ErrorString (''backend for pod '' @ podName @ '' not found'')),
                     CloseDB K db w))))"

section \<open>Choosing the next pod\<close>

text \<open>
  \<^verbatim>\<open>extractOrdinal\<close>: the characters after the last dash read as decimal digits. The
  difference of two bytes wraps at 8 bits and the sum at 64.
\<close>

definition ordinal_step :: "int \<Rightarrow> char \<Rightarrow> int" where
  "ordinal_step n c = wrap64 (n * 10 + (int (of_char c) - 48) mod 256)"

definition after_last_dash :: "string \<Rightarrow> string" where
  "after_last_dash s = rev (takeWhile (\<lambda>c. c \<noteq> CHR ''-'') (rev s))"

definition extractOrdinal :: "string \<Rightarrow> int" where
  "extractOrdinal podName =
     (if CHR ''-'' \<in> set podName then foldl ordinal_step 0 (after_last_dash podName) else 0)"

definition outdatedPods :: "string \<Rightarrow> pod list \<Rightarrow> pod list" where
  "outdatedPods targetRevision pods =
     filter (\<lambda>p. map_get (pod_Labels p) POD_CONTROLLER_REVISION_HASH_KEY \<noteq> targetRevision) pods"

text \<open>
  \<^verbatim>\<open>selectNextRollingUpdatePod\<close>. A selector that cannot be built and a failed list both
  read as "no pod".
\<close>

definition selectNextRollingUpdatePod ::
    "('w, 'x) rollout_env_scheme \<Rightarrow> statefulset \<Rightarrow> GracefulAction \<Rightarrow> 'w \<Rightarrow> (string \<times> int) option \<times> 'w" where
  "selectNextRollingUpdatePod K est ga w =
     (let targetRevision =
            (if ga_TargetRevision ga = '''' then sts_UpdateRevision est else ga_TargetRevision ga)
      in if SelectorError K (sts_Selector est) \<noteq> None then (None, w)
         else case ListPods K (sts_Namespace est) (sts_Selector est) w of
             (Inl e, w) \<Rightarrow> (None, w)
           | (Inr items, w) \<Rightarrow>
               (case sort_key (\<lambda>p. - extractOrdinal (pod_Name p)) (outdatedPods targetRevision items) of
                  [] \<Rightarrow> (None, w)
                | p # _ \<Rightarrow> (Some (pod_Name p, wrap32 (extractOrdinal (pod_Name p))), w)))"

definition nth_pod_name :: "string \<Rightarrow> int \<Rightarrow> string" where
  "nth_pod_name stsName ordinal = stsName @ ''-'' @ Itoa ordinal"

text \<open>
  \<^verbatim>\<open>selectNextPod\<close>: \<open>Inr None\<close> is "not found"; \<open>Inl\<close> is the panic of reading the
  replicas of a StatefulSet that has none.
\<close>

definition selectNextPod ::
    "('w, 'x) rollout_env_scheme \<Rightarrow> ComputeGroupStatus \<Rightarrow> statefulset \<Rightarrow> GracefulAction \<Rightarrow> 'w
     \<Rightarrow> (go_error + (string \<times> int) option) \<times> 'w" where
  "selectNextPod K cgStatus est ga w =
     (let stsName = cgs_StatefulsetName cgStatus
      in case ga_Type ga of
           GracefulActionRollingUpdate \<Rightarrow>
             (case selectNextRollingUpdatePod K est ga w of (r, w) \<Rightarrow> (Inr r, w))
         | GracefulActionScaleDown \<Rightarrow>
             (case ga_DesiredReplicas ga of
                None \<Rightarrow> (Inr None, w)
              | Some desiredReplicas \<Rightarrow>
                  (case sts_Replicas est of
                     None \<Rightarrow> (Inl (Panic ''*est.Spec.Replicas''), w)
                   | Some currentReplicas \<Rightarrow>
                       if desiredReplicas \<ge> currentReplicas then (Inr None, w)
                       else let ordinal = wrap32 (currentReplicas - 1)
                            in (Inr (Some (nth_pod_name stsName ordinal, ordinal)), w)))
         | GracefulActionDelete \<Rightarrow>
             (case sts_Replicas est of
                None \<Rightarrow> (Inl (Panic ''*est.Spec.Replicas''), w)
              | Some currentReplicas \<Rightarrow>
                  if currentReplicas \<le> 0 then (Inr None, w)
                  else let ordinal = wrap32 (currentReplicas - 1)
                       in (Inr (Some (nth_pod_name stsName ordinal, ordinal)), w))
         | GracefulActionOther t \<Rightarrow> (Inr None, w))"

section \<open>Moving between phases\<close>

definition resetGracefulPhaseTimer :: "GracefulAction \<Rightarrow> GracefulAction" where
  "resetGracefulPhaseTimer ga = ga\<lparr>ga_StartedAt := 0, ga_DeadlineAt := 0\<rparr>"

definition advanceToNextPod :: "GracefulAction \<Rightarrow> GracefulAction" where
  "advanceToNextPod ga =
     (let ga = ga\<lparr>ga_CurrentPod := '''', ga_CurrentOrdinal := 0, ga_DrainTriggered := False,
            ga_InitialRestartCount := 0, ga_SentinelWritten := False,
            ga_RestartAnomalyDetected := False, ga_InitialPodUID := '''',
            ga_InitialContainerID := '''', ga_InitialBackendStartTime := '''',
            ga_InitialBackendEpoch := '''', ga_ReplacementPodUID := '''',
            ga_ReplacementContainerID := '''', ga_ReplacementBackendStartTime := '''',
            ga_ReplacementBackendEpoch := '''', ga_StableBackendObservations := 0\<rparr>
      in (resetGracefulPhaseTimer ga)
           \<lparr>ga_LastMessage := '''', ga_Phase := GracefulPhaseTriggerDrain\<rparr>)"

definition refreshRollingUpdateTargetRevision ::
    "statefulset \<Rightarrow> GracefulAction \<Rightarrow> GracefulAction" where
  "refreshRollingUpdateTargetRevision est ga =
     (if ga_Type ga \<noteq> GracefulActionRollingUpdate then ga
      else if sts_UpdateRevision est = '''' then ga
      else ga\<lparr>ga_TargetRevision := sts_UpdateRevision est\<rparr>)"

fun gracefulActionPriority :: "GracefulActionType \<Rightarrow> int" where
  "gracefulActionPriority GracefulActionDelete = 3"
| "gracefulActionPriority GracefulActionScaleDown = 2"
| "gracefulActionPriority GracefulActionRollingUpdate = 1"
| "gracefulActionPriority (GracefulActionOther t) = 0"

text \<open>\<^verbatim>\<open>%s\<close> of an action type.\<close>

fun type_text :: "GracefulActionType \<Rightarrow> string" where
  "type_text GracefulActionRollingUpdate = ''RollingUpdate''"
| "type_text GracefulActionScaleDown = ''ScaleDown''"
| "type_text GracefulActionDelete = ''Delete''"
| "type_text (GracefulActionOther t) = t"

fun phase_text :: "GracefulActionPhase \<Rightarrow> string" where
  "phase_text GracefulPhaseTriggerDrain = ''TriggerDrain''"
| "phase_text GracefulPhaseWaitDrain = ''WaitDrain''"
| "phase_text GracefulPhaseDeletePod = ''DeletePod''"
| "phase_text GracefulPhaseWaitPodReady = ''WaitPodReady''"
| "phase_text GracefulPhaseWaitBEAlive = ''WaitBEAlive''"
| "phase_text GracefulPhaseDone = ''Done''"
| "phase_text GracefulPhaseFailed = ''Failed''"
| "phase_text (GracefulPhaseOther t) = t"

end
