(* ===== verification/Memory_Cluster.thy ===== *)
theory Memory_Cluster
  imports Graceful_Rollout
begin

text \<open>
  A small outside world in memory: an API server holding StatefulSets, services, pods and
  claims, a clock, an FE with its frontends and backends, and a log of the events, remote
  commands and SQL statements. It instantiates the parameters of the model with computing
  functions, so that examples can run the operator's code. Selectors are matched on the
  label keys the operator uses.
\<close>

record world =
  w_Sts :: "statefulset list"
  w_Svcs :: "service list"
  w_Pods :: "pod list"
  w_Pvcs :: "pvc list"
  w_Endpoints :: "string list list"
  w_Clock :: time
  w_Events :: "event list"
  w_Execs :: "(string \<times> string list) list"
  w_Frontends :: "Frontend list"
  w_Backends :: "Backend list"
  w_Sql :: "string list"

definition zero_world :: world where
  "zero_world = \<lparr>w_Sts = [], w_Svcs = [], w_Pods = [], w_Pvcs = [], w_Endpoints = [], w_Clock = 0,
     w_Events = [], w_Execs = [], w_Frontends = [], w_Backends = [], w_Sql = []\<rparr>"

definition not_found :: go_error where
  "not_found = StatusError ReasonNotFound ''not found''"

definition mem_find :: "('a \<Rightarrow> bool) \<Rightarrow> 'a list \<Rightarrow> 'w \<Rightarrow> (go_error + 'a) \<times> 'w" where
  "mem_find P xs w = (case List.find P xs of None \<Rightarrow> (Inl not_found, w) | Some x \<Rightarrow> (Inr x, w))"

definition label_keys :: "string list" where
  "label_keys = [DorisDisaggregatedOwnerReference, DorisDisaggregatedComputeGroupUniqueId,
     DorisDisaggregatedClusterName, DorisDisaggregatedPodType]"

definition mem_selects :: "string_map \<Rightarrow> string_map \<Rightarrow> bool" where
  "mem_selects sel labels = list_all (\<lambda>k. sel k = None \<or> labels k = sel k) label_keys"

definition mem_put_sts :: "statefulset \<Rightarrow> world \<Rightarrow> go_error option \<times> world" where
  "mem_put_sts st w =
     (None, w\<lparr>w_Sts := update_first (\<lambda>s. sts_Name s = sts_Name st \<and> sts_Namespace s = sts_Namespace st)
        (\<lambda>_. st) (w_Sts w)\<rparr>)"

definition mem_env :: "world rollout_env" where
  "mem_env = \<lparr>
     AppendCertsFromPEM = (\<lambda>_. True),
     X509KeyPair = (\<lambda>_ _. None),
     RegisterTLSConfig = (\<lambda>_ _ _ _ w. (None, w)),
     SqlxOpen = (\<lambda>_ w. (Inr 0, w)),
     Ping = (\<lambda>_ w. (None, w)),
     CloseDB = (\<lambda>_ w. w),
     SelectFrontends = (\<lambda>_ w. (Inr (w_Frontends w), w)),
     SelectBackends = (\<lambda>_ w. (Inr (w_Backends w), w)),
     ExecSql = (\<lambda>_ q w. (None, w\<lparr>w_Sql := w_Sql w @ [q]\<rparr>)),
     FmtFloat = (\<lambda>s. s),
     JsonErrorText = (\<lambda>_. ''invalid character''),
     GetSts = (\<lambda>ns n w. mem_find (\<lambda>s. sts_Namespace s = ns \<and> sts_Name s = n) (w_Sts w) w),
     ListSts = (\<lambda>ns sel w.
       (Inr (filter (\<lambda>s. sts_Namespace s = ns \<and> mem_selects sel (sts_Labels s)) (w_Sts w)), w)),
     CreateSts = (\<lambda>st w. (None, w\<lparr>w_Sts := w_Sts w @ [st]\<rparr>)),
     UpdateSts = mem_put_sts,
     PatchSts = mem_put_sts,
     RawPatchSts = (\<lambda>_ _ _ w. (None, w)),
     DeleteStsObj = (\<lambda>st w. (None, w\<lparr>w_Sts := filter (\<lambda>s. \<not> (sts_Name s = sts_Name st \<and>
       sts_Namespace s = sts_Namespace st)) (w_Sts w)\<rparr>)),
     GetSvc = (\<lambda>ns n w. mem_find (\<lambda>s. svc_Namespace s = ns \<and> svc_Name s = n) (w_Svcs w) w),
     ListSvcs = (\<lambda>ns sel w.
       (Inr (filter (\<lambda>s. svc_Namespace s = ns \<and> mem_selects sel (svc_Labels s)) (w_Svcs w)), w)),
     CreateSvc = (\<lambda>s w. (None, w\<lparr>w_Svcs := w_Svcs w @ [s]\<rparr>)),
     PatchSvc = (\<lambda>s w. (None, w\<lparr>w_Svcs := update_first
       (\<lambda>t. svc_Name t = svc_Name s \<and> svc_Namespace t = svc_Namespace s) (\<lambda>_. s) (w_Svcs w)\<rparr>)),
     DeleteSvcObj = (\<lambda>s w. (None, w\<lparr>w_Svcs := filter (\<lambda>t. \<not> (svc_Name t = svc_Name s \<and>
       svc_Namespace t = svc_Namespace s)) (w_Svcs w)\<rparr>)),
     GetPodObj = (\<lambda>ns n w. mem_find (\<lambda>p. pod_Namespace p = ns \<and> pod_Name p = n) (w_Pods w) w),
     ListPods = (\<lambda>ns sel w. (Inr (filter (\<lambda>p. pod_Namespace p = ns \<and> pod_Name p \<noteq> '''' \<and>
       mem_selects sel (pod_Labels p)) (w_Pods w)), w)),
     DeletePodObj = (\<lambda>p w. (None, w\<lparr>w_Pods := filter (\<lambda>q. \<not> (pod_Name q = pod_Name p \<and>
       pod_Namespace q = pod_Namespace p)) (w_Pods w)\<rparr>)),
     ListPvcs = (\<lambda>ns sel w.
       (Inr (filter (\<lambda>c. pvc_Namespace c = ns \<and> mem_selects sel (pvc_Labels c)) (w_Pvcs w)), w)),
     CreatePvc = (\<lambda>c w. (None, w\<lparr>w_Pvcs := w_Pvcs w @ [c]\<rparr>)),
     PatchPvc = (\<lambda>c w. (None, w\<lparr>w_Pvcs := update_first
       (\<lambda>d. pvc_Name d = pvc_Name c \<and> pvc_Namespace d = pvc_Namespace c) (\<lambda>_. c) (w_Pvcs w)\<rparr>)),
     DeletePvcObj = (\<lambda>ns n _ w. (None, w\<lparr>w_Pvcs := filter (\<lambda>c. \<not> (pvc_Name c = n \<and>
       pvc_Namespace c = ns)) (w_Pvcs w)\<rparr>)),
     GetEndpoints = (\<lambda>_ _ w. (Inr (w_Endpoints w), w)),
     GetConfigMapObj = (\<lambda>_ _ w. (Inl not_found, w)),
     GetSecretObj = (\<lambda>_ _ w. (Inl not_found, w)),
     SelectorError = (\<lambda>_. None),
     ExecInPod = (\<lambda>ns p c cmd w. (('''', '''', None), w\<lparr>w_Execs := w_Execs w @ [(p, cmd)]\<rparr>)),
     Now = (\<lambda>w. (w_Clock w, w)),
     Eventf = (\<lambda>e w. w\<lparr>w_Events := w_Events w @ [e]\<rparr>),
     FormatTime = (\<lambda>t. Itoa t),
     ViperSettings = (\<lambda>_ _. []),
     SpewDump = (\<lambda>ob. hso_name ob @ ''/'' @ Itoa (hso_replicas ob)),
     SpewService = (\<lambda>s. hsv_name s @ ''/'' @ hsv_serviceType s),
     SpewClaim = (\<lambda>c. Itoa (cl_Storage c)),
     MarshalGA = (\<lambda>ga. Inr (phase_text (ga_Phase ga))),
     UnmarshalGA = (\<lambda>s. Inr (zero_GracefulAction\<lparr>ga_Type := GracefulActionScaleDown,
       ga_Phase := GracefulPhaseTriggerDrain, ga_DesiredReplicas := Some 1\<rparr>))\<rparr>"

lemma mem_env_fields [simp]:
  "ListPods mem_env ns sel w = (Inr (filter (\<lambda>p. pod_Namespace p = ns \<and> pod_Name p \<noteq> '''' \<and>
       mem_selects sel (pod_Labels p)) (w_Pods w)), w)"
  "GetPodObj mem_env ns n w = mem_find (\<lambda>p. pod_Namespace p = ns \<and> pod_Name p = n) (w_Pods w) w"
  "Now mem_env w = (w_Clock w, w)"
  by (simp_all add: mem_env_def)

end
