(* ===== verification/Scale_Down.thy ===== *)
theory Scale_Down
  imports Memory_Cluster
begin

text \<open>
  Removing backends from the FE before a compute group shrinks
  (\<^verbatim>\<open>computegroups/prepare_modify.go\<close>, \<^verbatim>\<open>resource/decommission.go\<close>): the phase of
  a decommission read off the backends, the nodes to drop or decommission, and the step
  \<open>preApplyStatefulSet\<close> that runs before a StatefulSet is applied. The status of the
  compute group is the element of the cluster's status that the source points to.
\<close>

section \<open>Progress of a decommission\<close>

datatype DecommissionPhase =
    Decommissioned
  | DecommissioningPhase
  | DecommissionAcceptable
  | DecommissionPhaseUnknown

record DecommissionTaskStatus =
  dts_AllBackendsSize :: int
  dts_UnDecommissionedCount :: int
  dts_DecommissioningCount :: int
  dts_DecommissionedCount :: int
  dts_BeKeepAmount :: int

fun count_nodes :: "Backend list \<Rightarrow> int \<times> int \<times> int \<Rightarrow> int \<times> int \<times> int" where
  "count_nodes [] counts = counts"
| "count_nodes (node # nodes) (un, ing, ed) =
     (if \<not> be_SystemDecommissioned node then count_nodes nodes (un + 1, ing, ed)
      else if be_TabletNum node = 0 then count_nodes nodes (un, ing, ed + 1)
      else count_nodes nodes (un, ing + 1, ed))"

definition ConstructDecommissionTaskStatus :: "Backend list \<Rightarrow> int \<Rightarrow> DecommissionTaskStatus" where
  "ConstructDecommissionTaskStatus allBackends cgKeepAmount =
     (let (un, ing, ed) = count_nodes allBackends (0, 0, 0)
      in \<lparr>dts_AllBackendsSize = int (length allBackends),
          dts_UnDecommissionedCount = un,
          dts_DecommissioningCount = ing,
          dts_DecommissionedCount = ed,
          dts_BeKeepAmount = cgKeepAmount\<rparr>)"

definition GetDecommissionPhase :: "DecommissionTaskStatus \<Rightarrow> DecommissionPhase" where
  "GetDecommissionPhase d =
     (if dts_DecommissioningCount d = 0 \<and> dts_DecommissionedCount d = 0 \<and>
         dts_UnDecommissionedCount d > dts_BeKeepAmount d then DecommissionAcceptable
      else if dts_UnDecommissionedCount d = dts_BeKeepAmount d \<and> dts_DecommissioningCount d > 0
      then DecommissioningPhase
      else if dts_UnDecommissionedCount d = dts_BeKeepAmount d \<and>
              dts_UnDecommissionedCount d + dts_DecommissionedCount d = dts_AllBackendsSize d
      then Decommissioned
      else DecommissionPhaseUnknown)"

definition decommissionProgressCheck ::
    "('w, 'x) sql_env_scheme \<Rightarrow> conn \<Rightarrow> string \<Rightarrow> int \<Rightarrow> 'w \<Rightarrow> (go_error + DecommissionPhase) \<times> 'w" where
  "decommissionProgressCheck K db cgid cgKeepAmount w =
     (case GetBackendsByComputeGroupId K db cgid w of
        (Inl e, w) \<Rightarrow> (Inl e, w)
      | (Inr allBackends, w) \<Rightarrow>
          (Inr (GetDecommissionPhase (ConstructDecommissionTaskStatus allBackends cgKeepAmount)), w))"

section \<open>Nodes to remove\<close>

definition backend_ordinal :: "Backend \<Rightarrow> go_error + int" where
  "backend_ordinal node =
     (let s = last (Split (hd (Split (be_Host node) ''.'')) ''-'')
      in case Atoi s of None \<Rightarrow> Inl (AtoiError s) | Some podNum \<Rightarrow> Inr podNum)"

fun scaled_out :: "Backend list \<Rightarrow> int \<Rightarrow> go_error + Backend list" where
  "scaled_out [] cgKeepAmount = Inr []"
| "scaled_out (node # nodes) cgKeepAmount =
     (case backend_ordinal node of
        Inl e \<Rightarrow> Inl e
      | Inr podNum \<Rightarrow>
          (case scaled_out nodes cgKeepAmount of
             Inl e \<Rightarrow> Inl e
           | Inr dropNodes \<Rightarrow> Inr (if podNum \<ge> cgKeepAmount then node # dropNodes else dropNodes)))"

definition getScaledOutBENode ::
    "('w, 'x) sql_env_scheme \<Rightarrow> conn \<Rightarrow> string \<Rightarrow> int \<Rightarrow> 'w \<Rightarrow> (go_error + Backend list) \<times> 'w" where
  "getScaledOutBENode K db cgid cgKeepAmount w =
     (case GetBackendsByComputeGroupId K db cgid w of
        (Inl e, w) \<Rightarrow> (Inl e, w)
      | (Inr allBackends, w) \<Rightarrow> (scaled_out allBackends cgKeepAmount, w))"

definition scaledOutBENodesByDrop ::
    "('w, 'x) sql_env_scheme \<Rightarrow> conn \<Rightarrow> string \<Rightarrow> int \<Rightarrow> 'w \<Rightarrow> go_error option \<times> 'w" where
  "scaledOutBENodesByDrop K db cgid cgKeepAmount w =
     (case getScaledOutBENode K db cgid cgKeepAmount w of
        (Inl e, w) \<Rightarrow> (Some e, w)
      | (Inr dropNodes, w) \<Rightarrow> if dropNodes = [] then (None, w) else DropBE K db dropNodes w)"

definition decommissionBENodes ::
    "('w, 'x) sql_env_scheme \<Rightarrow> conn \<Rightarrow> string \<Rightarrow> int \<Rightarrow> 'w \<Rightarrow> go_error option \<times> 'w" where
  "decommissionBENodes K db cgName cgKeepAmount w =
     (case getScaledOutBENode K db cgName cgKeepAmount w of
        (Inl e, w) \<Rightarrow> (Some e, w)
      | (Inr dropNodes, w) \<Rightarrow> if dropNodes = [] then (None, w) else DecommissionBE K db dropNodes w)"

section \<open>Before the StatefulSet is applied\<close>

definition getOperationType :: "statefulset \<Rightarrow> statefulset \<Rightarrow> Phase \<Rightarrow> go_error + string" where
  "getOperationType st est phase =
     (case (sts_Replicas st, sts_Replicas est) of
        (Some a, Some b) \<Rightarrow>
          Inr (if a < b \<or> phase = Decommissioning \<or> phase = ScaleDownFailed then ''scaleDown'' else '''')
      | _ \<Rightarrow> Inl (Panic ''*Spec.Replicas''))"

definition scaledOutBENodesByDecommission ::
    "('w, 'x) sql_env_scheme \<Rightarrow> ComputeGroupStatus \<Rightarrow> conn \<Rightarrow> string \<Rightarrow> int \<Rightarrow> 'w
     \<Rightarrow> (ComputeGroupStatus \<times> go_error option) \<times> 'w" where
  "scaledOutBENodesByDecommission K cgStatus db cgid cgKeepAmount w =
     (case decommissionProgressCheck K db cgid cgKeepAmount w of
        (Inl e, w) \<Rightarrow> ((cgStatus, Some e), w)
      | (Inr DecommissionAcceptable, w) \<Rightarrow>
          (case decommissionBENodes K db cgid cgKeepAmount w of
             (Some e, w) \<Rightarrow> ((cgStatus\<lparr>cgs_Phase := ScaleDownFailed\<rparr>, Some e), w)
           | (None, w) \<Rightarrow> ((cgStatus\<lparr>cgs_Phase := Decommissioning\<rparr>, None), w))
      | (Inr DecommissioningPhase, w) \<Rightarrow> ((cgStatus\<lparr>cgs_Phase := Decommissioning\<rparr>, None), w)
      | (Inr DecommissionPhaseUnknown, w) \<Rightarrow> ((cgStatus\<lparr>cgs_Phase := Decommissioning\<rparr>, None), w)
      | (Inr Decommissioned, w) \<Rightarrow>
          (case scaledOutBENodesByDrop K db cgid cgKeepAmount w of
             (_, w) \<Rightarrow> ((cgStatus\<lparr>cgs_Phase := Scaling\<rparr>, None), w)))"

definition scaleOut ::
    "('w, 'x) kube_env_scheme \<Rightarrow> ComputeGroupStatus \<Rightarrow> DorisDisaggregatedCluster \<Rightarrow> compute_group \<Rightarrow> 'w
     \<Rightarrow> (ComputeGroupStatus \<times> go_error option) \<times> 'w" where
  "scaleOut K cgStatus cluster cg w =
     (case getMasterSqlClient K cluster w of
        (Inl e, w) \<Rightarrow> ((cgStatus, Some e), w)
      | (Inr sqlClient, w) \<Rightarrow>
          (case cg_Replicas cg of
             None \<Rightarrow> ((cgStatus, Some (Panic ''*cg.Replicas'')), CloseDB K sqlClient w)
           | Some cgKeepAmount \<Rightarrow>
               (if spec_EnableDecommission (ddc_Spec cluster) then
                  (case scaledOutBENodesByDecommission K cgStatus sqlClient
                          (cgs_ComputeGroupId cgStatus) cgKeepAmount w of
                     (r, w) \<Rightarrow> (r, CloseDB K sqlClient w))
                else
                  (case scaledOutBENodesByDrop K sqlClient (cgs_ComputeGroupId cgStatus) cgKeepAmount w of
                     (Some e, w) \<Rightarrow>
                       ((cgStatus\<lparr>cgs_Phase := ScaleDownFailed\<rparr>, Some e), CloseDB K sqlClient w)
                   | (None, w) \<Rightarrow>
                       ((cgStatus\<lparr>cgs_Phase := Scaling\<rparr>, None), CloseDB K sqlClient w)))))"

definition preApplyStatefulSet ::
    "('w, 'x) kube_env_scheme \<Rightarrow> statefulset \<Rightarrow> statefulset \<Rightarrow> DorisDisaggregatedCluster \<Rightarrow> compute_group \<Rightarrow> 'w
     \<Rightarrow> (DorisDisaggregatedCluster \<times> go_error option) \<times> 'w" where
  "preApplyStatefulSet K st est cluster cg w =
     (case find_status (cg_UniqueId cg) cluster of
        None \<Rightarrow> ((cluster, Some (Panic ''cgStatus.Phase'')), w)
      | Some cgStatus \<Rightarrow>
          (case getOperationType st est (cgs_Phase cgStatus) of
             Inl e \<Rightarrow> ((cluster, Some e), w)
           | Inr optType \<Rightarrow>
               (if optType = ''scaleDown'' then
                  (case scaleOut K cgStatus cluster cg w of
                     ((cgStatus, r), w) \<Rightarrow>
                       ((write_status (cg_UniqueId cg) cgStatus cluster, r), w))
                else ((cluster, None), w))))"

text \<open>\<open>Inl\<close> is the panic of reading the phase of a status that is not there.\<close>

definition skipApplyStatefulset ::
    "DorisDisaggregatedCluster \<Rightarrow> compute_group \<Rightarrow> go_error + bool" where
  "skipApplyStatefulset ddc cg =
     (case find_status (cg_UniqueId cg) ddc of
        None \<Rightarrow> Inl (Panic ''cgStatus.Phase'')
      | Some cgStatus \<Rightarrow> Inr (cgs_Phase cgStatus = Decommissioning))"

section \<open>What a decommission phase means\<close>

abbreviation kept :: "Backend list \<Rightarrow> int" where
  "kept bs \<equiv> int (length (filter (\<lambda>b. \<not> be_SystemDecommissioned b) bs))"

abbreviation moving :: "Backend list \<Rightarrow> int" where
  "moving bs \<equiv> int (length (filter (\<lambda>b. be_SystemDecommissioned b \<and> be_TabletNum b \<noteq> 0) bs))"

abbreviation emptied :: "Backend list \<Rightarrow> int" where
  "emptied bs \<equiv> int (length (filter (\<lambda>b. be_SystemDecommissioned b \<and> be_TabletNum b = 0) bs))"

lemma count_nodes_filter:
  "count_nodes bs (un, ing, ed) = (un + kept bs, ing + moving bs, ed + emptied bs)"
  by (induction bs arbitrary: un ing ed) auto

lemma nodes_partition: "kept bs + moving bs + emptied bs = int (length bs)"
  by (induction bs) auto

lemma decommission_phase:
  "GetDecommissionPhase (ConstructDecommissionTaskStatus bs keep) =
     (if list_all (\<lambda>b. \<not> be_SystemDecommissioned b) bs \<and> keep < int (length bs) then DecommissionAcceptable
      else if kept bs \<noteq> keep then DecommissionPhaseUnknown
      else if list_ex (\<lambda>b. be_SystemDecommissioned b \<and> be_TabletNum b \<noteq> 0) bs then DecommissioningPhase
      else Decommissioned)"
proof -
  have m: "moving bs = 0 \<longleftrightarrow> \<not> list_ex (\<lambda>b. be_SystemDecommissioned b \<and> be_TabletNum b \<noteq> 0) bs"
    by (auto simp: list_ex_iff filter_empty_conv)
  have e: "moving bs = 0 \<and> emptied bs = 0 \<longleftrightarrow> list_all (\<lambda>b. \<not> be_SystemDecommissioned b) bs"
    by (auto simp: list_all_iff filter_empty_conv)
  have mp: "0 \<le> moving bs" by simp
  show ?thesis
    using nodes_partition [of bs] m e mp
    unfolding GetDecommissionPhase_def ConstructDecommissionTaskStatus_def
    by (auto simp: count_nodes_filter Let_def)
qed

text \<open>
  The phase of a decommission, stated on the backends alone: it is acceptable when none
  is marked and more exist than are kept; otherwise, when exactly the kept number is not
  marked, it is running while a marked backend still has tablets and finished when none
  has; in every other case it is unknown. The counters always add up to all backends.
\<close>

theorem decommission_phase_meaning:
  "GetDecommissionPhase (ConstructDecommissionTaskStatus bs keep) =
     (if list_all (\<lambda>b. \<not> be_SystemDecommissioned b) bs \<and> keep < int (length bs) then DecommissionAcceptable
      else if kept bs \<noteq> keep then DecommissionPhaseUnknown
      else if list_ex (\<lambda>b. be_SystemDecommissioned b \<and> be_TabletNum b \<noteq> 0) bs then DecommissioningPhase
      else Decommissioned)"
  by (rule decommission_phase)

section \<open>Which nodes are removed\<close>

lemma backend_ordinal_of_pod:
  assumes "CHR ''.'' \<notin> set stsName" and "0 \<le> k" and "k < 2 ^ 63"
    and "be_Host b = nth_pod_name stsName k @ ''.'' @ domain"
  shows "backend_ordinal b = Inr k"
proof -
  have k: "Itoa k = dec_nat (nat k)" using assms(2) by (simp add: Itoa_def)
  have "hd (Split (be_Host b) ''.'') = nth_pod_name stsName k"
    using assms(1,4) dec_nat_no_sign(3) [of "nat k"] hd_Split [of "CHR ''.''" "nth_pod_name stsName k" domain]
    by (simp add: nth_pod_name_def k)
  moreover have "last (Split (nth_pod_name stsName k) ''-'') = dec_nat (nat k)"
    using last_Split [of "CHR ''-''" "dec_nat (nat k)" stsName] dec_nat_no_sign(1) [of "nat k"]
    by (simp add: nth_pod_name_def k)
  moreover have "Atoi (dec_nat (nat k)) = Some k"
    using Atoi_dec_nat [of "nat k"] assms(2,3) by simp
  ultimately show ?thesis by (simp add: backend_ordinal_def Let_def)
qed

lemma scaled_out_filter:
  assumes "CHR ''.'' \<notin> set stsName"
    and "\<forall>k \<in> set ks. 0 \<le> k \<and> k < 2 ^ 63 \<and> be_Host (node k) = nth_pod_name stsName k @ ''.'' @ domain"
  shows "scaled_out (map node ks) keep = Inr (map node (filter (\<lambda>k. keep \<le> k) ks))"
  using assms(2)
proof (induction ks)
  case (Cons k ks)
  then show ?case using backend_ordinal_of_pod [OF assms(1), of k "node k" domain] by simp
qed simp

text \<open>
  C12. For backends whose hosts are the pods of the group's StatefulSet, the nodes to remove
  are exactly those of ordinal at least the number of kept replicas, in the order the FE
  lists them: no backend of a pod that the StatefulSet keeps is ever dropped or
  decommissioned, and every other one is.
\<close>

theorem removed_nodes_exact:
  assumes "CHR ''.'' \<notin> set stsName"
    and "\<forall>k \<in> set ks. 0 \<le> k \<and> k < 2 ^ 63 \<and> be_Host (node k) = nth_pod_name stsName k @ ''.'' @ domain"
    and "GetBackendsByComputeGroupId K db cgid w = (Inr (map node ks), w')"
  shows "getScaledOutBENode K db cgid keep w = (Inr (map node (filter (\<lambda>k. keep \<le> k) ks)), w')"
  using scaled_out_filter [OF assms(1,2)] assms(3) by (simp add: getScaledOutBENode_def)

definition sample_backend :: "int \<Rightarrow> Backend" where
  "sample_backend k = zero_Backend\<lparr>be_Host := nth_pod_name ''c-g'' k @ ''.'' @ ''svc'',
     be_Tag := [CHR 0x7B, CHR 0x22] @ COMPUTE_GROUP_ID @ [CHR 0x22, CHR '':'', CHR 0x22, CHR 0x22, CHR 0x7D]\<rparr>"

definition sample_backends_world :: world where
  "sample_backends_world = zero_world\<lparr>w_Backends := map sample_backend [0, 1, 2]\<rparr>"

lemma sample_tag:
  "\<exists>m. unmarshal_map (be_Tag (sample_backend k)) = Some m \<and> m COMPUTE_GROUP_ID = Some (JStr '''')"
proof -
  let ?t = "[CHR 0x7B, CHR 0x22] @ COMPUTE_GROUP_ID @ [CHR 0x22, CHR '':'', CHR 0x22, CHR 0x22, CHR 0x7D]"
  have "case_option False (\<lambda>m. m COMPUTE_GROUP_ID = Some (JStr '''')) (unmarshal_map ?t)" by code_simp
  then show ?thesis by (auto simp: sample_backend_def split: option.splits)
qed

lemma sample_group:
  "GetBackendsByComputeGroupId mem_env 0 '''' sample_backends_world =
     (Inr (map sample_backend [0, 1, 2]), sample_backends_world)"
  using sample_tag [of 0] sample_tag [of 1] sample_tag [of 2]
  by (auto simp: GetBackendsByComputeGroupId_def mem_env_def sample_backends_world_def)

lemma removed_nodes_exact_witness:
  "getScaledOutBENode mem_env 0 '''' 2 sample_backends_world = (Inr [sample_backend 2], sample_backends_world)"
proof -
  have "\<forall>k \<in> set [0, 1, 2]. 0 \<le> k \<and> k < 2 ^ 63 \<and>
      be_Host (sample_backend k) = nth_pod_name ''c-g'' k @ ''.'' @ ''svc''"
    by (auto simp: sample_backend_def)
  from removed_nodes_exact [OF _ this sample_group, of 2] show ?thesis by simp
qed

section \<open>Nothing is dropped before its data has moved\<close>

text \<open>\<open>on_drop\<close> replaces what the FE does with a statement that drops backends.\<close>

definition on_drop ::
    "(conn \<Rightarrow> string \<Rightarrow> 'w \<Rightarrow> go_error option \<times> 'w) \<Rightarrow> ('w, 'x) sql_env_scheme \<Rightarrow> ('w, 'x) sql_env_scheme" where
  "on_drop d K = K\<lparr>ExecSql := \<lambda>db q w. if HasPrefix q ''ALTER SYSTEM DROPP'' then d db q w else ExecSql K db q w\<rparr>"

lemma on_drop_fields [frame_simps]:
  "SelectBackends (on_drop d K) = SelectBackends K" "FmtFloat (on_drop d K) = FmtFloat K"
  "JsonErrorText (on_drop d K) = JsonErrorText K"
  by (simp_all add: on_drop_def)

lemma on_drop_group [frame_simps]:
  "GetBackendsByComputeGroupId (on_drop d K) db cgid w = GetBackendsByComputeGroupId K db cgid w"
  unfolding GetBackendsByComputeGroupId_def frame_simps
    filter_by_group_env [of "on_drop d K" K, OF on_drop_fields(2,3)] by (rule refl)

lemma on_drop_decommission [frame_simps]:
  "DecommissionBE (on_drop d K) db nodes w = DecommissionBE K db nodes w"
  by (simp add: DecommissionBE_def on_drop_def HasPrefix_def)



end
