(* ===== verification/Graceful_Machine.thy ===== *)
theory Graceful_Machine
  imports Graceful_Rollout
begin

text \<open>
  The phase handlers of \<^verbatim>\<open>computegroups/graceful_rollout.go\<close> and the reconcile step
  that runs them. A handler takes the action by value and returns the action it leaves
  behind, its error and the next state of the outside world; an error that is a \<open>Panic\<close>
  unwinds every caller. Reads of the clock that only feed a log line are not modelled.
\<close>

type_synonym 'w handler_result = "(GracefulAction \<times> go_error option) \<times> 'w"

section \<open>Clock\<close>

text \<open>\<^verbatim>\<open>StartedAt = now; DeadlineAt = now + secs\<close>.\<close>

definition startTimer ::
    "('w, 'x) kube_env_scheme \<Rightarrow> int \<Rightarrow> GracefulAction \<Rightarrow> 'w \<Rightarrow> GracefulAction \<times> 'w" where
  "startTimer K secs ga w =
     (case Now K w of
        (now, w) \<Rightarrow> (ga\<lparr>ga_StartedAt := now, ga_DeadlineAt := add_seconds now secs\<rparr>, w))"

definition startTimerIfZero ::
    "('w, 'x) kube_env_scheme \<Rightarrow> int \<Rightarrow> GracefulAction \<Rightarrow> 'w \<Rightarrow> GracefulAction \<times> 'w" where
  "startTimerIfZero K secs ga w =
     (if ga_DeadlineAt ga = 0 then startTimer K secs ga w else (ga, w))"

text \<open>\<^verbatim>\<open>time.Now().After(ga.DeadlineAt.Time)\<close>.\<close>

definition afterDeadline ::
    "('w, 'x) kube_env_scheme \<Rightarrow> GracefulAction \<Rightarrow> 'w \<Rightarrow> bool \<times> 'w" where
  "afterDeadline K ga w = (case Now K w of (now, w) \<Rightarrow> (ga_DeadlineAt ga < now, w))"

text \<open>\<^verbatim>\<open>!ga.DeadlineAt.IsZero() && time.Now().After(ga.DeadlineAt.Time)\<close>.\<close>

definition pastSetDeadline ::
    "('w, 'x) kube_env_scheme \<Rightarrow> GracefulAction \<Rightarrow> 'w \<Rightarrow> bool \<times> 'w" where
  "pastSetDeadline K ga w =
     (if ga_DeadlineAt ga = 0 then (False, w) else afterDeadline K ga w)"

section \<open>TriggerDrain\<close>

definition getPod ::
    "('w, 'x) kube_env_scheme \<Rightarrow> string \<Rightarrow> string \<Rightarrow> 'w \<Rightarrow> (go_error + pod) \<times> 'w" where
  "getPod K namespace name w = GetPodObj K namespace name w"

text \<open>
  Picking the pod to drain. \<open>Inl r\<close> is an early return of \<^verbatim>\<open>handleTriggerDrain\<close>,
  \<open>Inr ga\<close> goes on with a pod selected.
\<close>

definition pickCurrentPod ::
    "('w, 'x) rollout_env_scheme \<Rightarrow> ComputeGroupStatus \<Rightarrow> statefulset \<Rightarrow> GracefulAction \<Rightarrow> 'w
     \<Rightarrow> ((GracefulAction \<times> go_error option) + GracefulAction) \<times> 'w" where
  "pickCurrentPod K cgStatus est ga w =
     (if ga_CurrentPod ga \<noteq> '''' then (Inr ga, w)
      else
        (let noTarget = (ga_Type ga = GracefulActionRollingUpdate \<and> ga_TargetRevision ga = '''')
         in if noTarget \<and> (sts_UpdateRevision est = '''' \<or>
                           sts_UpdateRevision est = sts_CurrentRevision est)
            then (Inl (ga\<lparr>ga_LastMessage := ''Waiting for StatefulSet '' @ sts_Namespace est @ ''/'' @
                          sts_Name est @ '' update revision to be ready''\<rparr>, None), w)
            else
              (let ga = (if noTarget then ga\<lparr>ga_TargetRevision := sts_UpdateRevision est\<rparr> else ga)
               in case selectNextPod K cgStatus est ga w of
                    (Inl e, w) \<Rightarrow> (Inl (ga, Some e), w)
                  | (Inr None, w) \<Rightarrow> (Inl (ga\<lparr>ga_Phase := GracefulPhaseDone\<rparr>, None), w)
                  | (Inr (Some (podName, ordinal)), w) \<Rightarrow>
                      (Inr (ga\<lparr>ga_CurrentPod := podName, ga_CurrentOrdinal := ordinal,
                               ga_DrainTriggered := False\<rparr>), w))))"

definition recordInitialPod :: "pod \<Rightarrow> GracefulAction \<Rightarrow> GracefulAction" where
  "recordInitialPod p ga =
     ga\<lparr>ga_InitialRestartCount := getContainerRestartCount p beMainContainerName,
        ga_InitialPodUID := pod_UID p,
        ga_InitialContainerID := getContainerID p beMainContainerName,
        ga_RestartAnomalyDetected := False,
        ga_SentinelWritten := False,
        ga_ReplacementPodUID := '''',
        ga_ReplacementContainerID := '''',
        ga_ReplacementBackendStartTime := '''',
        ga_ReplacementBackendEpoch := '''',
        ga_StableBackendObservations := 0\<rparr>"

text \<open>
  The backend generation before the drain. With no epoch in the backend's status the
  action keeps the epoch it had.
\<close>

definition recordInitialBackend ::
    "('w, 'x) rollout_env_scheme \<Rightarrow> DorisDisaggregatedCluster \<Rightarrow> ComputeGroupStatus \<Rightarrow> GracefulAction \<Rightarrow> 'w
     \<Rightarrow> 'w handler_result" where
  "recordInitialBackend K cluster cgStatus ga w =
     (case getBackendByPodName K cluster cgStatus (ga_CurrentPod ga) w of
        (Inr backend, w) \<Rightarrow>
          (let ga = ga\<lparr>ga_InitialBackendStartTime := backendLastStartTime backend\<rparr>
           in case backendProcessEpoch K backend of
                (epoch, ok) \<Rightarrow>
                  ((if ok then ga\<lparr>ga_InitialBackendEpoch := epoch\<rparr> else ga, None), w))
      | (Inl e, w) \<Rightarrow>
          (if is_panic e then ((ga, Some e), w)
           else ((ga\<lparr>ga_InitialBackendStartTime := '''', ga_InitialBackendEpoch := ''''\<rparr>, None), w)))"

definition sentinelCommand :: "string list" where
  "sentinelCommand = [''sh'', ''-c'',
     ''mkdir -p '' @ gracefulRuntimeMountPath @ '' && touch '' @ beTerminatingSentinelPath]"

text \<open>Sentinel first, then \<^verbatim>\<open>stop_be.sh --grace\<close>; neither failure stops the action.\<close>

definition triggerStop ::
    "('w, 'x) kube_env_scheme \<Rightarrow> DorisDisaggregatedCluster \<Rightarrow> GracefulAction \<Rightarrow> 'w \<Rightarrow> GracefulAction \<times> 'w" where
  "triggerStop K cluster ga w =
     (if ga_DrainTriggered ga then (ga, w)
      else
        (let ns = ddc_Namespace cluster; pn = ga_CurrentPod ga;
             ((_, _, sentinelErr), w) = ExecInPod K ns pn beMainContainerName sentinelCommand w;
             ga = (if sentinelErr = None then ga\<lparr>ga_SentinelWritten := True\<rparr> else ga);
             ((_, _, execErr), w) = ExecInPod K ns pn beMainContainerName stopBEGraceCommand w;
             w = (case execErr of
                    None \<Rightarrow> w
                  | Some e \<Rightarrow> warn K ''GracefulDrainExecFailed''
                      (''Failed to exec stop_be.sh --grace on pod '' @ pn @ '': '' @ error_text e) w);
             ga = ga\<lparr>ga_DrainTriggered := True,
                     ga_LastMessage := ''Drain triggered on pod '' @ pn\<rparr>
         in (ga, notice K ''GracefulDrainStarted'' (''Triggered graceful drain on pod '' @ pn) w)))"

definition drainTimeout :: "pod \<Rightarrow> int" where
  "drainTimeout p =
     (case pod_TerminationGracePeriodSeconds p of
        Some secs \<Rightarrow> secs
      | None \<Rightarrow> DEFAULT_BE_TERMINATION_GRACE_PERIOD_SECONDS)"

definition startDrain ::
    "('w, 'x) rollout_env_scheme \<Rightarrow> DorisDisaggregatedCluster \<Rightarrow> ComputeGroupStatus \<Rightarrow> GracefulAction \<Rightarrow> pod \<Rightarrow> 'w
     \<Rightarrow> 'w handler_result" where
  "startDrain K cluster cgStatus ga p w =
     (case recordInitialBackend K cluster cgStatus (recordInitialPod p ga) w of
        ((ga, Some e), w) \<Rightarrow> ((ga, Some e), w)
      | ((ga, None), w) \<Rightarrow>
          (let (ga, w) = startTimer K (drainTimeout p) ga w;
               (ga, w) = triggerStop K cluster ga w
           in ((ga\<lparr>ga_Phase := GracefulPhaseWaitDrain\<rparr>, None), w)))"

definition handleTriggerDrain ::
    "('w, 'x) rollout_env_scheme \<Rightarrow> DorisDisaggregatedCluster \<Rightarrow> ComputeGroupStatus \<Rightarrow> statefulset
     \<Rightarrow> GracefulAction \<Rightarrow> 'w \<Rightarrow> 'w handler_result" where
  "handleTriggerDrain K cluster cgStatus est ga w =
     (case pickCurrentPod K cgStatus est (refreshRollingUpdateTargetRevision est ga) w of
        (Inl r, w) \<Rightarrow> (r, w)
      | (Inr ga, w) \<Rightarrow>
          (case getPod K (ddc_Namespace cluster) (ga_CurrentPod ga) w of
             (Inl e, w) \<Rightarrow>
               (if IsNotFound e then
                  (if ga_Type ga = GracefulActionRollingUpdate
                   then ((ga\<lparr>ga_Phase := GracefulPhaseWaitPodReady\<rparr>, None), w)
                   else ((advanceToNextPod ga, None), w))
                else
                  ((ga, Some (Wrapped (''failed to get pod '' @ ga_CurrentPod ga @ '': '') e)), w))
           | (Inr p, w) \<Rightarrow> startDrain K cluster cgStatus ga p w))"

section \<open>WaitDrain\<close>

definition handleWaitDrain ::
    "('w, 'x) kube_env_scheme \<Rightarrow> DorisDisaggregatedCluster \<Rightarrow> GracefulAction \<Rightarrow> 'w
     \<Rightarrow> 'w handler_result" where
  "handleWaitDrain K cluster ga w =
     (case getPod K (ddc_Namespace cluster) (ga_CurrentPod ga) w of
        (Inl e, w) \<Rightarrow>
          (if IsNotFound e then
             (if ga_Type ga = GracefulActionRollingUpdate
              then (((resetGracefulPhaseTimer ga)\<lparr>ga_Phase := GracefulPhaseWaitPodReady\<rparr>, None), w)
              else ((advanceToNextPod ga, None), w))
           else ((ga, Some e), w))
      | (Inr p, w) \<Rightarrow>
          (let pn = ga_CurrentPod ga;
               currentRestartCount = getContainerRestartCount p beMainContainerName
           in if isContainerTerminated p beMainContainerName then
                ((ga\<lparr>ga_Phase := GracefulPhaseDeletePod\<rparr>, None),
                 notice K ''GracefulDrainCompleted''
                   (''Graceful drain completed on pod '' @ pn @ '' (container exited)'') w)
              else if currentRestartCount > ga_InitialRestartCount ga then
                ((ga\<lparr>ga_RestartAnomalyDetected := True, ga_Phase := GracefulPhaseDeletePod\<rparr>, None),
                 notice K ''GracefulDrainCompleted''
                   (''Graceful drain completed on pod '' @ pn @
                    '' (container restarted by kubelet, restartCount '' @
                    Itoa (ga_InitialRestartCount ga) @ '' -> '' @ Itoa currentRestartCount @ '')'') w)
              else
                (case afterDeadline K ga w of
                   (True, w) \<Rightarrow>
                     ((ga\<lparr>ga_Phase := GracefulPhaseDeletePod,
                          ga_LastMessage := ''Drain timeout reached for pod '' @ pn\<rparr>, None),
                      warn K ''GracefulDrainTimeout''
                        (''Graceful drain timeout on pod '' @ pn @ '', continuing with deletion'') w)
                 | (False, w) \<Rightarrow>
                     ((ga\<lparr>ga_LastMessage := ''Waiting for BE container to exit on pod '' @ pn @
                          '' (deadline: '' @ FormatTime K (ga_DeadlineAt ga) @ '')''\<rparr>, None), w))))"

section \<open>DeletePod\<close>

text \<open>
  \<^verbatim>\<open>updateStatefulSetReplicas\<close> only logs what the API server answers; its error here is
  the panic of a StatefulSet without replicas.
\<close>

definition updateStatefulSetReplicas ::
    "('w, 'x) kube_env_scheme \<Rightarrow> statefulset \<Rightarrow> int \<Rightarrow> 'w \<Rightarrow> go_error option \<times> 'w" where
  "updateStatefulSetReplicas K est replicas w =
     (case GetSts K (sts_Namespace est) (sts_Name est) w of
        (Inl e, w) \<Rightarrow> (None, w)
      | (Inr current, w) \<Rightarrow>
          (case sts_Replicas current of
             None \<Rightarrow> (Some (Panic ''*current.Spec.Replicas''), w)
           | Some r \<Rightarrow>
               (if r = replicas then (None, w)
                else (None, snd (UpdateSts K (current\<lparr>sts_Replicas := Some replicas\<rparr>) w)))))"

definition afterPodDeleted ::
    "('w, 'x) kube_env_scheme \<Rightarrow> GracefulAction \<Rightarrow> statefulset \<Rightarrow> 'w \<Rightarrow> 'w handler_result" where
  "afterPodDeleted K ga est w =
     (case ga_Type ga of
        GracefulActionRollingUpdate \<Rightarrow>
          (((resetGracefulPhaseTimer ga)\<lparr>ga_Phase := GracefulPhaseWaitPodReady\<rparr>, None), w)
      | GracefulActionScaleDown \<Rightarrow>
          (case updateStatefulSetReplicas K est (ga_CurrentOrdinal ga) w of
             (Some e, w) \<Rightarrow> ((ga, Some e), w)
           | (None, w) \<Rightarrow> ((advanceToNextPod ga, None), w))
      | GracefulActionDelete \<Rightarrow>
          (case updateStatefulSetReplicas K est (ga_CurrentOrdinal ga) w of
             (Some e, w) \<Rightarrow> ((ga, Some e), w)
           | (None, w) \<Rightarrow> ((advanceToNextPod ga, None), w))
      | GracefulActionOther t \<Rightarrow> ((ga, None), w))"

definition handleDeletePod ::
    "('w, 'x) kube_env_scheme \<Rightarrow> DorisDisaggregatedCluster \<Rightarrow> statefulset \<Rightarrow> GracefulAction \<Rightarrow> 'w
     \<Rightarrow> 'w handler_result" where
  "handleDeletePod K cluster est ga w =
     (case getPod K (ddc_Namespace cluster) (ga_CurrentPod ga) w of
        (Inl e, w) \<Rightarrow>
          (if IsNotFound e then afterPodDeleted K ga est w else ((ga, Some e), w))
      | (Inr p, w) \<Rightarrow>
          (case DeletePodObj K p w of
             (Some e, w) \<Rightarrow>
               (if IsNotFound e then afterPodDeleted K ga est w
                else ((ga, Some (Wrapped (''failed to delete pod '' @ ga_CurrentPod ga @ '': '') e)), w))
           | (None, w) \<Rightarrow>
               afterPodDeleted K ga est
                 (notice K ''GracefulPodDeleted''
                    (''Deleted pod '' @ ga_CurrentPod ga @ '' during graceful '' @
                     type_text (ga_Type ga)) w)))"

section \<open>WaitPodReady\<close>

definition waitPodReadyTimeout :: int where
  "waitPodReadyTimeout = waitPodReadyTimeoutFactor * DEFAULT_BE_TERMINATION_GRACE_PERIOD_SECONDS"

text \<open>One poll that did not find the pod created (or ready): past the deadline it is extended.\<close>

definition keepWaiting ::
    "('w, 'x) kube_env_scheme \<Rightarrow> GracefulAction \<Rightarrow> string \<Rightarrow> 'w \<Rightarrow> 'w handler_result" where
  "keepWaiting K ga goal w =
     (let pn = ga_CurrentPod ga;
          late = ''Timed out waiting for replacement pod '' @ pn @ '' to '' @ goal @
                 '', continuing to wait''
      in case afterDeadline K ga w of
           (True, w) \<Rightarrow>
             (let w = warn K ''GracefulReplacementReady'' late w;
                  (ga, w) = startTimer K waitPodReadyTimeout ga w
              in ((ga\<lparr>ga_LastMessage := late\<rparr>, None), w))
         | (False, w) \<Rightarrow>
             ((ga\<lparr>ga_LastMessage := ''Waiting for replacement pod '' @ pn @ '' to '' @ goal\<rparr>, None), w))"

definition handleWaitPodReady ::
    "('w, 'x) kube_env_scheme \<Rightarrow> DorisDisaggregatedCluster \<Rightarrow> GracefulAction \<Rightarrow> 'w
     \<Rightarrow> 'w handler_result" where
  "handleWaitPodReady K cluster ga w =
     (case startTimerIfZero K waitPodReadyTimeout ga w of (ga, w) \<Rightarrow>
      (case getPod K (ddc_Namespace cluster) (ga_CurrentPod ga) w of
         (Inl e, w) \<Rightarrow>
           (if IsNotFound e then keepWaiting K ga ''be created'' w else ((ga, Some e), w))
       | (Inr p, w) \<Rightarrow>
           (if PodIsReady p then
              (let ga = ga\<lparr>ga_ReplacementPodUID := pod_UID p,
                           ga_ReplacementContainerID := getContainerID p beMainContainerName\<rparr>
               in (((resetGracefulPhaseTimer ga)\<lparr>ga_Phase := GracefulPhaseWaitBEAlive\<rparr>, None),
                   notice K ''GracefulReplacementReady''
                     (''Replacement pod '' @ ga_CurrentPod ga @ '' is ready'') w))
            else keepWaiting K ga ''become ready'' w)))"

section \<open>WaitBEAlive\<close>

definition waitBEAliveTimeout :: int where
  "waitBEAliveTimeout = waitBEAliveTimeoutFactor * DEFAULT_BE_TERMINATION_GRACE_PERIOD_SECONDS"

text \<open>
  Past the deadline the rollout moves on; the message set just before is cleared with the
  rest of the pod's state by \<^verbatim>\<open>advanceToNextPod\<close>.
\<close>

definition waitOrForce ::
    "('w, 'x) kube_env_scheme \<Rightarrow> GracefulAction \<Rightarrow> string \<Rightarrow> string \<Rightarrow> 'w \<Rightarrow> 'w handler_result" where
  "waitOrForce K ga late waiting w =
     (case pastSetDeadline K ga w of
        (True, w) \<Rightarrow> ((advanceToNextPod (ga\<lparr>ga_LastMessage := late\<rparr>), None), w)
      | (False, w) \<Rightarrow> ((ga\<lparr>ga_LastMessage := waiting\<rparr>, None), w))"

definition acceptStartTime :: "GracefulAction \<Rightarrow> string \<Rightarrow> bool" where
  "acceptStartTime ga currentStartTime =
     (currentStartTime \<noteq> '''' \<and> currentStartTime \<noteq> ga_InitialBackendStartTime ga)"

definition acceptEpoch :: "GracefulAction \<Rightarrow> string \<times> bool \<Rightarrow> bool" where
  "acceptEpoch ga ep =
     (if ga_InitialBackendEpoch ga \<noteq> '''' \<and> snd ep
      then fst ep \<noteq> ga_InitialBackendEpoch ga else True)"

definition observeGeneration :: "GracefulAction \<Rightarrow> string \<Rightarrow> string \<Rightarrow> GracefulAction" where
  "observeGeneration ga currentStartTime currentEpoch =
     (if ga_ReplacementBackendStartTime ga \<noteq> currentStartTime \<or>
         ga_ReplacementBackendEpoch ga \<noteq> currentEpoch
      then ga\<lparr>ga_ReplacementBackendStartTime := currentStartTime,
              ga_ReplacementBackendEpoch := currentEpoch,
              ga_StableBackendObservations := 1\<rparr>
      else ga\<lparr>ga_StableBackendObservations := wrap32 (ga_StableBackendObservations ga + 1)\<rparr>)"

definition observeBackend ::
    "('w, 'x) rollout_env_scheme \<Rightarrow> GracefulAction \<Rightarrow> Backend \<Rightarrow> bool \<Rightarrow> 'w \<Rightarrow> 'w handler_result" where
  "observeBackend K ga backend shutdown w =
     (let pn = ga_CurrentPod ga;
          currentStartTime = backendLastStartTime backend;
          (currentEpoch, currentEpochKnown) = backendProcessEpoch K backend;
          seen = (\<lambda>which. ''(alive='' @ fmt_bool (be_Alive backend) @ '' shutdown='' @ fmt_bool shutdown @
                  '' oldStartTime='' @ ga_InitialBackendStartTime ga @ '' '' @ which @ ''StartTime='' @
                  currentStartTime @ '' oldEpoch='' @ ga_InitialBackendEpoch ga @ '' '' @ which @
                  ''Epoch='' @ currentEpoch);
          failures = '' heartbeatFailures='' @ Itoa (be_HeartbeatFailureCounter backend) @ '' err='' @
                     be_ErrMsg backend @ '')''
      in if be_Alive backend \<and> \<not> shutdown \<and> acceptStartTime ga currentStartTime \<and>
            acceptEpoch ga (currentEpoch, currentEpochKnown) then
           (let ga = observeGeneration ga currentStartTime currentEpoch
            in if ga_StableBackendObservations ga \<ge> requiredStableBackendObservations then
                 ((advanceToNextPod ga, None),
                  notice K ''GracefulReplacementReady''
                    (''Backend '' @ pn @ '' is alive in FE with new generation'') w)
               else
                 ((ga\<lparr>ga_LastMessage := ''Waiting for backend '' @ pn @
                      '' new generation to stabilize in FE '' @ seen ''new'' @
                      '' stableObservations='' @ Itoa (ga_StableBackendObservations ga) @ ''/'' @
                      Itoa requiredStableBackendObservations @ '')''\<rparr>, None), w))
         else
           waitOrForce K ga
             (''Timed out waiting for backend '' @ pn @ '' to become alive in FE (alive='' @
              fmt_bool (be_Alive backend) @ '' shutdown='' @ fmt_bool shutdown @ failures @
              '', forcing advance'')
             (''Waiting for backend '' @ pn @ '' to become alive in FE with new generation '' @
              seen ''current'' @ failures) w)"

definition handleWaitBEAlive ::
    "('w, 'x) rollout_env_scheme \<Rightarrow> DorisDisaggregatedCluster \<Rightarrow> ComputeGroupStatus \<Rightarrow> GracefulAction \<Rightarrow> 'w
     \<Rightarrow> 'w handler_result" where
  "handleWaitBEAlive K cluster cgStatus ga w =
     (case startTimerIfZero K waitBEAliveTimeout ga w of (ga, w) \<Rightarrow>
      (let pn = ga_CurrentPod ga
       in case getBackendByPodName K cluster cgStatus pn w of
            (Inl e, w) \<Rightarrow>
              (if is_panic e then ((ga, Some e), w)
               else waitOrForce K ga
                 (''Timed out waiting for backend '' @ pn @ '' to appear in FE, forcing advance'')
                 (''Waiting for backend '' @ pn @ '' to appear in FE: '' @ error_text e) w)
          | (Inr backend, w) \<Rightarrow>
              (case backendIsShutdown K backend of
                 Inl e \<Rightarrow>
                   waitOrForce K ga
                     (''Timed out waiting for backend '' @ pn @
                      '' status to become parseable, forcing advance'')
                     (''Waiting for backend '' @ pn @ '' status to be parseable: '' @ error_text e) w
               | Inr shutdown \<Rightarrow> observeBackend K ga backend shutdown w)))"

section \<open>The machine\<close>

definition runGracefulStateMachine ::
    "('w, 'x) rollout_env_scheme \<Rightarrow> DorisDisaggregatedCluster \<Rightarrow> ComputeGroupStatus \<Rightarrow> statefulset
     \<Rightarrow> GracefulAction \<Rightarrow> 'w \<Rightarrow> 'w handler_result" where
  "runGracefulStateMachine K cluster cgStatus est ga w =
     (case ga_Phase ga of
        GracefulPhaseTriggerDrain \<Rightarrow> handleTriggerDrain K cluster cgStatus est ga w
      | GracefulPhaseWaitDrain \<Rightarrow> handleWaitDrain K cluster ga w
      | GracefulPhaseDeletePod \<Rightarrow> handleDeletePod K cluster est ga w
      | GracefulPhaseWaitPodReady \<Rightarrow> handleWaitPodReady K cluster ga w
      | GracefulPhaseWaitBEAlive \<Rightarrow> handleWaitBEAlive K cluster cgStatus ga w
      | GracefulPhaseDone \<Rightarrow> ((ga, None), w)
      | GracefulPhaseFailed \<Rightarrow> ((ga, None), w)
      | GracefulPhaseOther p \<Rightarrow>
          ((ga, Some (ErrorString (''unknown graceful action phase: '' @ p))), w))"

definition shouldFinalizeGracefulAction ::
    "('w, 'x) rollout_env_scheme \<Rightarrow> statefulset \<Rightarrow> GracefulAction \<Rightarrow> 'w \<Rightarrow> bool \<times> 'w" where
  "shouldFinalizeGracefulAction K est ga w =
     (if ga_Type ga = GracefulActionRollingUpdate
      then (case selectNextRollingUpdatePod K est ga w of (r, w) \<Rightarrow> (r = None, w))
      else (True, w))"

text \<open>
  \<^verbatim>\<open>%q\<close> of a byte string: \<^verbatim>\<open>strconv.Quote\<close> on ASCII; longer UTF-8 sequences are
  kept as they are, which is what it does for printable runes.
\<close>

definition hex_char :: "nat \<Rightarrow> char" where
  "hex_char d = char_of (if d < 10 then 48 + d else 87 + d)"

definition quote_char :: "char \<Rightarrow> string" where
  "quote_char c =
     (let n = of_char c :: nat; bs = CHR 0x5C
      in if n = 34 \<or> n = 92 then [bs, c]
         else if n = 7 then [bs, CHR ''a''] else if n = 8 then [bs, CHR ''b'']
         else if n = 9 then [bs, CHR ''t''] else if n = 10 then [bs, CHR ''n'']
         else if n = 11 then [bs, CHR ''v''] else if n = 12 then [bs, CHR ''f'']
         else if n = 13 then [bs, CHR ''r'']
         else if n < 32 \<or> n = 127 then [bs, CHR ''x'', hex_char (n div 16), hex_char (n mod 16)]
         else [c])"

definition fmt_q :: "string \<Rightarrow> string" where
  "fmt_q s = [CHR 0x22] @ concat (map quote_char s) @ [CHR 0x22]"

definition sentinelProbe :: "string list" where
  "sentinelProbe = [''sh'', ''-c'',
     [CHR 0x0A] @ ''test -f /opt/apache-doris/be_disaggregated_entrypoint.sh &&'' @
     [CHR 0x0A] @ ''grep -q '' @ [CHR 0x22] @ ''TERMINATING_SENTINEL_PATH'' @ [CHR 0x22] @
     '' /opt/apache-doris/be_disaggregated_entrypoint.sh &&'' @
     [CHR 0x0A] @ ''grep -q '' @ [CHR 0x22] @ ''exit_if_terminating_sentinel_exists'' @ [CHR 0x22] @
     '' /opt/apache-doris/be_disaggregated_entrypoint.sh'' @ [CHR 0x0A]]"

text \<open>The left value is the panic of \<^verbatim>\<open>selectNextPod\<close>; the right one is (supported, reason).\<close>

definition supportsTerminatingSentinel ::
    "('w, 'x) rollout_env_scheme \<Rightarrow> DorisDisaggregatedCluster \<Rightarrow> ComputeGroupStatus \<Rightarrow> statefulset
     \<Rightarrow> GracefulAction \<Rightarrow> 'w \<Rightarrow> (go_error + bool \<times> string) \<times> 'w" where
  "supportsTerminatingSentinel K cluster cgStatus est ga w =
     (case selectNextPod K cgStatus est ga w of
        (Inl e, w) \<Rightarrow> (Inl e, w)
      | (Inr None, w) \<Rightarrow> (Inr (True, ''no pod needs graceful action''), w)
      | (Inr (Some (podName, _)), w) \<Rightarrow>
          (case ExecInPod K (ddc_Namespace cluster) podName beMainContainerName sentinelProbe w of
             ((out, errs, Some e), w) \<Rightarrow>
               (Inr (False, ''pod '' @ podName @ '' image does not support terminating sentinel, stdout='' @
                   fmt_q out @ '' stderr='' @ fmt_q errs @ '' err='' @ error_text e), w)
           | ((_, _, None), w) \<Rightarrow> (Inr (True, ''''), w)))"

section \<open>Detecting and reconciling an action\<close>

definition newAction :: "GracefulActionType \<Rightarrow> GracefulAction" where
  "newAction t = zero_GracefulAction\<lparr>ga_Type := t, ga_Phase := GracefulPhaseTriggerDrain\<rparr>"

definition detectGracefulAction ::
    "('w, 'x) rollout_env_scheme \<Rightarrow> statefulset \<Rightarrow> statefulset \<Rightarrow> 'w
     \<Rightarrow> (go_error + GracefulAction option) \<times> 'w" where
  "detectGracefulAction K st est w =
     (case (sts_Replicas st, sts_Replicas est) of
        (Some desired, Some current) \<Rightarrow>
          (if desired < current then
             (Inr (Some ((newAction GracefulActionScaleDown)\<lparr>ga_DesiredReplicas := Some desired\<rparr>)), w)
           else if statefulSetSpecChanged K st est then
             (Inr (Some (newAction GracefulActionRollingUpdate)), w)
           else if sts_UpdateRevision est \<noteq> '''' \<and> sts_UpdateRevision est \<noteq> sts_CurrentRevision est then
             (let recoverAction =
                    (newAction GracefulActionRollingUpdate)\<lparr>ga_TargetRevision := sts_UpdateRevision est\<rparr>
              in case selectNextRollingUpdatePod K est recoverAction w of
                   (Some _, w) \<Rightarrow> (Inr (Some recoverAction), w)
                 | (None, w) \<Rightarrow> (Inr None, w))
           else (Inr None, w))
      | _ \<Rightarrow> (Inl (Panic ''*Spec.Replicas''), w))"

fun gracefulPhaseOf :: "GracefulActionType \<Rightarrow> Phase \<Rightarrow> Phase" where
  "gracefulPhaseOf GracefulActionRollingUpdate p = GracefulRolling"
| "gracefulPhaseOf GracefulActionScaleDown p = GracefulScaling"
| "gracefulPhaseOf GracefulActionDelete p = GracefulDeleting"
| "gracefulPhaseOf (GracefulActionOther t) p = p"

text \<open>
  \<^verbatim>\<open>gracefulRolloutReconcile\<close> writes through its pointers to the desired StatefulSet and
  to the status of the compute group; the result carries both, then (skipApply, err).
\<close>

type_synonym 'w reconcile_result = "(statefulset \<times> ComputeGroupStatus \<times> bool \<times> go_error option) \<times> 'w"

definition startGracefulAction ::
    "('w, 'x) rollout_env_scheme \<Rightarrow> statefulset \<Rightarrow> statefulset \<Rightarrow> DorisDisaggregatedCluster \<Rightarrow> compute_group
     \<Rightarrow> ComputeGroupStatus \<Rightarrow> GracefulAction \<Rightarrow> 'w \<Rightarrow> 'w reconcile_result" where
  "startGracefulAction K st est cluster cg cgStatus action w =
     (case supportsTerminatingSentinel K cluster cgStatus est action w of
        (Inl e, w) \<Rightarrow> ((st, cgStatus, True, Some e), w)
      | (Inr (False, reason), w) \<Rightarrow>
          ((st, cgStatus, False, None),
           warn K ''GracefulActionDisabled''
             (''Graceful '' @ type_text (ga_Type action) @ '' disabled for compute group '' @
              cg_UniqueId cg @ '': '' @ reason) w)
      | (Inr (True, _), w) \<Rightarrow>
          ((setGracefulAction K (prepareGracefulStatefulSet st est action) action,
            cgStatus\<lparr>cgs_Phase := gracefulPhaseOf (ga_Type action) (cgs_Phase cgStatus)\<rparr>, True, None),
           notice K ''GracefulDrainStarted''
             (''Starting graceful '' @ type_text (ga_Type action) @ '' for compute group '' @
              cg_UniqueId cg) w))"

text \<open>What follows a step of the machine that left the action in phase Done.\<close>

definition finishGracefulAction ::
    "('w, 'x) rollout_env_scheme \<Rightarrow> statefulset \<Rightarrow> statefulset \<Rightarrow> compute_group
     \<Rightarrow> ComputeGroupStatus \<Rightarrow> GracefulAction \<Rightarrow> 'w \<Rightarrow> 'w reconcile_result" where
  "finishGracefulAction K st est cg cgStatus ga w =
     (case shouldFinalizeGracefulAction K est ga w of
        (False, w) \<Rightarrow>
          (let ga = ga\<lparr>ga_LastMessage := ''Waiting for StatefulSet '' @ sts_Namespace est @ ''/'' @
                 sts_Name est @ '' outdated pods to be fully drained before finalizing graceful action (currentRevision='' @
                 sts_CurrentRevision est @ '' updateRevision='' @ sts_UpdateRevision est @ '')''\<rparr>
           in ((setGracefulAction K (prepareGracefulStatefulSet st est ga) ga, cgStatus, True, None), w))
      | (True, w) \<Rightarrow>
          (let w = notice K ''GracefulActionCompleted''
                 (''Graceful '' @ type_text (ga_Type ga) @ '' completed for compute group '' @
                  cg_UniqueId cg) w;
               cgStatus = cgStatus\<lparr>cgs_Phase := Reconciling\<rparr>
           in case finalizeGracefulAction K st w of
                ((st, Some e), w) \<Rightarrow> ((st, cgStatus, True, Some e), w)
              | ((st, None), w) \<Rightarrow> ((st, cgStatus, False, None), w)))"

definition continueGracefulAction ::
    "('w, 'x) rollout_env_scheme \<Rightarrow> statefulset \<Rightarrow> statefulset \<Rightarrow> DorisDisaggregatedCluster \<Rightarrow> compute_group
     \<Rightarrow> ComputeGroupStatus \<Rightarrow> GracefulAction \<Rightarrow> 'w \<Rightarrow> 'w reconcile_result" where
  "continueGracefulAction K st est cluster cg cgStatus ga w =
     (let cgStatus = cgStatus\<lparr>cgs_Phase := gracefulPhaseOf (ga_Type ga) (cgs_Phase cgStatus)\<rparr>;
          ga = refreshRollingUpdateTargetRevision est ga
      in case runGracefulStateMachine K cluster cgStatus est ga w of
           ((ga, Some e), w) \<Rightarrow> ((st, cgStatus, True, Some e), w)
         | ((ga, None), w) \<Rightarrow>
             (if ga_Phase ga = GracefulPhaseDone
              then finishGracefulAction K st est cg cgStatus ga w
              else ((setGracefulAction K (prepareGracefulStatefulSet st est ga) ga,
                     cgStatus, True, None), w)))"

text \<open>The stored action, unless the detected one outranks it.\<close>

definition chooseAction :: "GracefulAction option \<Rightarrow> GracefulAction \<Rightarrow> GracefulAction" where
  "chooseAction action stored =
     (case action of
        None \<Rightarrow> stored
      | Some a \<Rightarrow>
          (if ga_Type a \<noteq> ga_Type stored \<and>
              gracefulActionPriority (ga_Type a) > gracefulActionPriority (ga_Type stored)
           then a else stored))"

definition gracefulRolloutReconcile ::
    "('w, 'x) rollout_env_scheme \<Rightarrow> statefulset \<Rightarrow> statefulset \<Rightarrow> DorisDisaggregatedCluster \<Rightarrow> compute_group
     \<Rightarrow> ComputeGroupStatus \<Rightarrow> 'w \<Rightarrow> 'w reconcile_result" where
  "gracefulRolloutReconcile K st est cluster cg cgStatus w =
     (let cgStatus = cgStatus\<lparr>cgs_GracefulAction := None\<rparr>
      in case detectGracefulAction K st est w of
           (Inl e, w) \<Rightarrow> ((st, cgStatus, True, Some e), w)
         | (Inr action, w) \<Rightarrow>
             (case getGracefulAction K est of
                Inl e \<Rightarrow> ((st, cgStatus, True, Some e), w)
              | Inr None \<Rightarrow>
                  (case action of
                     None \<Rightarrow> ((st, cgStatus, False, None), w)
                   | Some a \<Rightarrow> startGracefulAction K st est cluster cg cgStatus a w)
              | Inr (Some stored) \<Rightarrow>
                  continueGracefulAction K st est cluster cg cgStatus (chooseAction action stored) w))"

end
