(* ===== verification/Disagg_Services.thy ===== *)
theory Disagg_Services
  imports Disagg_Sub
begin

text \<open>
  The services of the disaggregated components: ports, labels and selectors
  (\<^verbatim>\<open>resource/service.go\<close>, the \<^verbatim>\<open>service.go\<close> of the meta service, the FE and the
  compute groups), the comparison through a hash annotation, and the reconcile, with the
  replacement of a service that is not headless.
\<close>

section \<open>Ports\<close>

definition HTTP_PORT :: string where "HTTP_PORT = ''http_port''"
definition RPC_PORT :: string where "RPC_PORT = ''rpc_port''"
definition EDIT_LOG_PORT :: string where "EDIT_LOG_PORT = ''edit_log_port''"
definition BE_PORT :: string where "BE_PORT = ''be_port''"
definition WEBSERVER_PORT :: string where "WEBSERVER_PORT = ''webserver_port''"
definition HEARTBEAT_SERVICE_PORT :: string where "HEARTBEAT_SERVICE_PORT = ''heartbeat_service_port''"
definition BRPC_PORT :: string where "BRPC_PORT = ''brpc_port''"
definition ARROW_FLIGHT_SQL_PORT :: string where "ARROW_FLIGHT_SQL_PORT = ''arrow_flight_sql_port''"
definition BRPC_LISTEN_PORT :: string where "BRPC_LISTEN_PORT = ''brpc_listen_port''"
definition BROKER_IPC_PORT :: string where "BROKER_IPC_PORT = ''broker_ipc_port''"

definition GetPortKey :: "string \<Rightarrow> string" where
  "GetPortKey configKey =
     (if configKey \<in> {BE_PORT, WEBSERVER_PORT, BRPC_PORT, HTTP_PORT, QUERY_PORT, RPC_PORT, EDIT_LOG_PORT,
                      BROKER_IPC_PORT} then ReplaceAll configKey (CHR ''_'') (CHR ''-'')
      else if configKey = HEARTBEAT_SERVICE_PORT then ''heartbeat-port''
      else if configKey = BRPC_LISTEN_PORT then ''brpc-port''
      else if configKey = ARROW_FLIGHT_SQL_PORT then ''arrow-flight''
      else '''')"

definition service_port_of :: "conf \<Rightarrow> string \<Rightarrow> go_error + service_port" where
  "service_port_of config key =
     bindE (GetPort config key) (\<lambda>port.
       Inr \<lparr>sp_Name = GetPortKey key, sp_Port = port, sp_TargetPort = port, sp_NodePort = 0\<rparr>)"

fun service_ports_of :: "conf \<Rightarrow> string list \<Rightarrow> go_error + service_port list" where
  "service_ports_of config [] = Inr []"
| "service_ports_of config (key # keys) =
     bindE (service_port_of config key) (\<lambda>p. bindE (service_ports_of config keys) (\<lambda>ps. Inr (p # ps)))"

text \<open>The Arrow Flight port is published only when it is configured.\<close>

definition with_arrow_flight :: "conf \<Rightarrow> string list \<Rightarrow> go_error + service_port list" where
  "with_arrow_flight config keys =
     bindE (service_ports_of config keys) (\<lambda>ports.
     bindE (service_port_of config ARROW_FLIGHT_SQL_PORT) (\<lambda>arrow.
       Inr (if sp_Port arrow \<noteq> - 1 then ports @ [arrow] else ports)))"

text \<open>
  The node ports of an exported service of type NodePort: for every port the last port map
  with its number.
\<close>

definition NodePort :: string where "NodePort = ''NodePort''"
definition LoadBalancer :: string where "LoadBalancer = ''LoadBalancer''"
definition AffinityClientIP :: string where "AffinityClientIP = ''ClientIP''"
definition AffinityNone :: string where "AffinityNone = ''None''"

definition node_port :: "port_map list \<Rightarrow> service_port \<Rightarrow> service_port" where
  "node_port pms p =
     foldl (\<lambda>p m. if sp_Port p = pm_TargetPort m then p\<lparr>sp_NodePort := pm_NodePort m\<rparr> else p) p pms"

definition map_node_ports :: "export_service option \<Rightarrow> service_port list \<Rightarrow> service_port list" where
  "map_node_ports svcConf ports =
     (case svcConf of
        None \<Rightarrow> ports
      | Some s \<Rightarrow> if es_Type s \<noteq> NodePort then ports else map (node_port (es_PortMaps s)) ports)"

definition newMSServicePorts :: "conf \<Rightarrow> export_service option \<Rightarrow> go_error + service_port list" where
  "newMSServicePorts config svcConf =
     bindE (service_ports_of config [BRPC_LISTEN_PORT]) (\<lambda>ports. Inr (map_node_ports svcConf ports))"

definition newFEServicePorts :: "conf \<Rightarrow> export_service option \<Rightarrow> go_error + service_port list" where
  "newFEServicePorts config svcConf =
     bindE (with_arrow_flight config [HTTP_PORT, RPC_PORT, QUERY_PORT, EDIT_LOG_PORT])
       (\<lambda>ports. Inr (map_node_ports svcConf ports))"

definition newComputeServicePorts :: "conf \<Rightarrow> export_service option \<Rightarrow> go_error + service_port list" where
  "newComputeServicePorts cvs svcConf =
     bindE (with_arrow_flight cvs [BE_PORT, WEBSERVER_PORT, HEARTBEAT_SERVICE_PORT, BRPC_PORT])
       (\<lambda>ports. Inr (map_node_ports svcConf ports))"

section \<open>Labels and selectors\<close>

definition ServiceRoleForCluster :: string where "ServiceRoleForCluster = ''app.doris.service/role''"
definition Service_Role_Internal :: string where "Service_Role_Internal = ''internal''"

definition newMSPodsSelector :: "string \<Rightarrow> string_map" where
  "newMSPodsSelector ddcName =
     [DorisDisaggregatedClusterName \<mapsto> ddcName, DorisDisaggregatedPodType \<mapsto> ''ms'',
      DorisDisaggregatedOwnerReference \<mapsto> ddcName]"

definition newMSSchedulerLabels :: "string \<Rightarrow> string_map" where
  "newMSSchedulerLabels ddcName =
     [DorisDisaggregatedClusterName \<mapsto> ddcName, DorisDisaggregatedPodType \<mapsto> ''ms'']"

definition newFEPodsSelector :: "string \<Rightarrow> string_map" where
  "newFEPodsSelector ddcName =
     [DorisDisaggregatedClusterName \<mapsto> ddcName, DorisDisaggregatedPodType \<mapsto> ''fe'',
      DorisDisaggregatedOwnerReference \<mapsto> ddcName]"

definition newFESchedulerLabels :: "string \<Rightarrow> string_map" where
  "newFESchedulerLabels ddcName =
     [DorisDisaggregatedClusterName \<mapsto> ddcName, DorisDisaggregatedPodType \<mapsto> ''fe'']"

definition generateInternalServiceLabels :: "DorisDisaggregatedCluster \<Rightarrow> string_map" where
  "generateInternalServiceLabels ddc =
     (newFESchedulerLabels (ddc_Name ddc))(ServiceRoleForCluster \<mapsto> Service_Role_Internal)"

definition GetCG2LayerCommonSchedulerLabels :: "string \<Rightarrow> string_map" where
  "GetCG2LayerCommonSchedulerLabels ddcName =
     [DorisDisaggregatedClusterName \<mapsto> ddcName, DorisDisaggregatedOwnerReference \<mapsto> ddcName]"

definition newCG2LayerSchedulerLabels :: "string \<Rightarrow> string \<Rightarrow> string_map" where
  "newCG2LayerSchedulerLabels ddcName uniqueId =
     (GetCG2LayerCommonSchedulerLabels ddcName)(DorisDisaggregatedComputeGroupUniqueId \<mapsto> uniqueId)"

section \<open>Services\<close>

definition owner_of :: "DorisDisaggregatedCluster \<Rightarrow> owner_ref" where
  "owner_of ddc = \<lparr>or_Name = ddc_Name ddc, or_UID = ddc_UID ddc\<rparr>"

definition NewDefaultService :: "DorisDisaggregatedCluster \<Rightarrow> service" where
  "NewDefaultService ddc =
     zero_service\<lparr>svc_Namespace := ddc_Namespace ddc, svc_OwnerReferences := [owner_of ddc],
       svc_SessionAffinity := AffinityClientIP\<rparr>"

text \<open>The type and the annotations that the user gives an exported service.\<close>

definition export_to :: "export_service option \<Rightarrow> service \<Rightarrow> service" where
  "export_to svcConf svc =
     (case svcConf of
        None \<Rightarrow> svc
      | Some s \<Rightarrow> svc\<lparr>svc_Type := (if es_Type s \<noteq> '''' then es_Type s else svc_Type svc),
                    svc_Annotations := es_Annotations s\<rparr>)"

text \<open>
  The meta service assigns a new \<^verbatim>\<open>ServiceSpec\<close>, which drops the session affinity of
  the default service.
\<close>

definition newMSService :: "DorisDisaggregatedCluster \<Rightarrow> conf \<Rightarrow> go_error + service" where
  "newMSService ddc confMap =
     (let exportService = cms_Service (ms_CommonSpec (spec_MetaService (ddc_Spec ddc)))
      in bindE (newMSServicePorts confMap exportService) (\<lambda>ports.
           let svc = (NewDefaultService ddc)\<lparr>svc_Name := GetMSServiceName ddc,
                        svc_Labels := newMSSchedulerLabels (ddc_Name ddc),
                        svc_SessionAffinity := '''', svc_Selector := newMSPodsSelector (ddc_Name ddc),
                        svc_Ports := ports\<rparr>;
               svc = (case exportService of
                        None \<Rightarrow> svc
                      | Some s \<Rightarrow> if es_Type s = LoadBalancer then svc\<lparr>svc_SessionAffinity := AffinityNone\<rparr> else svc)
           in Inr (export_to exportService svc)))"

definition newFEService :: "DorisDisaggregatedCluster \<Rightarrow> conf \<Rightarrow> go_error + service" where
  "newFEService ddc cvs =
     (let ddcService = cms_Service (fes_CommonSpec (spec_FeSpec (ddc_Spec ddc)))
      in bindE (newFEServicePorts cvs ddcService) (\<lambda>ports.
           let svc = export_to ddcService ((NewDefaultService ddc)\<lparr>svc_Name := GetFEServiceName ddc,
                        svc_Labels := newFESchedulerLabels (ddc_Name ddc),
                        svc_Selector := newFEPodsSelector (ddc_Name ddc), svc_Ports := ports\<rparr>)
           in Inr (if svc_Type svc = LoadBalancer then svc\<lparr>svc_SessionAffinity := AffinityNone\<rparr> else svc)))"

definition newFEInternalService :: "DorisDisaggregatedCluster \<Rightarrow> conf \<Rightarrow> go_error + service" where
  "newFEInternalService ddc cvs =
     bindE (service_port_of cvs QUERY_PORT) (\<lambda>port.
       Inr (zero_service\<lparr>svc_Name := GetFEInternalServiceName ddc, svc_Namespace := ddc_Namespace ddc,
              svc_Labels := generateInternalServiceLabels ddc, svc_OwnerReferences := [owner_of ddc],
              svc_ClusterIP := ''None'', svc_Ports := [port],
              svc_Selector := newFEPodsSelector (ddc_Name ddc), svc_PublishNotReadyAddresses := True\<rparr>))"

definition newCGPodsSelector :: "string \<Rightarrow> string \<Rightarrow> string_map" where
  "newCGPodsSelector ddcName uniqueId =
     [DorisDisaggregatedClusterName \<mapsto> ddcName, DorisDisaggregatedComputeGroupUniqueId \<mapsto> uniqueId,
      DorisDisaggregatedPodType \<mapsto> ''compute'']"

definition newCGInternalService ::
    "DorisDisaggregatedCluster \<Rightarrow> compute_group \<Rightarrow> conf \<Rightarrow> go_error + service" where
  "newCGInternalService ddc cg cvs =
     bindE (service_port_of cvs HEARTBEAT_SERVICE_PORT) (\<lambda>port.
       Inr (zero_service\<lparr>svc_Name := GetCGServiceName ddc cg, svc_Namespace := ddc_Namespace ddc,
              svc_Labels := (newCG2LayerSchedulerLabels (ddc_Name ddc) (cg_UniqueId cg))
                (ServiceRoleForCluster \<mapsto> Service_Role_Internal),
              svc_OwnerReferences := [owner_of ddc], svc_ClusterIP := ''None'', svc_Ports := [port],
              svc_Selector := newCGPodsSelector (ddc_Name ddc) (cg_UniqueId cg),
              svc_PublishNotReadyAddresses := True\<rparr>))"

definition newExternalService ::
    "DorisDisaggregatedCluster \<Rightarrow> compute_group \<Rightarrow> conf \<Rightarrow> go_error + service" where
  "newExternalService ddc cg cvs =
     (let svcConf = cms_Service (cg_CommonSpec cg)
      in bindE (newComputeServicePorts cvs svcConf) (\<lambda>sps.
           let svc = export_to svcConf ((NewDefaultService ddc)\<lparr>svc_Name := GetCGExternalServiceName ddc cg,
                        svc_Labels := newCG2LayerSchedulerLabels (ddc_Name ddc) (cg_UniqueId cg),
                        svc_Selector := newCGPodsSelector (ddc_Name ddc) (cg_UniqueId cg), svc_Ports := sps\<rparr>)
           in Inr (if svc_Type svc = LoadBalancer then svc\<lparr>svc_SessionAffinity := AffinityNone\<rparr> else svc)))"

section \<open>Comparison and reconcile\<close>

definition serviceHashObject :: "service \<Rightarrow> string \<Rightarrow> hashService" where
  "serviceHashObject svc avoidAnnoKey =
     \<lparr>hsv_name = svc_Name svc, hsv_namespace = svc_Namespace svc, hsv_ports = svc_Ports svc,
      hsv_selector = svc_Selector svc, hsv_serviceType = svc_Type svc, hsv_labels = svc_Labels svc,
      hsv_annotations = (svc_Annotations svc)(avoidAnnoKey := None)\<rparr>"

definition service_hash :: "('w, 'x) hash_env_scheme \<Rightarrow> service \<Rightarrow> string \<Rightarrow> string" where
  "service_hash K svc annoKey =
     (case svc_Annotations svc annoKey of
        Some h \<Rightarrow> h
      | None \<Rightarrow> hash_text (SpewService K (serviceHashObject svc annoKey)))"

text \<open>
  \<^verbatim>\<open>mergeMaps\<close> writes the annotations of the service into the fresh map that holds the
  hash, so an annotation of the same key would win.
\<close>

definition ServiceDeepEqualWithAnnoKey ::
    "('w, 'x) hash_env_scheme \<Rightarrow> string \<Rightarrow> service \<Rightarrow> service \<Rightarrow> bool \<times> service" where
  "ServiceDeepEqualWithAnnoKey K annoKey nsvc osvc =
     (let annoKey = (if annoKey = '''' then ComponentResourceHash else annoKey);
          newHashValue = service_hash K nsvc annoKey;
          oldHashValue = service_hash K osvc annoKey
      in (newHashValue = oldHashValue \<and> svc_Namespace nsvc = svc_Namespace osvc,
          nsvc\<lparr>svc_Annotations := [annoKey \<mapsto> newHashValue] ++ svc_Annotations nsvc\<rparr>))"

definition DefaultReconcileService ::
    "('w, 'x) hash_env_scheme \<Rightarrow> service \<Rightarrow> 'w \<Rightarrow> (event option \<times> go_error option) \<times> 'w" where
  "DefaultReconcileService K svc w =
     (case ApplyService K svc (ServiceDeepEqualWithAnnoKey K DisaggregatedSpecHashValueAnnotation) w of
        (Some e, w) \<Rightarrow>
          ((Some \<lparr>event_Type = EventWarning, event_Reason = ''ServiceApplyedFailed'',
              event_Message = error_text e\<rparr>, Some e), w)
      | (None, w) \<Rightarrow> ((None, None), w))"

definition CreateClientService ::
    "('w, 'x) kube_env_scheme \<Rightarrow> service \<Rightarrow> 'w \<Rightarrow> go_error option \<times> 'w" where
  "CreateClientService K svc w = CreateSvc K svc w"

definition reconcileInternalService ::
    "('w, 'x) hash_env_scheme \<Rightarrow> service \<Rightarrow> 'w \<Rightarrow> go_error option \<times> 'w" where
  "reconcileInternalService K svc w =
     (case GetSvc K (svc_Namespace svc) (svc_Name svc) w of
        (Inl e, w) \<Rightarrow> (if IsNotFound e then CreateClientService K svc w else (Some e, w))
      | (Inr existingSvc, w) \<Rightarrow>
          (if svc_ClusterIP existingSvc = ''None'' then
             (case DefaultReconcileService K svc w of ((_, r), w) \<Rightarrow> (r, w))
           else case DeleteService K (svc_Namespace svc) (svc_Name svc) w of
               (Some e, w) \<Rightarrow> (Some e, w)
             | (None, w) \<Rightarrow> CreateClientService K svc w))"

section \<open>Secrets\<close>

fun repeatedPaths :: "(string \<rightharpoonup> string) \<Rightarrow> secret_mount list \<Rightarrow> (string \<times> string \<times> string) list" where
  "repeatedPaths mountsMap [] = []"
| "repeatedPaths mountsMap (sec # secrets) =
     (case mountsMap (sm_MountPath sec) of
        None \<Rightarrow> []
      | Some s \<Rightarrow> [(sm_MountPath sec, sm_SecretName sec, s)]) @
     repeatedPaths (mountsMap(sm_MountPath sec \<mapsto> sm_SecretName sec)) secrets"

definition CheckSecretMountPath ::
    "('w, 'x) kube_env_scheme \<Rightarrow> secret_mount list \<Rightarrow> 'w \<Rightarrow> 'w" where
  "CheckSecretMountPath K secrets w =
     foldl (\<lambda>w (path, new, old). warn K ''SecretPathRepeated''
         (''the mountPath '' @ path @ '' is repeated between secret: '' @ new @ '' and secret: '' @ old @ ''.'') w)
       w (repeatedPaths Map.empty secrets)"

fun missingSecrets ::
    "('w, 'x) kube_env_scheme \<Rightarrow> string \<Rightarrow> secret_mount list \<Rightarrow> 'w \<Rightarrow> string \<times> 'w" where
  "missingSecrets K ns [] w = ('''', w)"
| "missingSecrets K ns (sec # secrets) w =
     (case GetSecretObj K ns (sm_SecretName sec) w of
        (Inl e, w) \<Rightarrow>
          (case missingSecrets K ns secrets w of
             (m, w) \<Rightarrow> (''(name: '' @ sm_SecretName sec @ '', namespace: '' @ ns @ '', err: '' @ error_text e @ ''), '' @ m, w))
      | (Inr s, w) \<Rightarrow> missingSecrets K ns secrets w)"

definition CheckSecretExist ::
    "('w, 'x) kube_env_scheme \<Rightarrow> DorisDisaggregatedCluster \<Rightarrow> secret_mount list \<Rightarrow> 'w \<Rightarrow> 'w" where
  "CheckSecretExist K ddc secrets w =
     (case missingSecrets K (ddc_Namespace ddc) secrets w of
        (errMessage, w) \<Rightarrow>
          (if errMessage \<noteq> '''' then
             warn K ''SecretNotExist'' (''CheckSecretExist error: '' @ errMessage @ ''.'') w else w))"

text \<open>A failed deletion is recorded as an event, and the resources are not cleared.\<close>

definition failed_delete ::
    "('w, 'x) kube_env_scheme \<Rightarrow> string \<Rightarrow> go_error \<Rightarrow> 'w \<Rightarrow> (bool \<times> go_error option) \<times> 'w" where
  "failed_delete K reason e w = ((False, Some e), warn K reason (error_text e) w)"

end
