(* ===== verification/Disagg_Volumes.thy ===== *)
theory Disagg_Volumes
  imports Disagg_Sub
begin

text \<open>
  Volumes, volume mounts and claims of the disaggregated components
  (\<^verbatim>\<open>disaggregated_subcontroller.go\<close>, \<^verbatim>\<open>resource/persistent_volume_claim.go\<close>): which
  paths are stored, the names of their volumes and claim templates, and the reconcile of
  the claims that the operator provisions itself.
\<close>

section \<open>Names and annotations of claims\<close>

definition FELogStoreName :: string where "FELogStoreName = ''fe-log''"
definition FEMetaStoreName :: string where "FEMetaStoreName = ''fe-meta''"
definition BELogStoreName :: string where "BELogStoreName = ''be-log''"
definition BECacheStorePreName :: string where "BECacheStorePreName = ''be-storage''"
definition MSLogStoreName :: string where "MSLogStoreName = ''ms-log''"
definition DefaultCacheRootPath :: string where
  "DefaultCacheRootPath = ''/opt/apache-doris/be/file_cache''"
definition FileCachePathKey :: string where "FileCachePathKey = ''file_cache_path''"
definition FileCacheSubConfigPathKey :: string where "FileCacheSubConfigPathKey = ''path''"
definition PVCManagerAnnotationApache :: string where
  "PVCManagerAnnotationApache = ''apache.doris.org/pvc-manager''"
definition pvcFinalizerApache :: string where
  "pvcFinalizerApache = ''apache.doris.org/pvc-finalizer''"
definition PVCProvisionerOperator :: string where "PVCProvisionerOperator = ''operator''"
definition ConfigEnvPath :: string where "ConfigEnvPath = ''/etc/doris''"

definition BuildPVCName :: "string \<Rightarrow> string \<Rightarrow> string \<Rightarrow> string" where
  "BuildPVCName stsName ordinal volumeName =
     (let pvcName = stsName @ ''-'' @ ordinal
      in if volumeName \<noteq> '''' then volumeName @ ''-'' @ pvcName else pvcName)"

definition BuildDisaggregatedPVC ::
    "pvc \<Rightarrow> string_map \<Rightarrow> string \<Rightarrow> string \<Rightarrow> string \<Rightarrow> pvc" where
  "BuildDisaggregatedPVC pvcTemplate labels namespace stsName ordinal =
     \<lparr>pvc_Name = BuildPVCName stsName ordinal (pvc_Name pvcTemplate), pvc_Namespace = namespace,
      pvc_Labels = labels, pvc_Annotations = pvc_Annotations pvcTemplate,
      pvc_Finalizers = [pvcFinalizerApache], pvc_Spec = pvc_Spec pvcTemplate\<rparr>"

definition BuildDisaggregatedPVCAnnotations ::
    "('w, 'x) hash_env_scheme \<Rightarrow> persistent_volume \<Rightarrow> string_map" where
  "BuildDisaggregatedPVCAnnotations K volume =
     (if pv_PVCProvisioner volume = PVCProvisionerOperator
      then [PVCManagerAnnotationApache \<mapsto> ''operator'',
            ComponentResourceHash \<mapsto> hash_text (SpewClaim K (pv_ClaimSpec volume))]
      else Map.empty) ++ pv_Annotations volume"

section \<open>Cache paths\<close>

text \<open>
  \<^verbatim>\<open>getCacheMaxSizeAndPaths\<close>: \<^verbatim>\<open>json.Unmarshal\<close> into a slice of maps, null for an
  empty one; an entry without a string under "path" is skipped. The largest size, the
  second result, is dropped by every caller.
\<close>

fun json_objects :: "json list \<Rightarrow> (string \<rightharpoonup> json) list option" where
  "json_objects [] = Some []"
| "json_objects (v # vs) =
     (case (case v of JObj ms \<Rightarrow> Some (map_of (rev ms)) | JNull \<Rightarrow> Some Map.empty | _ \<Rightarrow> None,
            json_objects vs) of
        (Some m, Some ms) \<Rightarrow> Some (m # ms)
      | _ \<Rightarrow> None)"

definition unmarshal_maps :: "string \<Rightarrow> (string \<rightharpoonup> json) list option" where
  "unmarshal_maps s =
     (case json_parse s of
        Some (JArr vs) \<Rightarrow> json_objects vs
      | Some JNull \<Rightarrow> Some []
      | _ \<Rightarrow> None)"

fun cache_path :: "(string \<rightharpoonup> json) \<Rightarrow> string list" where
  "cache_path mp = (case mp FileCacheSubConfigPathKey of Some (JStr p) \<Rightarrow> [p] | _ \<Rightarrow> [])"

definition getCachePaths :: "conf \<Rightarrow> go_error + string list" where
  "getCachePaths cvs =
     (case map_of cvs FileCachePathKey of
        None \<Rightarrow> Inr [DefaultCacheRootPath]
      | Some v \<Rightarrow>
          bindE (string_of_conf v) (\<lambda>vbys.
            case unmarshal_maps vbys of
              None \<Rightarrow> Inr []
            | Some pa \<Rightarrow> Inr (concat (map cache_path pa))))"

section \<open>Empty directories\<close>

type_synonym volumes = "volume list \<times> volume_mount list \<times> pvc list"

definition empty_dir :: "string \<Rightarrow> volume" where
  "empty_dir n = \<lparr>v_Name = n, v_Source = EmptyDir\<rparr>"

definition mount :: "string \<Rightarrow> string \<Rightarrow> volume_mount" where
  "mount n p = \<lparr>vm_Name = n, vm_MountPath = p\<rparr>"

definition cache_name :: "nat \<Rightarrow> string" where
  "cache_name i = BECacheStorePreName @ Itoa (int i)"

definition getMSEmptyDirVolumesVolumeMounts :: "conf \<Rightarrow> go_error + volume list \<times> volume_mount list" where
  "getMSEmptyDirVolumesVolumeMounts confMap =
     bindE (getLogPath confMap DisaggregatedMS) (\<lambda>logPath.
       Inr ([empty_dir MSLogStoreName], [mount MSLogStoreName logPath]))"

definition getFEEmptyDirVolumesVolumeMounts :: "conf \<Rightarrow> go_error + volume list \<times> volume_mount list" where
  "getFEEmptyDirVolumesVolumeMounts confMap =
     bindE (getLogPath confMap DisaggregatedFE) (\<lambda>logPath.
     bindE (getFEMetaPath confMap) (\<lambda>metaPath.
       Inr ([empty_dir FELogStoreName, empty_dir FEMetaStoreName],
            [mount FELogStoreName logPath, mount FEMetaStoreName metaPath])))"

definition getBEEmptyDirVolumesVolumeMounts :: "conf \<Rightarrow> go_error + volume list \<times> volume_mount list" where
  "getBEEmptyDirVolumesVolumeMounts confMap =
     bindE (getLogPath confMap DisaggregatedBE) (\<lambda>logPath.
     bindE (getCachePaths confMap) (\<lambda>cachePaths.
       Inr (empty_dir BELogStoreName # map (\<lambda>(i, path). empty_dir (cache_name i)) (enumerate 0 cachePaths),
            mount BELogStoreName logPath #
              map (\<lambda>(i, path). mount (cache_name i) path) (enumerate 0 cachePaths))))"

fun getEmptyDirVolumesVolumeMounts ::
    "conf \<Rightarrow> DisaggregatedComponentType \<Rightarrow> go_error + volume list \<times> volume_mount list" where
  "getEmptyDirVolumesVolumeMounts confMap DisaggregatedMS = getMSEmptyDirVolumesVolumeMounts confMap"
| "getEmptyDirVolumesVolumeMounts confMap DisaggregatedFE = getFEEmptyDirVolumesVolumeMounts confMap"
| "getEmptyDirVolumesVolumeMounts confMap DisaggregatedBE = getBEEmptyDirVolumesVolumeMounts confMap"
| "getEmptyDirVolumesVolumeMounts confMap (DisaggregatedOther t) = Inr ([], [])"

section \<open>Claims from one persistent volume\<close>

text \<open>The volume, the mount and the claim template for one path.\<close>

definition claim_volume ::
    "('w, 'x) hash_env_scheme \<Rightarrow> string \<Rightarrow> string \<Rightarrow> persistent_volume \<Rightarrow> volume \<times> volume_mount \<times> pvc" where
  "claim_volume K name path pv =
     (\<lparr>v_Name = name, v_Source = ClaimSource name\<rparr>, mount name path,
      \<lparr>pvc_Name = name, pvc_Namespace = '''', pvc_Labels = Map.empty,
       pvc_Annotations = BuildDisaggregatedPVCAnnotations K pv, pvc_Finalizers = [],
       pvc_Spec = pv_ClaimSpec pv\<rparr>)"

definition unzip3 :: "('a \<times> 'b \<times> 'c) list \<Rightarrow> 'a list \<times> 'b list \<times> 'c list" where
  "unzip3 xs = (map fst xs, map (fst \<circ> snd) xs, map (snd \<circ> snd) xs)"

text \<open>
  The paths to store, in order, with the name of each: a map from path to name, where a
  path that occurs again takes the later name.
\<close>

type_synonym named_paths = "string_map \<times> string list"

definition add_path :: "string \<Rightarrow> string \<Rightarrow> named_paths \<Rightarrow> named_paths" where
  "add_path path name np = (case np of (pathName, paths) \<Rightarrow> (pathName(path \<mapsto> name), paths @ [path]))"

fun add_mount_paths :: "nat \<Rightarrow> string list \<Rightarrow> named_paths \<Rightarrow> named_paths" where
  "add_mount_paths baseIndex [] np = np"
| "add_mount_paths baseIndex (path # paths) np =
     (if fst np path \<noteq> None then add_mount_paths baseIndex paths np
      else add_mount_paths (baseIndex + 1) paths (add_path path (cache_name baseIndex) np))"

definition add_log_path ::
    "conf \<Rightarrow> DisaggregatedComponentType \<Rightarrow> string \<Rightarrow> bool \<Rightarrow> go_error + named_paths" where
  "add_log_path confMap componentType name logNotStore =
     (if logNotStore then Inr (Map.empty, [])
      else bindE (getLogPath confMap componentType) (\<lambda>logPath. Inr (add_path logPath name (Map.empty, []))))"

fun requiredPathNames ::
    "conf \<Rightarrow> DisaggregatedComponentType \<Rightarrow> persistent_volume \<Rightarrow> bool \<Rightarrow> go_error + named_paths" where
  "requiredPathNames confMap DisaggregatedMS v1pv logNotStore =
     add_log_path confMap DisaggregatedMS MSLogStoreName logNotStore"
| "requiredPathNames confMap DisaggregatedFE v1pv logNotStore =
     bindE (add_log_path confMap DisaggregatedFE FELogStoreName logNotStore) (\<lambda>np.
     bindE (getFEMetaPath confMap) (\<lambda>metaPath. Inr (add_path metaPath FEMetaStoreName np)))"
| "requiredPathNames confMap DisaggregatedBE v1pv logNotStore =
     bindE (add_log_path confMap DisaggregatedBE BELogStoreName logNotStore) (\<lambda>np.
     bindE (getCachePaths confMap) (\<lambda>cachePaths.
       Inr (add_mount_paths (length cachePaths) (pv_MountPaths v1pv)
         (foldl (\<lambda>np (i, path). add_path path (cache_name i) np) np (enumerate 0 cachePaths)))))"
| "requiredPathNames confMap (DisaggregatedOther t) v1pv logNotStore = Inr (Map.empty, [])"

definition PersistentVolumeBuildVolumesVolumeMountsAndPVCs ::
    "('w, 'x) hash_env_scheme \<Rightarrow> common_spec \<Rightarrow> conf \<Rightarrow> DisaggregatedComponentType \<Rightarrow> go_error + volumes" where
  "PersistentVolumeBuildVolumesVolumeMountsAndPVCs K commonSpec confMap componentType =
     (case cms_PersistentVolume commonSpec of
        None \<Rightarrow> Inr ([], [], [])
      | Some v1pv \<Rightarrow>
          bindE (requiredPathNames confMap componentType v1pv (pv_LogNotStore v1pv \<or> cms_LogNotStore commonSpec))
            (\<lambda>(pathName, requiredPaths).
              Inr (unzip3 (map (\<lambda>path. claim_volume K (map_get pathName path) path v1pv) requiredPaths))))"

section \<open>Claims from several persistent volumes\<close>

text \<open>
  The name of a path: its last component, extended to the left by one component after the
  other while the name is taken, or the name of the whole path. \<open>comps\<close> are the components
  from last to first.
\<close>

fun path_name :: "string_map \<Rightarrow> string list \<Rightarrow> string \<Rightarrow> string" where
  "path_name namePath [] name = name"
| "path_name namePath (c # comps) name =
     (if c = '''' then path_name namePath comps name
      else (let name = (if name = '''' then c else c @ ''-'' @ name)
            in if namePath name = None then name else path_name namePath comps name))"

definition name_path :: "string_map \<times> string_map \<Rightarrow> string \<Rightarrow> string_map \<times> string_map" where
  "name_path m path =
     (case m of (namePath, pathName) \<Rightarrow>
        (let name = path_name namePath (rev (Split path ''/'')) ''''
         in (namePath(name \<mapsto> path), pathName(path \<mapsto> name))))"

definition path_names :: "string list \<Rightarrow> string_map" where
  "path_names requiredPaths = snd (foldl name_path (Map.empty, Map.empty) requiredPaths)"

definition storedPaths ::
    "common_spec \<Rightarrow> conf \<Rightarrow> DisaggregatedComponentType \<Rightarrow> go_error + string list" where
  "storedPaths commonSpec confMap componentType =
     bindE (case componentType of
              DisaggregatedFE \<Rightarrow> bindE (getFEMetaPath confMap) (\<lambda>p. Inr [p])
            | DisaggregatedBE \<Rightarrow> getCachePaths confMap
            | _ \<Rightarrow> Inr [])
       (\<lambda>paths.
          let paths = paths @ concat (map pv_MountPaths (cms_PersistentVolumes commonSpec));
              logNotStore = list_ex pv_LogNotStore (cms_PersistentVolumes commonSpec)
          in if \<not> logNotStore \<and> \<not> cms_LogNotStore commonSpec
             then bindE (getLogPath confMap componentType) (\<lambda>logPath. Inr (paths @ [logPath]))
             else Inr paths)"

text \<open>The volume that names a path, the last one of several; the last volume without paths is the template.\<close>

definition path_volume :: "persistent_volume list \<Rightarrow> string \<Rightarrow> persistent_volume option" where
  "path_volume pvs path = List.find (\<lambda>pv. path \<in> set (pv_MountPaths pv)) (rev pvs)"

definition template_volume :: "persistent_volume list \<Rightarrow> persistent_volume option" where
  "template_volume pvs = List.find (\<lambda>pv. pv_MountPaths pv = []) (rev pvs)"

text \<open>
  The volume of a path is the one that names it, or else the template; a path without
  either gets none. The paths are taken from the last to the first, each once.
\<close>

definition volume_of_path :: "persistent_volume list \<Rightarrow> string \<Rightarrow> persistent_volume option" where
  "volume_of_path pvs path =
     (case path_volume pvs path of Some pv \<Rightarrow> Some pv | None \<Rightarrow> template_volume pvs)"

definition claims_of_path ::
    "('w, 'x) hash_env_scheme \<Rightarrow> persistent_volume list \<Rightarrow> string_map \<Rightarrow> string
     \<Rightarrow> (volume \<times> volume_mount \<times> pvc) list" where
  "claims_of_path K pvs pathName path =
     (case volume_of_path pvs path of
        None \<Rightarrow> []
      | Some pv \<Rightarrow> [claim_volume K (ReplaceAll (map_get pathName path) (CHR ''_'') (CHR ''-'')) path pv])"

definition PersistentVolumeArrayBuildVolumesVolumeMountsAndPVCs ::
    "('w, 'x) hash_env_scheme \<Rightarrow> common_spec \<Rightarrow> conf \<Rightarrow> DisaggregatedComponentType \<Rightarrow> go_error + volumes" where
  "PersistentVolumeArrayBuildVolumesVolumeMountsAndPVCs K commonSpec confMap componentType =
     bindE (storedPaths commonSpec confMap componentType) (\<lambda>requiredPaths.
       Inr (unzip3 (concat (map (claims_of_path K (cms_PersistentVolumes commonSpec) (path_names requiredPaths))
         (rev (remdups requiredPaths))))))"

definition BuildVolumesVolumeMountsAndPVCs ::
    "('w, 'x) hash_env_scheme \<Rightarrow> conf \<Rightarrow> DisaggregatedComponentType \<Rightarrow> common_spec \<Rightarrow> go_error + volumes" where
  "BuildVolumesVolumeMountsAndPVCs K confMap componentType commonSpec =
     (if cms_PersistentVolume commonSpec = None \<and> cms_PersistentVolumes commonSpec = [] then
        bindE (getEmptyDirVolumesVolumeMounts confMap componentType) (\<lambda>(vs, vms). Inr (vs, vms, []))
      else if cms_PersistentVolume commonSpec \<noteq> None then
        PersistentVolumeBuildVolumesVolumeMountsAndPVCs K commonSpec confMap componentType
      else PersistentVolumeArrayBuildVolumesVolumeMountsAndPVCs K commonSpec confMap componentType)"

section \<open>Volumes of config maps\<close>

definition config_volume :: "cm_mount \<Rightarrow> volume \<times> volume_mount" where
  "config_volume cm =
     (\<lparr>v_Name = cmm_Name cm, v_Source = ConfigMapSource (cmm_Name cm)\<rparr>,
      mount (cmm_Name cm) (if cmm_MountPath cm = '''' then ConfigEnvPath else cmm_MountPath cm))"

definition BuildDefaultConfigMapVolumesVolumeMounts :: "cm_mount list \<Rightarrow> volume list \<times> volume_mount list" where
  "BuildDefaultConfigMapVolumesVolumeMounts cms =
     (map (fst \<circ> config_volume) cms, map (snd \<circ> config_volume) cms)"

section \<open>Claims provisioned by the operator\<close>

definition getPvc :: "pvc list \<Rightarrow> string \<Rightarrow> pvc option" where
  "getPvc pvcs pvcName = List.find (\<lambda>c. pvc_Name c = pvcName) pvcs"

definition set_storage :: "int \<Rightarrow> pvc \<Rightarrow> pvc" where
  "set_storage q c = c\<lparr>pvc_Spec := (pvc_Spec c)\<lparr>cl_Storage := q\<rparr>\<rparr>"

definition pvc_message :: "string \<Rightarrow> DorisDisaggregatedCluster \<Rightarrow> string \<Rightarrow> string" where
  "pvc_message what ddc text =
     ''ReconcilePVC '' @ what @ '', namespace: '' @ ddc_Namespace ddc @ '', '' @ text"

text \<open>
  One claim: create it when it is missing, grow it, or refuse to shrink it. The result is
  an event with the error, or the listed claims, in which the requests of the patched one
  are changed: the copy that is patched shares them.
\<close>

definition reconcileClaim ::
    "('w, 'x) kube_env_scheme \<Rightarrow> DorisDisaggregatedCluster \<Rightarrow> pvc list \<Rightarrow> pvc \<Rightarrow> 'w
     \<Rightarrow> (event \<times> go_error + pvc list) \<times> 'w" where
  "reconcileClaim K ddc oldPvcs p w =
     (let ddcName = ddc_Name ddc; pname = pvc_Name p
      in case getPvc oldPvcs pname of
           None \<Rightarrow>
             (let created = (\<lambda>w. (Inr oldPvcs,
                    notice K ''PVCCreate'' (pvc_message ''create pvc'' ddc
                      (''name: '' @ ddcName @ '' create pvc '' @ pname @ '' .'')) w))
              in case CreatePvc K p w of
                   (Some e, w) \<Rightarrow>
                     (if IsAlreadyExists e then created w
                      else (Inl (\<lparr>event_Type = EventWarning, event_Reason = ''PVCCreateFailed'',
                              event_Message = pvc_message ''create pvc failed'' ddc
                                (''name: '' @ ddcName @ '' create pvc '' @ pname @ '', error '' @ error_text e @ ''.'')\<rparr>, e), w))
                 | (None, w) \<Rightarrow> created w)
         | Some oldPvc \<Rightarrow>
             (let oldQuantity = cl_Storage (pvc_Spec oldPvc); newQuantity = cl_Storage (pvc_Spec p)
              in if oldQuantity < newQuantity then
                   (case PatchPvc K (set_storage newQuantity oldPvc) w of
                      (Some e, w) \<Rightarrow>
                        (Inl (\<lparr>event_Type = EventWarning, event_Reason = ''PVCUpdateFailed'',
                          event_Message = pvc_message ''patch pvc failed'' ddc
                            (''ddc name: '' @ ddcName @ '', patch pvc '' @ pname @ '', error: '' @ error_text e)\<rparr>, e), w)
                    | (None, w) \<Rightarrow>
                        (Inr (update_first (\<lambda>c. pvc_Name c = pname) (set_storage newQuantity) oldPvcs),
                         notice K ''PVCUpdated'' (pvc_message ''patch pvc'' ddc
                           (''ddc name: '' @ ddcName @ '' update pvc '' @ pname @ '' .'')) w))
                 else if newQuantity < oldQuantity then
                   (Inr oldPvcs,
                    warn K ''PVCUpdateFailed''
                      (''ReconcilePVC pvc resize is rejected, PVC shrinking is not supported. namespace: '' @
                       ddc_Namespace ddc @ '', ddc name: '' @ ddcName @ '', resize pvc '' @ pname) w)
                 else (Inr oldPvcs, w)))"

fun reconcileClaims ::
    "('w, 'x) kube_env_scheme \<Rightarrow> DorisDisaggregatedCluster \<Rightarrow> pvc list \<Rightarrow> pvc list \<Rightarrow> 'w
     \<Rightarrow> (event \<times> go_error + pvc list) \<times> 'w" where
  "reconcileClaims K ddc oldPvcs [] w = (Inr oldPvcs, w)"
| "reconcileClaims K ddc oldPvcs (p # ps) w =
     (case reconcileClaim K ddc oldPvcs p w of
        (Inl e, w) \<Rightarrow> (Inl e, w)
      | (Inr oldPvcs, w) \<Rightarrow> reconcileClaims K ddc oldPvcs ps w)"

fun reconcileTemplates ::
    "('w, 'x) kube_env_scheme \<Rightarrow> DorisDisaggregatedCluster \<Rightarrow> statefulset \<Rightarrow> int option \<Rightarrow> pvc list \<Rightarrow> pvc list \<Rightarrow> 'w
     \<Rightarrow> (event option \<times> go_error option) \<times> 'w" where
  "reconcileTemplates K ddc sts replicas oldPvcs [] w = ((None, None), w)"
| "reconcileTemplates K ddc sts replicas oldPvcs (t # ts) w =
     (if map_get (pvc_Annotations t) PVCManagerAnnotationApache \<noteq> PVCProvisionerOperator
      then reconcileTemplates K ddc sts replicas oldPvcs ts w
      else case replicas of
          None \<Rightarrow> ((None, Some (Panic ''*commonSpec.Replicas'')), w)
        | Some n \<Rightarrow>
            (case reconcileClaims K ddc oldPvcs
                    (map (\<lambda>ordinal. BuildDisaggregatedPVC t (sts_Selector sts) (ddc_Namespace ddc)
                            (sts_Name sts) (Itoa (int ordinal))) [0..<nat n]) w of
               (Inl (event, e), w) \<Rightarrow> ((Some event, Some e), w)
             | (Inr oldPvcs, w) \<Rightarrow> reconcileTemplates K ddc sts replicas oldPvcs ts w))"

text \<open>The specification of a component; for a compute group it is the group's.\<close>

fun component_spec ::
    "DorisDisaggregatedCluster \<Rightarrow> DisaggregatedComponentType \<Rightarrow> compute_group option \<Rightarrow> go_error + common_spec" where
  "component_spec ddc DisaggregatedMS cg = Inr (ms_CommonSpec (spec_MetaService (ddc_Spec ddc)))"
| "component_spec ddc DisaggregatedFE cg = Inr (fes_CommonSpec (spec_FeSpec (ddc_Spec ddc)))"
| "component_spec ddc DisaggregatedBE (Some cg) = Inr (cg_CommonSpec cg)"
| "component_spec ddc DisaggregatedBE None = Inl (Panic ''cg.CommonSpec'')"
| "component_spec ddc (DisaggregatedOther t) cg = Inl (Panic ''commonSpec.PersistentVolume'')"

definition ReconcilePVC ::
    "('w, 'x) hash_env_scheme \<Rightarrow> DorisDisaggregatedCluster \<Rightarrow> conf \<Rightarrow> DisaggregatedComponentType \<Rightarrow> statefulset
     \<Rightarrow> compute_group option \<Rightarrow> 'w \<Rightarrow> (event option \<times> go_error option) \<times> 'w" where
  "ReconcilePVC K ddc cm componentType sts cg w =
     (case bindE (component_spec ddc componentType cg) (\<lambda>commonSpec.
             bindE (BuildVolumesVolumeMountsAndPVCs K cm componentType commonSpec) (\<lambda>(_, _, pvcTemplates).
               Inr (commonSpec, pvcTemplates))) of
        Inl e \<Rightarrow> ((None, Some e), w)
      | Inr (commonSpec, pvcTemplates) \<Rightarrow>
          (case ListPvcs K (ddc_Namespace ddc) (sts_Selector sts) w of
             (Inl e, w) \<Rightarrow>
               ((Some \<lparr>event_Type = EventWarning, event_Reason = ''PVCListFailed'',
                   event_Message = pvc_message ''list pvc failed'' ddc
                     (''name: '' @ ddc_Name ddc @ '', error: '' @ error_text e)\<rparr>, Some e), w)
           | (Inr oldPvcs, w) \<Rightarrow>
               reconcileTemplates K ddc sts (cms_Replicas commonSpec) oldPvcs pvcTemplates w))"

end
