(* ===== verification/Sha256.thy ===== *)
theory Sha256
  imports Go_Prelude
begin

text \<open>
  \<^verbatim>\<open>crypto/sha256\<close>: the hash of a byte string, on 32-bit words, as the standard
  FIPS 180-4 gives it. The operator derives the identifier of a cluster from it.
\<close>

unbundle bit_operations_syntax

type_synonym word32 = "32 word"

text \<open>
  The constants are the first 32 bits of the fractional parts of roots of the first primes:
  cube roots for the rounds, square roots for the initial state. \<open>root_bits\<close> finds the
  largest \<open>r\<close> with \<open>r ^ k \<le> n\<close> bit by bit.
\<close>

fun root_bits :: "nat \<Rightarrow> int \<Rightarrow> nat \<Rightarrow> int \<Rightarrow> int" where
  "root_bits k n 0 r = r"
| "root_bits k n (Suc b) r = root_bits k n b (if (r + 2 ^ b) ^ k \<le> n then r + 2 ^ b else r)"

definition small_primes :: "int list" where
  "small_primes = filter (\<lambda>p. list_all (\<lambda>d. p mod d \<noteq> 0) [2..p - 1]) [2..311]"

definition root_fraction :: "nat \<Rightarrow> int \<Rightarrow> word32" where
  "root_fraction k p = word_of_int (root_bits k (p * 2 ^ (32 * k)) 40 0)"

definition round_constants :: "word32 list" where
  "round_constants = map (root_fraction 3) small_primes"

definition initial_state :: "word32 list" where
  "initial_state = map (root_fraction 2) (take 8 small_primes)"

section \<open>Padding\<close>

definition length_bytes :: "int \<Rightarrow> int list" where
  "length_bytes bits = map (\<lambda>i. bits div 256 ^ (7 - i) mod 256) [0..<8]"

definition pad :: "int list \<Rightarrow> int list" where
  "pad m = m @ 128 # replicate ((119 - length m mod 64) mod 64) 0 @ length_bytes (8 * int (length m))"

fun words_of :: "int list \<Rightarrow> word32 list" where
  "words_of (a # b # c # d # r) = word_of_int (((a * 256 + b) * 256 + c) * 256 + d) # words_of r"
| "words_of _ = []"

section \<open>Compression\<close>

definition small0 :: "word32 \<Rightarrow> word32" where
  "small0 x = word_rotr 7 x XOR word_rotr 18 x XOR drop_bit 3 x"

definition small1 :: "word32 \<Rightarrow> word32" where
  "small1 x = word_rotr 17 x XOR word_rotr 19 x XOR drop_bit 10 x"

definition big0 :: "word32 \<Rightarrow> word32" where
  "big0 x = word_rotr 2 x XOR word_rotr 13 x XOR word_rotr 22 x"

definition big1 :: "word32 \<Rightarrow> word32" where
  "big1 x = word_rotr 6 x XOR word_rotr 11 x XOR word_rotr 25 x"

text \<open>The message schedule, newest word first.\<close>

fun schedule :: "nat \<Rightarrow> word32 list \<Rightarrow> word32 list" where
  "schedule 0 ws = ws"
| "schedule (Suc n) ws = schedule n ((small1 (ws ! 1) + ws ! 6 + small0 (ws ! 14) + ws ! 15) # ws)"

fun round_step :: "word32 list \<Rightarrow> word32 \<times> word32 \<Rightarrow> word32 list" where
  "round_step [a, b, c, d, e, f, g, h] (k, w) =
     (let t1 = h + big1 e + ((e AND f) XOR (NOT e AND g)) + k + w;
          t2 = big0 a + ((a AND b) XOR (a AND c) XOR (b AND c))
      in [t1 + t2, a, b, c, d + t1, e, f, g])"
| "round_step s kw = s"

definition compress :: "word32 list \<Rightarrow> word32 list \<Rightarrow> word32 list" where
  "compress st block =
     map2 (+) st (foldl round_step st (zip round_constants (rev (schedule 48 (rev block)))))"

function blocks :: "word32 list \<Rightarrow> word32 list list" where
  "blocks ws = (if length ws < 16 then [] else take 16 ws # blocks (drop 16 ws))"
  by auto
termination by (relation "measure length") auto

declare blocks.simps [simp del]

definition sha256 :: "string \<Rightarrow> word32 list" where
  "sha256 s = foldl compress initial_state (blocks (words_of (pad (map of_char s))))"

text \<open>\<^verbatim>\<open>big.Int.SetBytes\<close> of the sum: the words in big-endian order.\<close>

definition sha256_int :: "string \<Rightarrow> int" where
  "sha256_int s = foldl (\<lambda>n w. n * 2 ^ 32 + uint w) 0 (sha256 s)"

end
