(* ===== verification/Disagg_Pods.thy ===== *)
theory Disagg_Pods
  imports Disagg_Services Disagg_Volumes Sha256
begin

text \<open>
  The pods of the disaggregated components: the parts that \<^verbatim>\<open>resource/pod.go\<close>,
  \<^verbatim>\<open>kerberos.go\<close>, \<^verbatim>\<open>common.go\<close> and \<^verbatim>\<open>disaggregated_subcontroller.go\<close> give every pod
  template: init containers, probes, ports, environment, secrets, Kerberos and affinity.
  The controllers of the meta service, the FE and the compute groups build their
  StatefulSets from them.
\<close>

section \<open>Constants\<close>

definition POD_INFO_VOLUME_NAME :: string where "POD_INFO_VOLUME_NAME = ''podinfo''"
definition POD_INFO_PATH :: string where "POD_INFO_PATH = ''/etc/podinfo''"
definition NODE_TOPOLOGYKEY :: string where "NODE_TOPOLOGYKEY = ''kubernetes.io/hostname''"
definition DEFAULT_INIT_IMAGE :: string where "DEFAULT_INIT_IMAGE = ''selectdb/alpine:latest''"
definition DISAGGREGATED_FE_MAIN_CONTAINER_NAME :: string where "DISAGGREGATED_FE_MAIN_CONTAINER_NAME = ''fe''"
definition DISAGGREGATED_BE_MAIN_CONTAINER_NAME :: string where "DISAGGREGATED_BE_MAIN_CONTAINER_NAME = ''compute''"
definition DISAGGREGATED_MS_MAIN_CONTAINER_NAME :: string where
  "DISAGGREGATED_MS_MAIN_CONTAINER_NAME = ''metaservice''"
definition DEFAULT_FE_TERMINATION_GRACE_PERIOD_SECONDS :: int where
  "DEFAULT_FE_TERMINATION_GRACE_PERIOD_SECONDS = 330"
definition secret_config_path :: string where "secret_config_path = ''/etc/doris''"
definition auth_volume_name :: string where "auth_volume_name = ''basic-auth''"
definition basic_auth_path :: string where "basic_auth_path = ''/etc/basic_auth''"
definition keytab_volume_name :: string where "keytab_volume_name = ''keytab''"
definition keytab_default_mount_path :: string where "keytab_default_mount_path = ''/etc/keytab''"
definition krb5_volume_name :: string where "krb5_volume_name = ''krb5''"
definition krb5_default_mount_path :: string where "krb5_default_mount_path = ''/etc/krb5''"
definition KRB5_DEFAULT_CONFIG :: string where "KRB5_DEFAULT_CONFIG = ''/etc/krb5.conf''"
definition gracefulRuntimeVolumeName :: string where "gracefulRuntimeVolumeName = ''doris-graceful-runtime''"

fun component_text :: "DisaggregatedComponentType \<Rightarrow> string" where
  "component_text DisaggregatedFE = ''FE''"
| "component_text DisaggregatedBE = ''BE''"
| "component_text DisaggregatedMS = ''MS''"
| "component_text (DisaggregatedOther t) = t"

section \<open>Environment and ports\<close>

definition env :: "string \<Rightarrow> string \<Rightarrow> env_var" where
  "env n v = \<lparr>ev_Name = n, ev_Value = v, ev_FieldPath = None\<rparr>"

definition env_from :: "string \<Rightarrow> string \<Rightarrow> env_var" where
  "env_from n path = \<lparr>ev_Name = n, ev_Value = '''', ev_FieldPath = Some path\<rparr>"

definition buildEnvFromPod :: "env_var list" where
  "buildEnvFromPod =
     [env_from ''POD_NAME'' ''metadata.name'', env_from ''POD_IP'' ''status.podIP'',
      env_from ''HOST_IP'' ''status.hostIP'', env_from ''POD_NAMESPACE'' ''metadata.namespace'',
      env ''CONFIGMAP_MOUNT_PATH'' ''/etc/doris'', env ''DNS_READY_TIMEOUT'' ''120'',
      env ''DNS_READY_INTERVAL'' ''2'']"

definition GetPodDefaultEnv :: "env_var list" where
  "GetPodDefaultEnv = buildEnvFromPod"

definition container_port_of :: "conf \<Rightarrow> string \<times> string \<Rightarrow> go_error + container_port" where
  "container_port_of config kp =
     bindE (GetPort config (fst kp)) (\<lambda>port.
       Inr \<lparr>cp_Name = GetPortKey (fst kp), cp_ContainerPort = port, cp_Protocol = snd kp\<rparr>)"

fun container_ports_of :: "conf \<Rightarrow> (string \<times> string) list \<Rightarrow> go_error + container_port list" where
  "container_ports_of config [] = Inr []"
| "container_ports_of config (k # ks) =
     bindE (container_port_of config k) (\<lambda>p. bindE (container_ports_of config ks) (\<lambda>ps. Inr (p # ps)))"

definition with_arrow_port :: "conf \<Rightarrow> (string \<times> string) list \<Rightarrow> go_error + container_port list" where
  "with_arrow_port config ks =
     bindE (container_ports_of config ks) (\<lambda>ports.
     bindE (container_port_of config (ARROW_FLIGHT_SQL_PORT, ''TCP'')) (\<lambda>arrow.
       Inr (if cp_ContainerPort arrow \<noteq> - 1 then ports @ [arrow] else ports)))"

definition getFeContainerPorts :: "conf \<Rightarrow> go_error + container_port list" where
  "getFeContainerPorts config =
     with_arrow_port config [(HTTP_PORT, ''TCP''), (RPC_PORT, ''TCP''), (QUERY_PORT, ''TCP''), (EDIT_LOG_PORT, ''TCP'')]"

definition getBeContainerPorts :: "conf \<Rightarrow> go_error + container_port list" where
  "getBeContainerPorts config =
     with_arrow_port config [(BE_PORT, ''''), (WEBSERVER_PORT, ''TCP''), (HEARTBEAT_SERVICE_PORT, ''TCP''),
       (BRPC_PORT, ''TCP'')]"

definition getMetaServiceContainerPorts :: "conf \<Rightarrow> go_error + container_port list" where
  "getMetaServiceContainerPorts config = container_ports_of config [(BROKER_IPC_PORT, '''')]"

fun GetDisaggregatedContainerPorts ::
    "conf \<Rightarrow> DisaggregatedComponentType \<Rightarrow> go_error + container_port list" where
  "GetDisaggregatedContainerPorts config DisaggregatedFE = getFeContainerPorts config"
| "GetDisaggregatedContainerPorts config DisaggregatedBE = getBeContainerPorts config"
| "GetDisaggregatedContainerPorts config DisaggregatedMS = getMetaServiceContainerPorts config"
| "GetDisaggregatedContainerPorts config (DisaggregatedOther t) = Inr []"

fun GetDisaggregatedCommand :: "DisaggregatedComponentType \<Rightarrow> string list \<times> string list" where
  "GetDisaggregatedCommand DisaggregatedFE =
     ([''/opt/apache-doris/fe_disaggregated_entrypoint.sh''], [''$(ENV_FE_ADDR)''])"
| "GetDisaggregatedCommand DisaggregatedBE =
     ([''/opt/apache-doris/be_disaggregated_entrypoint.sh''], [''$(ENV_FE_ADDR)''])"
| "GetDisaggregatedCommand DisaggregatedMS = ([''/opt/apache-doris/ms_disaggregated_entrypoint.sh''], [])"
| "GetDisaggregatedCommand (DisaggregatedOther t) = ([], [])"

fun GetDisaggregatedPreStopScript :: "DisaggregatedComponentType \<Rightarrow> string" where
  "GetDisaggregatedPreStopScript DisaggregatedFE = ''/opt/apache-doris/fe_disaggregated_prestop.sh''"
| "GetDisaggregatedPreStopScript DisaggregatedBE = ''/opt/apache-doris/be_disaggregated_prestop.sh''"
| "GetDisaggregatedPreStopScript DisaggregatedMS = ''/opt/apache-doris/ms_disaggregated_prestop.sh''"
| "GetDisaggregatedPreStopScript (DisaggregatedOther t) = ''''"

section \<open>Probes and life cycle\<close>

definition LifeCycleWithPreStopScript :: "string \<Rightarrow> container \<Rightarrow> container" where
  "LifeCycleWithPreStopScript preStopScript c = c\<lparr>c_PreStop := Some [preStopScript]\<rparr>"

definition applyReadinessProbePolicy :: "int \<Rightarrow> int \<Rightarrow> int \<Rightarrow> probe \<Rightarrow> probe" where
  "applyReadinessProbePolicy timeoutSeconds failureThreshold periodSeconds probe =
     (let probe = (if periodSeconds > 0 then probe\<lparr>pr_PeriodSeconds := periodSeconds\<rparr> else probe);
          probe = (if failureThreshold > 0 then probe\<lparr>pr_FailureThreshold := failureThreshold\<rparr> else probe)
      in if timeoutSeconds > 0 then probe\<lparr>pr_TimeoutSeconds := timeoutSeconds\<rparr> else probe)"

fun probe_command :: "DisaggregatedComponentType \<Rightarrow> string" where
  "probe_command DisaggregatedFE = ''/opt/apache-doris/fe_disaggregated_probe.sh''"
| "probe_command DisaggregatedBE = ''/opt/apache-doris/be_disaggregated_probe.sh''"
| "probe_command DisaggregatedMS = ''/opt/apache-doris/ms_disaggregated_probe.sh''"
| "probe_command (DisaggregatedOther t) = ''''"

text \<open>\<^verbatim>\<open>startTimeout / 5\<close> truncates; the timeout is not negative.\<close>

definition BuildDisaggregatedProbe ::
    "common_spec \<Rightarrow> DisaggregatedComponentType \<Rightarrow> container \<Rightarrow> container" where
  "BuildDisaggregatedProbe cs componentType c =
     (let startTimeout = (if cms_StartTimeout cs \<ge> 360 then cms_StartTimeout cs else 360);
          failurethreshold = startTimeout div 5;
          liveTimeout = (if cms_LiveTimeout cs < 1 then 180 else cms_LiveTimeout cs);
          commend = probe_command componentType;
          alive = ExecAction [commend, ''alive''];
          ready = ExecAction [commend, ''ready''];
          readiness = \<lparr>pr_PeriodSeconds = 5, pr_FailureThreshold = 3, pr_InitialDelaySeconds = 0,
                       pr_TimeoutSeconds = 0, pr_Handler = ready\<rparr>
      in c\<lparr>c_LivenessProbe := Some \<lparr>pr_PeriodSeconds = 5, pr_FailureThreshold = 3,
             pr_InitialDelaySeconds = 80, pr_TimeoutSeconds = liveTimeout, pr_Handler = alive\<rparr>,
           c_StartupProbe := Some \<lparr>pr_PeriodSeconds = 5, pr_FailureThreshold = failurethreshold,
             pr_InitialDelaySeconds = 0, pr_TimeoutSeconds = 0, pr_Handler = alive\<rparr>,
           c_ReadinessProbe := Some
             (case cms_ReadinessProbePolicy cs of
                None \<Rightarrow> readiness
              | Some p \<Rightarrow> applyReadinessProbePolicy (rpp_TimeoutSeconds p) (rpp_FailureThreshold p)
                           (rpp_PeriodSeconds p) readiness)\<rparr>)"

definition AddTerminationGracePeriodSeconds ::
    "conf \<Rightarrow> int \<Rightarrow> pod_template \<Rightarrow> go_error + pod_template" where
  "AddTerminationGracePeriodSeconds config defaultSeconds tplSpec =
     bindE (GetTerminationGracePeriodSeconds config) (\<lambda>seconds.
       let seconds = (if seconds \<le> 0 then defaultSeconds else seconds)
       in Inr (if seconds > 0 then tplSpec\<lparr>pt_TerminationGracePeriodSeconds := Some seconds\<rparr> else tplSpec))"

section \<open>Init containers and the base of a template\<close>

definition privileged :: security_context where
  "privileged = \<lparr>scx_Privileged = Some True, scx_Other = ''''\<rparr>"

definition init_container ::
    "string \<Rightarrow> string \<Rightarrow> string list \<Rightarrow> string list \<Rightarrow> resource_requirements \<Rightarrow> container" where
  "init_container name img command args res =
     zero_container\<lparr>c_Image := img, c_Name := name, c_Command := command,
       c_ImagePullPolicy := ''IfNotPresent'', c_Args := args, c_Resources := res,
       c_SecurityContext := Some privileged\<rparr>"

definition constructBeDefaultInitContainer :: "string \<Rightarrow> container" where
  "constructBeDefaultInitContainer defaultImage =
     init_container ''default-init'' (if defaultImage = '''' then DEFAULT_INIT_IMAGE else defaultImage)
       [''/bin/sh''] [''-c'', ''sysctl -w vm.max_map_count=2000000 && swapoff -a''] zero_resources"

text \<open>
  The user's initialisation runs after the default one of a BE. The image that is used is
  written back into the specification.
\<close>

definition constructDisaggregatedInitContainers ::
    "bool \<Rightarrow> DisaggregatedComponentType \<Rightarrow> system_initialization option
     \<Rightarrow> container list \<times> system_initialization option" where
  "constructDisaggregatedInitContainers skipDefaultInit componentType si =
     (let initImage =
            (case si of
               None \<Rightarrow> DEFAULT_INIT_IMAGE
             | Some s \<Rightarrow> if si_InitImage s \<noteq> '''' then si_InitImage s else DEFAULT_INIT_IMAGE)
      in ((if \<not> skipDefaultInit \<and> componentType = DisaggregatedBE
           then [constructBeDefaultInitContainer initImage] else []) @
          (case si of
             None \<Rightarrow> []
           | Some s \<Rightarrow> [init_container ''init'' initImage (si_Command s) (si_Args s) (si_Resources s)]),
          map_option (\<lambda>s. s\<lparr>si_InitImage := initImage\<rparr>) si))"

definition podinfo_volume :: volume where
  "podinfo_volume = \<lparr>v_Name = POD_INFO_VOLUME_NAME,
     v_Source = DownwardAPI [(''labels'', ''metadata.labels''), (''annotations'', ''metadata.annotations'')]\<rparr>"

definition podinfo_mount :: volume_mount where
  "podinfo_mount = mount POD_INFO_VOLUME_NAME POD_INFO_PATH"

text \<open>The template and the specification, whose init image may be filled in.\<close>

definition NewPodTemplateSpecWithCommonSpec ::
    "bool \<Rightarrow> common_spec \<Rightarrow> DisaggregatedComponentType \<Rightarrow> pod_template \<times> common_spec" where
  "NewPodTemplateSpecWithCommonSpec skipDefaultInit cs componentType =
     (case constructDisaggregatedInitContainers skipDefaultInit componentType (cms_SystemInitialization cs) of
        (inits, si) \<Rightarrow>
          (zero_pod_template\<lparr>pt_Name := ToLower (component_text componentType),
             pt_Annotations := cms_Annotations cs, pt_Labels := cms_Labels cs,
             pt_ImagePullSecrets := cms_ImagePullSecrets cs, pt_NodeSelector := cms_NodeSelector cs,
             pt_ServiceAccountName := cms_ServiceAccount cs, pt_Affinity := cms_Affinity cs,
             pt_Tolerations := cms_Tolerations cs, pt_HostAliases := cms_HostAliases cs,
             pt_InitContainers := inits, pt_SecurityContext := cms_SecurityContext cs,
             pt_Volumes := [podinfo_volume]\<rparr>,
           cs\<lparr>cms_SystemInitialization := si\<rparr>))"

definition NewContainerWithCommonSpec :: "common_spec \<Rightarrow> container" where
  "NewContainerWithCommonSpec cs =
     zero_container\<lparr>c_Image := cms_Image cs, c_SecurityContext := cms_ContainerSecurityContext cs,
       c_Resources := cms_Resources cs, c_VolumeMounts := [podinfo_mount]\<rparr>"

section \<open>Secrets and Kerberos\<close>

definition secret_volume :: "secret_mount \<Rightarrow> volume \<times> volume_mount" where
  "secret_volume sec =
     (\<lparr>v_Name = sm_SecretName sec, v_Source = SecretSource (sm_SecretName sec)\<rparr>,
      mount (sm_SecretName sec) (if sm_MountPath sec = '''' then secret_config_path else sm_MountPath sec))"

definition GetMultiSecretVolumeAndVolumeMountWithCommonSpec ::
    "common_spec \<Rightarrow> volume list \<times> volume_mount list" where
  "GetMultiSecretVolumeAndVolumeMountWithCommonSpec cSpec =
     (map (fst \<circ> secret_volume) (cms_Secrets cSpec), map (snd \<circ> secret_volume) (cms_Secrets cSpec))"

definition getKerberosConfigAndSecretVolumeAndVolumeMount ::
    "string \<Rightarrow> string \<Rightarrow> volume list \<times> volume_mount list" where
  "getKerberosConfigAndSecretVolumeAndVolumeMount configMapName secretName =
     ([\<lparr>v_Name = krb5_volume_name, v_Source = ConfigMapSource configMapName\<rparr>,
       \<lparr>v_Name = keytab_volume_name, v_Source = SecretSource secretName\<rparr>],
      [mount krb5_volume_name krb5_default_mount_path, mount keytab_volume_name keytab_default_mount_path])"

definition GetDv1KerberosVolumeAndVolumeMount :: "kerberos_info option \<Rightarrow> volume list \<times> volume_mount list" where
  "GetDv1KerberosVolumeAndVolumeMount kerberosInfo =
     (case kerberosInfo of
        None \<Rightarrow> ([], [])
      | Some k \<Rightarrow> getKerberosConfigAndSecretVolumeAndVolumeMount (ki_Krb5ConfigMap k) (ki_KeytabSecretName k))"

definition Contains :: "string \<Rightarrow> string \<Rightarrow> bool" where
  "Contains s t = (cut_at t s \<noteq> None)"

text \<open>The first option of a JVM setting that names the Kerberos configuration.\<close>

definition krb5_option :: "conf_value option \<Rightarrow> go_error + string option" where
  "krb5_option v =
     (case v of
        None \<Rightarrow> Inr None
      | Some v \<Rightarrow>
          bindE (string_of_conf v) (\<lambda>opts.
            Inr (map_option (\<lambda>opt. last (Split opt ''=''))
              (List.find (\<lambda>opt. Contains opt ''-Djava.security.krb5.conf='')
                (Split (filter (\<lambda>c. c \<noteq> CHR 0x22) opts) '' '')))))"

definition GetKrb5ConfFromJavaOpts :: "conf \<Rightarrow> go_error + string" where
  "GetKrb5ConfFromJavaOpts javaOpts =
     bindE (krb5_option (map_of javaOpts ''java_opts_for_jdk_17'')) (\<lambda>jdk17.
       case jdk17 of
         Some path \<Rightarrow> Inr path
       | None \<Rightarrow>
           bindE (krb5_option (map_of javaOpts ''java_opts'')) (\<lambda>common.
             Inr (case common of Some path \<Rightarrow> path | None \<Rightarrow> KRB5_DEFAULT_CONFIG)))"

fun krb5ConfPath :: "conf \<Rightarrow> DisaggregatedComponentType \<Rightarrow> go_error + string" where
  "krb5ConfPath config DisaggregatedFE = GetKrb5ConfFromJavaOpts config"
| "krb5ConfPath config DisaggregatedBE =
     (case map_of config ''kerberos_krb5_conf_path'' of
        Some v \<Rightarrow> string_of_conf v
      | None \<Rightarrow> Inr KRB5_DEFAULT_CONFIG)"
| "krb5ConfPath config DisaggregatedMS = Inr ''''"
| "krb5ConfPath config (DisaggregatedOther t) = Inr ''''"

definition BuildKerberosEnvForDDC ::
    "kerberos_info option \<Rightarrow> conf \<Rightarrow> DisaggregatedComponentType \<Rightarrow> go_error + env_var list" where
  "BuildKerberosEnvForDDC info config componentType =
     (case info of
        None \<Rightarrow> Inr []
      | Some k \<Rightarrow>
          bindE (krb5ConfPath config componentType) (\<lambda>confPath.
            Inr [env ''KRB5_MOUNT_PATH'' krb5_default_mount_path, env ''KRB5_CONFIG'' confPath,
                 env ''KEYTAB_MOUNT_PATH'' keytab_default_mount_path,
                 env ''KEYTAB_FINAL_USED_PATH''
                   (if ki_KeytabPath k \<noteq> '''' then ki_KeytabPath k else keytab_default_mount_path)]))"

text \<open>
  \<^verbatim>\<open>AddClusterSpecForPodTemplate\<close> writes through a pointer to the main container, which
  is nil when the template has no container of that name.
\<close>

definition add_to_container ::
    "string \<Rightarrow> env_var list \<Rightarrow> volume_mount list \<Rightarrow> pod_template \<Rightarrow> go_error + pod_template" where
  "add_to_container name envs vms pts =
     (if envs = [] \<and> vms = [] then Inr pts
      else if list_ex (\<lambda>c. c_Name c = name) (pt_Containers pts) then
        Inr (pts\<lparr>pt_Containers := update_first (\<lambda>c. c_Name c = name)
          (\<lambda>c. c\<lparr>c_Env := c_Env c @ envs, c_VolumeMounts := c_VolumeMounts c @ vms\<rparr>) (pt_Containers pts)\<rparr>)
      else Inl (Panic ''c.Env''))"

definition AddClusterSpecForPodTemplate ::
    "DisaggregatedComponentType \<Rightarrow> conf \<Rightarrow> ddc_spec \<Rightarrow> pod_template \<Rightarrow> go_error + pod_template" where
  "AddClusterSpecForPodTemplate componentType configMap spec pts =
     (if componentType \<noteq> DisaggregatedFE \<and> componentType \<noteq> DisaggregatedBE then Inr pts
      else
        let name = (if componentType = DisaggregatedFE then DISAGGREGATED_FE_MAIN_CONTAINER_NAME
                    else DISAGGREGATED_BE_MAIN_CONTAINER_NAME);
            (volumes, volumeMounts) = GetDv1KerberosVolumeAndVolumeMount (spec_KerberosInfo spec)
        in bindE (BuildKerberosEnvForDDC (spec_KerberosInfo spec) configMap componentType) (\<lambda>envs.
           bindE (add_to_container name envs volumeMounts pts) (\<lambda>pts.
             Inr (pts\<lparr>pt_Volumes := pt_Volumes pts @ volumes\<rparr>))))"

text \<open>The secret of the administrator, for the FE and the compute groups.\<close>

definition auth_volumes :: "DorisDisaggregatedCluster \<Rightarrow> volume list" where
  "auth_volumes ddc =
     (if spec_AuthSecret (ddc_Spec ddc) \<noteq> ''''
      then [\<lparr>v_Name = auth_volume_name, v_Source = SecretSource (spec_AuthSecret (ddc_Spec ddc))\<rparr>] else [])"

definition auth_mounts :: "DorisDisaggregatedCluster \<Rightarrow> volume_mount list" where
  "auth_mounts ddc =
     (if spec_AuthSecret (ddc_Spec ddc) \<noteq> '''' then [mount auth_volume_name basic_auth_path] else [])"

definition admin_envs :: "DorisDisaggregatedCluster \<Rightarrow> env_var list" where
  "admin_envs ddc =
     (case spec_AdminUser (ddc_Spec ddc) of
        None \<Rightarrow> []
      | Some u \<Rightarrow> [env ''USER'' (au_Name u), env ''PASSWD'' (au_Password u)])"

section \<open>Affinity\<close>

definition newDefaultAffinity :: "string \<Rightarrow> string \<Rightarrow> affinity option" where
  "newDefaultAffinity matchKey val =
     (if matchKey = '''' \<or> val = '''' then None
      else Some \<lparr>af_NodeAffinity = None, af_PodAffinity = None,
        af_PodAntiAffinity = Some \<lparr>paa_Required = [],
          paa_Preferred = [LabelTerm 20 matchKey [val] NODE_TOPOLOGYKEY]\<rparr>\<rparr>)"

definition ConstructDefaultAffinity ::
    "string \<Rightarrow> string \<Rightarrow> affinity option \<Rightarrow> go_error + affinity option" where
  "ConstructDefaultAffinity matchKey val ddcAffinity =
     (case ddcAffinity of
        None \<Rightarrow> Inr (newDefaultAffinity matchKey val)
      | Some given \<Rightarrow>
          (case newDefaultAffinity matchKey val of
             None \<Rightarrow> Inl (Panic ''affinity.NodeAffinity'')
           | Some a \<Rightarrow>
               Inr (Some \<lparr>af_NodeAffinity = af_NodeAffinity given, af_PodAffinity = af_PodAffinity given,
                 af_PodAntiAffinity =
                   (case af_PodAntiAffinity given of
                      None \<Rightarrow> af_PodAntiAffinity a
                    | Some g \<Rightarrow> map_option (\<lambda>p. \<lparr>paa_Required = paa_Required g,
                        paa_Preferred = paa_Preferred p @ paa_Preferred g\<rparr>) (af_PodAntiAffinity a))\<rparr>)))"

definition NewDefaultStatefulset :: "DorisDisaggregatedCluster \<Rightarrow> statefulset" where
  "NewDefaultStatefulset ddc =
     zero_sts\<lparr>sts_Namespace := ddc_Namespace ddc, sts_OwnerReferences := [owner_of ddc],
       sts_PodManagementPolicy := ''Parallel'', sts_RevisionHistoryLimit := Some 5,
       sts_UpdateStrategy := \<lparr>us_Type = RollingUpdateStrategy, us_RollingUpdate = Some (Some 0)\<rparr>\<rparr>"

text \<open>\<^verbatim>\<open>GetInstanceHashId\<close>: a hash of namespace and name, folded into ten digits.\<close>

definition GetInstanceHashId :: "DorisDisaggregatedCluster \<Rightarrow> int" where
  "GetInstanceHashId ddc =
     (let instanceId = ddc_Namespace ddc @ ''-'' @ ddc_Name ddc; rangeStart = 1000000000; rangeEnd = 2000000000
      in sha256_int instanceId mod (rangeEnd - rangeStart) + rangeStart)"

text \<open>Ready pods, counted in an \<^verbatim>\<open>int32\<close>.\<close>

definition count_ready :: "pod list \<Rightarrow> int" where
  "count_ready pods = wrap32 (int (length (filter PodIsReady pods)))"

end
