(* ===== verification/Compute_Groups.thy ===== *)
theory Compute_Groups
  imports Scale_Down Graceful_Machine Disagg_Pods
begin

text \<open>
  The compute-group controller (\<^verbatim>\<open>computegroups/controller.go\<close>, \<^verbatim>\<open>util.go\<close> and the
  labels of \<^verbatim>\<open>statefulset.go\<close>): validation of the specification, the reconcile of a
  group's StatefulSet with its guards (immutable storage, decommission in progress, graceful
  action in progress), the removal of the resources of groups that are no longer
  specified, and the status. Functions that write through the cluster pointer return the
  cluster.
\<close>

section \<open>Labels and owners\<close>

definition ownerReference2ddc :: "owner_ref list \<Rightarrow> DorisDisaggregatedCluster \<Rightarrow> bool" where
  "ownerReference2ddc ors cluster =
     list_ex (\<lambda>r. or_Name r = ddc_Name cluster \<and> or_UID r = ddc_UID cluster) ors"

definition getUniqueIdFromClientObject :: "string_map \<Rightarrow> string" where
  "getUniqueIdFromClientObject labels = map_get labels DorisDisaggregatedComputeGroupUniqueId"

section \<open>Validation\<close>

text \<open>The loop over the groups with the set of identifiers seen so far.\<close>

fun duplicated :: "string set \<Rightarrow> compute_group list \<Rightarrow> string" where
  "duplicated seen [] = ''''"
| "duplicated seen (cg # cgs) =
     (if cg_UniqueId cg \<in> seen then cg_UniqueId cg @ '';'' else '''') @
     duplicated (insert (cg_UniqueId cg) seen) cgs"

definition validateDuplicated :: "compute_group list \<Rightarrow> string" where
  "validateDuplicated cgs = duplicated {} cgs"

text \<open>
  \<^verbatim>\<open>regexp.Match\<close>: whether some substring is in the language of the expression. A
  prefix is matched by derivatives.
\<close>

datatype regex =
    RNone
  | REmpty
  | RClass "char list"
  | RSeq regex regex
  | RAlt regex regex
  | RStar regex

fun nullable :: "regex \<Rightarrow> bool" where
  "nullable RNone = False"
| "nullable REmpty = True"
| "nullable (RClass cs) = False"
| "nullable (RSeq r s) = (nullable r \<and> nullable s)"
| "nullable (RAlt r s) = (nullable r \<or> nullable s)"
| "nullable (RStar r) = True"

fun deriv :: "char \<Rightarrow> regex \<Rightarrow> regex" where
  "deriv c RNone = RNone"
| "deriv c REmpty = RNone"
| "deriv c (RClass cs) = (if c \<in> set cs then REmpty else RNone)"
| "deriv c (RSeq r s) =
     (if nullable r then RAlt (RSeq (deriv c r) s) (deriv c s) else RSeq (deriv c r) s)"
| "deriv c (RAlt r s) = RAlt (deriv c r) (deriv c s)"
| "deriv c (RStar r) = RSeq (deriv c r) (RStar r)"

fun matches_prefix :: "regex \<Rightarrow> string \<Rightarrow> bool" where
  "matches_prefix r [] = nullable r"
| "matches_prefix r (c # cs) = (nullable r \<or> matches_prefix (deriv c r) cs)"

fun regexp_Match :: "regex \<Rightarrow> string \<Rightarrow> bool" where
  "regexp_Match r [] = matches_prefix r []"
| "regexp_Match r (c # cs) = (matches_prefix r (c # cs) \<or> regexp_Match r cs)"

definition letters :: "char list" where
  "letters = ''abcdefghijklmnopqrstuvwxyzABCDEFGHIJKLMNOPQRSTUVWXYZ''"

definition digits :: "char list" where "digits = ''0123456789''"

definition compute_group_name_regex :: regex where
  "compute_group_name_regex =
     RSeq (RClass letters)
       (RStar (RSeq (RAlt (RClass ''_'') REmpty) (RClass (digits @ letters))))"

definition compute_group_name_regex_text :: string where
  "compute_group_name_regex_text = ''[a-zA-Z](_?[0-9a-zA-Z])*''"

fun unmatched :: "compute_group list \<Rightarrow> string" where
  "unmatched [] = ''''"
| "unmatched (cg # cgs) =
     (if regexp_Match compute_group_name_regex (cg_UniqueId cg) then ''''
      else cg_UniqueId cg @ '' not match '' @ compute_group_name_regex_text) @ unmatched cgs"

definition validateRegex :: "compute_group list \<Rightarrow> string \<times> bool" where
  "validateRegex cgs =
     (let regStr = unmatched cgs in if regStr \<noteq> '''' then (regStr, False) else ('''', True))"

definition validateComputeGroup :: "compute_group list \<Rightarrow> event option \<times> bool" where
  "validateComputeGroup cgs =
     (let dupl = validateDuplicated cgs
      in if dupl \<noteq> '''' then
           (Some \<lparr>event_Type = EventWarning, event_Reason = ''CGUniqueIdentifierDuplicate'',
                  event_Message = ''unique identifier '' @ dupl @ '' duplicate in compute groups.''\<rparr>, False)
         else case validateRegex cgs of
             (reg, False) \<Rightarrow>
               (Some \<lparr>event_Type = EventWarning, event_Reason = ''CGUniqueIdentifierNotMatchRegex'',
                      event_Message = reg\<rparr>, False)
           | (reg, True) \<Rightarrow> (None, True))"

definition feAvailable ::
    "('w, 'x) kube_env_scheme \<Rightarrow> DorisDisaggregatedCluster \<Rightarrow> 'w \<Rightarrow> bool \<times> 'w" where
  "feAvailable K ddc w =
     (case GetEndpoints K (ddc_Namespace ddc) (GetFEServiceName ddc) w of
        (Inl e, w) \<Rightarrow> (False, w)
      | (Inr subsets, w) \<Rightarrow> (list_ex (\<lambda>addresses. addresses \<noteq> []) subsets, w))"

section \<open>Initial status\<close>

definition initialCGStatus ::
    "DorisDisaggregatedCluster \<Rightarrow> compute_group \<Rightarrow> go_error + DorisDisaggregatedCluster" where
  "initialCGStatus ddc cg =
     (case cg_Replicas cg of
        None \<Rightarrow> Inl (Panic ''*cg.Replicas'')
      | Some replicas \<Rightarrow>
          (case find_status (cg_UniqueId cg) ddc of
             Some s \<Rightarrow> Inr (write_status (cg_UniqueId cg) (s\<lparr>cgs_Replicas := replicas\<rparr>) ddc)
           | None \<Rightarrow>
               Inr (set_ComputeGroupStatuses
                 (ddc_ComputeGroupStatuses ddc @
                  [zero_ComputeGroupStatus\<lparr>cgs_Phase := Reconciling, cgs_UniqueId := cg_UniqueId cg,
                     cgs_StatefulsetName := GetCGStatefulsetName ddc cg,
                     cgs_ServiceName := GetCGServiceName ddc cg, cgs_Replicas := replicas\<rparr>]) ddc)))"

section \<open>Reconciling the StatefulSet\<close>

text \<open>
  \<^verbatim>\<open>equality.Semantic.DeepEqual\<close> on the normalised claims: the namespace is dropped, an
  unset volume mode is Filesystem.
\<close>

definition normalizeVolumeClaimTemplate :: "pvc \<Rightarrow> pvc" where
  "normalizeVolumeClaimTemplate c =
     c\<lparr>pvc_Namespace := '''',
       pvc_Spec := (pvc_Spec c)\<lparr>cl_VolumeMode :=
         (case cl_VolumeMode (pvc_Spec c) of None \<Rightarrow> Some ''Filesystem'' | Some m \<Rightarrow> Some m)\<rparr>\<rparr>"

definition volumeClaimTemplatesEqual :: "pvc list \<Rightarrow> pvc list \<Rightarrow> bool" where
  "volumeClaimTemplatesEqual new old =
     (if length new \<noteq> length old then False
      else map normalizeVolumeClaimTemplate new = map normalizeVolumeClaimTemplate old)"

text \<open>
  \<^verbatim>\<open>businessStatefulSetEqual\<close> compares copies without the update strategy and the
  graceful action and stores the hash on the new object.
\<close>

definition businessStatefulSetEqual ::
    "('w, 'x) hash_env_scheme \<Rightarrow> statefulset \<Rightarrow> statefulset \<Rightarrow> bool \<times> statefulset" where
  "businessStatefulSetEqual K new est =
     (case StatefulsetDeepEqualWithKey K (normalizeGracefulStatefulSetForCompare new)
             (normalizeGracefulStatefulSetForCompare est) DisaggregatedSpecHashValueAnnotation False of
        (equal, nst) \<Rightarrow>
          (let hashValue = map_get (sts_Annotations nst) DisaggregatedSpecHashValueAnnotation
           in (equal,
               if hashValue \<noteq> ''''
               then new\<lparr>sts_Annotations :=
                      (sts_Annotations new)(DisaggregatedSpecHashValueAnnotation \<mapsto> hashValue)\<rparr>
               else new)))"

definition rollingUpdatePatch :: string where
  "rollingUpdatePatch =
     (let q = [CHR 0x22]; l = [CHR 0x7B]; r = [CHR 0x7D]
      in l @ q @ ''spec'' @ q @ '':'' @ l @ q @ ''updateStrategy'' @ q @ '':'' @ l @ q @
         ''rollingUpdate'' @ q @ '':null'' @ r @ r @ r)"

definition clearStatefulSetRollingUpdate ::
    "('w, 'x) kube_env_scheme \<Rightarrow> string \<Rightarrow> string \<Rightarrow> 'w \<Rightarrow> 'w" where
  "clearStatefulSetRollingUpdate K namespace name w = snd (RawPatchSts K namespace name rollingUpdatePatch w)"

definition UseNewDefaultInitContainerImage :: "pod_template \<Rightarrow> pod_template" where
  "UseNewDefaultInitContainerImage pts =
     (let beImage = (case List.find (\<lambda>c. c_Name c = ''be'' \<or> c_Name c = ''compute'') (pt_Containers pts) of
                       None \<Rightarrow> '''' | Some c \<Rightarrow> c_Image c)
      in pts\<lparr>pt_InitContainers :=
           map (\<lambda>c. if c_Image c = DEFAULT_INIT_IMAGE then c\<lparr>c_Image := beImage\<rparr> else c)
             (pt_InitContainers pts)\<rparr>)"

definition useNewDefaultValuesInStatefulset :: "statefulset \<Rightarrow> statefulset" where
  "useNewDefaultValuesInStatefulset st =
     st\<lparr>sts_Template := UseNewDefaultInitContainerImage (sts_Template st)\<rparr>"

definition createEqual ::
    "('w, 'x) hash_env_scheme \<Rightarrow> statefulset \<Rightarrow> statefulset \<Rightarrow> 's \<Rightarrow> bool \<times> statefulset \<times> 's" where
  "createEqual K new est s =
     (case StatefulsetDeepEqualWithKey K (RestrictConditionsEqual new est) est
             DisaggregatedSpecHashValueAnnotation False of
        (ev, new) \<Rightarrow> (ev, new, s))"

text \<open>
  The comparison used to apply an existing StatefulSet. A changed one is marked with the
  cluster's generation, and the cluster with the name of the StatefulSet.
\<close>

definition applyEqual ::
    "('w, 'x) hash_env_scheme \<Rightarrow> compute_group \<Rightarrow> statefulset \<Rightarrow> statefulset \<Rightarrow> DorisDisaggregatedCluster
     \<Rightarrow> bool \<times> statefulset \<times> DorisDisaggregatedCluster" where
  "applyEqual K cg new est cluster =
     (case businessStatefulSetEqual K (RestrictConditionsEqual new est) est of
        (businessEqual, new) \<Rightarrow>
          (let new' = (if businessEqual then new
                       else new\<lparr>sts_Annotations := (sts_Annotations new)
                              (UpdateStatefulsetGeneration \<mapsto> Itoa (ddc_Generation cluster))\<rparr>);
               cluster' = (if businessEqual then cluster
                           else cluster\<lparr>ddc_Annotations := (ddc_Annotations cluster)
                              (ToLower (UpdateStatefulsetName (GetCGStatefulsetName cluster cg)) \<mapsto> ''true'')\<rparr>)
           in (businessEqual \<and> gracefulStatefulSetControlEqual new' est, new', cluster')))"

text \<open>
  The graceful part: with a status for the group, run the graceful reconcile; its error is
  only logged, and skipping the normal apply only forces strategy OnDelete. A panic
  unwinds.
\<close>

definition gracefulPart ::
    "('w, 'x) rollout_env_scheme \<Rightarrow> bool \<Rightarrow> statefulset \<Rightarrow> statefulset \<Rightarrow> DorisDisaggregatedCluster \<Rightarrow> compute_group
     \<Rightarrow> 'w \<Rightarrow> (go_error + statefulset \<times> DorisDisaggregatedCluster) \<times> 'w" where
  "gracefulPart K restConfig st est cluster cg w =
     (if \<not> restConfig then (Inr (st, cluster), w)
      else case find_status (cg_UniqueId cg) cluster of
          None \<Rightarrow> (Inr (st, cluster), w)
        | Some cgStatus \<Rightarrow>
            (case gracefulRolloutReconcile K st est cluster cg cgStatus w of
               ((st, cgStatus, skipApply, gracefulErr), w) \<Rightarrow>
                 (case gracefulErr of
                    Some e \<Rightarrow>
                      (if is_panic e then (Inl e, w)
                       else (Inr (if skipApply then ensureOnDeleteStrategy st else st,
                                  write_status (cg_UniqueId cg) cgStatus cluster), w))
                  | None \<Rightarrow>
                      (Inr (if skipApply then ensureOnDeleteStrategy st else st,
                            write_status (cg_UniqueId cg) cgStatus cluster), w))))"

type_synonym 'w cg_result = "(DorisDisaggregatedCluster \<times> event option \<times> go_error option) \<times> 'w"

definition cg_event :: "string \<Rightarrow> go_error \<Rightarrow> event" where
  "cg_event reason e = \<lparr>event_Type = EventWarning, event_Reason = reason, event_Message = error_text e\<rparr>"

definition storageImmutable :: "compute_group \<Rightarrow> go_error" where
  "storageImmutable cg = ErrorString (''compute group '' @ cg_UniqueId cg @
     '' storage template is immutable after creation; modifying BE file_cache_path or persistent volume settings requires recreating the compute group'')"

definition applyExisting ::
    "('w, 'x) rollout_env_scheme \<Rightarrow> statefulset \<Rightarrow> DorisDisaggregatedCluster \<Rightarrow> compute_group \<Rightarrow> 'w
     \<Rightarrow> 'w cg_result" where
  "applyExisting K st cluster cg w =
     (let w = (if us_Type (sts_UpdateStrategy st) = OnDeleteStrategy
               then clearStatefulSetRollingUpdate K (sts_Namespace st) (sts_Name st) w else w)
      in case ApplyStatefulSet K st (applyEqual K cg) useNewDefaultValuesInStatefulset cluster w of
           ((Some e, cluster), w) \<Rightarrow> ((cluster, Some (cg_event ''CGApplyResourceFailed'' e), Some e), w)
         | ((None, cluster), w) \<Rightarrow> ((cluster, None, None), w))"

definition reconcileStatefulset ::
    "('w, 'x) rollout_env_scheme \<Rightarrow> bool \<Rightarrow> statefulset \<Rightarrow> DorisDisaggregatedCluster \<Rightarrow> compute_group \<Rightarrow> 'w
     \<Rightarrow> 'w cg_result" where
  "reconcileStatefulset K restConfig st cluster cg w =
     (case GetSts K (sts_Namespace st) (sts_Name st) w of
        (Inl e, w) \<Rightarrow>
          (if IsNotFound e then
             (case ApplyStatefulSet K st (createEqual K) useNewDefaultValuesInStatefulset () w of
                ((Some e, _), w) \<Rightarrow> ((cluster, Some (cg_event ''CGCreateResourceFailed'' e), Some e), w)
              | ((None, _), w) \<Rightarrow> ((cluster, None, None), w))
           else ((cluster, None, Some e), w))
      | (Inr est, w) \<Rightarrow>
          (if \<not> volumeClaimTemplatesEqual (sts_VolumeClaimTemplates st) (sts_VolumeClaimTemplates est) then
             ((cluster, Some (cg_event ''CGStorageTemplateImmutable'' (storageImmutable cg)),
               Some (storageImmutable cg)), w)
           else
             (case preApplyStatefulSet K st est cluster cg w of
                ((cluster, Some e), w) \<Rightarrow> ((cluster, Some (cg_event ''CGSqlExecFailed'' e), Some e), w)
              | ((cluster, None), w) \<Rightarrow>
                  (case skipApplyStatefulset cluster cg of
                     Inl e \<Rightarrow> ((cluster, None, Some e), w)
                   | Inr True \<Rightarrow> ((cluster, None, None), w)
                   | Inr False \<Rightarrow>
                       (case gracefulPart K restConfig st est cluster cg w of
                          (Inl e, w) \<Rightarrow> ((cluster, None, Some e), w)
                        | (Inr (st, cluster), w) \<Rightarrow> applyExisting K st cluster cg w)))))"

section \<open>Clearing what is no longer specified\<close>

definition specified :: "DorisDisaggregatedCluster \<Rightarrow> string \<Rightarrow> bool" where
  "specified ddc uid = list_ex (\<lambda>cg. cg_UniqueId cg = uid) (ddc_ComputeGroups ddc)"

definition findUnusedSvcs :: "service list \<Rightarrow> DorisDisaggregatedCluster \<Rightarrow> string list" where
  "findUnusedSvcs svcs ddc =
     map svc_Name (filter (\<lambda>s. ownerReference2ddc (svc_OwnerReferences s) ddc \<and>
       \<not> specified ddc (getUniqueIdFromClientObject (svc_Labels s))) svcs)"

definition findUnusedStssAndUniqueIds ::
    "statefulset list \<Rightarrow> DorisDisaggregatedCluster \<Rightarrow> string list \<times> string list" where
  "findUnusedStssAndUniqueIds stss ddc =
     (let unused = filter (\<lambda>s. ownerReference2ddc (sts_OwnerReferences s) ddc \<and>
            \<not> specified ddc (getUniqueIdFromClientObject (sts_Labels s))) stss
      in (map sts_Name unused, map (\<lambda>s. getUniqueIdFromClientObject (sts_Labels s)) unused))"

fun clearStatefulsets ::
    "('w, 'x) kube_env_scheme \<Rightarrow> string list \<Rightarrow> DorisDisaggregatedCluster \<Rightarrow> 'w \<Rightarrow> go_error option \<times> 'w" where
  "clearStatefulsets K [] ddc w = (None, w)"
| "clearStatefulsets K (name # names) ddc w =
     (case DeleteStatefulset K (ddc_Namespace ddc) name w of
        (Some e, w) \<Rightarrow> (Some e, w)
      | (None, w) \<Rightarrow> clearStatefulsets K names ddc w)"

fun clearSvcs ::
    "('w, 'x) kube_env_scheme \<Rightarrow> string list \<Rightarrow> DorisDisaggregatedCluster \<Rightarrow> 'w \<Rightarrow> go_error option \<times> 'w" where
  "clearSvcs K [] ddc w = (None, w)"
| "clearSvcs K (name # names) ddc w =
     (case DeleteService K (ddc_Namespace ddc) name w of
        (Some e, w) \<Rightarrow> (Some e, w)
      | (None, w) \<Rightarrow> clearSvcs K names ddc w)"

fun dropGroups ::
    "('w, 'x) kube_env_scheme \<Rightarrow> conn \<Rightarrow> string list \<Rightarrow> 'w \<Rightarrow> go_error option \<times> 'w" where
  "dropGroups K db [] w = (None, w)"
| "dropGroups K db (cgid # cgids) w =
     (case scaledOutBENodesByDrop K db cgid 0 w of
        (Some e, w) \<Rightarrow>
          (Some e, warn K ''CGSqlExecFailed'' (''computeGroupSync dropCGBySQLClient failed: '' @ error_text e) w)
      | (None, w) \<Rightarrow> dropGroups K db cgids w)"

definition clearCGInDorisMeta ::
    "('w, 'x) kube_env_scheme \<Rightarrow> string list \<Rightarrow> DorisDisaggregatedCluster \<Rightarrow> 'w \<Rightarrow> go_error option \<times> 'w" where
  "clearCGInDorisMeta K cgids ddc w =
     (if cgids = [] then (None, w)
      else case getMasterSqlClient K ddc w of
          (Inl e, w) \<Rightarrow>
            (if is_panic e then (Some e, w)
             else (Some e, warn K ''CGSqlExecFailed''
                     (''computeGroupSync dropCGBySQLClient failed: '' @ error_text e) w))
        | (Inr sqlClient, w) \<Rightarrow>
            (case dropGroups K sqlClient cgids w of (r, w) \<Rightarrow> (r, CloseDB K sqlClient w)))"

text \<open>The claims of a StatefulSet whose ordinal is not below the replicas.\<close>

definition unusedPVC :: "string \<Rightarrow> int \<Rightarrow> pvc \<Rightarrow> bool" where
  "unusedPVC stsName replicas c =
     (case Split (pvc_Name c) (stsName @ ''-'') of
        [_, s] \<Rightarrow> (case ParseInt s 32 of None \<Rightarrow> False | Some index \<Rightarrow> index \<ge> replicas)
      | _ \<Rightarrow> False)"

fun deletePVCs ::
    "('w, 'x) kube_env_scheme \<Rightarrow> string \<Rightarrow> string_map \<Rightarrow> string list \<Rightarrow> go_error option \<Rightarrow> 'w
     \<Rightarrow> go_error option \<times> 'w" where
  "deletePVCs K ns labels [] mergeError w = (mergeError, w)"
| "deletePVCs K ns labels (pvcName # names) mergeError w =
     (case DeletePVC K ns pvcName labels w of
        (None, w) \<Rightarrow> deletePVCs K ns labels names mergeError w
      | (Some e, w) \<Rightarrow>
          deletePVCs K ns labels names (MergeError mergeError (Some e))
            (warn K ''PVCDeleteFailed'' (error_text e) w))"

definition ClearStatefulsetUnusedPVCs ::
    "('w, 'x) kube_env_scheme \<Rightarrow> DorisDisaggregatedCluster \<Rightarrow> ComputeGroupStatus \<Rightarrow> 'w
     \<Rightarrow> go_error option \<times> 'w" where
  "ClearStatefulsetUnusedPVCs K ddc cgs w =
     (let pvcLabels = newCGPodsSelector (ddc_Name ddc) (cgs_UniqueId cgs)
      in case ListPvcs K (ddc_Namespace ddc) pvcLabels w of
           (Inl e, w) \<Rightarrow>
             (Some e, warn K ''PVCListFailed''
                (''DisaggregatedComputeGroupsController ClearStatefulsetUnusedPVCs list pvc failed:'' @
                 error_text e @ ''!'') w)
         | (Inr currentPVCs, w) \<Rightarrow>
             (case List.find (\<lambda>cg. cg_UniqueId cg = cgs_UniqueId cgs) (rev (ddc_ComputeGroups ddc)) of
                None \<Rightarrow> (None, w)
              | Some cg \<Rightarrow>
                  (let stsName = GetCGStatefulsetName ddc cg
                   in case GetSts K (ddc_Namespace ddc) stsName w of
                        (Inl e, w) \<Rightarrow> (None, w)
                      | (Inr sts, w) \<Rightarrow>
                          (case sts_Replicas sts of
                             None \<Rightarrow> (Some (Panic ''*sts.Spec.Replicas''), w)
                           | Some replicas \<Rightarrow>
                               deletePVCs K (ddc_Namespace ddc) pvcLabels
                                 (map pvc_Name (filter (unusedPVC stsName replicas) currentPVCs)) None w))))"

fun clearPVCs ::
    "('w, 'x) kube_env_scheme \<Rightarrow> DorisDisaggregatedCluster \<Rightarrow> ComputeGroupStatus list \<Rightarrow> 'w
     \<Rightarrow> go_error option \<times> 'w" where
  "clearPVCs K ddc [] w = (None, w)"
| "clearPVCs K ddc (cgs # cgss) w =
     (case ClearStatefulsetUnusedPVCs K ddc cgs w of
        (Some e, w) \<Rightarrow> if is_panic e then (Some e, w) else clearPVCs K ddc cgss w
      | (None, w) \<Rightarrow> clearPVCs K ddc cgss w)"

text \<open>
  \<^verbatim>\<open>ClearResources\<close> returns the cluster, (cleared, err). An error of the claims is only
  logged.
\<close>

definition ClearResources ::
    "('w, 'x) kube_env_scheme \<Rightarrow> DorisDisaggregatedCluster \<Rightarrow> 'w
     \<Rightarrow> (DorisDisaggregatedCluster \<times> bool \<times> go_error option) \<times> 'w" where
  "ClearResources K ddc w =
     (let eCGs = filter (\<lambda>s. specified ddc (cgs_UniqueId s)) (ddc_ComputeGroupStatuses ddc);
          delComputeGroupIds = map cgs_ComputeGroupId
            (filter (\<lambda>s. \<not> specified ddc (cgs_UniqueId s)) (ddc_ComputeGroupStatuses ddc));
          cls = GetCG2LayerCommonSchedulerLabels (ddc_Name ddc)
      in case ListSvcs K (ddc_Namespace ddc) cls w of
           (Inl e, w) \<Rightarrow> ((ddc, False, Some e), w)
         | (Inr svcs, w) \<Rightarrow>
      (case ListSts K (ddc_Namespace ddc) cls w of
           (Inl e, w) \<Rightarrow> ((ddc, False, Some e), w)
         | (Inr stss, w) \<Rightarrow>
      (let delSvcNames = findUnusedSvcs svcs ddc;
           (delStsNames, delUniqueIds) = findUnusedStssAndUniqueIds stss ddc
       in case clearCGInDorisMeta K delComputeGroupIds ddc w of
           (Some e, w) \<Rightarrow> ((ddc, False, Some e), w)
         | (None, w) \<Rightarrow>
      (case clearSvcs K delSvcNames ddc w of
           (Some e, w) \<Rightarrow> ((ddc, False, Some e), w)
         | (None, w) \<Rightarrow>
      (case clearStatefulsets K delStsNames ddc w of
           (Some e, w) \<Rightarrow> ((ddc, False, Some e), w)
         | (None, w) \<Rightarrow>
      (case clearPVCs K ddc (eCGs @
              map (\<lambda>uid. zero_ComputeGroupStatus\<lparr>cgs_UniqueId := uid\<rparr>) delUniqueIds) w of
           (Some e, w) \<Rightarrow> ((ddc, False, Some e), w)
         | (None, w) \<Rightarrow> ((set_ComputeGroupStatuses eCGs ddc, True, None), w)))))))"

section \<open>Status\<close>

definition hasGracefulAction :: "statefulset \<Rightarrow> bool" where
  "hasGracefulAction sts = (map_get (sts_Annotations sts) gracefulActionAnnotation \<noteq> '''')"

definition updateCGStatus ::
    "('w, 'x) kube_env_scheme \<Rightarrow> DorisDisaggregatedCluster \<Rightarrow> ComputeGroupStatus \<Rightarrow> 'w
     \<Rightarrow> (ComputeGroupStatus \<times> go_error option) \<times> 'w" where
  "updateCGStatus K ddc cgs w =
     (case GetSts K (ddc_Namespace ddc) (cgs_StatefulsetName cgs) w of
        (Inl e, w) \<Rightarrow> ((cgs, Some e), w)
      | (Inr sts, w) \<Rightarrow>
          (let updateStatefulsetKey = ToLower (UpdateStatefulsetName (cgs_StatefulsetName cgs))
           in if ddc_Annotations ddc updateStatefulsetKey \<noteq> None \<and>
                 ddc_Generation ddc \<noteq> ReturnStatefulsetUpdatedGeneration (Some sts) updateStatefulsetKey
              then ((cgs, Some (ErrorString ''waiting statefulset updated'')), w)
              else
                (case ListPods K (ddc_Namespace ddc) (newCGPodsSelector (ddc_Name ddc) (cgs_UniqueId cgs)) w of
                   (Inl e, w) \<Rightarrow> ((cgs, Some e), w)
                 | (Inr pods, w) \<Rightarrow>
                     (let allUpdated =
                            StatefulsetControlledPodsAllUseNewUpdateRevision (sts_UpdateRevision sts) pods;
                          cgs = cgs\<lparr>cgs_AvailableReplicas := count_ready pods\<rparr>
                      in if hasGracefulAction sts then
                           ((if cgs_Phase cgs = Ready then cgs\<lparr>cgs_Phase := GracefulRolling\<rparr> else cgs, None), w)
                         else if allUpdated \<and> cgs_AvailableReplicas cgs = cgs_Replicas cgs
                         then ((cgs\<lparr>cgs_Phase := Ready\<rparr>, None), w)
                         else ((cgs, None), w)))))"

text \<open>
  \<^verbatim>\<open>json.Unmarshal\<close> into \<^verbatim>\<open>map[string]string\<close>: null leaves the empty string, any
  other value that is not a string is an error.
\<close>

definition unmarshal_string_map :: "string \<Rightarrow> string_map option" where
  "unmarshal_string_map s =
     (case json_parse s of
        Some (JObj ms) \<Rightarrow>
          (if list_all (\<lambda>(k, v). case v of JStr t \<Rightarrow> True | JNull \<Rightarrow> True | _ \<Rightarrow> False) ms
           then Some (map_of (rev (map (\<lambda>(k, v). (k, case v of JStr t \<Rightarrow> t | _ \<Rightarrow> '''')) ms)))
           else None)
      | Some JNull \<Rightarrow> Some Map.empty
      | _ \<Rightarrow> None)"

text \<open>
  The group of \<^verbatim>\<open>(.*)-[0-9]+$\<close> in a name without newlines: what precedes the last
  dash when only digits, at least one, follow it.
\<close>

definition ordinal_prefix :: "string \<Rightarrow> string option" where
  "ordinal_prefix s =
     (let ds = takeWhile (\<lambda>c. c \<in> set digits) (rev s); rest = dropWhile (\<lambda>c. c \<in> set digits) (rev s)
      in case rest of
           c # p \<Rightarrow> if ds \<noteq> [] \<and> c = CHR ''-'' then Some (rev p) else None
         | [] \<Rightarrow> None)"

fun groupIds ::
    "('w, 'x) sql_env_scheme \<Rightarrow> Backend list \<Rightarrow> string_map \<Rightarrow> go_error + string_map" where
  "groupIds K [] m = Inr m"
| "groupIds K (backend # backends) m =
     (case unmarshal_string_map (be_Tag backend) of
        None \<Rightarrow> Inl (ErrorString (JsonErrorText K (be_Tag backend)))
      | Some tags \<Rightarrow>
          (case tags COMPUTE_GROUP_ID of
             None \<Rightarrow> Inl (ErrorString (''DisaggregatedComputeGroupsController recordComputeGroupIds backend tag get compute_group_name failed, tag: ''
               @ be_Tag backend @ '', err: no compute_group_id field found ''))
           | Some cgid \<Rightarrow>
               (case ordinal_prefix (hd (Split (be_Host backend) ''.'')) of
                  None \<Rightarrow> Inl (Panic ''index out of range'')
                | Some stsName \<Rightarrow> groupIds K backends (m(stsName \<mapsto> cgid)))))"

definition recordComputeGroupIds ::
    "('w, 'x) kube_env_scheme \<Rightarrow> DorisDisaggregatedCluster \<Rightarrow> 'w
     \<Rightarrow> (DorisDisaggregatedCluster \<times> go_error option) \<times> 'w" where
  "recordComputeGroupIds K ddc w =
     (case GetManagementAdminUserAndPWD K ddc w of ((adminUserName, password), w) \<Rightarrow>
      (case GetConfigValuesFromConfigMaps K (ddc_Namespace ddc) FE_RESOLVEKEY
              (cms_ConfigMaps (fes_CommonSpec (spec_FeSpec (ddc_Spec ddc)))) w of (confMap, w) \<Rightarrow>
       (case GetPort confMap QUERY_PORT of
          Inl e \<Rightarrow> ((ddc, Some e), w)
        | Inr queryPort \<Rightarrow>
            (case FindSecretTLSConfig confMap ddc of
               Inl e \<Rightarrow> ((ddc, Some e), w)
             | Inr (tlsConfig, secretName) \<Rightarrow>
                 (case GetSecret K (ddc_Namespace ddc) secretName w of (sec, w) \<Rightarrow>
                  (case NewDorisSqlDB K (NewDBConfig\<lparr>db_User := adminUserName, db_Password := password,
                          db_Host := GetFEVIPAddresss ddc, db_Port := Itoa queryPort\<rparr>) tlsConfig sec w of
                     (Inl e, w) \<Rightarrow> ((ddc, Some e), w)
                   | (Inr db, w) \<Rightarrow>
                       (case SelectBackends K db w of
                          (Inl e, w) \<Rightarrow> ((ddc, Some e), CloseDB K db w)
                        | (Inr backends, w) \<Rightarrow>
                            (case groupIds K backends Map.empty of
                               Inl e \<Rightarrow> ((ddc, Some e), CloseDB K db w)
                             | Inr m \<Rightarrow>
                                 ((set_ComputeGroupStatuses
                                     (map (\<lambda>s. s\<lparr>cgs_ComputeGroupId := map_get m (cgs_StatefulsetName s)\<rparr>)
                                        (ddc_ComputeGroupStatuses ddc)) ddc, None),
                                  CloseDB K db w)))))))))"

text \<open>
  The statuses are updated by one goroutine each, every one on its own element; here they
  run in the order of the slice. The texts of their errors are joined.
\<close>

fun updateAll ::
    "('w, 'x) kube_env_scheme \<Rightarrow> DorisDisaggregatedCluster \<Rightarrow> ComputeGroupStatus list \<Rightarrow> 'w
     \<Rightarrow> (ComputeGroupStatus list \<times> string) \<times> 'w" where
  "updateAll K ddc [] w = (([], ''''), w)"
| "updateAll K ddc (cgs # cgss) w =
     (case updateCGStatus K ddc cgs w of
        ((cgs, r), w) \<Rightarrow>
          (case updateAll K ddc cgss w of
             ((cgss, errMs), w) \<Rightarrow>
               ((cgs # cgss, (case r of None \<Rightarrow> '''' | Some e \<Rightarrow> error_text e) @ errMs), w)))"

definition countHealth :: "DorisDisaggregatedCluster \<Rightarrow> DorisDisaggregatedCluster" where
  "countHealth ddc =
     (let cgss = ddc_ComputeGroupStatuses ddc; h = status_ClusterHealth (ddc_Status ddc)
      in ddc\<lparr>ddc_Status := (ddc_Status ddc)\<lparr>status_ClusterHealth := h\<lparr>
           ch_CGCount := wrap32 (int (length cgss)),
           ch_CGFullAvailableCount := wrap32 (int (length (filter (\<lambda>s. cgs_Phase s = Ready) cgss))),
           ch_CGAvailableCount := wrap32 (int (length (filter (\<lambda>s. cgs_AvailableReplicas s > 0) cgss)))\<rparr>\<rparr>\<rparr>)"

definition UpdateComponentStatus ::
    "('w, 'x) kube_env_scheme \<Rightarrow> DorisDisaggregatedCluster \<Rightarrow> 'w
     \<Rightarrow> (DorisDisaggregatedCluster \<times> go_error option) \<times> 'w" where
  "UpdateComponentStatus K ddc w =
     (if ddc_ComputeGroupStatuses ddc = [] then ((ddc, None), w)
      else
        (case updateAll K ddc (ddc_ComputeGroupStatuses ddc) w of
           ((cgss, errMs), w) \<Rightarrow>
             (let ddc = set_ComputeGroupStatuses cgss ddc;
                  ((ddc, r), w) =
                    (if list_ex (\<lambda>s. cgs_ComputeGroupId s = '''') cgss
                     then recordComputeGroupIds K ddc w else ((ddc, None), w))
              in case r of
                   Some e \<Rightarrow>
                     (if is_panic e then ((ddc, Some e), w)
                      else ((countHealth ddc, if errMs = '''' then None else Some (ErrorString errMs)), w))
                 | None \<Rightarrow>
                     ((countHealth ddc, if errMs = '''' then None else Some (ErrorString errMs)), w))))"

end
