(* ===== verification/Disagg_MS.thy ===== *)
theory Disagg_MS
  imports Disagg_Pods
begin

text \<open>
  The meta service controller (\<^verbatim>\<open>metaservice/controller.go\<close>, \<^verbatim>\<open>statefulset.go\<close>): the
  StatefulSet with the FoundationDB endpoint, Sync, the status and the removal of the
  resources.
\<close>

section \<open>The StatefulSet\<close>

definition fdbClusterFileKey :: string where "fdbClusterFileKey = ''cluster-file''"

definition newMSSpecificEnvs ::
    "('w, 'x) kube_env_scheme \<Rightarrow> DorisDisaggregatedCluster \<Rightarrow> 'w \<Rightarrow> env_var list \<times> 'w" where
  "newMSSpecificEnvs K ddc w =
     (let fdb = ms_FDB (spec_MetaService (ddc_Spec ddc));
          ns = fdb_ConfigMapNamespace fdb; name = fdb_ConfigMapName fdb;
          failed = (\<lambda>text w. ([], warn K ''FDBAddressNotConfiged'' text w));
          found = (\<lambda>endpoint w.
            ([env ''FDB_ENDPOINT'' (if fdb_Address fdb \<noteq> '''' then fdb_Address fdb else endpoint)], w));
          where_is = ''namespace'' @ ns @ '' name '' @ name
      in if fdb_Address fdb = '''' \<and> (ns = '''' \<or> name = '''') then failed ''fdb not configed in spec'' w
         else if ns \<noteq> '''' \<and> name \<noteq> '''' then
           (case GetConfigMapObj K ns name w of
              (Inl e, w) \<Rightarrow> failed (''configmap '' @ where_is @ '' find failed '' @ error_text e) w
            | (Inr cm, w) \<Rightarrow>
                (case cm_Data cm of
                   None \<Rightarrow> failed (''configmap  '' @ where_is @ '' not have data.'') w
                 | Some d \<Rightarrow>
                     (case d fdbClusterFileKey of
                        None \<Rightarrow> failed (''configmap  '' @ where_is @ '' not have cluster-file'') w
                      | Some endpoint \<Rightarrow> found endpoint w)))
         else found '''' w)"

definition NewMSContainer ::
    "('w, 'x) hash_env_scheme \<Rightarrow> DorisDisaggregatedCluster \<Rightarrow> conf \<Rightarrow> 'w \<Rightarrow> (go_error + container) \<times> 'w" where
  "NewMSContainer K ddc cvs =
     (let cs = ms_CommonSpec (spec_MetaService (ddc_Spec ddc));
          (cmd, args) = GetDisaggregatedCommand DisaggregatedMS
      in bindW (liftW (GetDisaggregatedContainerPorts cvs DisaggregatedMS)) (\<lambda>ports.
         bindW (readW (newMSSpecificEnvs K ddc)) (\<lambda>envs.
         bindW (liftW (BuildVolumesVolumeMountsAndPVCs K cvs DisaggregatedMS cs)) (\<lambda>(_, vms, _).
           liftW (Inr (BuildDisaggregatedProbe cs DisaggregatedMS
             ((LifeCycleWithPreStopScript (GetDisaggregatedPreStopScript DisaggregatedMS)
                 (NewContainerWithCommonSpec cs))
              \<lparr>c_Command := cmd, c_Args := args, c_Name := DISAGGREGATED_MS_MAIN_CONTAINER_NAME,
               c_Ports := ports, c_Env := cms_EnvVars cs @ GetPodDefaultEnv @ envs,
               c_VolumeMounts := [podinfo_mount] @ vms @
                 snd (BuildDefaultConfigMapVolumesVolumeMounts (cms_ConfigMaps cs)) @
                 snd (GetMultiSecretVolumeAndVolumeMountWithCommonSpec cs)\<rparr>)))))))"

text \<open>
  The labels of the pods are the selector's map itself, to which the user's labels are
  added: the map is shared, so the selector of the StatefulSet gets them too.
\<close>

definition msPodLabels :: "DorisDisaggregatedCluster \<Rightarrow> string_map" where
  "msPodLabels ddc =
     newMSPodsSelector (ddc_Name ddc) ++ cms_Labels (ms_CommonSpec (spec_MetaService (ddc_Spec ddc)))"

definition NewMSPodTemplateSpec ::
    "('w, 'x) hash_env_scheme \<Rightarrow> DorisDisaggregatedCluster \<Rightarrow> conf \<Rightarrow> 'w
     \<Rightarrow> (go_error + pod_template \<times> DorisDisaggregatedCluster) \<times> 'w" where
  "NewMSPodTemplateSpec K ddc confMap =
     (let cs = ms_CommonSpec (spec_MetaService (ddc_Spec ddc));
          (pts, cs') = NewPodTemplateSpecWithCommonSpec False cs DisaggregatedMS;
          ddc = set_MsCommonSpec cs' ddc
      in bindW (NewMSContainer K ddc confMap) (\<lambda>c.
         bindW (liftW (BuildVolumesVolumeMountsAndPVCs K confMap DisaggregatedMS cs)) (\<lambda>(vs, _, _).
         bindW (liftW (ConstructDefaultAffinity DorisDisaggregatedClusterName
                  (map_get (msPodLabels ddc) DorisDisaggregatedClusterName) (cms_Affinity cs))) (\<lambda>affinity.
           liftW (Inr (pts\<lparr>pt_Labels := msPodLabels ddc, pt_Containers := pt_Containers pts @ [c],
             pt_Volumes := pt_Volumes pts @ vs @
               fst (BuildDefaultConfigMapVolumesVolumeMounts (cms_ConfigMaps cs)) @
               fst (GetMultiSecretVolumeAndVolumeMountWithCommonSpec cs),
             pt_Affinity := affinity\<rparr>, ddc))))))"

definition DefaultMetaserviceNumber :: int where "DefaultMetaserviceNumber = 2"

definition newMSStatefulset ::
    "('w, 'x) hash_env_scheme \<Rightarrow> DorisDisaggregatedCluster \<Rightarrow> conf \<Rightarrow> 'w
     \<Rightarrow> (go_error + statefulset \<times> DorisDisaggregatedCluster) \<times> 'w" where
  "newMSStatefulset K ddc confMap =
     (let cs = ms_CommonSpec (spec_MetaService (ddc_Spec ddc))
      in bindW (liftW (BuildVolumesVolumeMountsAndPVCs K confMap DisaggregatedMS cs)) (\<lambda>(_, _, vcts).
         bindW (NewMSPodTemplateSpec K ddc confMap) (\<lambda>(pts, ddc).
           liftW (Inr ((NewDefaultStatefulset ddc)
             \<lparr>sts_Name := GetMSStatefulsetName ddc, sts_Labels := newMSSchedulerLabels (ddc_Name ddc),
              sts_Replicas := Some (case cms_Replicas cs of None \<Rightarrow> DefaultMetaserviceNumber | Some n \<Rightarrow> n),
              sts_Selector := msPodLabels ddc, sts_Template := pts,
              sts_ServiceName := GetMSServiceName ddc, sts_VolumeClaimTemplates := vcts\<rparr>, ddc)))))"

section \<open>Sync\<close>

definition initMSStatus :: "DorisDisaggregatedCluster \<Rightarrow> DorisDisaggregatedCluster" where
  "initMSStatus ddc =
     (let s = ddc_MSStatus ddc
      in set_MSStatus (s\<lparr>mss_AvailableStatus := UnAvailable,
           mss_Phase := (if mss_Phase s \<noteq> PhaseOther '''' then mss_Phase s else Reconciling)\<rparr>) ddc)"

definition ms_event :: "string \<Rightarrow> go_error \<Rightarrow> event" where
  "ms_event r e = \<lparr>event_Type = EventWarning, event_Reason = r, event_Message = error_text e\<rparr>"

definition reconcileMSStatefulset ::
    "('w, 'x) hash_env_scheme \<Rightarrow> statefulset \<Rightarrow> DorisDisaggregatedCluster \<Rightarrow> 'w
     \<Rightarrow> (DorisDisaggregatedCluster \<times> event option \<times> go_error option) \<times> 'w" where
  "reconcileMSStatefulset K st ddc w =
     (case GetSts K (sts_Namespace st) (sts_Name st) w of
        (Inl e, w) \<Rightarrow>
          (if IsNotFound e then
             (case CreateSts K st w of
                (Some e, w) \<Rightarrow> ((ddc, Some (ms_event ''CGCreateResourceFailed'' e), Some e), w)
              | (None, w) \<Rightarrow> ((ddc, None, None), w))
           else ((ddc, None, Some e), w))
      | (Inr est, w) \<Rightarrow>
          (case ApplyStatefulSet K st (markedEqual K GetMSStatefulsetName) id ddc w of
             ((Some e, ddc), w) \<Rightarrow> ((ddc, Some (ms_event ''CGApplyResourceFailed'' e), Some e), w)
           | ((None, ddc), w) \<Rightarrow> ((ddc, None, None), w)))"

text \<open>An event with an error is recorded before the error is returned.\<close>

definition record_event :: "('w, 'x) kube_env_scheme \<Rightarrow> event option \<Rightarrow> 'w \<Rightarrow> 'w" where
  "record_event K event w = (case event of None \<Rightarrow> w | Some ev \<Rightarrow> Eventf K ev w)"

definition syncMSObjects ::
    "('w, 'x) hash_env_scheme \<Rightarrow> conf \<Rightarrow> service \<Rightarrow> statefulset \<Rightarrow> DorisDisaggregatedCluster \<Rightarrow> 'w
     \<Rightarrow> (DorisDisaggregatedCluster \<times> go_error option) \<times> 'w" where
  "syncMSObjects K confMap svc st ddc w =
     (case DefaultReconcileService K svc w of
        ((event, Some e), w) \<Rightarrow> ((ddc, Some e), record_event K event w)
      | ((_, None), w) \<Rightarrow>
          (case reconcileMSStatefulset K st ddc w of
             ((ddc, event, Some e), w) \<Rightarrow> ((ddc, Some e), record_event K event w)
           | ((ddc, _, None), w) \<Rightarrow>
               (case ReconcilePVC K ddc confMap DisaggregatedMS st None w of
                  ((_, Some e), w) \<Rightarrow> ((ddc, if is_panic e then Some e else None), w)
                | ((_, None), w) \<Rightarrow> ((ddc, None), w))))"

definition SyncMS ::
    "('w, 'x) hash_env_scheme \<Rightarrow> DorisDisaggregatedCluster \<Rightarrow> 'w
     \<Rightarrow> (DorisDisaggregatedCluster \<times> go_error option) \<times> 'w" where
  "SyncMS K ddc w =
     (let cs = ms_CommonSpec (spec_MetaService (ddc_Spec ddc))
      in case GetConfigValuesFromConfigMaps K (ddc_Namespace ddc) MS_RESOLVEKEY (cms_ConfigMaps cs) w of
           (confMap, w) \<Rightarrow>
             (case newMSService ddc confMap of
                Inl e \<Rightarrow> ((ddc, Some e), w)
              | Inr svc \<Rightarrow>
                  (case newMSStatefulset K ddc confMap w of
                     (Inl e, w) \<Rightarrow> ((ddc, Some e), w)
                   | (Inr (st, ddc), w) \<Rightarrow>
                       syncMSObjects K confMap svc st (initMSStatus ddc)
                         (CheckSecretExist K ddc (cms_Secrets cs) (CheckSecretMountPath K (cms_Secrets cs) w)))))"

section \<open>Status and clearing\<close>

definition DefaultMsToken :: string where "DefaultMsToken = ''greedisgood9999''"
definition DefaultMsTokenKey :: string where "DefaultMsTokenKey = ''http_token''"

definition recordMSEndpoint :: "conf \<Rightarrow> DorisDisaggregatedCluster \<Rightarrow> go_error + DorisDisaggregatedCluster" where
  "recordMSEndpoint confMap ddc =
     bindE (GetPort confMap BRPC_LISTEN_PORT) (\<lambda>port.
     bindE (case map_of confMap DefaultMsTokenKey of None \<Rightarrow> Inr DefaultMsToken | Some v \<Rightarrow> string_of_conf v)
       (\<lambda>token.
         Inr (set_MSStatus ((ddc_MSStatus ddc)
           \<lparr>mss_MetaServiceEndpoint := GetMSServiceName ddc @ ''.'' @ ddc_Namespace ddc @ '':'' @ Itoa port,
            mss_MsToken := token\<rparr>) ddc)))"

definition UpdateMSStatus ::
    "('w, 'x) kube_env_scheme \<Rightarrow> DorisDisaggregatedCluster \<Rightarrow> 'w
     \<Rightarrow> (DorisDisaggregatedCluster \<times> go_error option) \<times> 'w" where
  "UpdateMSStatus K ddc w =
     (let cs = ms_CommonSpec (spec_MetaService (ddc_Spec ddc)); stsName = GetMSStatefulsetName ddc
      in case GetConfigValuesFromConfigMaps K (ddc_Namespace ddc) MS_RESOLVEKEY (cms_ConfigMaps cs) w of
           (confMap, w) \<Rightarrow>
      (case recordMSEndpoint confMap ddc of
         Inl e \<Rightarrow> ((ddc, Some e), w)
       | Inr ddc \<Rightarrow>
      (case GetSts K (ddc_Namespace ddc) stsName w of
         (Inl e, w) \<Rightarrow> ((ddc, Some e), w)
       | (Inr sts, w) \<Rightarrow>
           (let updateStatefulsetKey = ToLower (UpdateStatefulsetName stsName)
            in if ddc_Annotations ddc updateStatefulsetKey \<noteq> None \<and>
                  ddc_Generation ddc \<noteq> ReturnStatefulsetUpdatedGeneration (Some sts) updateStatefulsetKey
               then ((ddc, Some (ErrorString ''waiting statefulset updated'')), w)
               else
                 (case ListPods K (ddc_Namespace ddc) (newMSPodsSelector (ddc_Name ddc)) w of
                    (Inl e, w) \<Rightarrow> ((ddc, Some e), w)
                  | (Inr pods, w) \<Rightarrow>
                      (let allUpdated =
                             StatefulsetControlledPodsAllUseNewUpdateRevision (sts_UpdateRevision sts) pods;
                           availableReplicas = count_ready pods;
                           msReplicas = (case cms_Replicas cs of None \<Rightarrow> 2 | Some n \<Rightarrow> n);
                           s = ddc_MSStatus ddc;
                           s = (if availableReplicas > 0 then s\<lparr>mss_AvailableStatus := Available\<rparr> else s);
                           s = s\<lparr>mss_Phase := (if availableReplicas = msReplicas \<and> allUpdated then Ready
                                             else Reconciling)\<rparr>
                       in ((set_MSStatus s ddc, None), w)))))))"

definition ClearMSResources ::
    "('w, 'x) kube_env_scheme \<Rightarrow> DorisDisaggregatedCluster \<Rightarrow> 'w \<Rightarrow> (bool \<times> go_error option) \<times> 'w" where
  "ClearMSResources K ddc w =
     (if ddc_DeletionTimestamp ddc = 0 then ((True, None), w)
      else case DeleteService K (ddc_Namespace ddc) (GetMSServiceName ddc) w of
          (Some e, w) \<Rightarrow> failed_delete K ''MSServiceDeletedFailed'' e w
        | (None, w) \<Rightarrow>
            (case DeleteStatefulset K (ddc_Namespace ddc) (GetMSStatefulsetName ddc) w of
               (Some e, w) \<Rightarrow> failed_delete K ''MSStatefulsetDeleteFailed'' e w
             | (None, w) \<Rightarrow> ((True, None), w)))"

end
