(* ===== verification/Disagg_FE.thy ===== *)
theory Disagg_FE
  imports Compute_Groups Disagg_MS
begin

text \<open>
  The FE controller of a disaggregated cluster (\<^verbatim>\<open>disaggregated_fe/controller.go\<close>,
  \<^verbatim>\<open>statefulset.go\<close>, \<^verbatim>\<open>pvc.go\<close>): the StatefulSet, Sync, dropping observers before
  the StatefulSet shrinks, the lower bound that the election number puts on the replicas,
  the status, and the removal of claims and resources.
\<close>

section \<open>Labels\<close>

definition getFEPodLabels :: "DorisDisaggregatedCluster \<Rightarrow> string_map" where
  "getFEPodLabels ddc =
     newFEPodsSelector (ddc_Name ddc) ++ cms_Labels (fes_CommonSpec (spec_FeSpec (ddc_Spec ddc)))"

definition msAvailable ::
    "('w, 'x) kube_env_scheme \<Rightarrow> DorisDisaggregatedCluster \<Rightarrow> 'w \<Rightarrow> bool \<times> 'w" where
  "msAvailable K ddc w =
     (case GetEndpoints K (ddc_Namespace ddc) (GetMSServiceName ddc) w of
        (Inl e, w) \<Rightarrow> (False, w)
      | (Inr subsets, w) \<Rightarrow> (list_ex (\<lambda>addresses. addresses \<noteq> []) subsets, w))"

section \<open>The StatefulSet\<close>

definition MS_ENDPOINT :: string where "MS_ENDPOINT = ''MS_ENDPOINT''"
definition STATEFULSET_NAME :: string where "STATEFULSET_NAME = ''STATEFULSET_NAME''"
definition CLUSTER_ID :: string where "CLUSTER_ID = ''CLUSTER_ID''"

definition newFESpecificEnvs ::
    "('w, 'x) kube_env_scheme \<Rightarrow> DorisDisaggregatedCluster \<Rightarrow> 'w \<Rightarrow> (go_error + env_var list) \<times> 'w" where
  "newFESpecificEnvs K ddc w =
     (case GetConfigValuesFromConfigMaps K (ddc_Namespace ddc) MS_RESOLVEKEY
             (cms_ConfigMaps (ms_CommonSpec (spec_MetaService (ddc_Spec ddc)))) w of
        (msConfMap, w) \<Rightarrow>
          (bindE (GetPort msConfMap BRPC_LISTEN_PORT) (\<lambda>msPort.
             Inr ([env MS_ENDPOINT (GetMSServiceName ddc @ ''.'' @ ddc_Namespace ddc @ '':'' @ Itoa msPort),
                   env CLUSTER_ID (Itoa (GetInstanceHashId ddc)),
                   env STATEFULSET_NAME (GetFEStatefulsetName ddc),
                   env ''DNS_READY_TIMEOUT'' ''120'', env ''DNS_READY_INTERVAL'' ''2'',
                   env ''ENV_FE_ADDR'' (GetFEVIPAddresss ddc),
                   env ''ELECT_NUMBER'' (Itoa (GetElectionNumber ddc))] @ admin_envs ddc)), w))"

definition NewFEContainer ::
    "('w, 'x) hash_env_scheme \<Rightarrow> DorisDisaggregatedCluster \<Rightarrow> conf \<Rightarrow> 'w \<Rightarrow> (go_error + container) \<times> 'w" where
  "NewFEContainer K ddc cvs =
     (let cs = fes_CommonSpec (spec_FeSpec (ddc_Spec ddc));
          (cmd, args) = GetDisaggregatedCommand DisaggregatedFE
      in bindW (liftW (GetDisaggregatedContainerPorts cvs DisaggregatedFE)) (\<lambda>ports.
         bindW (newFESpecificEnvs K ddc) (\<lambda>envs.
         bindW (liftW (BuildVolumesVolumeMountsAndPVCs K cvs DisaggregatedFE cs)) (\<lambda>(_, vms, _).
           liftW (Inr (BuildDisaggregatedProbe cs DisaggregatedFE
             ((LifeCycleWithPreStopScript (GetDisaggregatedPreStopScript DisaggregatedFE)
                 (NewContainerWithCommonSpec cs))
              \<lparr>c_Command := cmd, c_Args := args, c_Name := DISAGGREGATED_FE_MAIN_CONTAINER_NAME,
               c_Ports := ports, c_Env := cms_EnvVars cs @ GetPodDefaultEnv @ envs,
               c_VolumeMounts := [podinfo_mount] @ vms @
                 snd (BuildDefaultConfigMapVolumesVolumeMounts (cms_ConfigMaps cs)) @ auth_mounts ddc @
                 snd (GetMultiSecretVolumeAndVolumeMountWithCommonSpec cs)\<rparr>)))))))"

definition NewFEPodTemplateSpec ::
    "('w, 'x) hash_env_scheme \<Rightarrow> DorisDisaggregatedCluster \<Rightarrow> conf \<Rightarrow> 'w
     \<Rightarrow> (go_error + pod_template \<times> DorisDisaggregatedCluster) \<times> 'w" where
  "NewFEPodTemplateSpec K ddc confMap =
     (let cs = fes_CommonSpec (spec_FeSpec (ddc_Spec ddc));
          (pts, cs') = NewPodTemplateSpecWithCommonSpec False cs DisaggregatedFE;
          ddc = set_FeCommonSpec cs' ddc
      in bindW (liftW (AddTerminationGracePeriodSeconds confMap
                  DEFAULT_FE_TERMINATION_GRACE_PERIOD_SECONDS pts)) (\<lambda>pts.
         bindW (NewFEContainer K ddc confMap) (\<lambda>c.
         bindW (liftW (BuildVolumesVolumeMountsAndPVCs K confMap DisaggregatedFE cs)) (\<lambda>(vs, _, _).
         bindW (liftW (ConstructDefaultAffinity DorisDisaggregatedClusterName
                  (map_get (getFEPodLabels ddc) DorisDisaggregatedClusterName) (cms_Affinity cs))) (\<lambda>affinity.
           liftW (Inr (pts\<lparr>pt_Labels := getFEPodLabels ddc, pt_Containers := pt_Containers pts @ [c],
             pt_Volumes := pt_Volumes pts @ vs @
               fst (BuildDefaultConfigMapVolumesVolumeMounts (cms_ConfigMaps cs)) @ auth_volumes ddc @
               fst (GetMultiSecretVolumeAndVolumeMountWithCommonSpec cs),
             pt_Affinity := affinity\<rparr>, ddc)))))))"

text \<open>The selector is a map of its own, without the labels of the user.\<close>

definition newFEStatefulset ::
    "('w, 'x) hash_env_scheme \<Rightarrow> DorisDisaggregatedCluster \<Rightarrow> conf \<Rightarrow> 'w
     \<Rightarrow> (go_error + statefulset \<times> DorisDisaggregatedCluster) \<times> 'w" where
  "newFEStatefulset K ddc confMap =
     bindW (liftW (BuildVolumesVolumeMountsAndPVCs K confMap DisaggregatedFE
              (fes_CommonSpec (spec_FeSpec (ddc_Spec ddc))))) (\<lambda>(_, _, vcts).
     bindW (NewFEPodTemplateSpec K ddc confMap) (\<lambda>(pts, ddc).
     bindW (liftW (AddClusterSpecForPodTemplate DisaggregatedFE confMap (ddc_Spec ddc) pts)) (\<lambda>pts.
       liftW (Inr ((NewDefaultStatefulset ddc)
         \<lparr>sts_Name := GetFEStatefulsetName ddc, sts_Labels := newFESchedulerLabels (ddc_Name ddc),
          sts_Replicas := fe_Replicas ddc, sts_Selector := newFEPodsSelector (ddc_Name ddc),
          sts_VolumeClaimTemplates := vcts, sts_ServiceName := GetFEInternalServiceName ddc,
          sts_Template := pts\<rparr>, ddc)))))"

section \<open>Dropping observers\<close>

definition pod_ip_map :: "string \<Rightarrow> pod list \<Rightarrow> string_map" where
  "pod_ip_map stsName pods =
     foldl (\<lambda>m p. if HasPrefix (pod_Name p) stsName then m(pod_PodIP p \<mapsto> pod_Name p) else m)
       Map.empty pods"

text \<open>
  \<^verbatim>\<open>int32(len(allObserves)) - replicas + electionNumber\<close>.
\<close>

definition needRemoved :: "nat \<Rightarrow> int \<Rightarrow> int \<Rightarrow> int" where
  "needRemoved observers replicas electionNumber =
     wrap32 (wrap32 (wrap32 (int observers) - replicas) + electionNumber)"

text \<open>
  The frontends by ordinal. \<open>Inr None\<close> is a return without error: a failed list of pods
  or a host whose ordinal cannot be read.
\<close>

definition observerMap ::
    "('w, 'x) kube_env_scheme \<Rightarrow> DorisDisaggregatedCluster \<Rightarrow> conf \<Rightarrow> Frontend list \<Rightarrow> 'w
     \<Rightarrow> (go_error + (int \<times> Frontend) list option) \<times> 'w" where
  "observerMap K cluster confMap allObserves w =
     (let stsName = GetFEStatefulsetName cluster;
          build = (\<lambda>podMap. case BuildSeqNumberToFrontendMap allObserves podMap stsName [] of
             Inl e \<Rightarrow> if is_panic e then Inl e else Inr None
           | Inr m \<Rightarrow> Inr (Some m))
      in case GetStartMode confMap of
           Inl e \<Rightarrow> (Inl e, w)
         | Inr mode \<Rightarrow>
             (if mode = START_MODEL_FQDN then (build Map.empty, w)
              else case ListPods K (ddc_Namespace cluster) (getFEPodLabels cluster) w of
                  (Inl e, w) \<Rightarrow> (Inr None, w)
                | (Inr pods, w) \<Rightarrow> (build (pod_ip_map stsName pods), w)))"

definition dropObservers ::
    "('w, 'x) kube_env_scheme \<Rightarrow> DorisDisaggregatedCluster \<Rightarrow> conf \<Rightarrow> conn \<Rightarrow> 'w \<Rightarrow> go_error option \<times> 'w" where
  "dropObservers K cluster confMap db w =
     (case GetObservers K db w of
        (Inl e, w) \<Rightarrow> (Some e, w)
      | (Inr allObserves, w) \<Rightarrow>
          (case fe_Replicas cluster of
             None \<Rightarrow> (Some (Panic ''*cluster.Spec.FeSpec.Replicas''), w)
           | Some replicas \<Rightarrow>
               (let amount = needRemoved (length allObserves) replicas (GetElectionNumber cluster)
                in if amount \<le> 0 then (None, w)
                   else case observerMap K cluster confMap allObserves w of
                       (Inl e, w) \<Rightarrow> (Some e, w)
                     | (Inr None, w) \<Rightarrow> (None, w)
                     | (Inr (Some frontendMap), w) \<Rightarrow>
                         DropObserver K db (FindNeedDeletedObservers frontendMap amount) w)))"

definition dropFEBySQLClient ::
    "('w, 'x) kube_env_scheme \<Rightarrow> DorisDisaggregatedCluster \<Rightarrow> 'w \<Rightarrow> go_error option \<times> 'w" where
  "dropFEBySQLClient K cluster w =
     (case GetManagementAdminUserAndPWD K cluster w of ((adminUserName, password), w) \<Rightarrow>
      (case GetConfigValuesFromConfigMaps K (ddc_Namespace cluster) FE_RESOLVEKEY
              (cms_ConfigMaps (fes_CommonSpec (spec_FeSpec (ddc_Spec cluster)))) w of (confMap, w) \<Rightarrow>
       (case GetPort confMap QUERY_PORT of
          Inl e \<Rightarrow> (Some e, w)
        | Inr queryPort \<Rightarrow>
            (case FindSecretTLSConfig confMap cluster of
               Inl e \<Rightarrow> (Some e, w)
             | Inr (tlsConfig, secretName) \<Rightarrow>
                 (case GetSecret K (ddc_Namespace cluster) secretName w of (sec, w) \<Rightarrow>
                    (case NewDorisMasterSqlDB K
                            \<lparr>db_User = adminUserName, db_Password = password,
                             db_Host = GetFEVIPAddresss cluster, db_Port = Itoa queryPort,
                             db_Database = ''mysql''\<rparr> tlsConfig sec w of
                       (Inl e, w) \<Rightarrow> (Some e, w)
                     | (Inr db, w) \<Rightarrow>
                         (case dropObservers K cluster confMap db w of
                            (r, w) \<Rightarrow> (r, CloseDB K db w))))))))"

section \<open>Reconciling the StatefulSet\<close>

text \<open>
  Raising the replicas to the election number. Logging the replicas of a specification
  without any panics.
\<close>

definition correctReplicas ::
    "('w, 'x) kube_env_scheme \<Rightarrow> statefulset \<Rightarrow> DorisDisaggregatedCluster \<Rightarrow> 'w
     \<Rightarrow> (go_error + statefulset \<times> DorisDisaggregatedCluster) \<times> 'w" where
  "correctReplicas K st cluster w =
     (let replicas = (case fe_Replicas cluster of None \<Rightarrow> 0 | Some r \<Rightarrow> r);
          electionNumber = GetElectionNumber cluster
      in if replicas < electionNumber then
           (let w = warn K ''FESpecSetError'' ''The number of disaggregated fe ElectionNumber is large than Replicas, Replicas has been corrected to the correct minimum value'' w
            in if fe_Replicas cluster = None then (Inl (Panic ''*cluster.Spec.FeSpec.Replicas''), w)
               else (Inr (st\<lparr>sts_Replicas := Some electionNumber\<rparr>, set_FeReplicas electionNumber cluster), w))
         else (Inr (st, cluster), w))"

definition applyFE ::
    "('w, 'x) hash_env_scheme \<Rightarrow> statefulset \<Rightarrow> DorisDisaggregatedCluster \<Rightarrow> 'w \<Rightarrow> 'w cg_result" where
  "applyFE K st cluster w =
     (case ApplyStatefulSet K st (markedEqual K GetFEStatefulsetName) id cluster w of
        ((Some e, cluster), w) \<Rightarrow> ((cluster, Some (cg_event ''FEApplyResourceFailed'' e), Some e), w)
      | ((None, cluster), w) \<Rightarrow> ((cluster, None, None), w))"

definition reconcileFEStatefulset ::
    "('w, 'x) hash_env_scheme \<Rightarrow> statefulset \<Rightarrow> DorisDisaggregatedCluster \<Rightarrow> 'w \<Rightarrow> 'w cg_result" where
  "reconcileFEStatefulset K st cluster w =
     (case GetSts K (sts_Namespace st) (sts_Name st) w of
        (Inl e, w) \<Rightarrow>
          (if IsNotFound e then
             (case CreateSts K st w of
                (Some e, w) \<Rightarrow> ((cluster, Some (cg_event ''FECreateResourceFailed'' e), Some e), w)
              | (None, w) \<Rightarrow> ((cluster, None, None), w))
           else ((cluster, None, Some e), w))
      | (Inr est, w) \<Rightarrow>
          (let replicas = (case fe_Replicas cluster of None \<Rightarrow> 0 | Some r \<Rightarrow> r)
           in case correctReplicas K st cluster w of
                (Inl e, w) \<Rightarrow> ((cluster, None, Some e), w)
              | (Inr (st, cluster), w) \<Rightarrow>
                  (case sts_Replicas est of
                     None \<Rightarrow> ((cluster, None, Some (Panic ''*est.Spec.Replicas'')), w)
                   | Some old \<Rightarrow>
                       (if wrap32 (replicas - old) < 0 \<or> fs_Phase (ddc_FEStatus cluster) = ScaleDownFailed then
                          (case dropFEBySQLClient K cluster w of
                             (Some e, w) \<Rightarrow>
                               ((set_FEPhase ScaleDownFailed cluster,
                                 Some (cg_event ''FEHTTPResponseFailed'' e), Some e), w)
                           | (None, w) \<Rightarrow> applyFE K st (set_FEPhase Scaling cluster) w)
                        else applyFE K st cluster w))))"

section \<open>Sync\<close>

definition initialFEStatus :: "DorisDisaggregatedCluster \<Rightarrow> DorisDisaggregatedCluster" where
  "initialFEStatus ddc =
     (if fs_Phase (ddc_FEStatus ddc) \<in> {Reconciling, ScaleDownFailed, Scaling} then ddc
      else set_FEStatus \<lparr>fs_Phase = Reconciling, fs_AvailableStatus = '''',
             fs_ClusterId = Itoa (GetInstanceHashId ddc)\<rparr> ddc)"

definition DefaultFeReplicaNumber :: int where "DefaultFeReplicaNumber = 2"

text \<open>The replicas of the specification after the defaults of Sync.\<close>

definition defaultFEReplicas ::
    "('w, 'x) kube_env_scheme \<Rightarrow> DorisDisaggregatedCluster \<Rightarrow> 'w \<Rightarrow> DorisDisaggregatedCluster \<times> 'w" where
  "defaultFEReplicas K ddc w =
     (let (ddc, w) =
            (if fe_Replicas ddc = None then
               (set_FeReplicas DefaultFeReplicaNumber ddc,
                notice K ''FESpecSetError'' ''The number of disaggregated fe replicas is nil and has been corrected to the default value 2'' w)
             else (ddc, w));
          electionNumber = GetElectionNumber ddc
      in if the (fe_Replicas ddc) < electionNumber then
           (set_FeReplicas electionNumber ddc,
            warn K ''FESpecSetError'' ''The number of disaggregated fe ElectionNumber is large than Replicas, Replicas has been corrected to the correct minimum value'' w)
         else (ddc, w))"

definition syncFEObjects ::
    "('w, 'x) hash_env_scheme \<Rightarrow> conf \<Rightarrow> service \<Rightarrow> service \<Rightarrow> statefulset \<Rightarrow> DorisDisaggregatedCluster \<Rightarrow> 'w
     \<Rightarrow> (DorisDisaggregatedCluster \<times> go_error option) \<times> 'w" where
  "syncFEObjects K confMap svcInternal svc st ddc w =
     (case DefaultReconcileService K svcInternal w of
        ((event, Some e), w) \<Rightarrow> ((ddc, Some e), record_event K event w)
      | ((_, None), w) \<Rightarrow>
     (case DefaultReconcileService K svc w of
        ((event, Some e), w) \<Rightarrow> ((ddc, Some e), record_event K event w)
      | ((_, None), w) \<Rightarrow>
     (case reconcileFEStatefulset K st ddc w of
        ((ddc, event, Some e), w) \<Rightarrow> ((ddc, Some e), record_event K event w)
      | ((ddc, _, None), w) \<Rightarrow>
     (case ReconcilePVC K ddc confMap DisaggregatedFE st None w of
        ((_, Some e), w) \<Rightarrow> ((ddc, if is_panic e then Some e else None), w)
      | ((_, None), w) \<Rightarrow> ((ddc, None), w)))))"

definition SyncFE ::
    "('w, 'x) hash_env_scheme \<Rightarrow> DorisDisaggregatedCluster \<Rightarrow> 'w
     \<Rightarrow> (DorisDisaggregatedCluster \<times> go_error option) \<times> 'w" where
  "SyncFE K ddc w =
     (case msAvailable K ddc w of
        (False, w) \<Rightarrow> ((ddc, None), notice K ''WaitMetaServiceAvailable'' ''meta service have not ready.'' w)
      | (True, w) \<Rightarrow>
          (let cs = fes_CommonSpec (spec_FeSpec (ddc_Spec ddc));
               w = CheckSecretExist K ddc (cms_Secrets cs) (CheckSecretMountPath K (cms_Secrets cs) w);
               (ddc, w) = defaultFEReplicas K ddc w;
               (confMap, w) = GetConfigValuesFromConfigMaps K (ddc_Namespace ddc) FE_RESOLVEKEY (cms_ConfigMaps cs) w
           in case bindE (newFEInternalService ddc confMap) (\<lambda>svcInternal.
                   bindE (newFEService ddc confMap) (\<lambda>svc. Inr (svcInternal, svc))) of
                Inl e \<Rightarrow> ((ddc, Some e), w)
              | Inr (svcInternal, svc) \<Rightarrow>
                  (case newFEStatefulset K ddc confMap w of
                     (Inl e, w) \<Rightarrow> ((ddc, Some e), w)
                   | (Inr (st, ddc), w) \<Rightarrow>
                       syncFEObjects K confMap svcInternal svc st (initialFEStatus ddc) w)))"

section \<open>Status\<close>

text \<open>\<^verbatim>\<open>podIsFollower\<close>: the ordinal of the pod is below the election number.\<close>

definition podIsFollower :: "string \<Rightarrow> string \<Rightarrow> int \<Rightarrow> bool" where
  "podIsFollower podName stfName electionNumber =
     (if \<not> HasPrefix podName (stfName @ ''-'') then False
      else case Atoi (drop (length stfName + 1) podName) of
          None \<Rightarrow> False
        | Some num \<Rightarrow> num < electionNumber)"

definition markFEAvailable :: "DorisDisaggregatedCluster \<Rightarrow> DorisDisaggregatedCluster" where
  "markFEAvailable ddc =
     ddc\<lparr>ddc_Status := (ddc_Status ddc)\<lparr>
       status_FEStatus := (ddc_FEStatus ddc)\<lparr>fs_AvailableStatus := Available\<rparr>,
       status_ClusterHealth := (status_ClusterHealth (ddc_Status ddc))\<lparr>ch_FeAvailable := True\<rparr>\<rparr>\<rparr>"

definition UpdateFEStatus ::
    "('w, 'x) kube_env_scheme \<Rightarrow> DorisDisaggregatedCluster \<Rightarrow> 'w
     \<Rightarrow> (DorisDisaggregatedCluster \<times> go_error option) \<times> 'w" where
  "UpdateFEStatus K ddc w =
     (let stfName = GetFEStatefulsetName ddc
      in case GetSts K (ddc_Namespace ddc) stfName w of
           (Inl e, w) \<Rightarrow> ((ddc, Some e), w)
         | (Inr sts, w) \<Rightarrow>
             (let updateStatefulsetKey = ToLower (UpdateStatefulsetName stfName)
              in if ddc_Annotations ddc updateStatefulsetKey \<noteq> None \<and>
                    ddc_Generation ddc \<noteq> ReturnStatefulsetUpdatedGeneration (Some sts) updateStatefulsetKey
                 then ((ddc, Some (ErrorString ''waiting statefulset upd ated'')), w)
                 else
                   (case ListPods K (ddc_Namespace ddc) (newFEPodsSelector (ddc_Name ddc)) w of
                      (Inl e, w) \<Rightarrow> ((ddc, Some e), w)
                    | (Inr pods, w) \<Rightarrow>
                        (let electionNumber = GetElectionNumber ddc;
                             allUpdated =
                               StatefulsetControlledPodsAllUseNewUpdateRevision (sts_UpdateRevision sts) pods;
                             masterAliveReplicas =
                               wrap32 (int (length (filter (\<lambda>p. PodIsReady p \<and>
                                 podIsFollower (pod_Name p) stfName electionNumber) pods)));
                             availableReplicas = count_ready pods;
                             ddc = (if masterAliveReplicas > 0 then markFEAvailable ddc else ddc)
                         in if allUpdated \<and> masterAliveReplicas = electionNumber then
                              (case fe_Replicas ddc of
                                 None \<Rightarrow> ((ddc, Some (Panic ''*feSpec.Replicas'')), w)
                               | Some replicas \<Rightarrow>
                                   ((if availableReplicas = replicas then set_FEPhase Ready ddc else ddc, None), w))
                            else ((ddc, None), w)))))"

section \<open>Clearing\<close>

definition listAndDeletePersistentVolumeClaim ::
    "('w, 'x) kube_env_scheme \<Rightarrow> DorisDisaggregatedCluster \<Rightarrow> 'w \<Rightarrow> go_error option \<times> 'w" where
  "listAndDeletePersistentVolumeClaim K ddc w =
     (case fe_Replicas ddc of
        None \<Rightarrow> (Some (Panic ''*spec.Replicas''), w)
      | Some replicas \<Rightarrow>
          (let pvcLabels = newFEPodsSelector (ddc_Name ddc)
           in case ListPvcs K (ddc_Namespace ddc) pvcLabels w of
                (Inl e, w) \<Rightarrow>
                  (Some e, warn K ''PVCListFailed''
                     (''DisaggregatedFEController listAndDeletePersistentVolumeClaim list pvc failed:'' @
                      error_text e @ ''!'') w)
              | (Inr currentPVCs, w) \<Rightarrow>
                  deletePVCs K (ddc_Namespace ddc) pvcLabels
                    (map pvc_Name (filter (unusedPVC (GetFEStatefulsetName ddc) replicas) currentPVCs)) None w))"

definition recycleResources ::
    "('w, 'x) kube_env_scheme \<Rightarrow> DorisDisaggregatedCluster \<Rightarrow> 'w \<Rightarrow> go_error option \<times> 'w" where
  "recycleResources K ddc w =
     (let spec = fes_CommonSpec (spec_FeSpec (ddc_Spec ddc))
      in if cms_PersistentVolume spec \<noteq> None \<or> cms_PersistentVolumes spec \<noteq> []
         then listAndDeletePersistentVolumeClaim K ddc w else (None, w))"

definition ClearFEResources ::
    "('w, 'x) kube_env_scheme \<Rightarrow> DorisDisaggregatedCluster \<Rightarrow> 'w \<Rightarrow> (bool \<times> go_error option) \<times> 'w" where
  "ClearFEResources K ddc w =
     (case recycleResources K ddc w of
        (Some e, w) \<Rightarrow> ((False, Some e), w)
      | (None, w) \<Rightarrow>
          (if ddc_DeletionTimestamp ddc = 0 then ((True, None), w)
           else case DeleteService K (ddc_Namespace ddc) (GetFEServiceName ddc) w of
               (Some e, w) \<Rightarrow> failed_delete K ''FEServiceDeleteFailed'' e w
             | (None, w) \<Rightarrow>
                 (case DeleteService K (ddc_Namespace ddc) (GetFEInternalServiceName ddc) w of
                    (Some e, w) \<Rightarrow> failed_delete K ''FEServiceDeleteFailed'' e w
                  | (None, w) \<Rightarrow>
                      (case DeleteStatefulset K (ddc_Namespace ddc) (GetFEStatefulsetName ddc) w of
                         (Some e, w) \<Rightarrow> failed_delete K ''FEStatefulsetDeleteFailed'' e w
                       | (None, w) \<Rightarrow> ((True, None), w)))))"

end
