(* ===== verification/Compute_Props.thy ===== *)
theory Compute_Props
  imports Compute_Groups
begin

text \<open>
  The properties of the compute-group controller: what validation accepts, that distinct
  groups get distinct StatefulSet names, that a decommission blocks the StatefulSet, that
  applying is idempotent, what clearing deletes, and when a group is reported ready.
\<close>

section \<open>Validation\<close>

lemma duplicated_empty:
  "duplicated seen cgs = '''' \<longleftrightarrow>
     distinct (map cg_UniqueId cgs) \<and> seen \<inter> cg_UniqueId ` set cgs = {}"
  by (induction cgs arbitrary: seen) (auto simp: image_iff)

text \<open>
  The duplicate check reports nothing exactly when the unique identifiers of the
  compute groups are pairwise distinct.
\<close>

theorem duplicates_reported:
  "validateDuplicated cgs = '''' \<longleftrightarrow> distinct (map cg_UniqueId cgs)"
  by (simp add: validateDuplicated_def duplicated_empty)

fun void :: "regex \<Rightarrow> bool" where
  "void RNone = True"
| "void (RSeq r s) = (void r \<or> void s)"
| "void (RAlt r s) = (void r \<and> void s)"
| "void r = False"

lemma void_not_nullable: "void r \<Longrightarrow> \<not> nullable r"
  by (induction r) auto

lemma void_deriv: "void r \<Longrightarrow> void (deriv c r)"
  by (induction r) (auto dest: void_not_nullable)

lemma void_no_prefix: "void r \<Longrightarrow> \<not> matches_prefix r s"
  by (induction s arbitrary: r) (auto dest: void_not_nullable void_deriv)

lemma nullable_prefix: "nullable r \<Longrightarrow> matches_prefix r s"
  by (cases s) auto

lemma name_regex_prefix:
  "matches_prefix compute_group_name_regex (c # cs) \<longleftrightarrow> c \<in> set letters"
proof (cases "c \<in> set letters")
  case True
  then have "nullable (deriv c compute_group_name_regex)" by (simp add: compute_group_name_regex_def)
  with True nullable_prefix show ?thesis by simp
next
  case False
  then have "void (deriv c compute_group_name_regex)" by (simp add: compute_group_name_regex_def)
  with False show ?thesis by (simp add: void_no_prefix) (simp add: compute_group_name_regex_def)
qed

lemma name_regex_Match: "regexp_Match compute_group_name_regex s \<longleftrightarrow> (\<exists>c \<in> set s. c \<in> set letters)"
proof (induction s)
  case Nil
  then show ?case by (simp add: compute_group_name_regex_def)
next
  case (Cons c cs)
  then show ?case by (simp only: regexp_Match.simps name_regex_prefix) auto
qed

lemma unmatched_empty:
  "unmatched cgs = '''' \<longleftrightarrow> list_all (\<lambda>cg. regexp_Match compute_group_name_regex (cg_UniqueId cg)) cgs"
  by (induction cgs) auto

text \<open>
  The check of the identifiers against their regular expression accepts exactly the
  lists in which every identifier contains an ASCII letter somewhere: the expression is
  not anchored, so the rest of the identifier is not looked at.
\<close>

theorem regex_accepts_any_letter:
  "snd (validateRegex cgs) \<longleftrightarrow> list_all (\<lambda>cg. \<exists>c \<in> set (cg_UniqueId cg). c \<in> set letters) cgs"
proof -
  have "snd (validateRegex cgs) \<longleftrightarrow> unmatched cgs = ''''" by (simp add: validateRegex_def Let_def)
  then show ?thesis by (simp only: unmatched_empty name_regex_Match)
qed

section \<open>Names\<close>

lemma ReplaceAll_inj:
  assumes "b \<notin> set s" and "b \<notin> set t" and "ReplaceAll s a b = ReplaceAll t a b"
  shows "s = t"
  using assms
proof (induction s arbitrary: t)
  case Nil
  then show ?case by (simp add: ReplaceAll_def)
next
  case (Cons c s)
  then obtain d u where t: "t = d # u" by (cases t) (auto simp: ReplaceAll_def)
  have "s = u" using Cons t by (simp add: ReplaceAll_def)
  moreover have "c = d" using Cons.prems t by (auto simp: ReplaceAll_def split: if_splits)
  ultimately show ?case using t by simp
qed

text \<open>
  Compute groups of one cluster whose identifiers differ and contain no dash get
  different StatefulSets and different services.
\<close>

theorem group_names_distinct:
  assumes "cg_UniqueId a \<noteq> cg_UniqueId b"
    and "CHR ''-'' \<notin> set (cg_UniqueId a)" and "CHR ''-'' \<notin> set (cg_UniqueId b)"
  shows "GetCGStatefulsetName ddc a \<noteq> GetCGStatefulsetName ddc b \<and>
         GetCGServiceName ddc a \<noteq> GetCGServiceName ddc b"
proof -
  have "ReplaceAll (cg_UniqueId a) (CHR ''_'') (CHR ''-'') \<noteq> ReplaceAll (cg_UniqueId b) (CHR ''_'') (CHR ''-'')"
    using ReplaceAll_inj [OF assms(2,3)] assms(1) by blast
  then show ?thesis by (simp add: GetCGStatefulsetName_def GetCGServiceName_def ReplaceAll_def Let_def)
qed

definition named_group :: "string \<Rightarrow> compute_group" where
  "named_group uid = zero_compute_group\<lparr>cg_UniqueId := uid\<rparr>"

lemma group_names_distinct_witness:
  "GetCGStatefulsetName zero_ddc (named_group ''a_b'') \<noteq> GetCGStatefulsetName zero_ddc (named_group ''ab'')"
  using group_names_distinct [of "named_group ''a_b''" "named_group ''ab''" zero_ddc]
  by (simp add: named_group_def)

text \<open>
  Two compute groups named \<^verbatim>\<open>a_b\<close> and \<^verbatim>\<open>a-b\<close> pass the validation and share
  one StatefulSet and one service, in every cluster.
\<close>

theorem accepted_groups_share_statefulset:
  "validateComputeGroup [named_group ''a_b'', named_group ''a-b''] = (None, True) \<and>
   GetCGStatefulsetName ddc (named_group ''a_b'') = GetCGStatefulsetName ddc (named_group ''a-b'') \<and>
   GetCGServiceName ddc (named_group ''a_b'') = GetCGServiceName ddc (named_group ''a-b'')"
proof -
  have "validateComputeGroup [named_group ''a_b'', named_group ''a-b''] = (None, True)"
    by code_simp
  then show ?thesis
    by (simp add: GetCGStatefulsetName_def GetCGServiceName_def ReplaceAll_def named_group_def Let_def)
qed

section \<open>Status lookup\<close>

lemma find_update_first:
  assumes "List.find P xs = Some x" and "P y"
  shows "List.find P (update_first P (\<lambda>_. y) xs) = Some y"
  using assms by (induction xs) (auto split: if_splits)

lemma find_write_status:
  assumes "find_status uid ddc = Some s" and "cgs_UniqueId s' = uid"
  shows "find_status uid (write_status uid s' ddc) = Some s'"
  using find_update_first [of "\<lambda>s. cgs_UniqueId s = uid" "ddc_ComputeGroupStatuses ddc" s s'] assms
  by (simp add: find_status_def write_status_def set_ComputeGroupStatuses_def)

lemma find_status_UniqueId: "find_status uid ddc = Some s \<Longrightarrow> cgs_UniqueId s = uid"
  by (auto simp: find_status_def find_Some_iff)

section \<open>A decommission blocks the StatefulSet\<close>

lemma decommission_step_phase:
  assumes "scaledOutBENodesByDecommission K s db cgid keep w = ((s', None), w')"
    and "fst (decommissionProgressCheck K db cgid keep w) \<noteq> Inr Decommissioned"
  shows "cgs_Phase s' = Decommissioning \<and> cgs_UniqueId s' = cgs_UniqueId s"
  using assms
  by (auto simp: scaledOutBENodesByDecommission_def
      split: prod.splits sum.splits DecommissionPhase.splits option.splits)

text \<open>
  C10. While the backends of a shrinking group are being decommissioned, the StatefulSet is
  left alone: with decommissioning enabled, a smaller replica count wanted and the phase of
  the decommission not finished, the reconcile of the StatefulSet ends after the SQL step
  (the outside world is the one \<open>preApplyStatefulSet\<close> leaves) without error, with the group in
  phase Decommissioning.
\<close>

theorem decommission_blocks_apply:
  assumes "GetSts K (sts_Namespace st) (sts_Name st) w = (Inr est, w1)"
    and "volumeClaimTemplatesEqual (sts_VolumeClaimTemplates st) (sts_VolumeClaimTemplates est)"
    and "sts_Replicas st = Some a" and "sts_Replicas est = Some b" and "a < b"
    and "find_status (cg_UniqueId cg) cluster = Some s" and "cg_Replicas cg = Some keep"
    and "spec_EnableDecommission (ddc_Spec cluster)"
    and "getMasterSqlClient K cluster w1 = (Inr db, w2)"
    and "fst (decommissionProgressCheck K db (cgs_ComputeGroupId s) keep w2) \<noteq> Inr Decommissioned"
    and "preApplyStatefulSet K st est cluster cg w1 = ((cluster', None), w')"
  shows "reconcileStatefulset K restConfig st cluster cg w = ((cluster', None, None), w') \<and>
         (\<exists>s'. find_status (cg_UniqueId cg) cluster' = Some s' \<and> cgs_Phase s' = Decommissioning)"
proof -
  obtain s' r w3 where step: "scaledOutBENodesByDecommission K s db (cgs_ComputeGroupId s) keep w2 = ((s', r), w3)"
    by (metis surj_pair)
  have pre: "cluster' = write_status (cg_UniqueId cg) s' cluster" "r = None"
    using assms(3-9,11) step
    by (auto simp: preApplyStatefulSet_def getOperationType_def scaleOut_def)
  note ph = decommission_step_phase [OF step [unfolded pre(2)] assms(10)]
  have f: "find_status (cg_UniqueId cg) cluster' = Some s'"
    using find_write_status [OF assms(6), of s'] ph find_status_UniqueId [OF assms(6)] pre(1) by simp
  then have "skipApplyStatefulset cluster' cg = Inr True" using ph by (simp add: skipApplyStatefulset_def)
  then show ?thesis using assms(1,2,11) f ph by (simp add: reconcileStatefulset_def)
qed

text \<open>A group of three with one backend still holding tablets.\<close>

definition moving_backend :: "int \<Rightarrow> Backend" where
  "moving_backend k = (sample_backend k)\<lparr>be_SystemDecommissioned := (k = 2), be_TabletNum := 5\<rparr>"

definition moving_sts :: statefulset where
  "moving_sts = zero_sts\<lparr>sts_Name := ''-g'', sts_Replicas := Some 3\<rparr>"

definition moving_world :: world where
  "moving_world = zero_world\<lparr>w_Sts := [moving_sts], w_Backends := map moving_backend [0, 1, 2],
     w_Frontends := [zero_Frontend\<lparr>fe_Role := FE_FOLLOWER_ROLE, fe_IsMaster := True,
       fe_CurrentConnected := ''Yes''\<rparr>]\<rparr>"

definition moving_group :: compute_group where
  "moving_group = zero_compute_group\<lparr>cg_UniqueId := ''g'',
     cg_CommonSpec := zero_common_spec\<lparr>cms_Replicas := Some 2\<rparr>\<rparr>"

definition moving_status :: ComputeGroupStatus where
  "moving_status = zero_ComputeGroupStatus\<lparr>cgs_Phase := Ready, cgs_UniqueId := ''g''\<rparr>"

definition moving_cluster :: DorisDisaggregatedCluster where
  "moving_cluster = set_ComputeGroupStatuses [moving_status]
     (zero_ddc\<lparr>ddc_Spec := (ddc_Spec zero_ddc)\<lparr>spec_ComputeGroups := [moving_group],
        spec_EnableDecommission := True\<rparr>\<rparr>)"

definition moving_wanted :: statefulset where
  "moving_wanted = moving_sts\<lparr>sts_Replicas := Some 2\<rparr>"

lemma moving_master:
  "getMasterSqlClient mem_env moving_cluster moving_world = (Inr 0, moving_world)"
  "getMasterSqlClient mem_env (set_ComputeGroupStatuses ss moving_cluster) moving_world = (Inr 0, moving_world)"
  by (simp_all add: getMasterSqlClient_def GetManagementAdminUserAndPWD_def moving_cluster_def
      set_ComputeGroupStatuses_def zero_ddc_def zero_common_spec_def GetPort_def FindSecretTLSConfig_def
      GetString_def GetSecret_def NewDorisMasterSqlDB_def NewDorisSqlDB_def openAndPing_def GetFollowers_def
      followers_of_def mem_env_def moving_world_def FE_FOLLOWER_ROLE_def)

lemma decommission_blocks_apply_witness:
  "\<exists>cluster' w' s'. reconcileStatefulset mem_env True moving_wanted moving_cluster moving_group moving_world =
     ((cluster', None, None), w') \<and> find_status ''g'' cluster' = Some s' \<and> cgs_Phase s' = Decommissioning"
proof -
  have get: "GetSts mem_env (sts_Namespace moving_wanted) (sts_Name moving_wanted) moving_world =
      (Inr moving_sts, moving_world)"
    by (simp add: mem_env_def mem_find_def moving_world_def moving_wanted_def)
  have vct: "volumeClaimTemplatesEqual (sts_VolumeClaimTemplates moving_wanted) (sts_VolumeClaimTemplates moving_sts)"
    by (simp add: volumeClaimTemplatesEqual_def moving_wanted_def)
  have reps: "sts_Replicas moving_wanted = Some 2" "sts_Replicas moving_sts = Some 3"
    "cg_Replicas moving_group = Some 2" "spec_EnableDecommission (ddc_Spec moving_cluster)"
    "find_status (cg_UniqueId moving_group) moving_cluster = Some moving_status"
    by (simp_all add: moving_wanted_def moving_sts_def moving_group_def moving_cluster_def
        set_ComputeGroupStatuses_def find_status_def moving_status_def)
  have "(case fst (decommissionProgressCheck mem_env 0 '''' 2 moving_world) of
      Inr DecommissioningPhase \<Rightarrow> True | _ \<Rightarrow> False)" by code_simp
  then have ph: "fst (decommissionProgressCheck mem_env 0 (cgs_ComputeGroupId moving_status) 2 moving_world) \<noteq>
      Inr Decommissioned"
    by (auto simp: moving_status_def zero_ComputeGroupStatus_def)
  have "snd (fst (preApplyStatefulSet mem_env moving_wanted moving_sts moving_cluster moving_group moving_world)) = None"
    by code_simp
  then obtain c w' where pre: "preApplyStatefulSet mem_env moving_wanted moving_sts moving_cluster moving_group
      moving_world = ((c, None), w')" by (metis prod.collapse)
  from decommission_blocks_apply [OF get vct reps(1,2) _ reps(5,3,4) moving_master(1) ph pre]
  show ?thesis by (auto simp: moving_group_def)
qed

text \<open>
  C15. A scale-down that is taken back holds up the StatefulSet: when a group is in phase
  Decommissioning, some backend is marked, and the wanted number of replicas is not the
  number of unmarked backends (for instance because it was raised again), this reconcile of
  the StatefulSet sends no statement to the FE, so no backend loses its mark, does not
  apply the StatefulSet, and hands the status of the group on unchanged, in phase
  Decommissioning. The status update that follows may still report the group as ready.
\<close>

theorem cancelled_decommission_holds:
  assumes "GetSts K (sts_Namespace st) (sts_Name st) w = (Inr est, w1)"
    and "volumeClaimTemplatesEqual (sts_VolumeClaimTemplates st) (sts_VolumeClaimTemplates est)"
    and "sts_Replicas st = Some a" and "sts_Replicas est = Some b"
    and "find_status (cg_UniqueId cg) cluster = Some s" and "cgs_Phase s = Decommissioning"
    and "cg_Replicas cg = Some keep" and "spec_EnableDecommission (ddc_Spec cluster)"
    and "getMasterSqlClient K cluster w1 = (Inr db, w2)"
    and "GetBackendsByComputeGroupId K db (cgs_ComputeGroupId s) w2 = (Inr bs, w3)"
    and "list_ex be_SystemDecommissioned bs" and "kept bs \<noteq> keep"
  shows "reconcileStatefulset K restConfig st cluster cg w =
    ((write_status (cg_UniqueId cg) s cluster, None, None), CloseDB K db w3)"
proof -
  have "\<not> list_all (\<lambda>b. \<not> be_SystemDecommissioned b) bs"
    using assms(11) by (auto simp: list_all_iff list_ex_iff)
  then have "GetDecommissionPhase (ConstructDecommissionTaskStatus bs keep) = DecommissionPhaseUnknown"
    using assms(12) by (simp add: decommission_phase)
  then have check: "decommissionProgressCheck K db (cgs_ComputeGroupId s) keep w2 = (Inr DecommissionPhaseUnknown, w3)"
    using assms(10) by (simp add: decommissionProgressCheck_def)
  have same: "s\<lparr>cgs_Phase := Decommissioning\<rparr> = s" using assms(6) by (cases s) simp
  from check have pre: "preApplyStatefulSet K st est cluster cg w1 =
      ((write_status (cg_UniqueId cg) s cluster, None), CloseDB K db w3)"
    using assms(3-9)
    by (simp add: preApplyStatefulSet_def getOperationType_def scaleOut_def
        scaledOutBENodesByDecommission_def) (simp only: same)
  have "skipApplyStatefulset (write_status (cg_UniqueId cg) s cluster) cg = Inr True"
    using find_write_status [OF assms(5), of s] find_status_UniqueId [OF assms(5)] assms(6)
    by (simp add: skipApplyStatefulset_def)
  then show ?thesis using assms(1,2) pre by (simp add: reconcileStatefulset_def)
qed

section \<open>Applying is idempotent\<close>

lemma normalize_fields [simp]:
  "sts_Name (normalizeGracefulStatefulSetForCompare st) = sts_Name st"
  "sts_Namespace (normalizeGracefulStatefulSetForCompare st) = sts_Namespace st"
  "statefulSetHashObject (normalizeGracefulStatefulSetForCompare st) x = statefulSetHashObject st x"
  "sts_Annotations (normalizeGracefulStatefulSetForCompare st) =
     (sts_Annotations st)(gracefulActionAnnotation := None)"
  by (simp_all add: normalizeGracefulStatefulSetForCompare_def clearGracefulAction_def statefulSetHashObject_def)

lemma graceful_key_differs [simp]:
  "DisaggregatedSpecHashValueAnnotation \<noteq> gracefulActionAnnotation"
  "gracefulActionAnnotation \<noteq> DisaggregatedSpecHashValueAnnotation"
  "UpdateStatefulsetGeneration \<noteq> gracefulActionAnnotation"
  "gracefulActionAnnotation \<noteq> UpdateStatefulsetGeneration"
  by (simp_all add: DisaggregatedSpecHashValueAnnotation_def gracefulActionAnnotation_def
      UpdateStatefulsetGeneration_def)

text \<open>The comparison in closed form, for a wanted StatefulSet without a hash of its own.\<close>

lemma applyEqual_eq:
  assumes "sts_Annotations st DisaggregatedSpecHashValueAnnotation = None"
    and "new = RestrictConditionsEqual st est"
    and "h = HashObject K (statefulSetHashObject new False)"
  shows "applyEqual K cg st est cluster =
    (let same = (h = hash_of K (normalizeGracefulStatefulSetForCompare est)
                       DisaggregatedSpecHashValueAnnotation False \<and> sts_Namespace st = sts_Namespace est);
         annos = (sts_Annotations st)(DisaggregatedSpecHashValueAnnotation \<mapsto> h);
         new' = new\<lparr>sts_Annotations := if same then annos
                  else annos(UpdateStatefulsetGeneration \<mapsto> Itoa (ddc_Generation cluster))\<rparr>
     in (same \<and> gracefulStatefulSetControlEqual new' est, new',
         if same then cluster
         else cluster\<lparr>ddc_Annotations := (ddc_Annotations cluster)
                (ToLower (UpdateStatefulsetName (GetCGStatefulsetName cluster cg)) \<mapsto> ''true'')\<rparr>))"
proof -
  have n: "sts_Annotations new = sts_Annotations st" "sts_Namespace new = sts_Namespace st"
    using assms(2) by (simp_all add: RestrictConditionsEqual_def)
  have hn: "hash_of K (normalizeGracefulStatefulSetForCompare new) DisaggregatedSpecHashValueAnnotation False = h"
    using assms(1,3) n by (simp add: hash_of_def)
  have h0: "h \<noteq> ''''" using assms(3) by simp
  have b: "businessStatefulSetEqual K new est =
      (h = hash_of K (normalizeGracefulStatefulSetForCompare est) DisaggregatedSpecHashValueAnnotation False \<and>
         sts_Namespace st = sts_Namespace est,
       new\<lparr>sts_Annotations := (sts_Annotations st)(DisaggregatedSpecHashValueAnnotation \<mapsto> h)\<rparr>)"
    by (simp add: businessStatefulSetEqual_def StatefulsetDeepEqualWithKey_def hn map_get_def h0 n)
  show ?thesis unfolding applyEqual_def assms(2) [symmetric] b by (simp add: Let_def)
qed

lemma cancelled_decommission_holds_witness:
  "reconcileStatefulset mem_env True moving_sts
     (set_ComputeGroupStatuses [moving_status\<lparr>cgs_Phase := Decommissioning\<rparr>] moving_cluster)
     (moving_group\<lparr>cg_CommonSpec := zero_common_spec\<lparr>cms_Replicas := Some 3\<rparr>\<rparr>) moving_world =
   ((write_status ''g'' (moving_status\<lparr>cgs_Phase := Decommissioning\<rparr>)
       (set_ComputeGroupStatuses [moving_status\<lparr>cgs_Phase := Decommissioning\<rparr>] moving_cluster), None, None),
    moving_world)"
proof -
  let ?s = "moving_status\<lparr>cgs_Phase := Decommissioning\<rparr>"
  let ?c = "set_ComputeGroupStatuses [?s] moving_cluster"
  let ?g = "moving_group\<lparr>cg_CommonSpec := zero_common_spec\<lparr>cms_Replicas := Some 3\<rparr>\<rparr>"
  have get: "GetSts mem_env (sts_Namespace moving_sts) (sts_Name moving_sts) moving_world =
      (Inr moving_sts, moving_world)"
    by (simp add: mem_env_def mem_find_def moving_world_def)
  have vct: "volumeClaimTemplatesEqual (sts_VolumeClaimTemplates moving_sts) (sts_VolumeClaimTemplates moving_sts)"
    by (simp add: volumeClaimTemplatesEqual_def)
  have r: "sts_Replicas moving_sts = Some 3" "find_status (cg_UniqueId ?g) ?c = Some ?s"
    "cgs_Phase ?s = Decommissioning" "cg_Replicas ?g = Some 3" "spec_EnableDecommission (ddc_Spec ?c)"
    by (simp_all add: moving_sts_def find_status_def moving_group_def moving_status_def
        set_ComputeGroupStatuses_def moving_cluster_def)
  have tag: "be_Tag (moving_backend k) = be_Tag (sample_backend k)" for k by (simp add: moving_backend_def)
  have be: "GetBackendsByComputeGroupId mem_env 0 (cgs_ComputeGroupId ?s) moving_world =
      (Inr (map moving_backend [0, 1, 2]), moving_world)"
    using sample_tag [of 0] sample_tag [of 1] sample_tag [of 2]
    by (auto simp: GetBackendsByComputeGroupId_def mem_env_def moving_world_def tag
        moving_status_def zero_ComputeGroupStatus_def)
  have k: "list_ex be_SystemDecommissioned (map moving_backend [0, 1, 2])"
    "kept (map moving_backend [0, 1, 2]) \<noteq> 3" by (simp_all add: moving_backend_def)
  have "CloseDB mem_env 0 moving_world = moving_world" by (simp add: mem_env_def)
  with cancelled_decommission_holds [OF get vct r(1,1) r(2,3,4,5) moving_master(2) be k, of True] show ?thesis
    by (simp add: moving_group_def)
qed

lemma applyEqual_marks:
  assumes "applyEqual K cg st est c = (ev, st1, c1)"
  shows "c1 = c \<or>
    c1 = c\<lparr>ddc_Annotations := (ddc_Annotations c)
      (ToLower (UpdateStatefulsetName (GetCGStatefulsetName c cg)) \<mapsto> ''true'')\<rparr> \<and>
    sts_Annotations st1 UpdateStatefulsetGeneration = Some (Itoa (ddc_Generation c))"
  using assms by (auto simp: applyEqual_def Let_def split: prod.splits if_splits)

text \<open>
  A merge patch cannot take anything back: an update strategy or a graceful action that is
  not wanted any more stays on the stored StatefulSet, and the comparison sees it.
\<close>

definition control_clean :: "statefulset \<Rightarrow> statefulset \<Rightarrow> bool" where
  "control_clean st est \<longleftrightarrow>
     (us_Type (sts_UpdateStrategy st) \<noteq> '''' \<or> us_Type (sts_UpdateStrategy est) = '''') \<and>
     (sts_Annotations st gracefulActionAnnotation \<noteq> None \<or> gracefulAnnotationValue est = '''')"

lemma applyEqual_merged:
  assumes "sts_Annotations st DisaggregatedSpecHashValueAnnotation = None"
    and "applyEqual K cg st est cluster = (ev, st1, cluster1)"
    and "merge_patched est (useNewDefaultValuesInStatefulset st1) live"
  shows "applyEqual K cg st live cluster1 =
    (let new = RestrictConditionsEqual st est;
         new' = new\<lparr>sts_Annotations := (sts_Annotations st)(DisaggregatedSpecHashValueAnnotation \<mapsto>
                  HashObject K (statefulSetHashObject new False))\<rparr>
     in (gracefulStatefulSetControlEqual new' live, new', cluster1))"
proof -
  let ?new = "RestrictConditionsEqual st est" and ?sent = "useNewDefaultValuesInStatefulset st1"
  let ?h = "HashObject K (statefulSetHashObject ?new False)"
  note eq = applyEqual_eq [OF assms(1) refl refl]
  have vct: "sts_VolumeClaimTemplates ?sent = sts_VolumeClaimTemplates ?new"
    and ns: "sts_Namespace ?sent = sts_Namespace st"
    and hash: "sts_Annotations ?sent DisaggregatedSpecHashValueAnnotation = Some ?h"
    using assms(2)
    by (auto simp: eq Let_def RestrictConditionsEqual_def useNewDefaultValuesInStatefulset_def split: if_splits)
  have restr: "RestrictConditionsEqual st live = ?new" by (rule merged_templates [OF assms(3) vct])
  have same: "hash_of K (normalizeGracefulStatefulSetForCompare live) DisaggregatedSpecHashValueAnnotation False = ?h"
    "sts_Namespace live = sts_Namespace st"
    using merged_annotation [OF assms(3) hash] assms(3) ns by (simp_all add: hash_of_def merge_patched_def)
  show ?thesis by (simp add: eq restr same Let_def)
qed

lemma applyEqual_settles:
  assumes "sts_Annotations st DisaggregatedSpecHashValueAnnotation = None" and "control_clean st est"
    and "applyEqual K cg st est cluster = (ev, st1, cluster1)"
    and "merge_patched est (useNewDefaultValuesInStatefulset st1) live"
  shows "\<exists>st2. applyEqual K cg st live cluster1 = (True, st2, cluster1)"
proof -
  have sent: "sts_UpdateStrategy st1 = sts_UpdateStrategy st"
    "sts_Annotations st1 gracefulActionAnnotation = sts_Annotations st gracefulActionAnnotation"
    using assms(3) by (auto simp: applyEqual_eq [OF assms(1) refl refl] Let_def RestrictConditionsEqual_def
        split: if_splits)
  have "us_Type (sts_UpdateStrategy live) = us_Type (sts_UpdateStrategy st)"
    using assms(2,4) sent(1) by (auto simp: merge_patched_def control_clean_def useNewDefaultValuesInStatefulset_def)
  moreover have "gracefulAnnotationValue live = gracefulAnnotationValue st"
    using assms(2,4) sent(2)
    by (auto simp: merge_patched_def control_clean_def useNewDefaultValuesInStatefulset_def
        gracefulAnnotationValue_def map_get_def map_add_def split: option.splits)
  ultimately show ?thesis
    by (simp add: applyEqual_merged [OF assms(1,3,4)] Let_def gracefulStatefulSetControlEqual_def
        gracefulAnnotationValue_def map_get_def RestrictConditionsEqual_def)
qed

interpretation grouped: change_marker "applyEqual K cg" useNewDefaultValuesInStatefulset
    "\<lambda>c. GetCGStatefulsetName c cg" control_clean for K cg
  by unfold_locales (fact applyEqual_marks, rule applyEqual_settles)

text \<open>
  C13. Applying the same wanted StatefulSet of a compute group again writes nothing. The
  first \<^verbatim>\<open>ApplyStatefulSet\<close> found a difference and its patch was accepted; the API server
  merged the patch into what was stored (annotations that the patch does not name stay, and
  the server may fill in any other field). Then the second \<^verbatim>\<open>ApplyStatefulSet\<close> only reads:
  it ends in the world of its read, without error and without marking the cluster again.
  What a merge cannot remove must not be there: where no graceful action is wanted none is
  stored, and where no update strategy is wanted none is stored.
\<close>

theorem apply_idempotent:
  assumes "sts_Annotations st DisaggregatedSpecHashValueAnnotation = None" and "control_clean st est"
    and "GetSts K (sts_Namespace st) (sts_Name st) w = (Inr est, w1)"
    and "applyEqual K cg st est cluster = (False, st1, cluster1)"
    and "PatchSts K ((useNewDefaultValuesInStatefulset st1)\<lparr>sts_ResourceVersion := sts_ResourceVersion est\<rparr>) w1 =
      (None, w2)"
    and "GetSts K (sts_Namespace st) (sts_Name st) w2 = (Inr live, w3)"
    and "merge_patched est (useNewDefaultValuesInStatefulset st1) live"
  shows "ApplyStatefulSet K st (applyEqual K cg) useNewDefaultValuesInStatefulset cluster w = ((None, cluster1), w2) \<and>
         ApplyStatefulSet K st (applyEqual K cg) useNewDefaultValuesInStatefulset cluster1 w2 = ((None, cluster1), w3)"
  by (rule grouped.apply_twice [OF assms])

text \<open>An API server that merges patches and rewrites the resource version, and a foreign annotation.\<close>

definition merge_sts :: "statefulset \<Rightarrow> statefulset \<Rightarrow> statefulset" where
  "merge_sts sent old = sent\<lparr>sts_Annotations := sts_Annotations old ++ sts_Annotations sent,
     sts_ResourceVersion := ''r'' @ sts_ResourceVersion old\<rparr>"

definition merge_env :: "world rollout_env" where
  "merge_env = mem_env\<lparr>PatchSts := \<lambda>sent w. (None, w\<lparr>w_Sts := update_first
     (\<lambda>s. sts_Name s = sts_Name sent \<and> sts_Namespace s = sts_Namespace sent) (merge_sts sent) (w_Sts w)\<rparr>)\<rparr>"

definition foreign_sts :: statefulset where
  "foreign_sts = moving_sts\<lparr>sts_Annotations := [''team'' \<mapsto> ''a'']\<rparr>"

lemma apply_idempotent_witness:
  "\<exists>c live. ApplyStatefulSet merge_env moving_wanted (applyEqual merge_env moving_group)
       useNewDefaultValuesInStatefulset moving_cluster (zero_world\<lparr>w_Sts := [foreign_sts]\<rparr>) =
       ((None, c), zero_world\<lparr>w_Sts := [live]\<rparr>) \<and>
     sts_Replicas live = Some 2 \<and> sts_Annotations live ''team'' = Some ''a'' \<and>
     ApplyStatefulSet merge_env moving_wanted (applyEqual merge_env moving_group)
       useNewDefaultValuesInStatefulset c (zero_world\<lparr>w_Sts := [live]\<rparr>) =
       ((None, c), zero_world\<lparr>w_Sts := [live]\<rparr>)"
proof -
  let ?w = "zero_world\<lparr>w_Sts := [foreign_sts]\<rparr>"
  obtain ev st1 c where ap: "applyEqual merge_env moving_group moving_wanted foreign_sts moving_cluster = (ev, st1, c)"
    by (metis surj_pair)
  let ?sent = "(useNewDefaultValuesInStatefulset st1)\<lparr>sts_ResourceVersion := sts_ResourceVersion foreign_sts\<rparr>"
  let ?live = "merge_sts ?sent foreign_sts"
  have none: "sts_Annotations moving_wanted DisaggregatedSpecHashValueAnnotation = None"
    by (simp add: moving_wanted_def moving_sts_def zero_sts_def)
  have "\<not> fst (applyEqual merge_env moving_group moving_wanted foreign_sts moving_cluster)" by code_simp
  then have ev: "ev = False" by (simp add: ap)
  have st1: "sts_Name st1 = ''-g''" "sts_Namespace st1 = ''''" "sts_VolumeClaimTemplates st1 = []"
    "sts_Replicas st1 = Some 2" "us_Type (sts_UpdateStrategy st1) = ''''" "sts_Annotations st1 ''team'' = None"
    using ap [unfolded applyEqual_eq [OF none refl refl] Let_def]
    by (auto simp: RestrictConditionsEqual_def foreign_sts_def
        moving_wanted_def moving_sts_def zero_sts_def zero_update_strategy_def UpdateStatefulsetGeneration_def
        DisaggregatedSpecHashValueAnnotation_def split: if_splits)
  have clean: "control_clean moving_wanted foreign_sts"
    by (simp add: control_clean_def foreign_sts_def moving_sts_def zero_sts_def zero_update_strategy_def
        gracefulAnnotationValue_def map_get_def gracefulActionAnnotation_def)
  have get: "GetSts merge_env (sts_Namespace moving_wanted) (sts_Name moving_wanted) ?w = (Inr foreign_sts, ?w)"
    by (simp add: merge_env_def mem_env_def mem_find_def foreign_sts_def moving_wanted_def)
  have patch: "PatchSts merge_env ?sent ?w = (None, zero_world\<lparr>w_Sts := [?live]\<rparr>)"
    using st1 by (simp add: merge_env_def foreign_sts_def moving_sts_def zero_sts_def useNewDefaultValuesInStatefulset_def)
  have read: "GetSts merge_env (sts_Namespace moving_wanted) (sts_Name moving_wanted) (zero_world\<lparr>w_Sts := [?live]\<rparr>) =
      (Inr ?live, zero_world\<lparr>w_Sts := [?live]\<rparr>)"
    using st1 by (simp add: merge_env_def mem_env_def mem_find_def merge_sts_def moving_wanted_def moving_sts_def
        zero_sts_def useNewDefaultValuesInStatefulset_def)
  have merged: "merge_patched foreign_sts (useNewDefaultValuesInStatefulset st1) ?live"
    using st1 by (simp add: merge_patched_def merge_sts_def useNewDefaultValuesInStatefulset_def foreign_sts_def
        moving_sts_def zero_sts_def zero_update_strategy_def)
  show ?thesis
    using apply_idempotent [OF none clean get ap [unfolded ev] patch read merged] st1
    by (intro exI [of _ c] exI [of _ ?live])
      (simp add: merge_sts_def useNewDefaultValuesInStatefulset_def foreign_sts_def map_add_def)
qed

section \<open>Clearing\<close>

text \<open>
  \<open>guard_objects\<close> replaces what the API server does with the deletion of a StatefulSet
  outside \<open>Q\<close> and of a service outside \<open>R\<close>. Nothing but the deletion itself depends on it.
\<close>

definition guard_objects ::
    "(statefulset \<Rightarrow> bool) \<Rightarrow> (service \<Rightarrow> bool) \<Rightarrow> (statefulset \<Rightarrow> 'w \<Rightarrow> go_error option \<times> 'w)
     \<Rightarrow> (service \<Rightarrow> 'w \<Rightarrow> go_error option \<times> 'w) \<Rightarrow> ('w, 'x) kube_env_scheme \<Rightarrow> ('w, 'x) kube_env_scheme" where
  "guard_objects Q R D E K = K\<lparr>DeleteStsObj := \<lambda>s. if Q s then DeleteStsObj K s else D s,
     DeleteSvcObj := \<lambda>s. if R s then DeleteSvcObj K s else E s\<rparr>"

lemma guard_objects_fields [frame_simps]:
  "GetSts (guard_objects Q R D E K) = GetSts K" "GetSvc (guard_objects Q R D E K) = GetSvc K"
  "ListSts (guard_objects Q R D E K) = ListSts K" "ListSvcs (guard_objects Q R D E K) = ListSvcs K"
  "ListPvcs (guard_objects Q R D E K) = ListPvcs K" "DeletePvcObj (guard_objects Q R D E K) = DeletePvcObj K"
  "Eventf (guard_objects Q R D E K) = Eventf K" "GetSecretObj (guard_objects Q R D E K) = GetSecretObj K"
  "SelectFrontends (guard_objects Q R D E K) = SelectFrontends K" "SelectBackends (guard_objects Q R D E K) = SelectBackends K"
  "SqlxOpen (guard_objects Q R D E K) = SqlxOpen K" "Ping (guard_objects Q R D E K) = Ping K"
  "CloseDB (guard_objects Q R D E K) = CloseDB K" "ExecSql (guard_objects Q R D E K) = ExecSql K"
  "AppendCertsFromPEM (guard_objects Q R D E K) = AppendCertsFromPEM K"
  "X509KeyPair (guard_objects Q R D E K) = X509KeyPair K"
  "RegisterTLSConfig (guard_objects Q R D E K) = RegisterTLSConfig K"
  "GetConfigMapObj (guard_objects Q R D E K) = GetConfigMapObj K"
  "ViperSettings (guard_objects Q R D E K) = ViperSettings K"
  by (simp_all add: guard_objects_def)

lemma guard_objects_groups [frame_simps]:
  "filter_by_group (guard_objects Q R D E K) cgid bes = filter_by_group K cgid bes"
  by (rule filter_by_group_env) (simp_all add: guard_objects_def)

lemma guard_objects_config [frame_simps]:
  "GetConfigValuesFromConfigMaps (guard_objects Q R D E K) ns k cms w = GetConfigValuesFromConfigMaps K ns k cms w"
proof (induction cms arbitrary: w)
  case (Cons c cms)
  show ?case
    unfolding GetConfigValuesFromConfigMaps.simps resolveStartConfig_def frame_simps Cons.IH by (rule refl)
qed simp

lemma guard_objects_pvcs [frame_simps]:
  "deletePVCs (guard_objects Q R D E K) ns labels names e w = deletePVCs K ns labels names e w"
  by (induction names arbitrary: e w) (simp_all add: DeletePVC_def warn_def frame_simps split: prod.split option.split)

lemma guard_objects_claims [frame_simps]:
  "clearPVCs (guard_objects Q R D E K) ddc cgss w = clearPVCs K ddc cgss w"
proof (induction cgss arbitrary: w)
  case (Cons cgs cgss)
  have "ClearStatefulsetUnusedPVCs (guard_objects Q R D E K) ddc cgs w = ClearStatefulsetUnusedPVCs K ddc cgs w"
    unfolding ClearStatefulsetUnusedPVCs_def warn_def frame_simps by (rule refl)
  then show ?case by (simp add: Cons.IH split: prod.split option.split)
qed simp

lemma guard_objects_drop [frame_simps]:
  "dropGroups (guard_objects Q R D E K) db cgids w = dropGroups K db cgids w"
proof (induction cgids arbitrary: w)
  case (Cons cgid cgids)
  have "scaledOutBENodesByDrop (guard_objects Q R D E K) db cgid 0 w = scaledOutBENodesByDrop K db cgid 0 w"
    unfolding scaledOutBENodesByDrop_def getScaledOutBENode_def GetBackendsByComputeGroupId_def DropBE_def
      frame_simps by (rule refl)
  then show ?case by (simp add: Cons.IH warn_def frame_simps split: prod.split option.split)
qed simp

lemma guard_objects_meta [frame_simps]:
  "clearCGInDorisMeta (guard_objects Q R D E K) cgids ddc w = clearCGInDorisMeta K cgids ddc w"
  unfolding clearCGInDorisMeta_def getMasterSqlClient_def GetManagementAdminUserAndPWD_def GetSecret_def
    NewDorisMasterSqlDB_def GetFollowers_def NewDorisSqlDB_def openAndPing_def warn_def frame_simps
  by (rule refl)

text \<open>The API server answers a read with the object of the name that was asked for.\<close>

definition objects_named :: "('w, 'x) kube_env_scheme \<Rightarrow> bool" where
  "objects_named K \<longleftrightarrow>
     (\<forall>ns n w s w'. GetSts K ns n w = (Inr s, w') \<longrightarrow> sts_Name s = n) \<and>
     (\<forall>ns n w s w'. GetSvc K ns n w = (Inr s, w') \<longrightarrow> svc_Name s = n)"

lemma objects_named_sts: "objects_named K \<Longrightarrow> GetSts K ns n w = (Inr s, w') \<Longrightarrow> sts_Name s = n"
  and objects_named_svc: "objects_named K \<Longrightarrow> GetSvc K ns n w = (Inr t, w') \<Longrightarrow> svc_Name t = n"
  unfolding objects_named_def by blast+

lemma guard_objects_stss:
  assumes "objects_named K" and "\<And>s. sts_Name s \<in> set names \<Longrightarrow> Q s"
  shows "clearStatefulsets (guard_objects Q R D E K) names ddc w = clearStatefulsets K names ddc w"
  using assms(2)
proof (induction names arbitrary: w)
  case (Cons name names)
  have "DeleteStsObj (guard_objects Q R D E K) s = DeleteStsObj K s"
    if "GetSts K (ddc_Namespace ddc) name w = (Inr s, w')" for s w'
    using Cons.prems [of s] objects_named_sts [OF assms(1) that] by (simp add: guard_objects_def)
  then have "DeleteStatefulset (guard_objects Q R D E K) (ddc_Namespace ddc) name w =
      DeleteStatefulset K (ddc_Namespace ddc) name w"
    by (auto simp: DeleteStatefulset_def frame_simps split: prod.split sum.split)
  then show ?case using Cons by (simp split: prod.split option.split)
qed simp

lemma guard_objects_svcs:
  assumes "objects_named K" and "\<And>s. svc_Name s \<in> set names \<Longrightarrow> R s"
  shows "clearSvcs (guard_objects Q R D E K) names ddc w = clearSvcs K names ddc w"
  using assms(2)
proof (induction names arbitrary: w)
  case (Cons name names)
  have "DeleteSvcObj (guard_objects Q R D E K) s = DeleteSvcObj K s"
    if "GetSvc K (ddc_Namespace ddc) name w = (Inr s, w')" for s w'
    using Cons.prems [of s] objects_named_svc [OF assms(1) that] by (simp add: guard_objects_def)
  then have "DeleteService (guard_objects Q R D E K) (ddc_Namespace ddc) name w =
      DeleteService K (ddc_Namespace ddc) name w"
    by (auto simp: DeleteService_def frame_simps split: prod.split sum.split)
  then show ?case using Cons by (simp split: prod.split option.split)
qed simp

text \<open>
  C17. Clearing deletes no StatefulSet and no service that is still in use: whatever the API
  server would do with the deletion of a StatefulSet or a service other than one listed
  for the cluster that the cluster owns and whose compute group is no longer specified,
  the whole of \<^verbatim>\<open>ClearResources\<close> is the same. Assumed is that a read by name answers
  with an object of that name.
\<close>

theorem clear_spares_used:
  assumes "objects_named K"
    and "ListSvcs K (ddc_Namespace ddc) (GetCG2LayerCommonSchedulerLabels (ddc_Name ddc)) w = (Inr svcs, w1)"
    and "ListSts K (ddc_Namespace ddc) (GetCG2LayerCommonSchedulerLabels (ddc_Name ddc)) w1 = (Inr stss, w2)"
  shows "ClearResources (guard_objects
      (\<lambda>s. \<exists>t \<in> set stss. sts_Name t = sts_Name s \<and> ownerReference2ddc (sts_OwnerReferences t) ddc \<and>
         \<not> specified ddc (getUniqueIdFromClientObject (sts_Labels t)))
      (\<lambda>s. \<exists>t \<in> set svcs. svc_Name t = svc_Name s \<and> ownerReference2ddc (svc_OwnerReferences t) ddc \<and>
         \<not> specified ddc (getUniqueIdFromClientObject (svc_Labels t))) D E K) ddc w =
    ClearResources K ddc w" (is "ClearResources (guard_objects ?Q ?R D E K) ddc w = _")
proof -
  obtain names uids where f: "findUnusedStssAndUniqueIds stss ddc = (names, uids)" by (metis surj_pair)
  have "clearStatefulsets (guard_objects ?Q ?R D E K) names ddc w' = clearStatefulsets K names ddc w'" for w'
    by (rule guard_objects_stss [OF assms(1)]) (use f in \<open>fastforce simp: findUnusedStssAndUniqueIds_def Let_def\<close>)
  moreover have "clearSvcs (guard_objects ?Q ?R D E K) (findUnusedSvcs svcs ddc) ddc w' =
      clearSvcs K (findUnusedSvcs svcs ddc) ddc w'" for w'
    by (rule guard_objects_svcs [OF assms(1)]) (fastforce simp: findUnusedSvcs_def)
  ultimately show ?thesis
    unfolding ClearResources_def frame_simps Let_def assms(2,3)
    by (simp add: assms(3) f split: prod.split option.split)
qed

lemma mem_objects_named: "objects_named mem_env"
  by (auto simp: objects_named_def mem_env_def mem_find_def find_Some_iff split: option.splits)

text \<open>A StatefulSet of a removed group beside one that is still specified and one of another owner.\<close>

definition listed_sts :: "string \<Rightarrow> string \<Rightarrow> string \<Rightarrow> statefulset" where
  "listed_sts name owner uid = zero_sts\<lparr>sts_Name := name, sts_OwnerReferences := [\<lparr>or_Name = owner, or_UID = ''''\<rparr>],
     sts_Labels := (GetCG2LayerCommonSchedulerLabels '''')(DorisDisaggregatedComputeGroupUniqueId \<mapsto> uid)\<rparr>"

definition clear_world :: world where
  "clear_world = moving_world\<lparr>w_Sts := [listed_sts ''-g'' '''' ''g'', listed_sts ''-old'' '''' ''old'',
     listed_sts ''-other'' ''other'' ''old'']\<rparr>"

lemma clear_spares_used_witness:
  "map sts_Name (w_Sts (snd (ClearResources (guard_objects (\<lambda>s. sts_Name s = ''-old'') (\<lambda>_. False)
     (\<lambda>_ w. (None, w\<lparr>w_Sts := []\<rparr>)) (\<lambda>_ w. (None, w\<lparr>w_Svcs := []\<rparr>)) mem_env) moving_cluster clear_world))) =
   [''-g'', ''-other'']"
proof -
  let ?D = "\<lambda>_ w. (None, w\<lparr>w_Sts := []\<rparr>)" and ?E = "\<lambda>_ w. (None, w\<lparr>w_Svcs := []\<rparr>)"
  let ?sel = "GetCG2LayerCommonSchedulerLabels (ddc_Name moving_cluster)"
  have cl: "ddc_Name moving_cluster = ''''" "ddc_Namespace moving_cluster = ''''" "ddc_UID moving_cluster = ''''"
    by (simp_all add: moving_cluster_def set_ComputeGroupStatuses_def zero_ddc_def)
  have svcs: "ListSvcs mem_env (ddc_Namespace moving_cluster) ?sel clear_world = (Inr [], clear_world)"
    by (simp add: mem_env_def clear_world_def moving_world_def zero_world_def)
  have sel: "mem_selects ?sel (sts_Labels (listed_sts n ow uid))" for n ow uid
    by (simp add: mem_selects_def label_keys_def listed_sts_def GetCG2LayerCommonSchedulerLabels_def cl
        DorisDisaggregatedOwnerReference_def DorisDisaggregatedComputeGroupUniqueId_def
        DorisDisaggregatedClusterName_def DorisDisaggregatedPodType_def)
  have stss: "ListSts mem_env (ddc_Namespace moving_cluster) ?sel clear_world = (Inr (w_Sts clear_world), clear_world)"
    using sel by (simp add: mem_env_def clear_world_def cl) (simp add: listed_sts_def zero_sts_def)
  have Q: "(\<lambda>s. \<exists>t \<in> set (w_Sts clear_world). sts_Name t = sts_Name s \<and>
      ownerReference2ddc (sts_OwnerReferences t) moving_cluster \<and>
      \<not> specified moving_cluster (getUniqueIdFromClientObject (sts_Labels t))) = (\<lambda>s. sts_Name s = ''-old'')"
    by (auto simp: clear_world_def listed_sts_def ownerReference2ddc_def specified_def moving_cluster_def
        set_ComputeGroupStatuses_def zero_ddc_def moving_group_def getUniqueIdFromClientObject_def map_get_def)
  have "map sts_Name (w_Sts (snd (ClearResources mem_env moving_cluster clear_world))) = [''-g'', ''-other'']"
    by code_simp
  then show ?thesis
    using clear_spares_used [OF mem_objects_named svcs stss, of ?D ?E] unfolding Q by simp
qed

text \<open>
  A clearing that succeeds leaves in the cluster's status exactly the groups that are
  still specified, in order, and changes nothing else of the cluster; one that fails
  returns an error and the cluster unchanged.
\<close>

theorem clear_keeps_specified:
  assumes "ClearResources K ddc w = ((ddc', cleared, r), w')"
  shows "if cleared
         then r = None \<and> ddc' = set_ComputeGroupStatuses
                (filter (\<lambda>s. specified ddc (cgs_UniqueId s)) (ddc_ComputeGroupStatuses ddc)) ddc
         else ddc' = ddc \<and> r \<noteq> None"
  using assms
  by (auto simp: ClearResources_def Let_def split: prod.splits sum.splits option.splits)

lemma clear_keeps_specified_witness:
  "\<exists>ddc' w'. ClearResources mem_env moving_cluster moving_world = ((ddc', True, None), w') \<and>
     ddc_ComputeGroupStatuses ddc' = [moving_status]"
proof -
  have "fst (snd (fst (ClearResources mem_env moving_cluster moving_world)))" by code_simp
  then obtain ddc' r w' where run: "ClearResources mem_env moving_cluster moving_world = ((ddc', True, r), w')"
    by (metis prod.collapse)
  from clear_keeps_specified [OF run] run show ?thesis
    by (auto simp: moving_cluster_def set_ComputeGroupStatuses_def specified_def moving_group_def
        moving_status_def)
qed

lemma cut_at_missing: "c \<in> set sep \<Longrightarrow> c \<notin> set s \<Longrightarrow> cut_at sep s = None"
proof (induction sep s rule: cut_at.induct)
  case (2 sep d cs)
  have "\<not> HasPrefix (d # cs) sep"
    using "2.prems" by (metis HasPrefix_def in_set_takeD)
  with 2 show ?case by simp
qed auto

text \<open>
  A claim of a StatefulSet's pod, named after its template, the StatefulSet and the
  ordinal of the pod, is cleared exactly when the ordinal is not below the replicas of the
  StatefulSet.
\<close>

theorem cleared_claims:
  assumes "pvc_Name c = template @ stsName @ ''-'' @ Itoa k" and "0 \<le> k" and "k < 2 ^ 31"
    and "cut_at (stsName @ ''-'') (pvc_Name c) = Some (template, Itoa k)"
  shows "unusedPVC stsName replicas c \<longleftrightarrow> replicas \<le> k"
proof -
  have k: "Itoa k = dec_nat (nat k)" using assms(2) by (simp add: Itoa_def)
  have "cut_at (stsName @ ''-'') (Itoa k) = None"
    using cut_at_missing [of "CHR ''-''"] dec_nat_no_sign(1) by (simp add: k)
  then have "Split (pvc_Name c) (stsName @ ''-'') = [template, Itoa k]"
    using assms(4) by (simp add: Split.simps [of "pvc_Name c"] Split.simps [of "Itoa k"])
  moreover have "ParseInt (Itoa k) 32 = Some k"
    using ParseInt_dec_nat [of "nat k" 32] assms(2,3) by (simp add: k)
  ultimately show ?thesis by (simp add: unusedPVC_def)
qed

lemma cleared_claims_witness:
  "unusedPVC ''c-g'' 2 \<lparr>pvc_Name = ''be-storage-c-g-2'', pvc_Namespace = '''', pvc_Labels = Map.empty,
     pvc_Annotations = Map.empty, pvc_Finalizers = [], pvc_Spec = \<lparr>cl_AccessModes = [], cl_StorageClassName = None,
     cl_Storage = 0, cl_VolumeMode = None\<rparr>\<rparr>"
proof -
  have i: "Itoa 2 = ''2''" by code_simp
  show ?thesis
    by (subst cleared_claims [of _ "''be-storage-''" "''c-g''" 2]) (simp_all add: i HasPrefix_def)
qed

section \<open>Status\<close>

text \<open>
  C16. A status update that succeeds reports a group as ready only when its StatefulSet
  carries no graceful action and either it was reported ready before or there are pods, all
  of the StatefulSet's current update revision, exactly as many of them ready as replicas
  are wanted.
\<close>

theorem ready_means_updated:
  assumes "updateCGStatus K ddc cgs w = ((cgs', None), w')" and "cgs_Phase cgs' = Ready"
  shows "\<exists>sts w1 pods. GetSts K (ddc_Namespace ddc) (cgs_StatefulsetName cgs) w = (Inr sts, w1) \<and>
    ListPods K (ddc_Namespace ddc) (newCGPodsSelector (ddc_Name ddc) (cgs_UniqueId cgs)) w1 = (Inr pods, w') \<and>
    \<not> hasGracefulAction sts \<and>
    (cgs_Phase cgs = Ready \<or>
     pods \<noteq> [] \<and> count_ready pods = cgs_Replicas cgs \<and>
     list_all (\<lambda>p. map_get (pod_Labels p) POD_CONTROLLER_REVISION_HASH_KEY = sts_UpdateRevision sts) pods)"
  using assms
  by (auto simp: updateCGStatus_def Let_def StatefulsetControlledPodsAllUseNewUpdateRevision_def
      split: prod.splits sum.splits if_splits)

definition ready_pod :: pod where
  "ready_pod = zero_pod\<lparr>pod_Name := ''-g-0'',
     pod_Labels := (newCGPodsSelector '''' ''g'')(POD_CONTROLLER_REVISION_HASH_KEY \<mapsto> ''r2''),
     pod_ContainerStatuses := Some [\<lparr>cs_Name = ''compute'', cs_Ready = True, cs_RestartCount = 0,
       cs_ContainerID = '''', cs_Terminated = False\<rparr>]\<rparr>"

definition ready_world :: world where
  "ready_world = zero_world\<lparr>w_Sts := [moving_sts\<lparr>sts_UpdateRevision := ''r2''\<rparr>], w_Pods := [ready_pod]\<rparr>"

definition ready_status :: ComputeGroupStatus where
  "ready_status = moving_status\<lparr>cgs_Phase := Reconciling, cgs_StatefulsetName := ''-g'', cgs_Replicas := 1\<rparr>"

lemma ready_means_updated_witness:
  "cgs_Phase (fst (fst (updateCGStatus mem_env moving_cluster ready_status ready_world))) = Ready \<and>
   (\<exists>pods. pods \<noteq> [] \<and> count_ready pods = cgs_Replicas ready_status)"
proof -
  obtain c r w' where run: "updateCGStatus mem_env moving_cluster ready_status ready_world = ((c, r), w')"
    by (metis surj_pair)
  have "cgs_Phase (fst (fst (updateCGStatus mem_env moving_cluster ready_status ready_world))) = Ready"
    "snd (fst (updateCGStatus mem_env moving_cluster ready_status ready_world)) = None" by code_simp+
  then have r: "cgs_Phase c = Ready" "r = None" by (simp_all add: run)
  have "cgs_Phase ready_status \<noteq> Ready" by (simp add: ready_status_def)
  with ready_means_updated [OF run [unfolded r(2)] r(1)] r show ?thesis by (auto simp: run)
qed

text \<open>
  In the reconcile that changes the StatefulSet of a group, the status of that group is
  never updated: the comparison marks the cluster for this StatefulSet, and the status
  update looks for the generation under that mark's key, which the StatefulSet does not
  carry, so it answers that it is waiting.
\<close>

theorem changed_group_keeps_waiting:
  assumes "applyEqual K cg st est cluster = (ev, st1, cluster1)"
    and "cluster1 \<noteq> cluster"
    and "cgs_StatefulsetName cgs = GetCGStatefulsetName cluster cg"
    and "GetSts K (ddc_Namespace cluster1) (cgs_StatefulsetName cgs) w = (Inr sts, w1)"
    and "sts_Annotations sts (ToLower (UpdateStatefulsetName (cgs_StatefulsetName cgs))) = None"
    and "ddc_Generation cluster \<noteq> 0"
  shows "updateCGStatus K cluster1 cgs w =
    ((cgs, Some (ErrorString ''waiting statefulset updated'')), w1)"
proof -
  have "cluster1 = cluster\<lparr>ddc_Annotations := (ddc_Annotations cluster)
      (ToLower (UpdateStatefulsetName (GetCGStatefulsetName cluster cg)) \<mapsto> ''true'')\<rparr>"
    using grouped.marks [OF assms(1)] assms(2) by blast
  with grouped.mark_waits [OF assms(1,2,6) refl] assms(3-5) show ?thesis
    by (simp add: updateCGStatus_def)
qed

lemma changed_group_keeps_waiting_witness:
  "fst (updateCGStatus mem_env
      (snd (snd (applyEqual mem_env moving_group moving_wanted moving_sts (moving_cluster\<lparr>ddc_Generation := 1\<rparr>))))
      ready_status ready_world) =
   (ready_status, Some (ErrorString ''waiting statefulset updated''))"
proof -
  let ?c = "moving_cluster\<lparr>ddc_Generation := 1\<rparr>"
  let ?sts = "moving_sts\<lparr>sts_UpdateRevision := ''r2''\<rparr>"
  obtain ev st1 c1 where ap: "applyEqual mem_env moving_group moving_wanted moving_sts ?c = (ev, st1, c1)"
    by (metis surj_pair)
  have "ddc_Annotations (snd (snd (applyEqual mem_env moving_group moving_wanted moving_sts ?c)))
      ''doris.disaggregated.cluster/-g'' \<noteq> None" by code_simp
  then have "ddc_Annotations c1 ''doris.disaggregated.cluster/-g'' \<noteq> None" by (simp add: ap)
  then have ne: "c1 \<noteq> ?c" by (auto simp: moving_cluster_def set_ComputeGroupStatuses_def zero_ddc_def)
  have nm: "cgs_StatefulsetName ready_status = GetCGStatefulsetName ?c moving_group"
    by (simp add: ready_status_def GetCGStatefulsetName_def moving_cluster_def set_ComputeGroupStatuses_def
        zero_ddc_def moving_group_def ReplaceAll_def)
  have ns: "ddc_Namespace c1 = ''''"
    using ap by (auto simp: applyEqual_def Let_def moving_cluster_def set_ComputeGroupStatuses_def zero_ddc_def
        split: prod.splits if_splits)
  have get: "GetSts mem_env (ddc_Namespace c1) (cgs_StatefulsetName ready_status) ready_world =
      (Inr ?sts, ready_world)"
    by (simp add: ns mem_env_def mem_find_def ready_world_def ready_status_def moving_sts_def zero_sts_def)
  have an: "sts_Annotations ?sts (ToLower (UpdateStatefulsetName (cgs_StatefulsetName ready_status))) = None"
    by (simp add: moving_sts_def zero_sts_def)
  from changed_group_keeps_waiting [OF ap ne nm get an] show ?thesis by (simp add: ap)
qed

section \<open>A scale-down step that is undone\<close>

definition shrink_action :: GracefulAction where
  "shrink_action = (newAction GracefulActionScaleDown)\<lparr>ga_Phase := GracefulPhaseDeletePod,
     ga_CurrentPod := ''-g-2'', ga_CurrentOrdinal := 2, ga_DrainTriggered := True, ga_DesiredReplicas := Some 2\<rparr>"

definition shrink_env :: "world rollout_env" where
  "shrink_env = mem_env\<lparr>UnmarshalGA := \<lambda>_. Inr shrink_action\<rparr>"

definition shrink_sts :: statefulset where
  "shrink_sts = moving_sts\<lparr>sts_Annotations := [gracefulActionAnnotation \<mapsto> ''DeletePod'',
     DisaggregatedSpecHashValueAnnotation \<mapsto> HashObject mem_env (statefulSetHashObject moving_sts False)]\<rparr>"

definition shrink_pod :: pod where
  "shrink_pod = zero_pod\<lparr>pod_Name := ''-g-2''\<rparr>"

definition shrink_world :: world where
  "shrink_world = moving_world\<lparr>w_Sts := [shrink_sts], w_Pods := [shrink_pod], w_Backends := []\<rparr>"

definition shrink_cluster :: DorisDisaggregatedCluster where
  "shrink_cluster = moving_cluster\<lparr>ddc_Spec := (ddc_Spec moving_cluster)\<lparr>spec_EnableDecommission := False\<rparr>\<rparr>"

text \<open>
  What follows a graceful step that set an action: the StatefulSet is patched unless the
  stored one already carries that very action, and the patch has the replicas of the given
  StatefulSet and the resource version that was just read.
\<close>

lemma applyExisting_patches:
  assumes "us_Type (sts_UpdateStrategy st) = OnDeleteStrategy"
    and "GetSts K (sts_Namespace st) (sts_Name st)
           (clearStatefulSetRollingUpdate K (sts_Namespace st) (sts_Name st) w) = (Inr live, w1)"
    and "gracefulAnnotationValue st \<noteq> gracefulAnnotationValue live"
  shows "\<exists>sent c. sts_Replicas sent = sts_Replicas st \<and> sts_Name sent = sts_Name st \<and>
    sts_Namespace sent = sts_Namespace st \<and> sts_ResourceVersion sent = sts_ResourceVersion live \<and>
    applyExisting K st cluster cg w =
      (case PatchSts K sent w1 of
         (None, w) \<Rightarrow> ((c, None, None), w)
       | (Some e, w) \<Rightarrow>
           if IsConflict e then ((c, None, None), w)
           else ((c, Some (cg_event ''CGApplyResourceFailed'' e), Some e), w))"
proof -
  obtain ev st1 c where ap: "applyEqual K cg st live cluster = (ev, st1, c)" by (metis surj_pair)
  have "gracefulAnnotationValue st1 = gracefulAnnotationValue st"
    and st1: "sts_Replicas st1 = sts_Replicas st" "sts_Name st1 = sts_Name st" "sts_Namespace st1 = sts_Namespace st"
    using ap by (auto simp: applyEqual_def businessStatefulSetEqual_def Let_def gracefulAnnotationValue_def map_get_def
        RestrictConditionsEqual_def split: prod.splits if_splits)
  moreover have "ev \<longrightarrow> gracefulAnnotationValue st1 = gracefulAnnotationValue live"
    using ap by (auto simp: applyEqual_def Let_def gracefulStatefulSetControlEqual_def split: prod.splits if_splits)
  ultimately have "\<not> ev" using assms(3) by auto
  then show ?thesis
    using assms(1,2) ap st1
    by (intro exI [of _ "(useNewDefaultValuesInStatefulset st1)\<lparr>sts_ResourceVersion := sts_ResourceVersion live\<rparr>"]
        exI [of _ c])
      (auto simp: applyExisting_def ApplyStatefulSet_def useNewDefaultValuesInStatefulset_def split: prod.split option.split)
qed

text \<open>
  The graceful reconcile of a scale-down whose pod has just been deleted: the StatefulSet it
  hands on has the replicas that were read before the live StatefulSet was shrunk.
\<close>

lemma deleted_pod_keeps_replicas:
  assumes "sts_Replicas st = Some a" and "sts_Replicas est = Some b" and "a < b"
    and "getGracefulAction K est = Inr (Some ga)" and "ga_Type ga = GracefulActionScaleDown"
    and "ga_Phase ga = GracefulPhaseDeletePod"
    and "GetPodObj K (ddc_Namespace cluster) (ga_CurrentPod ga) w = (Inr p, w1)"
    and "DeletePodObj K p w1 = (None, w2)"
    and "updateStatefulSetReplicas K est (ga_CurrentOrdinal ga)
           (notice K ''GracefulPodDeleted'' (''Deleted pod '' @ ga_CurrentPod ga @ '' during graceful ScaleDown'') w2) =
           (None, w3)"
    and "MarshalGA K (advanceToNextPod ga) = Inr text"
  shows "\<exists>st' s'. gracefulRolloutReconcile K st est cluster cg s w = ((st', s', True, None), w3) \<and>
    sts_Replicas st' = Some b \<and> us_Type (sts_UpdateStrategy st') = OnDeleteStrategy \<and>
    gracefulAnnotationValue st' = text \<and> sts_Name st' = sts_Name st \<and> sts_Namespace st' = sts_Namespace st"
proof -
  have next_pod: "ga_Type (advanceToNextPod ga) = GracefulActionScaleDown"
    "ga_Phase (advanceToNextPod ga) \<noteq> GracefulPhaseDone"
    using assms(5) by (simp_all add: advanceToNextPod_def Let_def resetGracefulPhaseTimer_def)
  have det: "detectGracefulAction K st est w =
      (Inr (Some ((newAction GracefulActionScaleDown)\<lparr>ga_DesiredReplicas := Some a\<rparr>)), w)"
    using assms(1-3) by (simp add: detectGracefulAction_def)
  have "ga_Type ((newAction GracefulActionScaleDown)\<lparr>ga_DesiredReplicas := Some a\<rparr>) = ga_Type ga"
    using assms(5) by (simp add: newAction_def)
  then have ch: "chooseAction (Some ((newAction GracefulActionScaleDown)\<lparr>ga_DesiredReplicas := Some a\<rparr>)) ga = ga"
    by (simp add: chooseAction_def)
  have fresh: "refreshRollingUpdateTargetRevision est ga = ga"
    using assms(5) by (simp add: refreshRollingUpdateTargetRevision_def)
  have run: "runGracefulStateMachine K cluster s' est ga w = ((advanceToNextPod ga, None), w3)" for s'
    using assms(5-9) by (simp add: runGracefulStateMachine_def handleDeletePod_def getPod_def afterPodDeleted_def)
  show ?thesis
    using next_pod assms(2,4,10)
    by (simp add: gracefulRolloutReconcile_def Let_def det ch continueGracefulAction_def fresh run
        prepareGracefulStatefulSet_def ensureOnDeleteStrategy_def setGracefulAction_def
        gracefulAnnotationValue_def map_get_def)
qed

text \<open>
  C14. The reconcile that deletes the last pod of a graceful scale-down sends the old number
  of replicas after it has shrunk the StatefulSet. The stored action is a scale-down in
  phase DeletePod, fewer replicas are wanted than the StatefulSet has, the pod is deleted,
  and the live StatefulSet is then written with the ordinal of that pod as its replicas
  (\<open>UpdateSts\<close>). At the end of the same reconcile a patch is sent with the replicas \<open>b\<close>
  read at its beginning and the resource version \<open>live\<close> has now, so nothing but an error of
  the API server keeps it from overwriting the shrunk replicas; it is left out only when
  \<open>live\<close> already carries the next action.
\<close>

theorem graceful_shrink_overwritten:
  assumes "GetSts K (sts_Namespace st) (sts_Name st) w = (Inr est, w1)"
    and "volumeClaimTemplatesEqual (sts_VolumeClaimTemplates st) (sts_VolumeClaimTemplates est)"
    and "preApplyStatefulSet K st est cluster cg w1 = ((cluster1, None), w2)"
    and "skipApplyStatefulset cluster1 cg = Inr False"
    and "find_status (cg_UniqueId cg) cluster1 = Some s"
    and "sts_Replicas st = Some a" and "sts_Replicas est = Some b" and "a < b"
    and "getGracefulAction K est = Inr (Some ga)" and "ga_Type ga = GracefulActionScaleDown"
    and "ga_Phase ga = GracefulPhaseDeletePod"
    and "GetPodObj K (ddc_Namespace cluster1) (ga_CurrentPod ga) w2 = (Inr p, w3)"
    and "DeletePodObj K p w3 = (None, w4)"
    and "GetSts K (sts_Namespace est) (sts_Name est) (notice K ''GracefulPodDeleted''
           (''Deleted pod '' @ ga_CurrentPod ga @ '' during graceful ScaleDown'') w4) = (Inr cur, w5)"
    and "sts_Replicas cur = Some n" and "n \<noteq> ga_CurrentOrdinal ga"
    and "UpdateSts K (cur\<lparr>sts_Replicas := Some (ga_CurrentOrdinal ga)\<rparr>) w5 = (None, w6)"
    and "MarshalGA K (advanceToNextPod ga) = Inr text"
    and "GetSts K (sts_Namespace st) (sts_Name st)
           (clearStatefulSetRollingUpdate K (sts_Namespace st) (sts_Name st) w6) = (Inr live, w7)"
    and "gracefulAnnotationValue live \<noteq> text"
  shows "\<exists>sent c. sts_Replicas sent = Some b \<and> sts_Name sent = sts_Name st \<and>
    sts_Namespace sent = sts_Namespace st \<and> sts_ResourceVersion sent = sts_ResourceVersion live \<and>
    reconcileStatefulset K True st cluster cg w =
      (case PatchSts K sent w7 of
         (None, w) \<Rightarrow> ((c, None, None), w)
       | (Some e, w) \<Rightarrow>
           if IsConflict e then ((c, None, None), w)
           else ((c, Some (cg_event ''CGApplyResourceFailed'' e), Some e), w))"
proof -
  have "updateStatefulSetReplicas K est (ga_CurrentOrdinal ga) (notice K ''GracefulPodDeleted''
      (''Deleted pod '' @ ga_CurrentPod ga @ '' during graceful ScaleDown'') w4) = (None, w6)"
    using assms(14-17) by (simp add: updateStatefulSetReplicas_def)
  from deleted_pod_keeps_replicas [OF assms(6-13) this assms(18)]
  obtain st' s' where run: "gracefulRolloutReconcile K st est cluster1 cg s w2 = ((st', s', True, None), w6)"
    and st': "sts_Replicas st' = Some b" "us_Type (sts_UpdateStrategy st') = OnDeleteStrategy"
      "gracefulAnnotationValue st' = text" "sts_Name st' = sts_Name st" "sts_Namespace st' = sts_Namespace st"
    by blast
  let ?st = "ensureOnDeleteStrategy st'"
  have st: "sts_Replicas ?st = Some b" "us_Type (sts_UpdateStrategy ?st) = OnDeleteStrategy"
    "gracefulAnnotationValue ?st = text" "sts_Name ?st = sts_Name st" "sts_Namespace ?st = sts_Namespace st"
    using st' by (simp_all add: ensureOnDeleteStrategy_def gracefulAnnotationValue_def)
  have "gracefulPart K True st est cluster1 cg w2 = (Inr (?st, write_status (cg_UniqueId cg) s' cluster1), w6)"
    using run assms(5) by (simp add: gracefulPart_def)
  then have "reconcileStatefulset K True st cluster cg w =
      applyExisting K ?st (write_status (cg_UniqueId cg) s' cluster1) cg w6"
    using assms(1-4) by (simp add: reconcileStatefulset_def)
  with applyExisting_patches [of ?st K w6 live w7 "write_status (cg_UniqueId cg) s' cluster1" cg] st assms(19,20)
  show ?thesis by simp
qed

text \<open>
  On an API server in memory, with the backends already dropped: the third of three pods is
  deleted, the StatefulSet is shrunk to two replicas, and the patch leaves three.
\<close>

definition shrink_cluster1 :: DorisDisaggregatedCluster where
  "shrink_cluster1 = write_status ''g'' (moving_status\<lparr>cgs_Phase := Scaling\<rparr>) shrink_cluster"

lemma shrink_pre:
  "preApplyStatefulSet shrink_env moving_wanted shrink_sts shrink_cluster moving_group shrink_world =
     ((shrink_cluster1, None), shrink_world)"
  "find_status ''g'' shrink_cluster1 = Some (moving_status\<lparr>cgs_Phase := Scaling\<rparr>)"
proof -
  have "getMasterSqlClient shrink_env shrink_cluster shrink_world = (Inr 0, shrink_world)"
    by (simp add: getMasterSqlClient_def GetManagementAdminUserAndPWD_def shrink_cluster_def moving_cluster_def
      set_ComputeGroupStatuses_def zero_ddc_def zero_common_spec_def GetPort_def FindSecretTLSConfig_def
      GetString_def GetSecret_def NewDorisMasterSqlDB_def NewDorisSqlDB_def openAndPing_def GetFollowers_def
      followers_of_def shrink_env_def mem_env_def shrink_world_def moving_world_def FE_FOLLOWER_ROLE_def)
  moreover have "scaledOutBENodesByDrop shrink_env 0 cgid k shrink_world = (None, shrink_world)" for cgid k
    by (simp add: scaledOutBENodesByDrop_def getScaledOutBENode_def GetBackendsByComputeGroupId_def
        shrink_env_def mem_env_def shrink_world_def)
  moreover have find: "find_status ''g'' shrink_cluster = Some moving_status"
    by (simp add: find_status_def shrink_cluster_def moving_cluster_def set_ComputeGroupStatuses_def moving_status_def)
  ultimately show "preApplyStatefulSet shrink_env moving_wanted shrink_sts shrink_cluster moving_group shrink_world =
     ((shrink_cluster1, None), shrink_world)"
    by (simp add: preApplyStatefulSet_def getOperationType_def scaleOut_def shrink_cluster1_def moving_group_def
        moving_wanted_def moving_sts_def shrink_sts_def)
      (simp add: shrink_env_def mem_env_def shrink_cluster_def)
  show "find_status ''g'' shrink_cluster1 = Some (moving_status\<lparr>cgs_Phase := Scaling\<rparr>)"
    unfolding shrink_cluster1_def by (rule find_write_status [OF find]) (simp add: moving_status_def)
qed

lemma graceful_shrink_overwritten_witness:
  "w_Pods (snd (reconcileStatefulset shrink_env True moving_wanted shrink_cluster moving_group shrink_world)) = [] \<and>
   map sts_Replicas (w_Sts (snd (reconcileStatefulset shrink_env True moving_wanted shrink_cluster moving_group
       shrink_world))) = [Some 3]"
proof -
  let ?e = "''Deleted pod '' @ ga_CurrentPod shrink_action @ '' during graceful ScaleDown''"
  let ?w4 = "shrink_world\<lparr>w_Pods := []\<rparr>"
  let ?w5 = "notice shrink_env ''GracefulPodDeleted'' ?e ?w4"
  let ?two = "shrink_sts\<lparr>sts_Replicas := Some 2\<rparr>"
  let ?w6 = "?w5\<lparr>w_Sts := [?two]\<rparr>"
  have sts: "sts_Name shrink_sts = ''-g''" "sts_Namespace shrink_sts = ''''" "sts_Name moving_wanted = ''-g''"
    "sts_Namespace moving_wanted = ''''" "sts_Replicas shrink_sts = Some 3" "sts_Replicas moving_wanted = Some 2"
    by (simp_all add: shrink_sts_def moving_wanted_def moving_sts_def zero_sts_def)
  have env: "GetSts shrink_env = GetSts mem_env" "PatchSts shrink_env = mem_put_sts" "UpdateSts shrink_env = mem_put_sts"
    "DeletePodObj shrink_env = DeletePodObj mem_env" "GetPodObj shrink_env = GetPodObj mem_env"
    "MarshalGA shrink_env (advanceToNextPod shrink_action) = Inr (phase_text GracefulPhaseTriggerDrain)"
    by (simp_all add: shrink_env_def mem_env_def advanceToNextPod_def Let_def)
  have w5: "w_Sts (notice shrink_env r m ?w4) = [shrink_sts]" "w_Pods (notice shrink_env r m ?w4) = []" for r m
    by (simp_all add: notice_def shrink_env_def mem_env_def shrink_world_def)
  have get: "GetSts mem_env '''' ''-g'' w = (Inr x, w)"
    if "w_Sts w = [x]" "sts_Name x = ''-g''" "sts_Namespace x = ''''" for w x
    using that by (simp add: mem_env_def mem_find_def)
  have g1: "GetSts shrink_env (sts_Namespace moving_wanted) (sts_Name moving_wanted) shrink_world = (Inr shrink_sts, shrink_world)"
    by (simp add: env sts get shrink_world_def)
  have vct: "volumeClaimTemplatesEqual (sts_VolumeClaimTemplates moving_wanted) (sts_VolumeClaimTemplates shrink_sts)"
    by (simp add: volumeClaimTemplatesEqual_def moving_wanted_def shrink_sts_def)
  have skip: "skipApplyStatefulset shrink_cluster1 moving_group = Inr False"
    "find_status (cg_UniqueId moving_group) shrink_cluster1 = Some (moving_status\<lparr>cgs_Phase := Scaling\<rparr>)"
    using shrink_pre(2) by (simp_all add: skipApplyStatefulset_def moving_group_def)
  have ga: "getGracefulAction shrink_env shrink_sts = Inr (Some shrink_action)"
    "ga_Type shrink_action = GracefulActionScaleDown" "ga_Phase shrink_action = GracefulPhaseDeletePod"
    "ga_CurrentOrdinal shrink_action = 2" "ga_CurrentPod shrink_action = ''-g-2''"
    by (simp_all add: getGracefulAction_def shrink_sts_def map_get_def shrink_env_def shrink_action_def newAction_def)
  have pod: "GetPodObj shrink_env (ddc_Namespace shrink_cluster1) (ga_CurrentPod shrink_action) shrink_world =
      (Inr shrink_pod, shrink_world)"
    by (simp add: env ga mem_find_def shrink_world_def shrink_pod_def zero_pod_def shrink_cluster1_def write_status_def
        set_ComputeGroupStatuses_def shrink_cluster_def moving_cluster_def zero_ddc_def)
  have del: "DeletePodObj shrink_env shrink_pod shrink_world = (None, ?w4)"
    by (simp add: env mem_env_def shrink_world_def)
  have g5: "GetSts shrink_env (sts_Namespace shrink_sts) (sts_Name shrink_sts) ?w5 = (Inr shrink_sts, ?w5)"
    by (simp only: env sts) (rule get, simp_all add: w5 sts)
  have upd: "UpdateSts shrink_env (shrink_sts\<lparr>sts_Replicas := Some (ga_CurrentOrdinal shrink_action)\<rparr>) ?w5 = (None, ?w6)"
    by (simp add: env mem_put_sts_def w5 ga)
  have raw: "clearStatefulSetRollingUpdate shrink_env ns n w = w" for ns n w
    by (simp add: clearStatefulSetRollingUpdate_def shrink_env_def mem_env_def)
  have g7: "GetSts shrink_env (sts_Namespace moving_wanted) (sts_Name moving_wanted)
      (clearStatefulSetRollingUpdate shrink_env (sts_Namespace moving_wanted) (sts_Name moving_wanted) ?w6) = (Inr ?two, ?w6)"
    by (simp only: raw env sts) (rule get, simp_all add: sts)
  have ann: "gracefulAnnotationValue ?two \<noteq> phase_text GracefulPhaseTriggerDrain"
    by (simp add: gracefulAnnotationValue_def shrink_sts_def map_get_def)
  obtain sent c where sent: "sts_Replicas sent = Some 3" "sts_Name sent = ''-g''" "sts_Namespace sent = ''''"
    "reconcileStatefulset shrink_env True moving_wanted shrink_cluster moving_group shrink_world =
      (case PatchSts shrink_env sent ?w6 of
         (None, w) \<Rightarrow> ((c, None, None), w)
       | (Some e, w) \<Rightarrow>
           if IsConflict e then ((c, None, None), w)
           else ((c, Some (cg_event ''CGApplyResourceFailed'' e), Some e), w))"
    using graceful_shrink_overwritten [OF g1 vct shrink_pre(1) skip sts(6,5) _ ga(1,2,3) pod del g5 sts(5) _ upd env(6) g7 ann]
    by (auto simp: ga sts)
  have "PatchSts shrink_env sent ?w6 = (None, ?w6\<lparr>w_Sts := [sent]\<rparr>)"
    using sent(2,3) by (simp add: env mem_put_sts_def sts)
  then show ?thesis using sent(1,4) w5 by simp
qed

end
