(* ===== verification/Graceful_Safety.thy ===== *)
theory Graceful_Safety
  imports Graceful_Machine
begin

text \<open>
  What the phase machine guarantees. \<open>action_ok\<close> is the invariant of an action between
  two reconciles; \<open>astep\<close> is the abstract machine over stages, each holding the pod it is
  about. Every handler keeps the invariant and implements one abstract step; the locale
  \<open>poll_machine\<close> lifts this to any sequence of reconciles.
\<close>

section \<open>Invariant and abstract machine\<close>

definition action_ok :: "GracefulAction \<Rightarrow> bool" where
  "action_ok ga =
     (case ga_Phase ga of
        GracefulPhaseTriggerDrain \<Rightarrow>
          ga_CurrentPod ga = '''' \<and> \<not> ga_DrainTriggered ga \<and> ga_DeadlineAt ga = 0 \<and>
          ga_StableBackendObservations ga = 0 \<and> ga_ReplacementBackendStartTime ga = ''''
      | GracefulPhaseWaitDrain \<Rightarrow>
          ga_CurrentPod ga \<noteq> '''' \<and> ga_DrainTriggered ga \<and>
          ga_StableBackendObservations ga = 0 \<and> ga_ReplacementBackendStartTime ga = ''''
      | GracefulPhaseDeletePod \<Rightarrow>
          ga_CurrentPod ga \<noteq> '''' \<and> ga_DrainTriggered ga \<and>
          ga_StableBackendObservations ga = 0 \<and> ga_ReplacementBackendStartTime ga = ''''
      | GracefulPhaseWaitPodReady \<Rightarrow>
          ga_CurrentPod ga \<noteq> '''' \<and> ga_Type ga = GracefulActionRollingUpdate \<and>
          ga_StableBackendObservations ga = 0 \<and> ga_ReplacementBackendStartTime ga = ''''
      | GracefulPhaseWaitBEAlive \<Rightarrow>
          ga_CurrentPod ga \<noteq> '''' \<and> ga_Type ga = GracefulActionRollingUpdate \<and>
          (ga_StableBackendObservations ga = 0 \<and> ga_ReplacementBackendStartTime ga = '''' \<or>
           ga_StableBackendObservations ga = 1 \<and>
             acceptStartTime ga (ga_ReplacementBackendStartTime ga))
      | GracefulPhaseDone \<Rightarrow> ga_CurrentPod ga = ''''
      | _ \<Rightarrow> False)"

datatype stage =
    Idle | Draining string | Deleting string | Recreating string | Verifying string
  | Finished | Unknown

fun stage_at :: "GracefulActionPhase \<Rightarrow> string \<Rightarrow> stage" where
  "stage_at GracefulPhaseTriggerDrain p = Idle"
| "stage_at GracefulPhaseWaitDrain p = Draining p"
| "stage_at GracefulPhaseDeletePod p = Deleting p"
| "stage_at GracefulPhaseWaitPodReady p = Recreating p"
| "stage_at GracefulPhaseWaitBEAlive p = Verifying p"
| "stage_at GracefulPhaseDone p = Finished"
| "stage_at GracefulPhaseFailed p = Unknown"
| "stage_at (GracefulPhaseOther t) p = Unknown"

definition stage_of :: "GracefulAction \<Rightarrow> stage" where
  "stage_of ga = stage_at (ga_Phase ga) (ga_CurrentPod ga)"

inductive astep :: "GracefulActionType \<Rightarrow> stage \<Rightarrow> stage \<Rightarrow> bool" for t where
  stay: "astep t s s"
| select: "p \<noteq> '''' \<Longrightarrow> astep t Idle (Draining p)"
| finish: "astep t Idle Finished"
| select_gone: "t = GracefulActionRollingUpdate \<Longrightarrow> p \<noteq> '''' \<Longrightarrow> astep t Idle (Recreating p)"
| drained: "astep t (Draining p) (Deleting p)"
| drain_gone: "t = GracefulActionRollingUpdate \<Longrightarrow> astep t (Draining p) (Recreating p)"
| drain_skip: "t \<noteq> GracefulActionRollingUpdate \<Longrightarrow> astep t (Draining p) Idle"
| replaced: "t = GracefulActionRollingUpdate \<Longrightarrow> astep t (Deleting p) (Recreating p)"
| shrunk: "t \<noteq> GracefulActionRollingUpdate \<Longrightarrow> astep t (Deleting p) Idle"
| recreated: "t = GracefulActionRollingUpdate \<Longrightarrow> astep t (Recreating p) (Verifying p)"
| verified: "t = GracefulActionRollingUpdate \<Longrightarrow> astep t (Verifying p) Idle"

inductive_cases astep_into_Deleting: "astep t s (Deleting p)"
inductive_cases astep_into_Verifying: "astep t s (Verifying p)"
inductive_cases astep_from_Finished: "astep t Finished s"
inductive_simps astep_from_Recreating: "astep t (Recreating p) s"

text \<open>No pod of the abstract machine is deleted that was not drained before.\<close>

lemma abstract_delete_after_drain:
  "(astep t)\<^sup>*\<^sup>* Idle (Deleting p) \<Longrightarrow> (astep t)\<^sup>*\<^sup>* Idle (Draining p)"
proof -
  have "s = Deleting p \<Longrightarrow> (astep t)\<^sup>*\<^sup>* Idle (Draining p)" if "(astep t)\<^sup>*\<^sup>* Idle s" for s
    using that by (induction) (auto elim: astep_into_Deleting)
  then show "(astep t)\<^sup>*\<^sup>* Idle (Deleting p) \<Longrightarrow> ?thesis" by blast
qed

section \<open>Frame of the small operations\<close>

lemma advanceToNextPod_fields [simp]:
  "ga_Phase (advanceToNextPod ga) = GracefulPhaseTriggerDrain"
  "ga_CurrentPod (advanceToNextPod ga) = ''''"
  "ga_Type (advanceToNextPod ga) = ga_Type ga"
  "ga_DesiredReplicas (advanceToNextPod ga) = ga_DesiredReplicas ga"
  "ga_TargetRevision (advanceToNextPod ga) = ga_TargetRevision ga"
  "ga_DeadlineAt (advanceToNextPod ga) = 0"
  "ga_DrainTriggered (advanceToNextPod ga) = False"
  "ga_StableBackendObservations (advanceToNextPod ga) = 0"
  "ga_ReplacementBackendStartTime (advanceToNextPod ga) = ''''"
  by (simp_all add: advanceToNextPod_def resetGracefulPhaseTimer_def)

lemma action_ok_advance [simp]: "action_ok (advanceToNextPod ga)"
  by (simp add: action_ok_def advanceToNextPod_def resetGracefulPhaseTimer_def)

lemma action_ok_newAction [simp]: "action_ok (newAction t)"
  by (simp add: action_ok_def newAction_def zero_GracefulAction_def)

lemma stage_of_simps [simp]:
  "stage_of (advanceToNextPod ga) = Idle"
  "stage_of (newAction t) = Idle"
  by (simp_all add: stage_of_def newAction_def)

lemma refresh_fields [simp]:
  "ga_Phase (refreshRollingUpdateTargetRevision est ga) = ga_Phase ga"
  "ga_CurrentPod (refreshRollingUpdateTargetRevision est ga) = ga_CurrentPod ga"
  "ga_Type (refreshRollingUpdateTargetRevision est ga) = ga_Type ga"
  "ga_DrainTriggered (refreshRollingUpdateTargetRevision est ga) = ga_DrainTriggered ga"
  "ga_DeadlineAt (refreshRollingUpdateTargetRevision est ga) = ga_DeadlineAt ga"
  "ga_DesiredReplicas (refreshRollingUpdateTargetRevision est ga) = ga_DesiredReplicas ga"
  "ga_CurrentOrdinal (refreshRollingUpdateTargetRevision est ga) = ga_CurrentOrdinal ga"
  "ga_StableBackendObservations (refreshRollingUpdateTargetRevision est ga) = ga_StableBackendObservations ga"
  "ga_ReplacementBackendStartTime (refreshRollingUpdateTargetRevision est ga) = ga_ReplacementBackendStartTime ga"
  "ga_InitialBackendStartTime (refreshRollingUpdateTargetRevision est ga) = ga_InitialBackendStartTime ga"
  by (simp_all add: refreshRollingUpdateTargetRevision_def)

lemma action_ok_refresh [simp]:
  "action_ok (refreshRollingUpdateTargetRevision est ga) = action_ok ga"
  by (cases "ga_Phase ga") (simp_all add: action_ok_def acceptStartTime_def)

lemma stage_of_refresh [simp]:
  "stage_of (refreshRollingUpdateTargetRevision est ga) = stage_of ga"
  by (simp add: stage_of_def)

section \<open>Choosing a pod\<close>

definition pods_named :: "('w, 'x) kube_env_scheme \<Rightarrow> bool" where
  "pods_named K \<longleftrightarrow>
     (\<forall>ns sel w ps w'. ListPods K ns sel w = (Inr ps, w') \<longrightarrow> list_all (\<lambda>p. pod_Name p \<noteq> '''') ps)"

lemma sort_key_Cons_min:
  fixes f :: "'a \<Rightarrow> 'b :: linorder"
  assumes "sort_key f xs = p # ps"
  shows "p \<in> set xs \<and> (\<forall>q \<in> set xs. f p \<le> f q)"
proof -
  have set_eq: "set xs = insert p (set ps)" using assms set_sort [of f xs] by simp
  have "sorted (map f (p # ps))" using assms sorted_sort_key [of f xs] by simp
  with set_eq show ?thesis by simp
qed

lemma rolling_selection:
  assumes "selectNextRollingUpdatePod K est ga w = (Some (n, ord), w')"
  shows "\<exists>items p. ListPods K (sts_Namespace est) (sts_Selector est) w = (Inr items, w') \<and>
           p \<in> set items \<and> n = pod_Name p \<and> ord = wrap32 (extractOrdinal n)"
proof -
  let ?t = "if ga_TargetRevision ga = '''' then sts_UpdateRevision est else ga_TargetRevision ga"
  obtain items p ps where
    l: "ListPods K (sts_Namespace est) (sts_Selector est) w = (Inr items, w')" and
    s: "sort_key (\<lambda>p. - extractOrdinal (pod_Name p)) (outdatedPods ?t items) = p # ps" and
    n: "n = pod_Name p" and m: "ord = wrap32 (extractOrdinal n)"
    using assms by (auto simp: selectNextRollingUpdatePod_def Let_def
        split: prod.splits sum.splits list.splits if_splits)
  have "p \<in> set items"
    using sort_key_Cons_min [OF s] by (auto simp: outdatedPods_def)
  with l n m show ?thesis by blast
qed

lemma nth_pod_name_nonempty [simp]: "nth_pod_name s n \<noteq> ''''"
  by (simp add: nth_pod_name_def)

lemma selectNextPod_named:
  assumes "selectNextPod K cgStatus est ga w = (Inr (Some (n, ord)), w')" and "pods_named K"
  shows "n \<noteq> ''''"
proof (cases "ga_Type ga")
  case GracefulActionRollingUpdate
  then have "selectNextRollingUpdatePod K est ga w = (Some (n, ord), w')"
    using assms(1) by (auto simp: selectNextPod_def Let_def split: prod.splits)
  with rolling_selection [of K est ga w n ord w'] assms(2) show ?thesis
    by (fastforce simp: pods_named_def list_all_iff)
qed (use assms(1) in \<open>auto simp: selectNextPod_def Let_def split: option.splits if_splits\<close>)

section \<open>The handlers\<close>

text \<open>
  One poll of the machine: from an action that satisfies the invariant and without an
  error, the next action satisfies it, keeps the type and the wanted replicas, and is one
  abstract step away.
\<close>

definition good_step :: "GracefulAction \<Rightarrow> GracefulAction \<Rightarrow> bool" where
  "good_step ga ga' \<longleftrightarrow>
     action_ok ga' \<and> ga_Type ga' = ga_Type ga \<and> ga_DesiredReplicas ga' = ga_DesiredReplicas ga \<and>
     astep (ga_Type ga) (stage_of ga) (stage_of ga')"

lemma good_step_refl: "action_ok ga \<Longrightarrow> good_step ga ga"
  by (simp add: good_step_def astep.stay)

lemma timer_fields [simp]:
  assumes "startTimer K secs ga w = (ga', w')"
  shows "ga_Phase ga' = ga_Phase ga" "ga_CurrentPod ga' = ga_CurrentPod ga" "ga_Type ga' = ga_Type ga"
    "ga_DesiredReplicas ga' = ga_DesiredReplicas ga"
    "ga_DrainTriggered ga' = ga_DrainTriggered ga"
    "ga_StableBackendObservations ga' = ga_StableBackendObservations ga"
    "ga_ReplacementBackendStartTime ga' = ga_ReplacementBackendStartTime ga"
    "ga_InitialBackendStartTime ga' = ga_InitialBackendStartTime ga"
    "ga_ReplacementBackendEpoch ga' = ga_ReplacementBackendEpoch ga"
    "ga_InitialBackendEpoch ga' = ga_InitialBackendEpoch ga"
  using assms by (auto simp: startTimer_def split: prod.splits)

lemma recordInitialBackend_fields:
  assumes "recordInitialBackend K cluster cgStatus ga w = ((ga', r), w')"
  shows "ga_Phase ga' = ga_Phase ga \<and> ga_CurrentPod ga' = ga_CurrentPod ga \<and> ga_Type ga' = ga_Type ga \<and>
    ga_DesiredReplicas ga' = ga_DesiredReplicas ga \<and> ga_DrainTriggered ga' = ga_DrainTriggered ga \<and>
    ga_StableBackendObservations ga' = ga_StableBackendObservations ga \<and>
    ga_ReplacementBackendStartTime ga' = ga_ReplacementBackendStartTime ga"
  using assms
  by (auto simp: recordInitialBackend_def Let_def split: prod.splits sum.splits if_splits)

lemma triggerStop_fields:
  assumes "triggerStop K cluster ga w = (ga', w')"
  shows "ga_CurrentPod ga' = ga_CurrentPod ga \<and> ga_Type ga' = ga_Type ga \<and>
    ga_DesiredReplicas ga' = ga_DesiredReplicas ga \<and> ga_DrainTriggered ga' \<and>
    ga_StableBackendObservations ga' = ga_StableBackendObservations ga \<and>
    ga_ReplacementBackendStartTime ga' = ga_ReplacementBackendStartTime ga"
  using assms by (auto simp: triggerStop_def Let_def split: prod.splits if_splits)

lemma startDrain_ok:
  assumes "startDrain K cluster cgStatus ga p w = ((ga', None), w')" and "ga_CurrentPod ga \<noteq> ''''"
  shows "action_ok ga' \<and> ga_Type ga' = ga_Type ga \<and> ga_DesiredReplicas ga' = ga_DesiredReplicas ga \<and>
    stage_of ga' = Draining (ga_CurrentPod ga)"
proof -
  obtain g1 w1 g2 w2 g3 where
    a: "recordInitialBackend K cluster cgStatus (recordInitialPod p ga) w = ((g1, None), w1)" and
    b: "startTimer K (drainTimeout p) g1 w1 = (g2, w2)" and
    c: "triggerStop K cluster g2 w2 = (g3, w')" and
    d: "ga' = g3\<lparr>ga_Phase := GracefulPhaseWaitDrain\<rparr>"
    using assms(1) by (auto simp: startDrain_def Let_def split: prod.splits option.splits)
  show ?thesis
    using recordInitialBackend_fields [OF a] timer_fields [OF b] triggerStop_fields [OF c] assms(2) d
    by (simp add: action_ok_def stage_of_def recordInitialPod_def)
qed

lemma pickCurrentPod_cases:
  assumes "pickCurrentPod K cgStatus est ga w = (r, w')" and "action_ok ga"
    and "ga_Phase ga = GracefulPhaseTriggerDrain" and "pods_named K"
  shows "case r of
      Inl (ga', e) \<Rightarrow> e = None \<longrightarrow> good_step ga ga'
    | Inr ga' \<Rightarrow> ga_CurrentPod ga' \<noteq> '''' \<and> ga_Type ga' = ga_Type ga \<and>
        ga_DesiredReplicas ga' = ga_DesiredReplicas ga \<and> ga_StableBackendObservations ga' = 0 \<and>
        ga_ReplacementBackendStartTime ga' = ''''"
  using assms selectNextPod_named [OF _ assms(4)]
  by (auto simp: pickCurrentPod_def Let_def good_step_def action_ok_def stage_of_def
      intro: astep.intros split: if_splits prod.splits sum.splits option.splits)

lemma handleTriggerDrain_good:
  assumes "handleTriggerDrain K cluster cgStatus est ga w = ((ga', None), w')" and "action_ok ga"
    and "ga_Phase ga = GracefulPhaseTriggerDrain" and "pods_named K"
  shows "good_step ga ga'"
proof -
  let ?g = "refreshRollingUpdateTargetRevision est ga"
  have idle: "stage_of ga = Idle" using assms(3) by (simp add: stage_of_def)
  have refresh: "good_step ?g x = good_step ga x" for x by (simp add: good_step_def)
  obtain r w1 where pk: "pickCurrentPod K cgStatus est ?g w = (r, w1)" by fastforce
  note picked = pickCurrentPod_cases [OF pk _ _ assms(4)]
  show ?thesis
  proof (cases r)
    case (Inl a)
    then show ?thesis using picked assms pk refresh by (auto simp: handleTriggerDrain_def)
  next
    case (Inr g)
    then have g: "ga_CurrentPod g \<noteq> '''' \<and> ga_Type g = ga_Type ga \<and>
        ga_DesiredReplicas g = ga_DesiredReplicas ga \<and> ga_StableBackendObservations g = 0 \<and>
        ga_ReplacementBackendStartTime g = ''''"
      using picked assms(2,3) by simp
    obtain q w2 where gp: "getPod K (ddc_Namespace cluster) (ga_CurrentPod g) w1 = (q, w2)" by fastforce
    note run = assms(1) [unfolded handleTriggerDrain_def pk Inr, simplified, unfolded gp]
    show ?thesis
    proof (cases q)
      case (Inl e)
      have "good_step ga (g\<lparr>ga_Phase := GracefulPhaseWaitPodReady\<rparr>)"
        if "ga_Type ga = GracefulActionRollingUpdate"
        using g idle that by (simp add: good_step_def action_ok_def stage_of_def astep.intros)
      moreover have "good_step ga (advanceToNextPod g)"
        using g idle by (simp add: good_step_def astep.stay)
      ultimately show ?thesis using run Inl g by (auto split: if_splits)
    next
      case (Inr p)
      then have "startDrain K cluster cgStatus g p w2 = ((ga', None), w')" using run by simp
      from startDrain_ok [OF this] g idle show ?thesis by (simp add: good_step_def astep.intros)
    qed
  qed
qed

lemma handleWaitDrain_good:
  assumes "handleWaitDrain K cluster ga w = ((ga', None), w')" and "action_ok ga"
    and "ga_Phase ga = GracefulPhaseWaitDrain"
  shows "good_step ga ga'"
  using assms
  by (auto simp: handleWaitDrain_def good_step_def action_ok_def stage_of_def Let_def
      resetGracefulPhaseTimer_def intro: astep.intros
      split: prod.splits sum.splits if_splits bool.splits)

lemma afterPodDeleted_good:
  assumes "afterPodDeleted K ga est w = ((ga', None), w')" and "action_ok ga"
    and "ga_Phase ga = GracefulPhaseDeletePod"
  shows "good_step ga ga'"
  using assms
  by (auto simp: afterPodDeleted_def good_step_def action_ok_def stage_of_def
      resetGracefulPhaseTimer_def intro: astep.intros
      split: GracefulActionType.splits prod.splits option.splits)

lemma handleDeletePod_good:
  assumes "handleDeletePod K cluster est ga w = ((ga', None), w')" and "action_ok ga"
    and "ga_Phase ga = GracefulPhaseDeletePod"
  shows "good_step ga ga'"
  using assms(1) afterPodDeleted_good [OF _ assms(2,3)]
  by (auto simp: handleDeletePod_def split: prod.splits sum.splits if_splits option.splits)

lemma keepWaiting_fields:
  assumes "keepWaiting K ga goal w = ((ga', r), w')"
  shows "r = None \<and> ga_Phase ga' = ga_Phase ga \<and> ga_CurrentPod ga' = ga_CurrentPod ga \<and>
    ga_Type ga' = ga_Type ga \<and> ga_DesiredReplicas ga' = ga_DesiredReplicas ga \<and>
    ga_StableBackendObservations ga' = ga_StableBackendObservations ga \<and>
    ga_ReplacementBackendStartTime ga' = ga_ReplacementBackendStartTime ga"
  using assms
  by (auto simp: keepWaiting_def Let_def split: prod.splits bool.splits)

lemma startTimerIfZero_fields [simp]:
  assumes "startTimerIfZero K secs ga w = (ga', w')"
  shows "ga_Phase ga' = ga_Phase ga" "ga_CurrentPod ga' = ga_CurrentPod ga" "ga_Type ga' = ga_Type ga"
    "ga_DesiredReplicas ga' = ga_DesiredReplicas ga"
    "ga_DrainTriggered ga' = ga_DrainTriggered ga"
    "ga_StableBackendObservations ga' = ga_StableBackendObservations ga"
    "ga_ReplacementBackendStartTime ga' = ga_ReplacementBackendStartTime ga"
    "ga_InitialBackendStartTime ga' = ga_InitialBackendStartTime ga"
    "ga_ReplacementBackendEpoch ga' = ga_ReplacementBackendEpoch ga"
    "ga_InitialBackendEpoch ga' = ga_InitialBackendEpoch ga"
  using assms by (auto simp: startTimerIfZero_def split: if_splits)

lemma handleWaitPodReady_good:
  assumes "handleWaitPodReady K cluster ga w = ((ga', None), w')" and "action_ok ga"
    and "ga_Phase ga = GracefulPhaseWaitPodReady"
  shows "good_step ga ga'"
proof -
  obtain g w1 where tm: "startTimerIfZero K waitPodReadyTimeout ga w = (g, w1)" by fastforce
  note f = startTimerIfZero_fields [OF tm]
  have wait: "good_step ga g'" if "keepWaiting K g goal v = ((g', r), v')" for g' r v goal v'
    using keepWaiting_fields [OF that] f assms(2,3)
    by (simp add: good_step_def action_ok_def stage_of_def astep.stay)
  have ready: "good_step ga ((resetGracefulPhaseTimer (g\<lparr>ga_ReplacementPodUID := u,
       ga_ReplacementContainerID := c\<rparr>))\<lparr>ga_Phase := GracefulPhaseWaitBEAlive\<rparr>)" for u c
    using f assms(2,3)
    by (simp add: good_step_def action_ok_def stage_of_def resetGracefulPhaseTimer_def astep.intros)
  show ?thesis
    using assms(1) wait ready unfolding handleWaitPodReady_def tm
    by (auto simp: Let_def split: prod.splits sum.splits if_splits)
qed

lemma waitOrForce_good:
  assumes "waitOrForce K ga late waiting w = ((ga', r), w')" and "action_ok ga"
    and "ga_Phase ga = GracefulPhaseWaitBEAlive"
  shows "r = None \<and> good_step ga ga'"
  using assms
  by (auto simp: waitOrForce_def good_step_def action_ok_def stage_of_def acceptStartTime_def
      intro: astep.intros split: prod.splits bool.splits)

lemma wrap32_2 [simp]: "wrap32 2 = 2" "wrap32 1 = 1"
  by (simp_all add: in_int32_def)

lemma observeGeneration_fields [simp]:
  "ga_Phase (observeGeneration ga s e) = ga_Phase ga"
  "ga_CurrentPod (observeGeneration ga s e) = ga_CurrentPod ga"
  "ga_Type (observeGeneration ga s e) = ga_Type ga"
  "ga_DesiredReplicas (observeGeneration ga s e) = ga_DesiredReplicas ga"
  "ga_InitialBackendStartTime (observeGeneration ga s e) = ga_InitialBackendStartTime ga"
  "ga_ReplacementBackendStartTime (observeGeneration ga s e) = s"
  by (simp_all add: observeGeneration_def)

lemma observeBackend_good:
  assumes "observeBackend K ga b shutdown w = ((ga', r), w')" and "action_ok ga"
    and "ga_Phase ga = GracefulPhaseWaitBEAlive"
  shows "r = None \<and> good_step ga ga'"
proof -
  obtain ep kn where ep: "backendProcessEpoch K b = (ep, kn)" by fastforce
  let ?g = "observeGeneration ga (backendLastStartTime b) ep"
  have wf: "r = None \<and> good_step ga ga'" if "waitOrForce K ga l m w = ((ga', r), w')" for l m
    using waitOrForce_good [OF that assms(2,3)] .
  have adv: "good_step ga (advanceToNextPod ?g)"
    using assms(2,3) by (simp add: good_step_def stage_of_def action_ok_def astep.intros)
  have keep: "good_step ga (?g\<lparr>ga_LastMessage := m\<rparr>)"
    if "acceptStartTime ga (backendLastStartTime b)"
      and "\<not> requiredStableBackendObservations \<le> ga_StableBackendObservations ?g" for m
    using that assms(2,3)
    by (auto simp: good_step_def action_ok_def stage_of_def acceptStartTime_def observeGeneration_def
        requiredStableBackendObservations_def astep.stay split: if_splits)
  show ?thesis
    using assms(1) wf adv keep unfolding observeBackend_def Let_def ep
    by (auto split: if_splits)
qed

lemma action_ok_timer:
  assumes "startTimerIfZero K secs ga w = (g, w')" and "ga_Phase ga = GracefulPhaseWaitBEAlive"
  shows "action_ok g = action_ok ga \<and> stage_of g = stage_of ga"
  using startTimerIfZero_fields [OF assms(1)] assms(2)
  by (simp add: action_ok_def stage_of_def acceptStartTime_def)

lemma handleWaitBEAlive_good:
  assumes "handleWaitBEAlive K cluster cgStatus ga w = ((ga', None), w')" and "action_ok ga"
    and "ga_Phase ga = GracefulPhaseWaitBEAlive"
  shows "good_step ga ga'"
proof -
  obtain g w1 where tm: "startTimerIfZero K waitBEAliveTimeout ga w = (g, w1)" by fastforce
  note f = startTimerIfZero_fields [OF tm] and ok = action_ok_timer [OF tm assms(3)]
  have g: "action_ok g" "ga_Phase g = GracefulPhaseWaitBEAlive" using ok f assms(2,3) by simp_all
  have "good_step g ga'"
    using assms(1) unfolding handleWaitBEAlive_def tm
    by (auto simp: Let_def split: prod.splits sum.splits if_splits
        dest: waitOrForce_good [OF _ g] observeBackend_good [OF _ g])
  then show ?thesis using f ok by (simp add: good_step_def)
qed

lemma machine_good:
  assumes "runGracefulStateMachine K cluster cgStatus est ga w = ((ga', None), w')"
    and "action_ok ga" and "pods_named K"
  shows "good_step ga ga'"
  using assms good_step_refl [OF assms(2)]
  by (auto simp: runGracefulStateMachine_def split: GracefulActionPhase.splits
      dest: handleTriggerDrain_good handleWaitDrain_good handleDeletePod_good
        handleWaitPodReady_good handleWaitBEAlive_good)

section \<open>Sequences of reconciles\<close>

text \<open>
  The action is kept between reconciles in the StatefulSet's annotation; a poll that fails
  writes nothing back, so the next one starts from the same action. \<open>polls\<close> runs a list of
  polls, each with its own view of the cluster.
\<close>

primrec polls :: "('s \<Rightarrow> 'w \<Rightarrow> ('s \<times> go_error option) \<times> 'w) list \<Rightarrow> 's \<Rightarrow> 'w \<Rightarrow> 's \<times> 'w" where
  "polls [] s w = (s, w)"
| "polls (h # hs) s w =
     (case h s w of
        ((s', None), w') \<Rightarrow> polls hs s' w'
      | ((s', Some e), w') \<Rightarrow> polls hs s w')"

locale poll_machine =
  fixes steps :: "('s \<Rightarrow> 'w \<Rightarrow> ('s \<times> go_error option) \<times> 'w) set"
    and inv :: "'s \<Rightarrow> bool"
    and rel :: "'s \<Rightarrow> 's \<Rightarrow> bool"
  assumes step_inv: "h \<in> steps \<Longrightarrow> inv s \<Longrightarrow> h s w = ((s', None), w') \<Longrightarrow> inv s'"
    and step_rel: "h \<in> steps \<Longrightarrow> inv s \<Longrightarrow> h s w = ((s', None), w') \<Longrightarrow> rel s s'"
begin

lemma polls_inv:
  "set hs \<subseteq> steps \<Longrightarrow> inv s \<Longrightarrow> inv (fst (polls hs s w))"
proof (induction hs arbitrary: s w)
  case (Cons h hs)
  then have "h \<in> steps" by simp
  with Cons step_inv [of h s w] show ?case by (auto split: prod.splits option.splits)
qed simp

lemma polls_rel:
  "set hs \<subseteq> steps \<Longrightarrow> inv s \<Longrightarrow> rel\<^sup>*\<^sup>* s (fst (polls hs s w))"
proof (induction hs arbitrary: s w)
  case (Cons h hs)
  obtain s' r w' where h: "h s w = ((s', r), w')" by (metis surj_pair)
  show ?case
  proof (cases r)
    case None
    from Cons.prems have "h \<in> steps" and hs: "set hs \<subseteq> steps" by simp_all
    from step_inv [OF this(1) Cons.prems(2) h [unfolded None]]
      step_rel [OF this(1) Cons.prems(2) h [unfolded None]]
    have "inv s'" and rel: "rel s s'" .
    from Cons.IH [OF hs this(1)] have "rel\<^sup>*\<^sup>* s' (fst (polls hs s' w'))" .
    with rel have "rel\<^sup>*\<^sup>* s (fst (polls hs s' w'))" by (rule converse_rtranclp_into_rtranclp)
    then show ?thesis by (simp add: h None)
  qed (use Cons h in simp)
qed simp

end

definition rollout_steps ::
    "('w, 'x) rollout_env_scheme \<Rightarrow> (GracefulAction \<Rightarrow> 'w \<Rightarrow> 'w handler_result) set" where
  "rollout_steps K =
     {\<lambda>ga. runGracefulStateMachine K cluster cgStatus est (refreshRollingUpdateTargetRevision est ga)
       | cluster cgStatus est. pods_named K}"

lemma good_step_from_refresh:
  "good_step (refreshRollingUpdateTargetRevision est ga) ga' = good_step ga ga'"
  by (simp add: good_step_def)

interpretation rollout: poll_machine "rollout_steps K" action_ok good_step for K
proof
  fix h s w s' w'
  assume h: "h \<in> rollout_steps K" and ok: "action_ok s" and run: "h s w = ((s', None), w')"
  obtain cluster cgStatus est where
    "runGracefulStateMachine K cluster cgStatus est (refreshRollingUpdateTargetRevision est s) w
       = ((s', None), w')" and "pods_named K"
    using h run by (auto simp: rollout_steps_def)
  from machine_good [OF this(1) _ this(2)] ok
  have "good_step s s'" by (simp add: good_step_from_refresh)
  then show "good_step s s'" and "action_ok s'" by (simp_all add: good_step_def)
qed

lemma good_steps_abstract:
  "good_step\<^sup>*\<^sup>* ga ga' \<Longrightarrow>
     ga_Type ga' = ga_Type ga \<and> (astep (ga_Type ga))\<^sup>*\<^sup>* (stage_of ga) (stage_of ga')"
proof (induction rule: rtranclp_induct)
  case (step y z)
  then show ?case by (auto simp: good_step_def intro: rtranclp.rtrancl_into_rtrancl)
qed simp

end
