(* ===== verification/Graceful_Props.thy ===== *)
theory Graceful_Props
  imports Graceful_Safety Memory_Cluster
begin

text \<open>
  The properties of the graceful rollout: the invariant and the refinement of the abstract
  machine, which calls can reach the API server in which phase, when each wait ends, which
  pod is chosen next, and what a reconcile leaves on the StatefulSet. Each property is
  followed by an instance on a concrete input.
\<close>

section \<open>Calls that a phase does not make\<close>

text \<open>
  Everything but the handler of phase DeletePod is independent of the functions that delete
  pods and update StatefulSets: changing them changes nothing. \<open>tamper\<close> replaces both.
\<close>

definition tamper ::
    "(pod \<Rightarrow> 'w \<Rightarrow> go_error option \<times> 'w) \<Rightarrow> (statefulset \<Rightarrow> 'w \<Rightarrow> go_error option \<times> 'w)
     \<Rightarrow> ('w, 'x) kube_env_scheme \<Rightarrow> ('w, 'x) kube_env_scheme" where
  "tamper d u K = K\<lparr>DeletePodObj := d, UpdateSts := u\<rparr>"

lemma tamper_fields [frame_simps]:
  "GetPodObj (tamper d u K) = GetPodObj K" "ListPods (tamper d u K) = ListPods K"
  "Now (tamper d u K) = Now K" "Eventf (tamper d u K) = Eventf K"
  "FormatTime (tamper d u K) = FormatTime K" "ExecInPod (tamper d u K) = ExecInPod K"
  "SelectorError (tamper d u K) = SelectorError K" "GetConfigMapObj (tamper d u K) = GetConfigMapObj K"
  "GetSecretObj (tamper d u K) = GetSecretObj K" "ViperSettings (tamper d u K) = ViperSettings K"
  "SelectBackends (tamper d u K) = SelectBackends K" "SelectFrontends (tamper d u K) = SelectFrontends K"
  "SqlxOpen (tamper d u K) = SqlxOpen K" "Ping (tamper d u K) = Ping K" "CloseDB (tamper d u K) = CloseDB K"
  "AppendCertsFromPEM (tamper d u K) = AppendCertsFromPEM K" "X509KeyPair (tamper d u K) = X509KeyPair K"
  "RegisterTLSConfig (tamper d u K) = RegisterTLSConfig K" "FmtFloat (tamper d u K) = FmtFloat K"
  "JsonErrorText (tamper d u K) = JsonErrorText K"
  by (simp_all add: tamper_def)

lemma tamper_fmt [frame_simps]:
  "fmt_v (tamper d u K) v = fmt_v K v"
  "filter_by_group (tamper d u K) cgid bes = filter_by_group K cgid bes"
  by (rule fmt_v_env filter_by_group_env; simp add: frame_simps)+

lemma tamper_config [frame_simps]:
  "GetConfigValuesFromConfigMaps (tamper d u K) ns k cms w = GetConfigValuesFromConfigMaps K ns k cms w"
proof (induction cms arbitrary: w)
  case (Cons c cms)
  show ?case
    unfolding GetConfigValuesFromConfigMaps.simps resolveStartConfig_def frame_simps Cons.IH by (rule refl)
qed simp

lemma tamper_master [frame_simps]:
  "getMasterSqlClient (tamper d u K) cluster w = getMasterSqlClient K cluster w"
  unfolding getMasterSqlClient_def GetManagementAdminUserAndPWD_def GetSecret_def
    NewDorisMasterSqlDB_def GetFollowers_def NewDorisSqlDB_def openAndPing_def frame_simps
  by (rule refl)

lemma tamper_backend [frame_simps]:
  "getBackendByPodName (tamper d u K) cluster cgStatus n w = getBackendByPodName K cluster cgStatus n w"
  unfolding getBackendByPodName_def GetBackendsByComputeGroupId_def frame_simps by (rule refl)

lemma tamper_epoch [frame_simps]:
  "backendProcessEpoch (tamper d u K) b = backendProcessEpoch K b"
  "backendIsShutdown (tamper d u K) b = backendIsShutdown K b"
  unfolding backendProcessEpoch_def backendIsShutdown_def frame_simps by (rule refl)+

lemma tamper_clock [frame_simps]:
  "startTimer (tamper d u K) = startTimer K"
  "startTimerIfZero (tamper d u K) = startTimerIfZero K"
  "afterDeadline (tamper d u K) = afterDeadline K"
  "pastSetDeadline (tamper d u K) = pastSetDeadline K"
  by (intro ext, simp add: startTimer_def startTimerIfZero_def afterDeadline_def pastSetDeadline_def
      frame_simps)+

lemma tamper_events [frame_simps]:
  "warn (tamper d u K) = warn K" "notice (tamper d u K) = notice K"
  by (intro ext, simp add: warn_def notice_def frame_simps)+

lemma tamper_select [frame_simps]:
  "selectNextPod (tamper d u K) cgStatus est ga w = selectNextPod K cgStatus est ga w"
  unfolding selectNextPod_def selectNextRollingUpdatePod_def frame_simps by (rule refl)

lemma tamper_handlers [frame_simps]:
  "handleTriggerDrain (tamper d u K) cluster cgStatus est ga w = handleTriggerDrain K cluster cgStatus est ga w"
  "handleWaitDrain (tamper d u K) cluster ga w = handleWaitDrain K cluster ga w"
  "handleWaitPodReady (tamper d u K) cluster ga w = handleWaitPodReady K cluster ga w"
  "handleWaitBEAlive (tamper d u K) cluster cgStatus ga w = handleWaitBEAlive K cluster cgStatus ga w"
  unfolding handleTriggerDrain_def pickCurrentPod_def startDrain_def recordInitialBackend_def
    triggerStop_def handleWaitDrain_def handleWaitPodReady_def keepWaiting_def handleWaitBEAlive_def
    observeBackend_def waitOrForce_def getPod_def frame_simps
  by (rule refl)+

text \<open>
  C1. No pod is deleted and no StatefulSet is updated in any phase but DeletePod: outside
  it, one poll of the state machine gives the same result, on the action, its error and
  the outside world, whatever the functions that delete a pod and update a StatefulSet do.
\<close>

theorem only_delete_phase_deletes:
  assumes "ga_Phase ga \<noteq> GracefulPhaseDeletePod"
  shows "runGracefulStateMachine (tamper d u K) cluster cgStatus est ga w =
         runGracefulStateMachine K cluster cgStatus est ga w"
  using assms unfolding runGracefulStateMachine_def frame_simps
  by (simp split: GracefulActionPhase.split)

definition waiting_action :: GracefulAction where
  "waiting_action = (newAction GracefulActionScaleDown)\<lparr>ga_Phase := GracefulPhaseWaitDrain,
     ga_CurrentPod := ''c-g-2'', ga_CurrentOrdinal := 2, ga_DrainTriggered := True,
     ga_DesiredReplicas := Some 2\<rparr>"

lemma only_delete_phase_deletes_witness:
  "ga_Phase waiting_action \<noteq> GracefulPhaseDeletePod \<and>
   runGracefulStateMachine (tamper (\<lambda>_ w. (Some not_found, w)) (\<lambda>_ w. (None, zero_world)) mem_env)
     zero_ddc zero_ComputeGroupStatus zero_sts waiting_action zero_world =
   runGracefulStateMachine mem_env zero_ddc zero_ComputeGroupStatus zero_sts waiting_action zero_world"
proof
  show "ga_Phase waiting_action \<noteq> GracefulPhaseDeletePod" by (simp add: waiting_action_def)
  then show "runGracefulStateMachine (tamper (\<lambda>_ w. (Some not_found, w)) (\<lambda>_ w. (None, zero_world)) mem_env)
     zero_ddc zero_ComputeGroupStatus zero_sts waiting_action zero_world =
   runGracefulStateMachine mem_env zero_ddc zero_ComputeGroupStatus zero_sts waiting_action zero_world"
    by (rule only_delete_phase_deletes)
qed

definition exited_pod :: pod where
  "exited_pod = zero_pod\<lparr>pod_Name := ''c-g-2'', pod_ContainerStatuses :=
     Some [\<lparr>cs_Name = ''compute'', cs_Ready = False, cs_RestartCount = 0, cs_ContainerID = ''x'',
            cs_Terminated = True\<rparr>]\<rparr>"

definition exited_world :: world where
  "exited_world = zero_world\<lparr>w_Pods := [exited_pod]\<rparr>"

lemma exited_get:
  "GetPodObj mem_env (ddc_Namespace zero_ddc) (ga_CurrentPod waiting_action) exited_world =
     (Inr exited_pod, exited_world)"
  by (simp add: exited_world_def exited_pod_def mem_find_def zero_ddc_def zero_pod_def
      waiting_action_def zero_world_def)

lemma exited_terminated: "isContainerTerminated exited_pod beMainContainerName"
  by (simp add: isContainerTerminated_def find_container_def container_statuses_def exited_pod_def
      beMainContainerName_def)

lemma waiting_phase: "ga_Phase waiting_action = GracefulPhaseWaitDrain"
  by (simp add: waiting_action_def)

lemma waiting_ok: "action_ok waiting_action"
  by (simp add: waiting_action_def action_ok_def newAction_def zero_GracefulAction_def)

lemma exited_run:
  "runGracefulStateMachine mem_env zero_ddc zero_ComputeGroupStatus zero_sts waiting_action exited_world =
     ((waiting_action\<lparr>ga_Phase := GracefulPhaseDeletePod\<rparr>, None),
      notice mem_env ''GracefulDrainCompleted''
        ''Graceful drain completed on pod c-g-2 (container exited)'' exited_world)"
  using exited_get exited_terminated waiting_phase
  by (simp add: runGracefulStateMachine_def handleWaitDrain_def getPod_def)
    (simp add: waiting_action_def)

section \<open>Invariant and refinement\<close>

text \<open>
  C2. Any sequence of reconcile polls, each with its own view of the cluster and of the
  StatefulSet and any of them possibly failing, keeps the invariant of the action, its type
  and its wanted replicas, and moves through the stages only along steps of the abstract
  machine \<open>astep\<close>.
\<close>

theorem rollout_refines_stages:
  assumes "action_ok ga" and "set hs \<subseteq> rollout_steps K"
  shows "action_ok (fst (polls hs ga w)) \<and> ga_Type (fst (polls hs ga w)) = ga_Type ga \<and>
         (astep (ga_Type ga))\<^sup>*\<^sup>* (stage_of ga) (stage_of (fst (polls hs ga w)))"
  using rollout.polls_inv [OF assms(2,1)] good_steps_abstract [OF rollout.polls_rel [OF assms(2,1)]]
  by blast

lemma mem_pods_named: "pods_named mem_env"
  by (auto simp: pods_named_def list_all_iff)

lemma rollout_refines_stages_witness:
  "action_ok (fst (polls [\<lambda>ga. runGracefulStateMachine mem_env zero_ddc zero_ComputeGroupStatus zero_sts
       (refreshRollingUpdateTargetRevision zero_sts ga)] waiting_action zero_world)) \<and>
   (astep GracefulActionScaleDown)\<^sup>*\<^sup>* (Draining ''c-g-2'')
     (stage_of (fst (polls [\<lambda>ga. runGracefulStateMachine mem_env zero_ddc zero_ComputeGroupStatus zero_sts
       (refreshRollingUpdateTargetRevision zero_sts ga)] waiting_action zero_world)))"
proof -
  have t: "ga_Type waiting_action = GracefulActionScaleDown" "stage_of waiting_action = Draining ''c-g-2''"
    by (simp_all add: waiting_action_def newAction_def stage_of_def)
  have "set [\<lambda>ga. runGracefulStateMachine mem_env zero_ddc zero_ComputeGroupStatus zero_sts
       (refreshRollingUpdateTargetRevision zero_sts ga)] \<subseteq> rollout_steps mem_env"
    using mem_pods_named by (auto simp: rollout_steps_def)
  from rollout_refines_stages [OF waiting_ok this, of zero_world] show ?thesis unfolding t by blast
qed

text \<open>
  C3. In every state the abstract machine can reach, a pod is being deleted only after it
  was being drained: any poll that brings an action into phase DeletePod finds it in phase
  WaitDrain on the same pod, with the drain triggered.
\<close>

theorem delete_only_after_drain:
  assumes "runGracefulStateMachine K cluster cgStatus est ga w = ((ga', None), w')"
    and "action_ok ga" and "pods_named K"
    and "ga_Phase ga' = GracefulPhaseDeletePod" and "ga_Phase ga \<noteq> GracefulPhaseDeletePod"
  shows "ga_Phase ga = GracefulPhaseWaitDrain \<and> ga_DrainTriggered ga \<and> ga_CurrentPod ga' = ga_CurrentPod ga"
proof -
  have "astep (ga_Type ga) (stage_of ga) (Deleting (ga_CurrentPod ga'))"
    using machine_good [OF assms(1-3)] assms(4) by (simp add: good_step_def stage_of_def)
  then have "stage_of ga = Draining (ga_CurrentPod ga')"
    using assms(5) by (cases "ga_Phase ga") (auto simp: stage_of_def elim: astep_into_Deleting)
  then show ?thesis
    using assms(2) by (cases "ga_Phase ga") (auto simp: stage_of_def action_ok_def)
qed

lemma delete_only_after_drain_witness:
  "action_ok waiting_action \<and> pods_named mem_env \<and> ga_Phase waiting_action = GracefulPhaseWaitDrain \<and>
   ga_DrainTriggered waiting_action"
  using delete_only_after_drain [OF exited_run waiting_ok mem_pods_named] mem_pods_named waiting_ok
  by (simp add: waiting_phase)

section \<open>When a wait ends\<close>

text \<open>
  C4. Once the pod has been read, phase WaitDrain hands it over to deletion exactly when its
  main container has terminated, or has been restarted since the drain began, or the drain
  deadline has passed; otherwise the phase stays WaitDrain.
\<close>

theorem wait_drain_ends:
  assumes "ga_Phase ga = GracefulPhaseWaitDrain"
    and "GetPodObj K (ddc_Namespace cluster) (ga_CurrentPod ga) w = (Inr p, w1)"
    and "runGracefulStateMachine K cluster cgStatus est ga w = ((ga', r), w')"
  shows "r = None \<and> ga_CurrentPod ga' = ga_CurrentPod ga \<and>
    ga_Phase ga' =
      (if isContainerTerminated p beMainContainerName \<or>
          ga_InitialRestartCount ga < getContainerRestartCount p beMainContainerName \<or>
          ga_DeadlineAt ga < fst (Now K w1)
       then GracefulPhaseDeletePod else GracefulPhaseWaitDrain)"
  using assms
  by (auto simp: runGracefulStateMachine_def handleWaitDrain_def getPod_def afterDeadline_def Let_def
      split: prod.splits bool.splits if_splits)

lemma wait_drain_ends_witness:
  "ga_Phase (fst (fst (runGracefulStateMachine mem_env zero_ddc zero_ComputeGroupStatus zero_sts
     waiting_action exited_world))) = GracefulPhaseDeletePod"
  using wait_drain_ends [OF waiting_phase exited_get, of zero_ComputeGroupStatus zero_sts]
    exited_terminated
  by (metis eq_fst_iff)

lemma waitOrForce_leaves:
  assumes "waitOrForce K ga late waiting w = ((ga', r), w')"
    and "ga_Phase ga = GracefulPhaseWaitBEAlive" and "ga_Phase ga' \<noteq> GracefulPhaseWaitBEAlive"
  shows "ga_Phase ga' = GracefulPhaseTriggerDrain \<and> ga_DeadlineAt ga \<noteq> 0 \<and> ga_DeadlineAt ga < fst (Now K w)"
  using assms
  by (auto simp: waitOrForce_def pastSetDeadline_def afterDeadline_def
      split: prod.splits bool.splits if_splits)

definition accepted_backend :: "('w, 'x) sql_env_scheme \<Rightarrow> GracefulAction \<Rightarrow> Backend \<Rightarrow> bool" where
  "accepted_backend K ga b \<longleftrightarrow>
     be_Alive b \<and> backendIsShutdown K b = Inr False \<and>
     backendLastStartTime b \<noteq> '''' \<and> backendLastStartTime b \<noteq> ga_InitialBackendStartTime ga \<and>
     acceptEpoch ga (backendProcessEpoch K b) \<and>
     ga_StableBackendObservations ga = 1 \<and>
     ga_ReplacementBackendStartTime ga = backendLastStartTime b \<and>
     ga_ReplacementBackendEpoch ga = fst (backendProcessEpoch K b)"

lemma observeGeneration_stable:
  assumes "requiredStableBackendObservations \<le> ga_StableBackendObservations (observeGeneration ga s e)"
    and "action_ok ga" and "ga_Phase ga = GracefulPhaseWaitBEAlive"
  shows "ga_StableBackendObservations ga = 1 \<and> ga_ReplacementBackendStartTime ga = s \<and>
         ga_ReplacementBackendEpoch ga = e"
  using assms
  by (auto simp: observeGeneration_def requiredStableBackendObservations_def action_ok_def split: if_splits)

lemma observeBackend_leaves:
  assumes "observeBackend K ga b shutdown w = ((ga', r), w')" and "backendIsShutdown K b = Inr shutdown"
    and "action_ok ga" and "ga_Phase ga = GracefulPhaseWaitBEAlive"
    and "ga_Phase ga' \<noteq> GracefulPhaseWaitBEAlive"
  shows "ga_Phase ga' = GracefulPhaseTriggerDrain \<and>
    (accepted_backend K ga b \<or> ga_DeadlineAt ga \<noteq> 0 \<and> ga_DeadlineAt ga < fst (Now K w))"
proof -
  obtain ep kn where ep: "backendProcessEpoch K b = (ep, kn)" by fastforce
  show ?thesis
    using assms ep unfolding observeBackend_def accepted_backend_def
    by (auto simp: Let_def acceptStartTime_def split: if_splits
        dest: waitOrForce_leaves observeGeneration_stable)
qed

text \<open>
  C6. A rolling update leaves phase WaitBEAlive, for the next pod, only when the FE shows
  the backend of this pod alive, not shut down, with a start time that is new and the same
  as at the previous accepted observation (and, where the epoch is known, a new epoch and
  the same one as before), or when the deadline of the wait has passed.
\<close>

theorem be_alive_accepts_new_generation:
  assumes "ga_Phase ga = GracefulPhaseWaitBEAlive" and "action_ok ga"
    and "runGracefulStateMachine K cluster cgStatus est ga w = ((ga', None), w')"
    and "ga_Phase ga' \<noteq> GracefulPhaseWaitBEAlive"
    and "startTimerIfZero K waitBEAliveTimeout ga w = (g, w1)"
    and "getBackendByPodName K cluster cgStatus (ga_CurrentPod ga) w1 = (q, w2)"
  shows "ga_Phase ga' = GracefulPhaseTriggerDrain \<and>
    ((\<exists>b. q = Inr b \<and> accepted_backend K ga b) \<or>
     ga_DeadlineAt g \<noteq> 0 \<and> ga_DeadlineAt g < fst (Now K w2))"
proof -
  note f = startTimerIfZero_fields [OF assms(5)]
  have g: "action_ok g" "ga_Phase g = GracefulPhaseWaitBEAlive"
    using action_ok_timer [OF assms(5,1)] f assms(1,2) by simp_all
  have acc: "accepted_backend K g b = accepted_backend K ga b" for b
    using f by (simp add: accepted_backend_def acceptEpoch_def)
  show ?thesis
    using assms(1,3,4,6) f unfolding runGracefulStateMachine_def handleWaitBEAlive_def assms(5)
    by (auto simp: Let_def split: prod.splits sum.splits if_splits
        dest!: waitOrForce_leaves [OF _ g(2)] observeBackend_leaves [OF _ _ g]) (auto simp: acc)
qed

definition alive_action :: GracefulAction where
  "alive_action = (newAction GracefulActionRollingUpdate)\<lparr>ga_Phase := GracefulPhaseWaitBEAlive,
     ga_CurrentPod := ''c-g-0'', ga_DeadlineAt := 10, ga_InitialBackendStartTime := ''t1'',
     ga_ReplacementBackendStartTime := ''t2'', ga_StableBackendObservations := 1\<rparr>"

definition alive_world :: world where
  "alive_world = zero_world\<lparr>
     w_Frontends := [zero_Frontend\<lparr>fe_Role := FE_FOLLOWER_ROLE, fe_IsMaster := True,
       fe_CurrentConnected := ''Yes''\<rparr>],
     w_Backends := [zero_Backend\<lparr>be_Host := ''c-g-0.svc'', be_Alive := True,
       be_LastStartTime := Some ''t2'',
       be_Tag := [CHR 0x7B, CHR 0x22] @ COMPUTE_GROUP_ID @ [CHR 0x22, CHR '':'', CHR 0x22, CHR 0x22, CHR 0x7D]\<rparr>]\<rparr>"

lemma be_alive_accepts_new_generation_witness:
  "ga_Phase (fst (fst (runGracefulStateMachine mem_env zero_ddc zero_ComputeGroupStatus zero_sts
     alive_action alive_world))) = GracefulPhaseTriggerDrain \<and>
   (\<exists>b. accepted_backend mem_env alive_action b)"
proof -
  let ?run = "runGracefulStateMachine mem_env zero_ddc zero_ComputeGroupStatus zero_sts alive_action alive_world"
  let ?be = "getBackendByPodName mem_env zero_ddc zero_ComputeGroupStatus (ga_CurrentPod alive_action) alive_world"
  have "ga_Phase (fst (fst ?run)) = GracefulPhaseTriggerDrain" and "snd (fst ?run) = None" by code_simp+
  then obtain ga' w' where run: "?run = ((ga', None), w')" and ga': "ga_Phase ga' = GracefulPhaseTriggerDrain"
    by (metis prod.collapse)
  obtain q w2 where be: "?be = (q, w2)" by fastforce
  have "w_Clock (snd ?be) = 0" by code_simp
  then have clk: "w_Clock w2 = 0" by (simp add: be)
  have a: "ga_Phase alive_action = GracefulPhaseWaitBEAlive" "action_ok alive_action"
    by (simp_all add: alive_action_def action_ok_def newAction_def zero_GracefulAction_def acceptStartTime_def)
  have t: "startTimerIfZero mem_env waitBEAliveTimeout alive_action alive_world = (alive_action, alive_world)"
    by (simp add: startTimerIfZero_def alive_action_def)
  from be_alive_accepts_new_generation [OF a run _ t be] ga'
  show ?thesis by (auto simp: run clk) (simp add: alive_action_def)
qed

text \<open>
  Phase WaitPodReady ends only with a ready replacement pod, whose identity is then
  recorded and whose next wait starts with a fresh timer. It never gives up: a pod that is
  missing or not ready keeps the phase, past the deadline too, and any other error of the
  API server is returned with the phase unchanged.
\<close>

theorem wait_ready_ends:
  assumes "ga_Phase ga = GracefulPhaseWaitPodReady"
    and "startTimerIfZero K waitPodReadyTimeout ga w = (g, w1)"
    and "GetPodObj K (ddc_Namespace cluster) (ga_CurrentPod ga) w1 = (q, w2)"
    and "runGracefulStateMachine K cluster cgStatus est ga w = ((ga', r), w')"
  shows "case q of
      Inr p \<Rightarrow> r = None \<and>
        (if PodIsReady p
         then ga_Phase ga' = GracefulPhaseWaitBEAlive \<and> ga_ReplacementPodUID ga' = pod_UID p \<and>
              ga_DeadlineAt ga' = 0
         else ga_Phase ga' = GracefulPhaseWaitPodReady)
    | Inl e \<Rightarrow> ga_Phase ga' = GracefulPhaseWaitPodReady \<and> r = (if IsNotFound e then None else Some e)"
proof -
  note f = startTimerIfZero_fields [OF assms(2)]
  have run: "handleWaitPodReady K cluster ga w = ((ga', r), w')"
    using assms(1,4) by (simp add: runGracefulStateMachine_def)
  show ?thesis
    using run assms(1,3) f keepWaiting_fields [of K g _ w2 ga' r w']
    by (auto simp: handleWaitPodReady_def assms(2) getPod_def Let_def resetGracefulPhaseTimer_def
        split: sum.splits if_splits)
qed

definition gone_action :: GracefulAction where
  "gone_action = (newAction GracefulActionRollingUpdate)\<lparr>ga_Phase := GracefulPhaseWaitPodReady,
     ga_CurrentPod := ''c-g-0'', ga_DeadlineAt := 10\<rparr>"

lemma wait_ready_ends_witness:
  "ga_Phase (fst (fst (runGracefulStateMachine mem_env zero_ddc zero_ComputeGroupStatus zero_sts
     gone_action (zero_world\<lparr>w_Clock := 99\<rparr>)))) = GracefulPhaseWaitPodReady"
proof -
  let ?w = "zero_world\<lparr>w_Clock := 99\<rparr>"
  obtain ga' r w' where run: "runGracefulStateMachine mem_env zero_ddc zero_ComputeGroupStatus zero_sts
      gone_action ?w = ((ga', r), w')" by (metis surj_pair)
  have p: "ga_Phase gone_action = GracefulPhaseWaitPodReady" by (simp add: gone_action_def)
  have t: "startTimerIfZero mem_env waitPodReadyTimeout gone_action ?w = (gone_action, ?w)"
    by (simp add: startTimerIfZero_def gone_action_def)
  have g: "GetPodObj mem_env (ddc_Namespace zero_ddc) (ga_CurrentPod gone_action) ?w = (Inl not_found, ?w)"
    by (simp add: mem_find_def zero_world_def)
  show ?thesis using wait_ready_ends [OF p t g run] by (simp add: run)
qed

section \<open>Which pod is next\<close>

text \<open>
  For a rolling update the next pod is an outdated one (its revision label differs from
  the target revision) of highest ordinal among the outdated pods listed, with its ordinal;
  there is no next pod exactly when no listed pod is outdated.
\<close>

theorem next_rolling_pod:
  assumes "SelectorError K (sts_Selector est) = None"
    and "ListPods K (sts_Namespace est) (sts_Selector est) w = (Inr items, w1)"
    and "t = (if ga_TargetRevision ga = '''' then sts_UpdateRevision est else ga_TargetRevision ga)"
    and "selectNextRollingUpdatePod K est ga w = (r, w')"
  shows "case r of
      None \<Rightarrow> outdatedPods t items = []
    | Some (n, ord) \<Rightarrow>
        (\<exists>p \<in> set (outdatedPods t items). n = pod_Name p \<and> ord = wrap32 (extractOrdinal n) \<and>
          (\<forall>q \<in> set (outdatedPods t items). extractOrdinal (pod_Name q) \<le> extractOrdinal n))"
proof (cases "sort_key (\<lambda>p. - extractOrdinal (pod_Name p)) (outdatedPods t items)")
  case Nil
  then have "outdatedPods t items = []" by (metis length_0_conv length_sort)
  with assms show ?thesis by (auto simp: selectNextRollingUpdatePod_def Let_def)
next
  case (Cons p ps)
  then have "r = Some (pod_Name p, wrap32 (extractOrdinal (pod_Name p)))"
    using assms by (auto simp: selectNextRollingUpdatePod_def Let_def split: if_splits)
  with sort_key_Cons_min [OF Cons] show ?thesis by auto
qed

definition listed_pod :: "string \<Rightarrow> string \<Rightarrow> pod" where
  "listed_pod n h = zero_pod\<lparr>pod_Name := n, pod_Labels := [POD_CONTROLLER_REVISION_HASH_KEY \<mapsto> h]\<rparr>"

lemma next_rolling_pod_witness:
  "SelectorError mem_env (sts_Selector zero_sts) = None \<and>
   (case fst (selectNextRollingUpdatePod mem_env zero_sts
        ((newAction GracefulActionRollingUpdate)\<lparr>ga_TargetRevision := ''r2''\<rparr>)
        (zero_world\<lparr>w_Pods := [listed_pod ''c-g-0'' ''r1'', listed_pod ''c-g-1'' ''r2'']\<rparr>)) of
      None \<Rightarrow> False | Some (n, ord) \<Rightarrow> n = ''c-g-0'')"
proof -
  let ?ps = "[listed_pod ''c-g-0'' ''r1'', listed_pod ''c-g-1'' ''r2'']"
  let ?w = "zero_world\<lparr>w_Pods := ?ps\<rparr>"
  let ?ga = "(newAction GracefulActionRollingUpdate)\<lparr>ga_TargetRevision := ''r2''\<rparr>"
  have sel: "SelectorError mem_env (sts_Selector zero_sts) = None" by (simp add: mem_env_def)
  have l: "ListPods mem_env (sts_Namespace zero_sts) (sts_Selector zero_sts) ?w = (Inr ?ps, ?w)"
    by (simp add: zero_sts_def listed_pod_def zero_pod_def mem_selects_def list_all_iff)
  obtain r w' where run: "selectNextRollingUpdatePod mem_env zero_sts ?ga ?w = (r, w')" by fastforce
  have out: "outdatedPods ''r2'' ?ps = [listed_pod ''c-g-0'' ''r1'']"
    by (simp add: outdatedPods_def listed_pod_def map_get_def)
  from next_rolling_pod [OF sel l _ run, of "''r2''"] show ?thesis
    using sel by (auto simp: run out split: option.splits) (simp_all add: listed_pod_def)
qed

lemma takeWhile_all: "(\<And>x. x \<in> set xs \<Longrightarrow> P x) \<Longrightarrow> takeWhile P (xs @ y # ys) = (if P y then xs @ takeWhile P (y # ys) else xs)"
  by (induction xs) auto

lemma after_last_dash_append:
  assumes "CHR ''-'' \<notin> set ds"
  shows "after_last_dash (s @ ''-'' @ ds) = ds"
proof -
  have "takeWhile (\<lambda>c. c \<noteq> CHR ''-'') (rev ds @ CHR ''-'' # rev s) = rev ds"
    using assms by (subst takeWhile_all) auto
  then show ?thesis by (simp add: after_last_dash_def)
qed

lemma ordinal_steps:
  assumes "d < 10" and "in_int64 (10 * v + int d)"
  shows "ordinal_step v (digit_char d) = 10 * v + int d"
  using assms by (simp add: ordinal_step_def digit_char_code mult.commute)

lemma foldl_ordinal_dec_nat: "int n < 2 ^ 63 \<Longrightarrow> foldl ordinal_step 0 (dec_nat n) = int n"
proof (induction n rule: dec_nat.induct)
  case (1 n)
  show ?case
  proof (cases "n < 10")
    case True
    then show ?thesis by (subst dec_nat.simps) (simp add: ordinal_steps in_int64_def)
  next
    case False
    have "int (n div 10) < 2 ^ 63" using "1.prems" by linarith
    with "1.IH" [OF False] have ih: "foldl ordinal_step 0 (dec_nat (n div 10)) = int (n div 10)" .
    have "10 * int (n div 10) + int (n mod 10) = int n" by (simp add: zdiv_int zmod_int)
    with "1.prems" False ih show ?thesis
      by (subst dec_nat.simps) (simp add: ordinal_steps in_int64_def)
  qed
qed

lemma extractOrdinal_nth:
  assumes "0 \<le> k" and "k < 2 ^ 63"
  shows "extractOrdinal (nth_pod_name stsName k) = k"
proof -
  have "Itoa k = dec_nat (nat k)" using assms(1) by (simp add: Itoa_def)
  then show ?thesis
    using assms dec_nat_no_sign(1) [of "nat k"]
    by (simp add: extractOrdinal_def nth_pod_name_def after_last_dash_append [simplified]
        foldl_ordinal_dec_nat)
qed

text \<open>
  The ordinal read back from the name of a StatefulSet's pod is the ordinal the name
  was made with, for every name of the StatefulSet (dashes and digits in it included) and
  every ordinal an \<^verbatim>\<open>int64\<close> holds.
\<close>

theorem ordinal_of_pod_name:
  assumes "0 \<le> k" and "k < 2 ^ 63"
  shows "extractOrdinal (nth_pod_name stsName k) = k"
  using assms by (rule extractOrdinal_nth)

lemma ordinal_of_pod_name_witness:
  "extractOrdinal (nth_pod_name ''c-g-1'' 12) = 12"
  using ordinal_of_pod_name [of 12 "''c-g-1''"] by simp

section \<open>Scaling down\<close>

text \<open>
  A scale-down selects a pod exactly when fewer replicas are wanted than the
  StatefulSet has, and then it is the pod with the last ordinal, which is at least the
  number of wanted replicas. Selecting reads nothing from the API server.
\<close>

theorem scale_down_selects_last:
  assumes "ga_Type ga = GracefulActionScaleDown" and "ga_DesiredReplicas ga = Some d"
    and "sts_Replicas est = Some n" and "in_int32 d" and "in_int32 n"
    and "selectNextPod K cgStatus est ga w = (r, w')"
  shows "w' = w \<and> r = (if d < n then Inr (Some (nth_pod_name (cgs_StatefulsetName cgStatus) (n - 1), n - 1))
                       else Inr None) \<and> (d < n \<longrightarrow> d \<le> n - 1)"
proof -
  have "d < n \<Longrightarrow> in_int32 (n - 1)" using assms(4,5) by (simp add: in_int32_def)
  then show ?thesis using assms by (auto simp: selectNextPod_def Let_def)
qed

lemma scale_down_selects_last_witness:
  "selectNextPod mem_env (zero_ComputeGroupStatus\<lparr>cgs_StatefulsetName := ''c-g''\<rparr>)
     (zero_sts\<lparr>sts_Replicas := Some 3\<rparr>) waiting_action zero_world =
   (Inr (Some (nth_pod_name ''c-g'' 2, 2)), zero_world)"
proof -
  have *: "ga_Type waiting_action = GracefulActionScaleDown" "ga_DesiredReplicas waiting_action = Some 2"
    by (simp_all add: waiting_action_def newAction_def)
  obtain r w' where run: "selectNextPod mem_env (zero_ComputeGroupStatus\<lparr>cgs_StatefulsetName := ''c-g''\<rparr>)
     (zero_sts\<lparr>sts_Replicas := Some 3\<rparr>) waiting_action zero_world = (r, w')" by fastforce
  from scale_down_selects_last [OF * _ _ _ run, of 3] show ?thesis
    by (simp add: run in_int32_def)
qed

text \<open>
  C7. In phase DeletePod of a scale-down, once the API server has accepted the deletion,
  the replicas of the live StatefulSet are set to the ordinal of the deleted pod (no write
  when they are already), and the action moves on to its next pod.
\<close>

theorem delete_pod_shrinks:
  assumes "ga_Phase ga = GracefulPhaseDeletePod" and "ga_Type ga = GracefulActionScaleDown"
    and "GetPodObj K (ddc_Namespace cluster) (ga_CurrentPod ga) w = (Inr p, w1)"
    and "DeletePodObj K p w1 = (None, w2)"
    and "GetSts K (sts_Namespace est) (sts_Name est)
           (notice K ''GracefulPodDeleted'' (''Deleted pod '' @ ga_CurrentPod ga @
              '' during graceful ScaleDown'') w2) = (Inr cur, w3)"
    and "sts_Replicas cur = Some n"
  shows "runGracefulStateMachine K cluster cgStatus est ga w =
    ((advanceToNextPod ga, None),
     if n = ga_CurrentOrdinal ga then w3
     else snd (UpdateSts K (cur\<lparr>sts_Replicas := Some (ga_CurrentOrdinal ga)\<rparr>) w3))"
  using assms
  by (simp add: runGracefulStateMachine_def handleDeletePod_def getPod_def afterPodDeleted_def
      updateStatefulSetReplicas_def)

definition scaled_world :: world where
  "scaled_world = exited_world\<lparr>w_Sts := [zero_sts\<lparr>sts_Replicas := Some 3\<rparr>]\<rparr>"

definition deleting_action :: GracefulAction where
  "deleting_action = waiting_action\<lparr>ga_Phase := GracefulPhaseDeletePod\<rparr>"

lemma delete_pod_shrinks_witness:
  "map sts_Replicas (w_Sts (snd (runGracefulStateMachine mem_env zero_ddc zero_ComputeGroupStatus zero_sts
     deleting_action scaled_world))) = [Some 2]"
proof -
  let ?n = "notice mem_env ''GracefulPodDeleted'' (''Deleted pod '' @ ga_CurrentPod deleting_action @
    '' during graceful ScaleDown'') (scaled_world\<lparr>w_Pods := []\<rparr>)"
  have 1: "ga_Phase deleting_action = GracefulPhaseDeletePod"
    and 2: "ga_Type deleting_action = GracefulActionScaleDown"
    by (simp_all add: deleting_action_def waiting_action_def newAction_def)
  have 3: "GetPodObj mem_env (ddc_Namespace zero_ddc) (ga_CurrentPod deleting_action) scaled_world =
      (Inr exited_pod, scaled_world)"
    by (simp add: scaled_world_def exited_world_def exited_pod_def mem_find_def zero_ddc_def zero_pod_def
        deleting_action_def waiting_action_def zero_world_def)
  have 4: "DeletePodObj mem_env exited_pod scaled_world = (None, scaled_world\<lparr>w_Pods := []\<rparr>)"
    by (simp add: mem_env_def scaled_world_def exited_world_def)
  have 5: "GetSts mem_env (sts_Namespace zero_sts) (sts_Name zero_sts) ?n =
      (Inr (zero_sts\<lparr>sts_Replicas := Some 3\<rparr>), ?n)"
    by (simp add: mem_env_def notice_def mem_find_def scaled_world_def zero_sts_def)
  show ?thesis
    by (simp add: delete_pod_shrinks [OF 1 2 3 4 5])
      (simp add: deleting_action_def waiting_action_def mem_env_def mem_put_sts_def notice_def
        scaled_world_def zero_sts_def)
qed

section \<open>What a reconcile leaves on the StatefulSet\<close>

lemma setGracefulAction_fields [simp]:
  "sts_UpdateStrategy (setGracefulAction K st ga) = sts_UpdateStrategy st"
  "sts_Replicas (setGracefulAction K st ga) = sts_Replicas st"
  "sts_Template (setGracefulAction K st ga) = sts_Template st"
  by (simp_all add: setGracefulAction_def split: sum.split)

lemma prepare_fields [simp]:
  "us_Type (sts_UpdateStrategy (prepareGracefulStatefulSet st est ga)) = OnDeleteStrategy"
  "sts_Template (prepareGracefulStatefulSet st est ga) = sts_Template st"
  "sts_Replicas (prepareGracefulStatefulSet st est ga) =
     (if ga_Type ga = GracefulActionScaleDown \<or> ga_Type ga = GracefulActionDelete
      then sts_Replicas est else sts_Replicas st)"
  by (simp_all add: prepareGracefulStatefulSet_def ensureOnDeleteStrategy_def Let_def)




lemma action_ok_updates [simp]:
  "action_ok ((newAction t)\<lparr>ga_DesiredReplicas := r\<rparr>)"
  "action_ok ((newAction t)\<lparr>ga_TargetRevision := v\<rparr>)"
  by (simp_all add: action_ok_def newAction_def zero_GracefulAction_def)





text \<open>
  C9. When a graceful step fails, the reconcile hands back the wanted StatefulSet exactly
  as it was given: the wanted replicas are kept although the pods to remove have not been
  drained.
\<close>

theorem reconcile_error_keeps_wanted:
  assumes "gracefulRolloutReconcile K st est cluster cg cgStatus w = ((st', cgs', skip, Some e), w')"
  shows "skip \<and> st' = st \<and> sts_Replicas st' = sts_Replicas st"
  using assms
  by (auto simp: gracefulRolloutReconcile_def startGracefulAction_def continueGracefulAction_def
      finishGracefulAction_def finalizeGracefulAction_def Let_def
      split: prod.splits sum.splits option.splits bool.splits if_splits)

text \<open>A stored scale-down on a StatefulSet of three replicas, of which one is wanted.\<close>

definition stored_sts :: statefulset where
  "stored_sts = zero_sts\<lparr>sts_Replicas := Some 3, sts_Annotations := [gracefulActionAnnotation \<mapsto> ''x'']\<rparr>"

definition wanted_sts :: statefulset where
  "wanted_sts = zero_sts\<lparr>sts_Replicas := Some 1\<rparr>"


definition skip_and_error :: "'w reconcile_result \<Rightarrow> bool \<times> go_error option" where
  "skip_and_error r = (case r of ((_, _, skip, e), _) \<Rightarrow> (skip, e))"


lemma reconcile_error_keeps_wanted_witness:
  "sts_Replicas (fst (fst (gracefulRolloutReconcile
       (mem_env\<lparr>GetPodObj := \<lambda>_ _ w. (Inl (ErrorString ''timeout''), w)\<rparr>) wanted_sts stored_sts zero_ddc
       zero_compute_group zero_ComputeGroupStatus zero_world))) = Some 1"
proof -
  let ?K = "mem_env\<lparr>GetPodObj := \<lambda>_ _ w. (Inl (ErrorString ''timeout''), w)\<rparr>"
  obtain st' cgs' skip e w' where run: "gracefulRolloutReconcile ?K wanted_sts stored_sts zero_ddc
      zero_compute_group zero_ComputeGroupStatus zero_world = ((st', cgs', skip, e), w')" by (metis surj_pair)
  have "snd (skip_and_error (gracefulRolloutReconcile ?K wanted_sts stored_sts zero_ddc
      zero_compute_group zero_ComputeGroupStatus zero_world)) =
      Some (Wrapped ''failed to get pod -2: '' (ErrorString ''timeout''))" by code_simp
  then have "e = Some (Wrapped ''failed to get pod -2: '' (ErrorString ''timeout''))"
    by (simp add: run skip_and_error_def)
  from reconcile_error_keeps_wanted [OF run [unfolded this]]
  have "sts_Replicas st' = Some 1" by (simp add: wanted_sts_def)
  then show ?thesis by (simp only: run fst_conv)
qed

end
