(* ===== verification/FE_Props.thy ===== *)
theory FE_Props
  imports Disagg_FE Compute_Props Graceful_Props
begin

text \<open>
  The properties of the FE controller: which observers a scale-down drops, that the
  replicas never fall below the number of followers, what an error of the drop does, and
  when the FE is reported ready.
\<close>

section \<open>Ordinals of frontends\<close>


text \<open>The host of the \<open>k\<close>-th FE pod: its name, a dot and the domain.\<close>

definition fe_host :: "DorisDisaggregatedCluster \<Rightarrow> string \<Rightarrow> int \<Rightarrow> string" where
  "fe_host ddc domain k = nth_pod_name (GetFEStatefulsetName ddc) k @ ''.'' @ domain"





section \<open>Dropping observers\<close>


definition fe_cluster :: DorisDisaggregatedCluster where
  "fe_cluster = set_FeReplicas 2 (zero_ddc\<lparr>ddc_Name := ''c''\<rparr>)"

definition fe_sts :: statefulset where
  "fe_sts = zero_sts\<lparr>sts_Name := ''c-fe'', sts_Replicas := Some 3, sts_UpdateRevision := ''r''\<rparr>"

definition fe_wanted :: statefulset where
  "fe_wanted = fe_sts\<lparr>sts_Replicas := Some 2\<rparr>"

definition observer :: "int \<Rightarrow> Frontend" where
  "observer k = zero_Frontend\<lparr>fe_Host := fe_host fe_cluster ''c-fe-internal'' k, fe_Role := FE_OBSERVE_ROLE\<rparr>"

definition fe_world :: world where
  "fe_world = zero_world\<lparr>w_Sts := [fe_sts],
     w_Frontends := [zero_Frontend\<lparr>fe_Host := ''c-fe-0.c-fe-internal'', fe_Role := FE_FOLLOWER_ROLE,
       fe_IsMaster := True, fe_CurrentConnected := ''Yes''\<rparr>, observer 1, observer 2]\<rparr>"


section \<open>The replicas stay above the election number\<close>

text \<open>
  \<open>guard_patch\<close> replaces what the API server does with a patched StatefulSet outside \<open>Q\<close>.
  Nothing but the patch itself depends on it.
\<close>

definition guard_patch ::
    "(statefulset \<Rightarrow> bool) \<Rightarrow> (statefulset \<Rightarrow> 'w \<Rightarrow> go_error option \<times> 'w)
     \<Rightarrow> ('w, 'x) hash_env_scheme \<Rightarrow> ('w, 'x) hash_env_scheme" where
  "guard_patch Q P K = K\<lparr>PatchSts := \<lambda>s. if Q s then PatchSts K s else P s\<rparr>"

lemma guard_patch_fields [frame_simps]:
  "GetSts (guard_patch Q P K) = GetSts K" "CreateSts (guard_patch Q P K) = CreateSts K"
  "ListPods (guard_patch Q P K) = ListPods K" "Eventf (guard_patch Q P K) = Eventf K"
  "GetConfigMapObj (guard_patch Q P K) = GetConfigMapObj K" "GetSecretObj (guard_patch Q P K) = GetSecretObj K"
  "ViperSettings (guard_patch Q P K) = ViperSettings K" "SelectFrontends (guard_patch Q P K) = SelectFrontends K"
  "SqlxOpen (guard_patch Q P K) = SqlxOpen K" "Ping (guard_patch Q P K) = Ping K"
  "CloseDB (guard_patch Q P K) = CloseDB K" "ExecSql (guard_patch Q P K) = ExecSql K"
  "AppendCertsFromPEM (guard_patch Q P K) = AppendCertsFromPEM K" "X509KeyPair (guard_patch Q P K) = X509KeyPair K"
  "RegisterTLSConfig (guard_patch Q P K) = RegisterTLSConfig K" "SpewDump (guard_patch Q P K) = SpewDump K"
  by (simp_all add: guard_patch_def)

lemma guard_patch_config [frame_simps]:
  "GetConfigValuesFromConfigMaps (guard_patch Q P K) ns k cms w = GetConfigValuesFromConfigMaps K ns k cms w"
proof (induction cms arbitrary: w)
  case (Cons c cms)
  show ?case
    unfolding GetConfigValuesFromConfigMaps.simps resolveStartConfig_def frame_simps Cons.IH by (rule refl)
qed simp

lemma guard_patch_drop [frame_simps]:
  "dropFEBySQLClient (guard_patch Q P K) cluster w = dropFEBySQLClient K cluster w"
  unfolding dropFEBySQLClient_def GetManagementAdminUserAndPWD_def GetSecret_def dropObservers_def
    observerMap_def GetObservers_def DropObserver_def NewDorisMasterSqlDB_def GetFollowers_def
    NewDorisSqlDB_def openAndPing_def frame_simps
  by (rule refl)

lemma guard_patch_correct [frame_simps]:
  "correctReplicas (guard_patch Q P K) st cluster w = correctReplicas K st cluster w"
  unfolding correctReplicas_def warn_def frame_simps by (rule refl)

lemma guard_patch_marked [frame_simps]: "markedEqual (guard_patch Q P K) = markedEqual K"
  unfolding markedEqual_def StatefulsetDeepEqualWithKey_def hash_of_def HashObject_def frame_simps by (rule refl)

lemma markedEqual_replicas:
  "markedEqual K name st est c = (ev, st1, c1) \<Longrightarrow> sts_Replicas st1 = sts_Replicas st"
  by (auto simp: markedEqual_def StatefulsetDeepEqualWithKey_def Let_def RestrictConditionsEqual_def
      split: if_splits)

lemma guard_patch_apply:
  assumes "\<And>s. sts_Replicas s = sts_Replicas st \<Longrightarrow> Q s"
  shows "applyFE (guard_patch Q P K) st c w = applyFE K st c w"
proof -
  have "PatchSts (guard_patch Q P K) (st1\<lparr>sts_ResourceVersion := rv\<rparr>) = PatchSts K (st1\<lparr>sts_ResourceVersion := rv\<rparr>)"
    if "markedEqual K GetFEStatefulsetName st est c = (ev, st1, c1)" for est ev st1 c1 rv
    using markedEqual_replicas [OF that] assms by (simp add: guard_patch_def)
  then have "ApplyStatefulSet (guard_patch Q P K) st (markedEqual K GetFEStatefulsetName) id c w =
      ApplyStatefulSet K st (markedEqual K GetFEStatefulsetName) id c w"
    unfolding ApplyStatefulSet_def frame_simps
    by (auto simp: Let_def split: prod.split sum.split)
  then show ?thesis by (simp add: applyFE_def frame_simps)
qed

lemma correctReplicas_quorum:
  assumes "correctReplicas K st cluster w = (Inr (st', cluster'), w')" and "sts_Replicas st = fe_Replicas cluster"
  shows "(case sts_Replicas st' of None \<Rightarrow> GetElectionNumber cluster \<le> 0 | Some n \<Rightarrow> GetElectionNumber cluster \<le> n)"
  using assms by (auto simp: correctReplicas_def Let_def split: option.splits if_splits)

text \<open>
  C19. The FE controller never patches a StatefulSet that runs fewer replicas than there are
  followers to elect: whatever the API server would do with such a patch, the reconcile of
  an existing StatefulSet is the same.
\<close>

theorem fe_never_below_election:
  assumes "GetSts K (sts_Namespace st) (sts_Name st) w = (Inr est, w1)"
    and "sts_Replicas st = fe_Replicas cluster" and "0 < GetElectionNumber cluster"
  shows "reconcileFEStatefulset
      (guard_patch (\<lambda>s. \<exists>n. sts_Replicas s = Some n \<and> GetElectionNumber cluster \<le> n) P K) st cluster w =
    reconcileFEStatefulset K st cluster w"
proof -
  let ?Q = "\<lambda>s. \<exists>n. sts_Replicas s = Some n \<and> GetElectionNumber cluster \<le> n"
  have "applyFE (guard_patch ?Q P K) st' c w' = applyFE K st' c w'"
    if "correctReplicas K st cluster w1 = (Inr (st', cluster'), w2)" for st' cluster' w2 c w'
    using correctReplicas_quorum [OF that assms(2)] assms(3)
    by (intro guard_patch_apply) (auto split: option.splits)
  then show ?thesis
    unfolding reconcileFEStatefulset_def frame_simps assms(1)
    by (auto simp: Let_def split: prod.split sum.split option.split)
qed

lemma fe_never_below_election_witness:
  "reconcileFEStatefulset (guard_patch (\<lambda>s. \<exists>n. sts_Replicas s = Some n \<and> 1 \<le> n) (\<lambda>_ w. (Some not_found, w)) mem_env)
     fe_wanted fe_cluster fe_world = reconcileFEStatefulset mem_env fe_wanted fe_cluster fe_world"
proof -
  have "GetElectionNumber fe_cluster = 1" "sts_Replicas fe_wanted = fe_Replicas fe_cluster"
    by (simp_all add: fe_cluster_def set_FeReplicas_def GetElectionNumber_def zero_ddc_def fe_wanted_def)
  moreover have "GetSts mem_env (sts_Namespace fe_wanted) (sts_Name fe_wanted) fe_world = (Inr fe_sts, fe_world)"
    by (simp add: mem_env_def mem_find_def fe_world_def fe_wanted_def)
  ultimately show ?thesis
    using fe_never_below_election [of mem_env fe_wanted fe_world fe_sts fe_world fe_cluster] by simp
qed

section \<open>Errors of the drop\<close>

text \<open>
  When dropping observers fails, in a scale-down or in the retry of a failed one, the
  reconcile stops there: the StatefulSet is not applied and the phase records the failure,
  so that the next reconcile tries again first.
\<close>

theorem fe_drop_error_keeps_statefulset:
  assumes "GetSts K (sts_Namespace st) (sts_Name st) w = (Inr est, w1)"
    and "fe_Replicas cluster = Some r" and "GetElectionNumber cluster \<le> r"
    and "sts_Replicas est = Some old" and "in_int32 (r - old)"
    and "r < old \<or> fs_Phase (ddc_FEStatus cluster) = ScaleDownFailed"
    and "dropFEBySQLClient K cluster w1 = (Some e, w2)"
  shows "\<exists>failed. reconcileFEStatefulset K st cluster w =
      ((failed, Some (cg_event ''FEHTTPResponseFailed'' e), Some e), w2) \<and>
    fs_Phase (ddc_FEStatus failed) = ScaleDownFailed"
proof -
  have "wrap32 (r - old) < 0 \<longleftrightarrow> r < old" using assms(5) by simp
  then have "reconcileFEStatefulset K st cluster w =
      ((set_FEPhase ScaleDownFailed cluster, Some (cg_event ''FEHTTPResponseFailed'' e), Some e), w2)"
    using assms by (auto simp: reconcileFEStatefulset_def correctReplicas_def Let_def)
  then show ?thesis by (simp add: set_FEPhase_def set_FEStatus_def)
qed

lemma fe_drop_error_keeps_statefulset_witness:
  "\<exists>failed e w'. reconcileFEStatefulset (mem_env\<lparr>ExecSql := \<lambda>_ _ w. (Some not_found, w)\<rparr>)
      fe_wanted fe_cluster fe_world = ((failed, Some (cg_event ''FEHTTPResponseFailed'' e), Some e), w') \<and>
    fs_Phase (ddc_FEStatus failed) = ScaleDownFailed"
proof -
  let ?K = "mem_env\<lparr>ExecSql := \<lambda>_ _ w. (Some not_found, w)\<rparr>"
  have "fst (dropFEBySQLClient ?K fe_cluster fe_world) \<noteq> None" by code_simp
  then obtain e w' where drop: "dropFEBySQLClient ?K fe_cluster fe_world = (Some e, w')" by (metis not_None_eq prod.collapse)
  have get: "GetSts ?K (sts_Namespace fe_wanted) (sts_Name fe_wanted) fe_world = (Inr fe_sts, fe_world)"
    by (simp add: mem_env_def mem_find_def fe_world_def fe_wanted_def)
  have "fe_Replicas fe_cluster = Some 2" "GetElectionNumber fe_cluster \<le> 2" "sts_Replicas fe_sts = Some 3"
    "in_int32 (2 - 3)"
    by (simp_all add: fe_cluster_def set_FeReplicas_def GetElectionNumber_def zero_ddc_def fe_sts_def in_int32_def)
  from fe_drop_error_keeps_statefulset [OF get this _ drop] show ?thesis by auto
qed

text \<open>A cluster with addresses for hosts, whose pods cannot be listed.\<close>

definition ip_env :: "world rollout_env" where
  "ip_env = mem_env\<lparr>GetConfigMapObj := \<lambda>_ _ w. (Inr \<lparr>cm_Data = Some [FE_RESOLVEKEY \<mapsto> '''']\<rparr>, w),
     ViperSettings := \<lambda>_ _. [(ENABLE_FQDN, ConfString ''false'')],
     ListPods := \<lambda>_ _ w. (Inl (StatusError (ReasonOther ''Timeout'') ''timeout''), w)\<rparr>"

definition ip_cluster :: DorisDisaggregatedCluster where
  "ip_cluster = fe_cluster\<lparr>ddc_Spec := (ddc_Spec fe_cluster)\<lparr>spec_FeSpec := \<lparr>fes_ElectionNumber = None,
     fes_CommonSpec = zero_common_spec\<lparr>cms_Replicas := Some 2,
       cms_ConfigMaps := [\<lparr>cmm_Name = ''fe'', cmm_MountPath = ''''\<rparr>]\<rparr>\<rparr>\<rparr>\<rparr>"

text \<open>
  C21. A failed list of pods is not an error of the drop. Fewer replicas are wanted than the
  StatefulSet has, the connection to the master and the list of observers succeed, some
  observers are to be removed, the FE uses addresses as hosts, and the pods cannot be
  listed. Then the reconcile sends no statement after the list has failed: it closes the
  connection, moves the phase to Scaling and applies the wanted StatefulSet, although none
  of the observers was dropped.
\<close>

theorem fe_shrinks_without_drop:
  assumes "GetSts K (sts_Namespace st) (sts_Name st) w = (Inr est, w1)"
    and "fe_Replicas cluster = Some r" and "GetElectionNumber cluster \<le> r"
    and "sts_Replicas est = Some old" and "in_int32 (r - old)" and "r < old"
    and "GetManagementAdminUserAndPWD K cluster w1 = ((user, password), w2)"
    and "GetConfigValuesFromConfigMaps K (ddc_Namespace cluster) FE_RESOLVEKEY
           (cms_ConfigMaps (fes_CommonSpec (spec_FeSpec (ddc_Spec cluster)))) w2 = (confMap, w3)"
    and "GetPort confMap QUERY_PORT = Inr queryPort"
    and "FindSecretTLSConfig confMap cluster = Inr (tlsConfig, secretName)"
    and "GetSecret K (ddc_Namespace cluster) secretName w3 = (sec, w4)"
    and "NewDorisMasterSqlDB K \<lparr>db_User = user, db_Password = password, db_Host = GetFEVIPAddresss cluster,
           db_Port = Itoa queryPort, db_Database = ''mysql''\<rparr> tlsConfig sec w4 = (Inr db, w5)"
    and "GetObservers K db w5 = (Inr observers, w6)"
    and "0 < needRemoved (length observers) r (GetElectionNumber cluster)"
    and "GetStartMode confMap = Inr mode" and "mode \<noteq> START_MODEL_FQDN"
    and "ListPods K (ddc_Namespace cluster) (getFEPodLabels cluster) w6 = (Inl e, w7)"
  shows "reconcileFEStatefulset K st cluster w = applyFE K st (set_FEPhase Scaling cluster) (CloseDB K db w7)"
proof -
  have "dropObservers K cluster confMap db w5 = (None, w7)"
    using assms(2,13-17) by (simp add: dropObservers_def observerMap_def)
  then have drop: "dropFEBySQLClient K cluster w1 = (None, CloseDB K db w7)"
    using assms(7-12) by (simp add: dropFEBySQLClient_def)
  have "wrap32 (r - old) < 0" using assms(5,6) by simp
  then show ?thesis
    using assms(1-4) drop by (simp add: reconcileFEStatefulset_def correctReplicas_def Let_def)
qed

lemma fe_shrinks_without_drop_witness:
  "reconcileFEStatefulset ip_env fe_wanted ip_cluster fe_world =
     applyFE ip_env fe_wanted (set_FEPhase Scaling ip_cluster) fe_world \<and>
   map sts_Replicas (w_Sts (snd (reconcileFEStatefulset ip_env fe_wanted ip_cluster fe_world))) = [Some 2] \<and>
   w_Sql (snd (reconcileFEStatefulset ip_env fe_wanted ip_cluster fe_world)) = []"
proof -
  let ?conf = "[(ENABLE_FQDN, ConfString ''false'')]"
  have get: "GetSts ip_env (sts_Namespace fe_wanted) (sts_Name fe_wanted) fe_world = (Inr fe_sts, fe_world)"
    by (simp add: ip_env_def mem_env_def mem_find_def fe_world_def fe_wanted_def)
  have rep: "fe_Replicas ip_cluster = Some 2" "GetElectionNumber ip_cluster \<le> 2" "sts_Replicas fe_sts = Some 3"
    "in_int32 (2 - 3)" "(2::int) < 3"
    by (simp_all add: ip_cluster_def fe_cluster_def set_FeReplicas_def GetElectionNumber_def zero_ddc_def fe_sts_def
        in_int32_def)
  obtain user password where adm: "GetManagementAdminUserAndPWD ip_env ip_cluster fe_world = ((user, password), fe_world)"
    by (simp add: GetManagementAdminUserAndPWD_def ip_cluster_def fe_cluster_def set_FeReplicas_def zero_ddc_def)
  have conf: "GetConfigValuesFromConfigMaps ip_env (ddc_Namespace ip_cluster) FE_RESOLVEKEY
      (cms_ConfigMaps (fes_CommonSpec (spec_FeSpec (ddc_Spec ip_cluster)))) fe_world = (?conf, fe_world)"
    by (simp add: ip_cluster_def ip_env_def resolveStartConfig_def)
  have mode: "GetPort ?conf QUERY_PORT = Inr (defMap QUERY_PORT)" "GetStartMode ?conf = Inr START_MODEL_IP"
    "FindSecretTLSConfig ?conf ip_cluster = Inr (None, '''')" "START_MODEL_IP \<noteq> START_MODEL_FQDN"
    by (simp_all add: GetPort_def GetStartMode_def FindSecretTLSConfig_def GetString_def QUERY_PORT_def
        ENABLE_FQDN_def START_MODEL_IP_def START_MODEL_FQDN_def)
  have sec: "GetSecret ip_env (ddc_Namespace ip_cluster) '''' fe_world = (None, fe_world)"
    by (simp add: GetSecret_def ip_env_def mem_env_def)
  have db: "NewDorisMasterSqlDB ip_env conf None None fe_world = (Inr 0, fe_world)" for conf
    by (simp add: NewDorisMasterSqlDB_def NewDorisSqlDB_def openAndPing_def GetFollowers_def followers_of_def
        ip_env_def mem_env_def fe_world_def observer_def FE_FOLLOWER_ROLE_def FE_OBSERVE_ROLE_def)
  have obs: "GetObservers ip_env 0 fe_world = (Inr [observer 1, observer 2], fe_world)"
    by (simp add: GetObservers_def ip_env_def mem_env_def fe_world_def observer_def FE_FOLLOWER_ROLE_def
        FE_OBSERVE_ROLE_def)
  have need: "0 < needRemoved (length [observer 1, observer 2]) 2 (GetElectionNumber ip_cluster)"
    by (simp add: needRemoved_def GetElectionNumber_def ip_cluster_def wrap32_def)
  have pods: "ListPods ip_env (ddc_Namespace ip_cluster) (getFEPodLabels ip_cluster) fe_world =
      (Inl (StatusError (ReasonOther ''Timeout'') ''timeout''), fe_world)" by (simp add: ip_env_def)
  have close: "CloseDB ip_env 0 fe_world = fe_world" by (simp add: ip_env_def mem_env_def)
  have run: "reconcileFEStatefulset ip_env fe_wanted ip_cluster fe_world =
      applyFE ip_env fe_wanted (set_FEPhase Scaling ip_cluster) fe_world"
    using fe_shrinks_without_drop [OF get rep adm conf mode(1,3) sec db obs need mode(2,4) pods] by (simp add: close)
  have "map sts_Replicas (w_Sts (snd (applyFE ip_env fe_wanted (set_FEPhase Scaling ip_cluster) fe_world))) = [Some 2]"
    by code_simp
  moreover have "w_Sql (snd (applyFE ip_env fe_wanted (set_FEPhase Scaling ip_cluster) fe_world)) = []" by code_simp
  ultimately show ?thesis by (simp add: run)
qed

section \<open>Followers and readiness\<close>

lemma podIsFollower_ordinal:
  assumes "0 \<le> k" and "k < 2 ^ 63"
  shows "podIsFollower (nth_pod_name stfName k) stfName electionNumber \<longleftrightarrow> k < electionNumber"
proof -
  have "HasPrefix (nth_pod_name stfName k) (stfName @ ''-'')"
    by (simp add: HasPrefix_iff nth_pod_name_def)
  moreover have "drop (length stfName + 1) (nth_pod_name stfName k) = dec_nat (nat k)"
    using assms(1) by (simp add: nth_pod_name_def Itoa_def)
  ultimately show ?thesis using assms by (simp add: podIsFollower_def Atoi_dec_nat)
qed

text \<open>As many distinct ordinals in a range as the range holds are all of the range.\<close>

lemma ordinals_fill:
  fixes ord :: "'a \<Rightarrow> int"
  assumes "distinct (map ord xs)" and "ord ` set xs \<subseteq> {0..<e}" and "int (length xs) = e"
  shows "ord ` set xs = {0..<e}"
proof (rule card_subset_eq)
  have "card (ord ` set xs) = length xs" using distinct_card [OF assms(1)] by simp
  then show "card (ord ` set xs) = card {0..<e}" using assms(3) by simp
qed (use assms(2) in simp_all)

text \<open>
  C22. The status update turns the FE ready only when every pod runs the current revision,
  as many pods are ready as are wanted, and every follower is up: each ordinal below the
  election number has a ready pod.
\<close>

theorem fe_ready_means_followers_up:
  assumes "UpdateFEStatus K ddc w = ((ddc', None), w')" and "fs_Phase (ddc_FEStatus ddc') = Ready"
    and "fs_Phase (ddc_FEStatus ddc) \<noteq> Ready"
    and "GetSts K (ddc_Namespace ddc) (GetFEStatefulsetName ddc) w = (Inr sts, w1)"
    and "ListPods K (ddc_Namespace ddc) (newFEPodsSelector (ddc_Name ddc)) w1 = (Inr pods, w2)"
    and "distinct (map pod_Name pods)" and "int (length pods) < 2 ^ 31"
    and "\<forall>p \<in> set pods. \<exists>k. 0 \<le> k \<and> k < 2 ^ 31 \<and> pod_Name p = nth_pod_name (GetFEStatefulsetName ddc) k"
  shows "StatefulsetControlledPodsAllUseNewUpdateRevision (sts_UpdateRevision sts) pods \<and>
    Some (count_ready pods) = fe_Replicas ddc \<and>
    (\<forall>k. 0 \<le> k \<longrightarrow> k < GetElectionNumber ddc \<longrightarrow>
      (\<exists>p \<in> set pods. PodIsReady p \<and> pod_Name p = nth_pod_name (GetFEStatefulsetName ddc) k))"
proof -
  let ?sts = "GetFEStatefulsetName ddc" and ?e = "GetElectionNumber ddc"
  let ?up = "filter (\<lambda>p. PodIsReady p \<and> podIsFollower (pod_Name p) ?sts ?e) pods"
  let ?ord = "\<lambda>p. extractOrdinal (pod_Name p)"
  have named: "0 \<le> ?ord p \<and> ?ord p < 2 ^ 31 \<and> pod_Name p = nth_pod_name ?sts (?ord p)" if "p \<in> set pods" for p
    using assms(8) that by (auto simp: extractOrdinal_nth)
  have ready: "StatefulsetControlledPodsAllUseNewUpdateRevision (sts_UpdateRevision sts) pods"
      "Some (count_ready pods) = fe_Replicas ddc" "wrap32 (int (length ?up)) = ?e"
    using assms(1-5)
    by (auto simp: UpdateFEStatus_def Let_def markFEAvailable_def set_FEPhase_def set_FEStatus_def
        split: if_splits option.splits)
  have "int (length ?up) < 2 ^ 31" using assms(7) length_filter_le [of _ pods] by (smt (verit) of_nat_mono)
  with ready(3) have len: "int (length ?up) = ?e" by (simp add: in_int32_def)
  have "inj_on ?ord (set pods)"
  proof (rule inj_onI)
    fix p q assume pq: "p \<in> set pods" "q \<in> set pods" "?ord p = ?ord q"
    then have "pod_Name p = pod_Name q" using named by metis
    with assms(6) pq(1,2) show "p = q" by (auto simp: distinct_map dest: inj_onD)
  qed
  moreover have "distinct pods" using assms(6) by (simp add: distinct_map)
  ultimately have "distinct (map ?ord ?up)"
    by (auto simp: distinct_map intro: inj_on_subset)
  moreover have "?ord ` set ?up \<subseteq> {0..<?e}"
  proof
    fix k assume "k \<in> ?ord ` set ?up"
    then obtain p where p: "p \<in> set pods" "podIsFollower (pod_Name p) ?sts ?e" "k = ?ord p" by auto
    with named [OF p(1)] have "podIsFollower (nth_pod_name ?sts k) ?sts ?e" "0 \<le> k" "k < 2 ^ 31" by auto
    then show "k \<in> {0..<?e}" by (simp add: podIsFollower_ordinal)
  qed
  ultimately have fill: "?ord ` set ?up = {0..<?e}" using len by (rule ordinals_fill)
  have "\<exists>p \<in> set pods. PodIsReady p \<and> pod_Name p = nth_pod_name ?sts k" if "0 \<le> k" "k < ?e" for k
  proof -
    from that have "k \<in> ?ord ` set ?up" by (simp only: fill) simp
    then obtain p where "p \<in> set pods" "PodIsReady p" "k = ?ord p" by auto
    with named show ?thesis by blast
  qed
  then show ?thesis using ready(1,2) by blast
qed

definition fe_pod :: "int \<Rightarrow> pod" where
  "fe_pod k = zero_pod\<lparr>pod_Name := nth_pod_name ''c-fe'' k, pod_ContainerStatuses := Some [],
     pod_Labels := (newFEPodsSelector ''c'')(POD_CONTROLLER_REVISION_HASH_KEY \<mapsto> ''r'')\<rparr>"

definition fe_ready_world :: world where
  "fe_ready_world = fe_world\<lparr>w_Pods := [fe_pod 0, fe_pod 1]\<rparr>"

lemma fe_ready_means_followers_up_witness:
  "fs_Phase (ddc_FEStatus (fst (fst (UpdateFEStatus mem_env fe_cluster fe_ready_world)))) = Ready \<and>
   (\<exists>p \<in> set [fe_pod 0, fe_pod 1]. PodIsReady p \<and> pod_Name p = nth_pod_name ''c-fe'' 0)"
proof -
  obtain d r w' where run: "UpdateFEStatus mem_env fe_cluster fe_ready_world = ((d, r), w')" by (metis surj_pair)
  have "(case fs_Phase (ddc_FEStatus (fst (fst (UpdateFEStatus mem_env fe_cluster fe_ready_world)))) of
      Ready \<Rightarrow> True | _ \<Rightarrow> False)"
    "snd (fst (UpdateFEStatus mem_env fe_cluster fe_ready_world)) = None" by code_simp+
  then have r: "fs_Phase (ddc_FEStatus d) = Ready" "r = None" by (auto simp: run split: Phase.splits)
  have c: "fs_Phase (ddc_FEStatus fe_cluster) \<noteq> Ready" "GetElectionNumber fe_cluster = 1"
    "GetFEStatefulsetName fe_cluster = ''c-fe''" "ddc_Name fe_cluster = ''c''" "ddc_Namespace fe_cluster = ''''"
    by (simp_all add: fe_cluster_def set_FeReplicas_def zero_ddc_def GetElectionNumber_def GetFEStatefulsetName_def)
  have get: "GetSts mem_env (ddc_Namespace fe_cluster) (GetFEStatefulsetName fe_cluster) fe_ready_world =
      (Inr fe_sts, fe_ready_world)"
    by (simp add: c mem_env_def mem_find_def fe_ready_world_def fe_world_def fe_sts_def zero_sts_def)
  have names: "distinct (map pod_Name [fe_pod 0, fe_pod 1])" by code_simp
  have "mem_selects (newFEPodsSelector ''c'') (pod_Labels (fe_pod k))" for k
    by (simp add: mem_selects_def label_keys_def fe_pod_def newFEPodsSelector_def POD_CONTROLLER_REVISION_HASH_KEY_def
        DorisDisaggregatedOwnerReference_def DorisDisaggregatedComputeGroupUniqueId_def
        DorisDisaggregatedClusterName_def DorisDisaggregatedPodType_def)
  then have list: "ListPods mem_env (ddc_Namespace fe_cluster) (newFEPodsSelector (ddc_Name fe_cluster))
      fe_ready_world = (Inr [fe_pod 0, fe_pod 1], fe_ready_world)"
    by (simp add: c fe_ready_world_def) (simp add: fe_pod_def nth_pod_name_def zero_pod_def)
  have "\<forall>p \<in> set [fe_pod 0, fe_pod 1]. \<exists>k. 0 \<le> k \<and> k < 2 ^ 31 \<and>
      pod_Name p = nth_pod_name (GetFEStatefulsetName fe_cluster) k"
    by (auto simp: c fe_pod_def intro: exI [of _ 0] exI [of _ 1])
  from fe_ready_means_followers_up [OF run [unfolded r(2)] r(1) c(1) get list names _ this] r show ?thesis
    by (auto simp: run c)
qed

end
