(* ===== verification/Compute_Sync.thy ===== *)
theory Compute_Sync
  imports Disagg_FE
begin

text \<open>
  Sync of the compute groups (\<^verbatim>\<open>computegroups/controller.go\<close>, \<^verbatim>\<open>statefulset.go\<close>): the
  StatefulSet of a group and the loop that reconciles every group of the cluster. A group
  is a pointer into the specification, so what the code fills in (replicas, init image,
  security context) is returned as the changed group and written back.
\<close>

section \<open>The StatefulSet\<close>

definition COMPUTE_GROUP_NAME :: string where "COMPUTE_GROUP_NAME = ''COMPUTE_GROUP_NAME''"
definition ENABLE_WORKLOAD_GROUP :: string where "ENABLE_WORKLOAD_GROUP = ''ENABLE_WORKLOAD_GROUP''"
definition ENV_FE_PORT :: string where "ENV_FE_PORT = ''FE_QUERY_PORT''"

definition newCGSpecificEnvs ::
    "('w, 'x) kube_env_scheme \<Rightarrow> DorisDisaggregatedCluster \<Rightarrow> compute_group \<Rightarrow> 'w
     \<Rightarrow> (go_error + env_var list) \<times> 'w" where
  "newCGSpecificEnvs K ddc cg w =
     (case GetConfigValuesFromConfigMaps K (ddc_Namespace ddc) FE_RESOLVEKEY
             (cms_ConfigMaps (fes_CommonSpec (spec_FeSpec (ddc_Spec ddc)))) w of
        (confMap, w) \<Rightarrow>
          (bindE (GetPort confMap QUERY_PORT) (\<lambda>fqp.
             Inr ([env STATEFULSET_NAME (GetCGStatefulsetName ddc cg),
                   env COMPUTE_GROUP_NAME (GetCGName cg), env ''HOST_TYPE'' START_MODEL_FQDN,
                   env ''ENV_FE_ADDR'' (GetFEVIPAddresss ddc), env ENV_FE_PORT (Itoa fqp)] @ admin_envs ddc @
                  (if cg_EnableWorkloadGroup cg then [env ENABLE_WORKLOAD_GROUP ''true''] else []))), w))"

text \<open>A workload group needs a privileged container; the group's specification is changed.\<close>

definition make_privileged :: "compute_group \<Rightarrow> compute_group" where
  "make_privileged cg =
     (if cg_EnableWorkloadGroup cg then
        cg\<lparr>cg_CommonSpec := (cg_CommonSpec cg)\<lparr>cms_ContainerSecurityContext :=
          Some (case cms_ContainerSecurityContext (cg_CommonSpec cg) of
                  None \<Rightarrow> \<lparr>scx_Privileged = Some True, scx_Other = ''''\<rparr>
                | Some s \<Rightarrow> s\<lparr>scx_Privileged := Some True\<rparr>)\<rparr>\<rparr>
      else cg)"

definition NewCGContainer ::
    "('w, 'x) hash_env_scheme \<Rightarrow> DorisDisaggregatedCluster \<Rightarrow> conf \<Rightarrow> compute_group \<Rightarrow> 'w
     \<Rightarrow> (go_error + container \<times> compute_group) \<times> 'w" where
  "NewCGContainer K ddc cvs cg =
     (let cg = make_privileged cg; cs = cg_CommonSpec cg;
          (cmd, args) = GetDisaggregatedCommand DisaggregatedBE
      in bindW (liftW (GetDisaggregatedContainerPorts cvs DisaggregatedBE)) (\<lambda>ports.
         bindW (newCGSpecificEnvs K ddc cg) (\<lambda>envs.
         bindW (liftW (BuildVolumesVolumeMountsAndPVCs K cvs DisaggregatedBE cs)) (\<lambda>(_, vms, _).
           liftW (Inr (BuildDisaggregatedProbe cs DisaggregatedBE
             ((LifeCycleWithPreStopScript (GetDisaggregatedPreStopScript DisaggregatedBE)
                 (NewContainerWithCommonSpec cs))
              \<lparr>c_Command := cmd, c_Args := args, c_Name := DISAGGREGATED_BE_MAIN_CONTAINER_NAME,
               c_Ports := ports,
               c_Env := cms_EnvVars cs @ GetPodDefaultEnv @ envs @
                 (if cg_SkipDefaultSystemInit cg then [env ''SKIP_CHECK_ULIMIT'' ''true''] else []) @
                 (if cg_AutoResolveLimitCPU cg then [env ''BE_CPU_LIMIT'' (rr_LimitsCpu (cms_Resources cs))] else []),
               c_VolumeMounts := [podinfo_mount] @ vms @
                 snd (BuildDefaultConfigMapVolumesVolumeMounts (cms_ConfigMaps cs)) @
                 [mount gracefulRuntimeVolumeName gracefulRuntimeMountPath] @ auth_mounts ddc @
                 snd (GetMultiSecretVolumeAndVolumeMountWithCommonSpec cs)\<rparr>), cg))))))"

text \<open>
  The labels of the pods are the selector's map itself, to which the labels of the
  specification are added: the map is shared, so the selector of the StatefulSet has them
  too.
\<close>

definition cgPodLabels :: "DorisDisaggregatedCluster \<Rightarrow> compute_group \<Rightarrow> string_map" where
  "cgPodLabels ddc cg = newCGPodsSelector (ddc_Name ddc) (cg_UniqueId cg) ++ cms_Labels (cg_CommonSpec cg)"

definition NewCGPodTemplateSpec ::
    "('w, 'x) hash_env_scheme \<Rightarrow> DorisDisaggregatedCluster \<Rightarrow> conf \<Rightarrow> compute_group \<Rightarrow> 'w
     \<Rightarrow> (go_error + pod_template \<times> compute_group) \<times> 'w" where
  "NewCGPodTemplateSpec K ddc cvs cg =
     (let cs = cg_CommonSpec cg; labels = cgPodLabels ddc cg;
          (pts, cs') = NewPodTemplateSpecWithCommonSpec (cg_SkipDefaultSystemInit cg) cs DisaggregatedBE;
          cg = cg\<lparr>cg_CommonSpec := cs'\<rparr>
      in bindW (liftW (AddTerminationGracePeriodSeconds cvs
                  DEFAULT_BE_TERMINATION_GRACE_PERIOD_SECONDS pts)) (\<lambda>pts.
         bindW (NewCGContainer K ddc cvs cg) (\<lambda>(c, cg).
         bindW (liftW (BuildVolumesVolumeMountsAndPVCs K cvs DisaggregatedBE cs)) (\<lambda>(vs, _, _).
         bindW (liftW (AddClusterSpecForPodTemplate DisaggregatedBE cvs (ddc_Spec ddc)
                  (pts\<lparr>pt_Labels := labels, pt_Containers := pt_Containers pts @ [c],
                     pt_Volumes := pt_Volumes pts @
                       fst (BuildDefaultConfigMapVolumesVolumeMounts (cms_ConfigMaps cs)) @ vs @
                       [empty_dir gracefulRuntimeVolumeName] @ auth_volumes ddc @
                       fst (GetMultiSecretVolumeAndVolumeMountWithCommonSpec cs)\<rparr>))) (\<lambda>pts.
         bindW (liftW (ConstructDefaultAffinity DorisDisaggregatedComputeGroupUniqueId
                  (map_get labels DorisDisaggregatedComputeGroupUniqueId) (pt_Affinity pts))) (\<lambda>affinity.
           liftW (Inr (pts\<lparr>pt_Affinity := affinity\<rparr>, cg))))))))"

definition NewCGStatefulset ::
    "('w, 'x) hash_env_scheme \<Rightarrow> DorisDisaggregatedCluster \<Rightarrow> compute_group \<Rightarrow> conf \<Rightarrow> 'w
     \<Rightarrow> (go_error + statefulset \<times> compute_group) \<times> 'w" where
  "NewCGStatefulset K ddc cg cvs =
     bindW (liftW (BuildVolumesVolumeMountsAndPVCs K cvs DisaggregatedBE (cg_CommonSpec cg))) (\<lambda>(_, _, vcts).
     bindW (NewCGPodTemplateSpec K ddc cvs cg) (\<lambda>(pts, cg').
       liftW (Inr ((NewDefaultStatefulset ddc)
         \<lparr>sts_Name := GetCGStatefulsetName ddc cg,
          sts_Labels := newCG2LayerSchedulerLabels (ddc_Name ddc) (cg_UniqueId cg),
          sts_Selector := cgPodLabels ddc cg, sts_Replicas := cg_Replicas cg,
          sts_VolumeClaimTemplates := vcts, sts_ServiceName := GetCGServiceName ddc cg,
          sts_Template := pts\<rparr>, cg'))))"

section \<open>Sync of one group\<close>

definition syncCGObjects ::
    "('w, 'x) rollout_env_scheme \<Rightarrow> bool \<Rightarrow> conf \<Rightarrow> service \<Rightarrow> service \<Rightarrow> statefulset
     \<Rightarrow> DorisDisaggregatedCluster \<Rightarrow> compute_group \<Rightarrow> 'w \<Rightarrow> 'w cg_result" where
  "syncCGObjects K restConfig cvs internalSvc externalSvc st ddc cg w =
     (case reconcileInternalService K internalSvc w of
        (Some e, w) \<Rightarrow> ((ddc, Some (cg_event ''ServiceApplyedFailed'' e), Some e), w)
      | (None, w) \<Rightarrow>
     (case DefaultReconcileService K externalSvc w of
        ((event, Some e), w) \<Rightarrow> ((ddc, event, Some e), w)
      | ((_, None), w) \<Rightarrow>
     (case reconcileStatefulset K restConfig st ddc cg w of
        ((ddc, event, Some e), w) \<Rightarrow> ((ddc, event, Some e), w)
      | ((ddc, _, None), w) \<Rightarrow>
     (case ReconcilePVC K ddc cvs DisaggregatedBE st (Some cg) w of
        ((event, r), w) \<Rightarrow> ((ddc, event, r), w)))))"

definition set_ComputeGroup ::
    "nat \<Rightarrow> compute_group \<Rightarrow> DorisDisaggregatedCluster \<Rightarrow> DorisDisaggregatedCluster" where
  "set_ComputeGroup i cg ddc =
     ddc\<lparr>ddc_Spec := (ddc_Spec ddc)\<lparr>spec_ComputeGroups := (ddc_ComputeGroups ddc)[i := cg]\<rparr>\<rparr>"

definition computeGroupSync ::
    "('w, 'x) rollout_env_scheme \<Rightarrow> bool \<Rightarrow> DorisDisaggregatedCluster \<Rightarrow> nat \<Rightarrow> compute_group \<Rightarrow> 'w
     \<Rightarrow> 'w cg_result" where
  "computeGroupSync K restConfig ddc i cg w =
     (let cg = (if cg_Replicas cg = None
                then cg\<lparr>cg_CommonSpec := (cg_CommonSpec cg)\<lparr>cms_Replicas := Some 1\<rparr>\<rparr> else cg)
      in case GetConfigValuesFromConfigMaps K (ddc_Namespace ddc) BE_RESOLVEKEY
                (cms_ConfigMaps (cg_CommonSpec cg)) w of
           (cvs, w) \<Rightarrow>
             (case NewCGStatefulset K ddc cg cvs w of
                (Inl e, w) \<Rightarrow> ((ddc, None, Some e), w)
              | (Inr (st, cg), w) \<Rightarrow>
                  (case bindE (newCGInternalService ddc cg cvs) (\<lambda>internalSvc.
                        bindE (newExternalService ddc cg cvs) (\<lambda>externalSvc.
                        bindE (initialCGStatus (set_ComputeGroup i cg ddc) cg) (\<lambda>ddc.
                          Inr (internalSvc, externalSvc, ddc)))) of
                     Inl e \<Rightarrow> ((ddc, None, Some e), w)
                   | Inr (internalSvc, externalSvc, ddc) \<Rightarrow>
                       syncCGObjects K restConfig cvs internalSvc externalSvc st ddc cg
                         (CheckSecretExist K ddc (cms_Secrets (cg_CommonSpec cg))
                            (CheckSecretMountPath K (cms_Secrets (cg_CommonSpec cg)) w)))))"

section \<open>Sync of all groups\<close>

text \<open>
  The loop goes on after a group that failed; a panic leaves it. \<open>errs\<close> holds the texts
  of the errors so far, in order.
\<close>

fun syncGroups ::
    "('w, 'x) rollout_env_scheme \<Rightarrow> bool \<Rightarrow> nat \<Rightarrow> compute_group list \<Rightarrow> DorisDisaggregatedCluster \<Rightarrow> string list
     \<Rightarrow> 'w \<Rightarrow> (DorisDisaggregatedCluster \<times> (go_error + string list)) \<times> 'w" where
  "syncGroups K restConfig i [] ddc errs w = ((ddc, Inr errs), w)"
| "syncGroups K restConfig i (cg # cgs) ddc errs w =
     (case computeGroupSync K restConfig ddc i cg w of
        ((ddc, event, None), w) \<Rightarrow> syncGroups K restConfig (Suc i) cgs ddc errs w
      | ((ddc, event, Some e), w) \<Rightarrow>
          (if is_panic e then ((ddc, Inl e), w)
           else syncGroups K restConfig (Suc i) cgs ddc (errs @ [error_text e]) (record_event K event w)))"

definition SyncCG ::
    "('w, 'x) rollout_env_scheme \<Rightarrow> bool \<Rightarrow> DorisDisaggregatedCluster \<Rightarrow> 'w
     \<Rightarrow> (DorisDisaggregatedCluster \<times> go_error option) \<times> 'w" where
  "SyncCG K restConfig ddc w =
     (if ddc_ComputeGroups ddc = [] then
        ((ddc, None), warn K ''CGsEmpty'' ''compute group empty, the cluster will not work normal.'' w)
      else case feAvailable K ddc w of
          (False, w) \<Rightarrow> ((ddc, None), notice K ''WaitFEAvailable'' ''fe have not ready.'' w)
        | (True, w) \<Rightarrow>
            (case validateComputeGroup (ddc_ComputeGroups ddc) of
               (event, False) \<Rightarrow>
                 ((ddc, Some (ErrorString ''validating compute group failed'')), record_event K event w)
             | (_, True) \<Rightarrow>
                 (case syncGroups K restConfig 0 (ddc_ComputeGroups ddc) ddc [] w of
                    ((ddc, Inl e), w) \<Rightarrow> ((ddc, Some e), w)
                  | ((ddc, Inr errs), w) \<Rightarrow>
                      ((ddc, if errs = [] then None
                             else Some (ErrorString
                               (''disaggregatedComputeGroupsController sync namespace: '' @ ddc_Namespace ddc @
                                '' ,ddc name: '' @ ddc_Name ddc @
                                '', compute group has the following error: '' @ concat errs))), w))))"

end
