(* ===== verification/Disagg_Cluster.thy ===== *)
theory Disagg_Cluster
  imports Compute_Sync "HOL-Library.Signed_Division"
begin

text \<open>
  The reconciler of a disaggregated cluster (\<^verbatim>\<open>disaggregated_cluster_controller.go\<close>):
  one pass over the sub-controllers for Sync, one for ClearResources, one for the status,
  then the health of the cluster and the write of the object or its status.

  The sub-controllers are kept in a Go map, whose iteration order is unspecified and may
  differ from loop to loop: each loop takes the order it meets as a list.
\<close>

section \<open>Parameters\<close>

text \<open>
  The API server's view of the custom resource. \<^verbatim>\<open>Update\<close> and \<^verbatim>\<open>Status().Update\<close>
  overwrite the object they are given with the response; \<^verbatim>\<open>RetryOnConflict\<close> runs a
  closure that reads and writes \<^verbatim>\<open>eddc\<close>.
\<close>

record 'w cluster_env = "'w rollout_env" +
  GetDDC :: "string \<Rightarrow> string \<Rightarrow> 'w \<Rightarrow> (go_error + DorisDisaggregatedCluster) \<times> 'w"
  UpdateDDC :: "DorisDisaggregatedCluster \<Rightarrow> 'w \<Rightarrow> (go_error + DorisDisaggregatedCluster) \<times> 'w"
  UpdateDDCStatus :: "DorisDisaggregatedCluster \<Rightarrow> 'w \<Rightarrow> (go_error + DorisDisaggregatedCluster) \<times> 'w"
  RetryOnConflict ::
    "(DorisDisaggregatedCluster \<Rightarrow> 'w \<Rightarrow> (go_error option \<times> DorisDisaggregatedCluster) \<times> 'w)
     \<Rightarrow> DorisDisaggregatedCluster \<Rightarrow> 'w \<Rightarrow> (go_error option \<times> DorisDisaggregatedCluster) \<times> 'w"
  SpewSpec :: "ddc_spec \<Rightarrow> string"

section \<open>Sub-controllers\<close>

record 'w DisaggregatedSubController =
  sc_Name :: string
  sc_Sync :: "DorisDisaggregatedCluster \<Rightarrow> 'w \<Rightarrow> (DorisDisaggregatedCluster \<times> go_error option) \<times> 'w"
  sc_ClearResources ::
    "DorisDisaggregatedCluster \<Rightarrow> 'w \<Rightarrow> (DorisDisaggregatedCluster \<times> bool \<times> go_error option) \<times> 'w"
  sc_UpdateComponentStatus ::
    "DorisDisaggregatedCluster \<Rightarrow> 'w \<Rightarrow> (DorisDisaggregatedCluster \<times> go_error option) \<times> 'w"

definition keep_ddc ::
    "(DorisDisaggregatedCluster \<Rightarrow> 'w \<Rightarrow> (bool \<times> go_error option) \<times> 'w)
     \<Rightarrow> DorisDisaggregatedCluster \<Rightarrow> 'w \<Rightarrow> (DorisDisaggregatedCluster \<times> bool \<times> go_error option) \<times> 'w" where
  "keep_ddc f ddc w = (case f ddc w of (r, w) \<Rightarrow> ((ddc, r), w))"

definition msController :: "('w, 'x) cluster_env_scheme \<Rightarrow> 'w DisaggregatedSubController" where
  "msController K = \<lparr>sc_Name = ''metaServiceController'', sc_Sync = SyncMS K,
     sc_ClearResources = keep_ddc (ClearMSResources K), sc_UpdateComponentStatus = UpdateMSStatus K\<rparr>"

definition feController :: "('w, 'x) cluster_env_scheme \<Rightarrow> 'w DisaggregatedSubController" where
  "feController K = \<lparr>sc_Name = ''disaggregatedFEController'', sc_Sync = SyncFE K,
     sc_ClearResources = keep_ddc (ClearFEResources K), sc_UpdateComponentStatus = UpdateFEStatus K\<rparr>"

definition cgController :: "('w, 'x) cluster_env_scheme \<Rightarrow> 'w DisaggregatedSubController" where
  "cgController K = \<lparr>sc_Name = ''disaggregatedComputeGroupsController'', sc_Sync = SyncCG K True,
     sc_ClearResources = ClearResources K, sc_UpdateComponentStatus = UpdateComponentStatus K\<rparr>"

definition initScs :: "('w, 'x) cluster_env_scheme \<Rightarrow> 'w DisaggregatedSubController list" where
  "initScs K = [msController K, feController K, cgController K]"

section \<open>The three loops\<close>

text \<open>
  \<^verbatim>\<open>reconcileSub\<close> collects the texts of the errors. A panic ends the pass; it is the
  left value of every loop.
\<close>

fun syncSubs ::
    "'w DisaggregatedSubController list \<Rightarrow> DorisDisaggregatedCluster \<Rightarrow> string list \<Rightarrow> 'w
     \<Rightarrow> (go_error + DorisDisaggregatedCluster \<times> string list) \<times> 'w" where
  "syncSubs [] ddc errs w = (Inr (ddc, errs), w)"
| "syncSubs (subC # scs) ddc errs w =
     (case sc_Sync subC ddc w of
        ((ddc, None), w) \<Rightarrow> syncSubs scs ddc errs w
      | ((ddc, Some e), w) \<Rightarrow>
          (if is_panic e then (Inl e, w) else syncSubs scs ddc (errs @ [error_text e]) w))"

definition reconcileSub ::
    "'w DisaggregatedSubController list \<Rightarrow> DorisDisaggregatedCluster \<Rightarrow> 'w
     \<Rightarrow> (go_error + DorisDisaggregatedCluster \<times> go_error option) \<times> 'w" where
  "reconcileSub scs ddc =
     bindW (syncSubs scs ddc []) (\<lambda>(ddc, errs).
       liftW (Inr (ddc, if errs = [] then None else Some (ErrorString (concat errs)))))"

fun clearUnusedResources ::
    "'w DisaggregatedSubController list \<Rightarrow> DorisDisaggregatedCluster \<Rightarrow> 'w
     \<Rightarrow> (go_error + DorisDisaggregatedCluster) \<times> 'w" where
  "clearUnusedResources [] ddc w = (Inr ddc, w)"
| "clearUnusedResources (subC # scs) ddc w =
     (case sc_ClearResources subC ddc w of
        ((ddc, _, None), w) \<Rightarrow> clearUnusedResources scs ddc w
      | ((ddc, _, Some e), w) \<Rightarrow> (if is_panic e then (Inl e, w) else clearUnusedResources scs ddc w))"

fun updateStatuses ::
    "'w DisaggregatedSubController list \<Rightarrow> DorisDisaggregatedCluster \<Rightarrow> 'w
     \<Rightarrow> (go_error + DorisDisaggregatedCluster) \<times> 'w" where
  "updateStatuses [] ddc w = (Inr ddc, w)"
| "updateStatuses (subC # scs) ddc w =
     (case sc_UpdateComponentStatus subC ddc w of
        ((ddc, None), w) \<Rightarrow> updateStatuses scs ddc w
      | ((ddc, Some e), w) \<Rightarrow> (if is_panic e then (Inl e, w) else updateStatuses scs ddc w))"

section \<open>Health\<close>

definition Green :: string where "Green = ''green''"
definition Yellow :: string where "Yellow = ''yellow''"
definition Red :: string where "Red = ''red''"

text \<open>\<^verbatim>\<open>ctrl.Result\<close>; the delay is in seconds.\<close>

record ctrl_Result =
  res_Requeue :: bool
  res_RequeueAfter :: int

definition zero_Result :: ctrl_Result where
  "zero_Result = \<lparr>res_Requeue = False, res_RequeueAfter = 0\<rparr>"

definition requeue_after :: "int \<Rightarrow> ctrl_Result" where
  "requeue_after s = zero_Result\<lparr>res_RequeueAfter := s\<rparr>"

text \<open>\<^verbatim>\<open>CGCount/2\<close> truncates toward zero.\<close>

definition cluster_health_of :: "ddc_status \<Rightarrow> string" where
  "cluster_health_of s =
     (let h = status_ClusterHealth s; ms = status_MetaServiceStatus s; fe = status_FEStatus s
      in if mss_AvailableStatus ms \<noteq> Available \<or> fs_AvailableStatus fe \<noteq> Available \<or>
            ch_CGAvailableCount h \<le> ch_CGCount h sdiv 2 then Red
         else if mss_Phase ms \<noteq> Ready \<or> fs_Phase fe \<noteq> Ready \<or> ch_CGAvailableCount h < ch_CGCount h then Yellow
         else Green)"

definition evaluateHealth :: "DorisDisaggregatedCluster \<Rightarrow> DorisDisaggregatedCluster" where
  "evaluateHealth ddc =
     (let s = (ddc_Status ddc)\<lparr>status_ObservedGeneration := ddc_Generation ddc\<rparr>
      in ddc\<lparr>ddc_Status := s\<lparr>status_ClusterHealth := (status_ClusterHealth s)\<lparr>ch_Health := cluster_health_of s\<rparr>\<rparr>\<rparr>)"

definition reorganizeStatus ::
    "'w DisaggregatedSubController list \<Rightarrow> DorisDisaggregatedCluster \<Rightarrow> 'w
     \<Rightarrow> (go_error + DorisDisaggregatedCluster \<times> ctrl_Result) \<times> 'w" where
  "reorganizeStatus scs ddc =
     bindW (updateStatuses scs ddc) (\<lambda>ddc.
       let ddc = evaluateHealth ddc; s = ddc_Status ddc; h = status_ClusterHealth s
       in liftW (Inr (ddc,
            if mss_Phase (status_MetaServiceStatus s) \<noteq> Ready \<or> fs_Phase (status_FEStatus s) \<noteq> Ready \<or>
               ch_CGAvailableCount h \<noteq> ch_CGCount h
            then zero_Result\<lparr>res_Requeue := True\<rparr> else zero_Result)))"

section \<open>Writing the object or its status\<close>

fun shouldRequeueComputeGroupPhase :: "Phase \<Rightarrow> bool" where
  "shouldRequeueComputeGroupPhase Reconciling = True"
| "shouldRequeueComputeGroupPhase Scaling = True"
| "shouldRequeueComputeGroupPhase ScaleDownFailed = True"
| "shouldRequeueComputeGroupPhase ResumeFailed = True"
| "shouldRequeueComputeGroupPhase SuspendFailed = True"
| "shouldRequeueComputeGroupPhase GracefulRolling = True"
| "shouldRequeueComputeGroupPhase GracefulScaling = True"
| "shouldRequeueComputeGroupPhase GracefulDeleting = True"
| "shouldRequeueComputeGroupPhase _ = False"

definition reconcile_annotations :: "DorisDisaggregatedCluster \<Rightarrow> string list" where
  "reconcile_annotations ddc =
     UpdateStatefulsetName (GetFEStatefulsetName ddc) # UpdateStatefulsetName (GetMSStatefulsetName ddc) #
     map (\<lambda>cg. UpdateStatefulsetName (GetCGStatefulsetName ddc cg)) (ddc_ComputeGroups ddc)"

definition clearReconcileAnnotations :: "DorisDisaggregatedCluster \<Rightarrow> DorisDisaggregatedCluster" where
  "clearReconcileAnnotations ddc =
     ddc\<lparr>ddc_Annotations := foldl (\<lambda>m k. m(k := None)) (ddc_Annotations ddc) (reconcile_annotations ddc)\<rparr>"

definition disAggregatedInconsistentStatus :: "ddc_status \<Rightarrow> DorisDisaggregatedCluster \<Rightarrow> bool" where
  "disAggregatedInconsistentStatus ests ddc = (ests = ddc_Status ddc)"

text \<open>The closure given to \<^verbatim>\<open>RetryOnConflict\<close>.\<close>

definition writeStatus ::
    "('w, 'x) cluster_env_scheme \<Rightarrow> DorisDisaggregatedCluster \<Rightarrow> DorisDisaggregatedCluster \<Rightarrow> 'w
     \<Rightarrow> (go_error option \<times> DorisDisaggregatedCluster) \<times> 'w" where
  "writeStatus K ddc eddc w =
     (case GetDDC K (ddc_Namespace ddc) (ddc_Name ddc) w of
        (Inl e, w) \<Rightarrow> ((Some e, eddc), w)
      | (Inr eddc, w) \<Rightarrow>
          (let eddc = eddc\<lparr>ddc_Status := ddc_Status ddc\<rparr>
           in case UpdateDDCStatus K eddc w of
                (Inl e, w) \<Rightarrow> ((Some e, eddc), w)
              | (Inr eddc, w) \<Rightarrow> ((None, eddc), w)))"

definition updateDorisDisaggregatedClusterStatus ::
    "('w, 'x) cluster_env_scheme \<Rightarrow> DorisDisaggregatedCluster \<Rightarrow> 'w \<Rightarrow> ctrl_Result \<times> 'w" where
  "updateDorisDisaggregatedClusterStatus K ddc w =
     (case RetryOnConflict K (writeStatus K ddc) zero_ddc w of
        ((_, eddc), w) \<Rightarrow>
          (if \<not> disAggregatedInconsistentStatus (ddc_Status ddc) eddc then requeue_after 5 else zero_Result, w))"

definition HashSpec :: "('w, 'x) cluster_env_scheme \<Rightarrow> ddc_spec \<Rightarrow> string" where
  "HashSpec K s = hash_text (SpewSpec K s)"

text \<open>
  The object is written when the pass changed its specification. The response replaces
  \<^verbatim>\<open>ddc\<close>, the copy keeps the new status. Only the annotations and the resource version of
  the written object differ from the copy.
\<close>

definition updateObject ::
    "('w, 'x) cluster_env_scheme \<Rightarrow> DorisDisaggregatedCluster \<Rightarrow> 'w \<Rightarrow> DorisDisaggregatedCluster \<times> 'w" where
  "updateObject K ddc w =
     (case GetDDC K (ddc_Namespace ddc) (ddc_Name ddc) w of
        (r, w) \<Rightarrow>
          (let ddc = (case r of
                 Inl e \<Rightarrow> ddc
               | Inr eddc \<Rightarrow> if ddc_ResourceVersion eddc \<noteq> ''''
                            then ddc\<lparr>ddc_ResourceVersion := ddc_ResourceVersion eddc\<rparr> else ddc)
           in case UpdateDDC K ddc w of
                (Inl e, w) \<Rightarrow> (ddc, w)
              | (Inr ddc, w) \<Rightarrow> (ddc, w)))"

definition updateObjectORStatus ::
    "('w, 'x) cluster_env_scheme \<Rightarrow> DorisDisaggregatedCluster \<Rightarrow> string \<Rightarrow> 'w
     \<Rightarrow> (ctrl_Result \<times> DorisDisaggregatedCluster) \<times> 'w" where
  "updateObjectORStatus K ddc preHv w =
     (let postHv = HashSpec K (ddc_Spec ddc);
          deepCopyDDC = clearReconcileAnnotations ddc;
          (ddc, w) = (if preHv \<noteq> postHv then updateObject K deepCopyDDC w else (deepCopyDDC, w));
          (res, w) = updateDorisDisaggregatedClusterStatus K deepCopyDDC w
      in ((if list_ex (\<lambda>cgs. cgs_Phase cgs = Decommissioning \<or> shouldRequeueComputeGroupPhase (cgs_Phase cgs))
                (ddc_ComputeGroupStatuses ddc) then requeue_after 10
           else if ch_Health (status_ClusterHealth (ddc_Status ddc)) \<noteq> Green then requeue_after 10
           else res, ddc), w))"

section \<open>Reconcile\<close>

text \<open>
  The result and the error of a pass over a cluster that was read, and of a request. A
  failed read that is not a missing object goes on with the empty cluster. \<open>Inl\<close> is a
  panic. The result of \<^verbatim>\<open>reorganizeStatus\<close> is overwritten.
\<close>

definition reconcileCluster ::
    "('w, 'x) cluster_env_scheme \<Rightarrow> 'w DisaggregatedSubController list \<Rightarrow> 'w DisaggregatedSubController list
     \<Rightarrow> 'w DisaggregatedSubController list \<Rightarrow> DorisDisaggregatedCluster \<Rightarrow> 'w
     \<Rightarrow> (go_error + ctrl_Result \<times> go_error option) \<times> 'w" where
  "reconcileCluster K syncOrder clearOrder statusOrder ddc =
     (let hv = HashSpec K (ddc_Spec ddc)
      in bindW (reconcileSub syncOrder ddc) (\<lambda>(ddc, reconErr).
         bindW (clearUnusedResources clearOrder ddc) (\<lambda>ddc.
         bindW (reorganizeStatus statusOrder ddc) (\<lambda>(ddc, _).
         bindW (readW (updateObjectORStatus K ddc hv)) (\<lambda>(res, _).
           liftW (Inr (res, reconErr)))))))"

definition Reconcile ::
    "('w, 'x) cluster_env_scheme \<Rightarrow> 'w DisaggregatedSubController list \<Rightarrow> 'w DisaggregatedSubController list
     \<Rightarrow> 'w DisaggregatedSubController list \<Rightarrow> string \<Rightarrow> string \<Rightarrow> 'w
     \<Rightarrow> (go_error + ctrl_Result \<times> go_error option) \<times> 'w" where
  "Reconcile K syncOrder clearOrder statusOrder ns name w =
     (case GetDDC K ns name w of
        (Inl e, w) \<Rightarrow>
          (if IsNotFound e then (Inr (zero_Result, None), w)
           else reconcileCluster K syncOrder clearOrder statusOrder zero_ddc w)
      | (Inr ddc, w) \<Rightarrow> reconcileCluster K syncOrder clearOrder statusOrder ddc w)"

end
