(* ===== verification/Volume_Props.thy ===== *)
theory Volume_Props
  imports Disagg_Volumes Memory_Cluster "HOL-Library.Sublist"
begin

text \<open>
  Properties of volumes and claims: when the names generated for mount paths are distinct,
  that every mount of a component is backed by a volume, and that claims only grow.
\<close>

section \<open>Names of paths\<close>

text \<open>
  The components of a path, from last to first, and the name made of some of them.
\<close>

definition components :: "string \<Rightarrow> string list" where
  "components path = filter (\<lambda>c. c \<noteq> '''') (rev (Split path ''/''))"

fun dashed :: "string list \<Rightarrow> string" where
  "dashed [] = ''''"
| "dashed (c # cs) = (if cs = [] then c else dashed cs @ ''-'' @ c)"

definition dashfree :: "string list \<Rightarrow> bool" where
  "dashfree cs = (\<forall>c\<in>set cs. c \<noteq> '''' \<and> CHR ''-'' \<notin> set c)"

lemma dashed_snoc: "cs \<noteq> [] \<Longrightarrow> dashed (cs @ [c]) = c @ ''-'' @ dashed cs"
  by (induction cs) auto

lemma dashed_Nil_iff: "dashfree cs \<Longrightarrow> dashed cs = '''' \<longleftrightarrow> cs = []"
  by (cases cs) (auto simp: dashfree_def)

lemma last_dash:
  assumes "xs @ x # c = ys @ x # d" "x \<notin> set c" "x \<notin> set d"
  shows "xs = ys \<and> c = d"
proof -
  have "rev c = takeWhile (\<lambda>z. z \<noteq> x) (rev (xs @ x # c))"
    using assms(2) by (auto simp: takeWhile_append takeWhile_eq_all_conv)
  moreover have "rev d = takeWhile (\<lambda>z. z \<noteq> x) (rev (ys @ x # d))"
    using assms(3) by (auto simp: takeWhile_append takeWhile_eq_all_conv)
  ultimately have "c = d" using assms(1) by (metis rev_rev_ident)
  then show ?thesis using assms(1) by simp
qed

lemma dashed_inject:
  "dashfree cs \<Longrightarrow> dashfree ds \<Longrightarrow> dashed cs = dashed ds \<longleftrightarrow> cs = ds"
proof (induction cs arbitrary: ds)
  case Nil
  then show ?case using dashed_Nil_iff [of ds] by auto
next
  case (Cons c cs)
  then have c: "c \<noteq> ''''" "CHR ''-'' \<notin> set c" and cs: "dashfree cs" by (auto simp: dashfree_def)
  show ?case
  proof (cases ds)
    case Nil
    with c show ?thesis by simp
  next
    case (Cons d ds')
    with Cons.prems have d: "CHR ''-'' \<notin> set d" and ds': "dashfree ds'" by (auto simp: dashfree_def)
    have "dashed cs @ CHR ''-'' # c = dashed ds' @ CHR ''-'' # d \<longleftrightarrow> cs = ds' \<and> c = d"
      using last_dash [of "dashed cs" "CHR ''-''" c "dashed ds'" d] c d Cons.IH [OF cs ds'] by auto
    then show ?thesis using c d Cons by (auto split: if_splits)
  qed
qed

lemma path_name_skip: "path_name m cs n = path_name m (filter (\<lambda>c. c \<noteq> '''') cs) n"
  by (induction m cs n rule: path_name.induct) (auto simp: Let_def)

text \<open>
  The name of a path is made of its last components; unless it is free, all components are
  used and every shorter name is taken.
\<close>

lemma path_name_from:
  assumes "dashfree (ds @ cs)"
  shows "\<exists>k \<le> length cs. path_name m cs (dashed ds) = dashed (ds @ take k cs) \<and>
     (cs \<noteq> [] \<longrightarrow> 0 < k) \<and> (cs \<noteq> [] \<longrightarrow> m (dashed (ds @ take k cs)) = None \<or> k = length cs)"
  using assms
proof (induction cs arbitrary: ds)
  case Nil
  then show ?case by simp
next
  case (Cons c cs)
  have c: "c \<noteq> ''''" and ds: "dashfree ds" and ext: "dashfree ((ds @ [c]) @ cs)"
    using Cons.prems by (auto simp: dashfree_def)
  have name: "(if dashed ds = '''' then c else c @ ''-'' @ dashed ds) = dashed (ds @ [c])"
    using dashed_Nil_iff [OF ds] dashed_snoc [of ds c] by auto
  show ?case
  proof (cases "m (dashed (ds @ [c])) = None")
    case True
    with c name show ?thesis by (intro exI [of _ 1]) (simp add: Let_def)
  next
    case False
    then have step: "path_name m (c # cs) (dashed ds) = path_name m cs (dashed (ds @ [c]))"
      using c name by (auto simp: Let_def simp del: dashed.simps)
    obtain k where "k \<le> length cs"
        "path_name m cs (dashed (ds @ [c])) = dashed ((ds @ [c]) @ take k cs)"
        "cs \<noteq> [] \<longrightarrow> m (dashed ((ds @ [c]) @ take k cs)) = None \<or> k = length cs"
      using Cons.IH [OF ext] by blast
    with step show ?thesis by (intro exI [of _ "Suc k"]) auto
  qed
qed

lemma path_name_cases:
  assumes "dashfree (components p)" "components p \<noteq> []"
  shows "\<exists>k. 0 < k \<and> path_name m (rev (Split p ''/'')) '''' = dashed (take k (components p)) \<and>
     (m (dashed (take k (components p))) = None \<or> take k (components p) = components p)"
  using path_name_from [of "[]" "components p" m] assms path_name_skip [of m "rev (Split p ''/'')" "[]"]
  by (auto simp: components_def)

section \<open>Distinct names\<close>

text \<open>
  No path is the tail of another, and the components are free of dashes and underscores,
  so that names of different paths differ.
\<close>

definition separable :: "string list \<Rightarrow> bool" where
  "separable ps = (\<forall>p\<in>set ps. components p \<noteq> [] \<and> dashfree (components p) \<and>
     (\<forall>c\<in>set (components p). CHR ''_'' \<notin> set c) \<and>
     (\<forall>q\<in>set ps. prefix (components p) (components q) \<longrightarrow> p = q))"

definition named :: "string list \<Rightarrow> string list \<Rightarrow> string_map \<times> string_map \<Rightarrow> bool" where
  "named ps done_paths m =
     (case m of (namePath, pathName) \<Rightarrow>
        (\<forall>n p. namePath n = Some p \<longrightarrow> p \<in> set ps \<and> (\<exists>k. 0 < k \<and> n = dashed (take k (components p)))) \<and>
        (\<forall>p\<in>set done_paths. \<exists>n. pathName p = Some n \<and> namePath n = Some p))"

lemma dashfree_take: "dashfree cs \<Longrightarrow> dashfree (take k cs)"
  by (auto simp: dashfree_def dest: in_set_takeD)

lemma name_path_step:
  assumes sep: "separable ps" and p: "p \<in> set ps" and inv: "named ps ds m"
  shows "named ps (ds @ [p]) (name_path m p)"
proof -
  obtain np pn where m: "m = (np, pn)" by (cases m)
  have cp: "components p \<noteq> []" "dashfree (components p)" using sep p by (auto simp: separable_def)
  obtain k where k: "0 < k" "path_name np (rev (Split p ''/'')) '''' = dashed (take k (components p))"
      "np (dashed (take k (components p))) = None \<or> take k (components p) = components p"
    using path_name_cases [OF cp(2,1), of np] by blast
  let ?n = "dashed (take k (components p))"
  have own: "np ?n = None \<or> np ?n = Some p"
  proof (cases "np ?n")
    case (Some q)
    from inv m have "\<forall>n p. np n = Some p \<longrightarrow> p \<in> set ps \<and> (\<exists>k. 0 < k \<and> n = dashed (take k (components p)))"
      by (simp add: named_def)
    with Some obtain j where q: "q \<in> set ps" "?n = dashed (take j (components q))"
      by blast
    have "dashfree (components q)" using sep q(1) by (auto simp: separable_def)
    then have "take k (components p) = take j (components q)"
      using q(2) dashed_inject [OF dashfree_take [OF cp(2)] dashfree_take] by blast
    with k(3) Some have "prefix (components p) (components q)" by (metis option.discI take_is_prefix)
    then show ?thesis using sep p q(1) Some by (auto simp: separable_def)
  qed simp
  have step: "name_path m p = (np(?n \<mapsto> p), pn(p \<mapsto> ?n))" using k(2) m by (simp add: name_path_def Let_def)
  have "\<exists>n. (pn(p \<mapsto> ?n)) q = Some n \<and> (np(?n \<mapsto> p)) n = Some q" if "q \<in> set (ds @ [p])" for q
  proof (cases "q = p")
    case False
    with that inv m obtain n where "pn q = Some n" "np n = Some q" by (auto simp: named_def)
    with own False show ?thesis by (intro exI [of _ n]) auto
  qed simp
  then show ?thesis using inv k(1) p m unfolding step by (auto simp: named_def)
qed

lemma name_path_all:
  "separable ps \<Longrightarrow> set qs \<subseteq> set ps \<Longrightarrow> named ps ds m \<Longrightarrow> named ps (ds @ qs) (foldl name_path m qs)"
proof (induction qs arbitrary: ds m)
  case (Cons q qs)
  then show ?case using name_path_step [of ps q ds m] Cons.IH [of "ds @ [q]" "name_path m q"] by simp
qed simp

lemma path_names_inject:
  assumes sep: "separable ps" and "p \<in> set ps" "q \<in> set ps"
    "ReplaceAll (map_get (path_names ps) p) (CHR ''_'') (CHR ''-'') =
     ReplaceAll (map_get (path_names ps) q) (CHR ''_'') (CHR ''-'')"
  shows "p = q"
proof -
  obtain np pn where m: "foldl name_path (Map.empty, Map.empty) ps = (np, pn)" by fastforce
  then have inv: "named ps ps (np, pn)"
    using name_path_all [OF sep, of ps "[]" "(Map.empty, Map.empty)"] by (simp add: named_def)
  have names: "\<exists>n. map_get (path_names ps) r = n \<and> np n = Some r \<and> CHR ''_'' \<notin> set n"
    if r: "r \<in> set ps" for r
  proof -
    obtain n where n: "pn r = Some n" "np n = Some r" using inv r by (auto simp: named_def)
    then obtain k where "n = dashed (take k (components r))" using inv by (auto simp: named_def)
    moreover have "\<forall>c\<in>set cs. CHR ''_'' \<notin> set c \<Longrightarrow> CHR ''_'' \<notin> set (dashed cs)" for cs
      by (induction cs) auto
    ultimately have "CHR ''_'' \<notin> set n"
      using sep r by (auto simp: separable_def dest: in_set_takeD)
    with n m show ?thesis by (simp add: map_get_def path_names_def)
  qed
  have id: "CHR ''_'' \<notin> set n \<Longrightarrow> ReplaceAll n (CHR ''_'') (CHR ''-'') = n" for n
    by (induction n) (auto simp: ReplaceAll_def)
  from names [OF assms(2)] obtain n where "map_get (path_names ps) p = n" "np n = Some p" "CHR ''_'' \<notin> set n"
    by blast
  moreover from names [OF assms(3)] obtain o' where "map_get (path_names ps) q = o'" "np o' = Some q" "CHR ''_'' \<notin> set o'"
    by blast
  ultimately show ?thesis using assms(4) id [of n] id [of o'] by simp
qed


lemma claim_volume_fields [simp]:
  "v_Name (fst (claim_volume K n p pv)) = n"
  "vm_Name (fst (snd (claim_volume K n p pv))) = n" "vm_MountPath (fst (snd (claim_volume K n p pv))) = p"
  "pvc_Name (snd (snd (claim_volume K n p pv))) = n"
  "pvc_Spec (snd (snd (claim_volume K n p pv))) = pv_ClaimSpec pv"
  by (simp_all add: claim_volume_def mount_def)

lemma distinct_concat_map:
  assumes "distinct xs" "\<And>x. x \<in> set xs \<Longrightarrow> g x = [] \<or> g x = [f x]" "inj_on f (set xs)"
  shows "distinct (concat (map g xs))"
  using assms
proof (induction xs)
  case (Cons x xs)
  have "set (concat (map g xs)) \<subseteq> f ` set xs" using Cons.prems(2) by fastforce
  moreover have "f x \<notin> f ` set xs" using Cons.prems by (auto simp: inj_on_def)
  moreover have "g x = [] \<or> g x = [f x]" using Cons.prems(2) by simp
  moreover have "distinct (concat (map g xs))" using Cons by (simp add: inj_on_def)
  ultimately show ?case by (auto simp del: set_concat)
qed simp

lemma build_paths:
  "storedPaths cs confMap ct = Inr ps \<Longrightarrow>
   PersistentVolumeArrayBuildVolumesVolumeMountsAndPVCs K cs confMap ct =
   Inr (unzip3 (concat (map (claims_of_path K (cms_PersistentVolumes cs) (path_names ps)) (rev (remdups ps)))))"
  by (simp add: PersistentVolumeArrayBuildVolumesVolumeMountsAndPVCs_def)

text \<open>
  C37. Where no configured path is the tail of another and no component of a path holds a
  dash or an underscore, the volumes, the mounts and the claim templates built from
  several persistent volumes correspond one to one and their names are distinct, as
  Kubernetes demands of a pod.
\<close>

theorem volume_names_distinct:
  assumes "PersistentVolumeArrayBuildVolumesVolumeMountsAndPVCs K cs confMap ct = Inr (vs, vms, pvcs)"
    and "storedPaths cs confMap ct = Inr ps" "separable ps"
  shows "distinct (map v_Name vs) \<and> map vm_Name vms = map v_Name vs \<and> map pvc_Name pvcs = map v_Name vs \<and>
    distinct (map vm_MountPath vms) \<and> set (map vm_MountPath vms) \<subseteq> set ps"
proof -
  let ?name = "\<lambda>p. ReplaceAll (map_get (path_names ps) p) (CHR ''_'') (CHR ''-'')"
  let ?pick = "volume_of_path (cms_PersistentVolumes cs)"
  let ?g = "claims_of_path K (cms_PersistentVolumes cs) (path_names ps)"
  let ?xs = "rev (remdups ps)"
  have "(vs, vms, pvcs) = unzip3 (concat (map ?g ?xs))"
    using assms(1,2) by (simp add: build_paths)
  then have fields: "vs = concat (map (\<lambda>p. map fst (?g p)) ?xs)"
      "vms = concat (map (\<lambda>p. map (fst \<circ> snd) (?g p)) ?xs)"
      "pvcs = concat (map (\<lambda>p. map (snd \<circ> snd) (?g p)) ?xs)"
    by (simp_all add: unzip3_def map_concat comp_def)
  have names: "map v_Name vs = concat (map (\<lambda>p. if ?pick p = None then [] else [?name p]) ?xs)"
      "map vm_Name vms = concat (map (\<lambda>p. if ?pick p = None then [] else [?name p]) ?xs)"
      "map pvc_Name pvcs = concat (map (\<lambda>p. if ?pick p = None then [] else [?name p]) ?xs)"
      "map vm_MountPath vms = concat (map (\<lambda>p. if ?pick p = None then [] else [p]) ?xs)"
    unfolding fields map_concat map_map
    by (auto intro!: arg_cong [where f = concat] simp: claims_of_path_def split: option.split)
  have inj: "inj_on ?name (set ?xs)"
    using path_names_inject [OF assms(3)] by (intro inj_onI) auto
  have "distinct (map v_Name vs)"
    unfolding names(1) by (rule distinct_concat_map [where f = ?name]) (use inj in auto)
  moreover have "distinct (map vm_MountPath vms)"
    unfolding names(4) by (rule distinct_concat_map [where f = "\<lambda>p. p"]) auto
  moreover have "set (map vm_MountPath vms) \<subseteq> set ps" unfolding names by (auto split: if_splits)
  ultimately show ?thesis unfolding names(2,3) names(1) [symmetric] by simp
qed

definition data_volume :: "string list \<Rightarrow> persistent_volume" where
  "data_volume paths = \<lparr>pv_ClaimSpec = \<lparr>cl_AccessModes = [''ReadWriteOnce''], cl_StorageClassName = None,
       cl_Storage = 10, cl_VolumeMode = None\<rparr>,
     pv_MountPaths = paths, pv_LogNotStore = True, pv_Annotations = Map.empty,
     pv_PVCProvisioner = PVCProvisionerOperator\<rparr>"

definition data_spec :: "string list \<Rightarrow> common_spec" where
  "data_spec paths = zero_common_spec\<lparr>cms_Replicas := Some 1, cms_PersistentVolumes := [data_volume paths]\<rparr>"

lemma data_spec_paths: "storedPaths (data_spec ps) [] DisaggregatedMS = Inr ps"
  by (simp add: storedPaths_def data_spec_def data_volume_def)

lemma data_claims:
  "p \<in> set ps \<Longrightarrow> claims_of_path K (cms_PersistentVolumes (data_spec ps)) pn p =
     [claim_volume K (ReplaceAll (map_get pn p) (CHR ''_'') (CHR ''-'')) p (data_volume ps)]"
  by (simp add: claims_of_path_def volume_of_path_def path_volume_def data_spec_def data_volume_def)

lemma volume_names_distinct_witness:
  "\<exists>vs vms pvcs.
     PersistentVolumeArrayBuildVolumesVolumeMountsAndPVCs mem_env (data_spec [''/data/one'', ''/data/two'']) []
       DisaggregatedMS = Inr (vs, vms, pvcs) \<and>
     storedPaths (data_spec [''/data/one'', ''/data/two'']) [] DisaggregatedMS = Inr [''/data/one'', ''/data/two''] \<and>
     separable [''/data/one'', ''/data/two''] \<and>
     length vs = 2 \<and> distinct (map v_Name vs) \<and> map vm_Name vms = map v_Name vs \<and>
     map pvc_Name pvcs = map v_Name vs \<and> distinct (map vm_MountPath vms)"
proof -
  let ?ps = "[''/data/one'', ''/data/two'']"
  have parts: "components ''/data/one'' = [''one'', ''data'']" "components ''/data/two'' = [''two'', ''data'']"
    by code_simp+
  have sep: "separable ?ps" by (simp add: separable_def parts dashfree_def)
  obtain vs vms pvcs where b:
      "PersistentVolumeArrayBuildVolumesVolumeMountsAndPVCs mem_env (data_spec ?ps) [] DisaggregatedMS =
       Inr (vs, vms, pvcs)" "length vs = 2"
    by (simp add: build_paths [OF data_spec_paths] unzip3_def data_claims)
  then show ?thesis using volume_names_distinct [OF b(1) data_spec_paths sep] sep data_spec_paths by blast
qed

text \<open>
  A path that is the tail of another gets the same name: the two volumes of a pod, and the
  two claim templates, then have one name.
\<close>

lemma volume_names_collide:
  "\<exists>v1 v2 vms pvcs.
     PersistentVolumeArrayBuildVolumesVolumeMountsAndPVCs K (data_spec [''/data/log'', ''/log'']) []
       DisaggregatedMS = Inr ([v1, v2], vms, pvcs) \<and> v_Name v1 = v_Name v2 \<and>
     map vm_MountPath vms = [''/log'', ''/data/log'']"
proof -
  let ?ps = "[''/data/log'', ''/log'']"
  have "map_get (path_names ?ps) ''/data/log'' = ''log''" "map_get (path_names ?ps) ''/log'' = ''log''"
    by code_simp+
  then show ?thesis
    by (simp add: build_paths [OF data_spec_paths] unzip3_def data_claims)
qed

section \<open>Claims only grow\<close>

text \<open>
  \<open>guard_claims d f olds\<close> lets a patch of a claim through to the API server only when it
  is larger than a claim of the same name in \<open>olds\<close>; any other patch is answered by \<open>f\<close>,
  and a deletion by \<open>d\<close>.
\<close>

definition larger_claim :: "pvc list \<Rightarrow> pvc \<Rightarrow> bool" where
  "larger_claim olds c =
     list_ex (\<lambda>old. pvc_Name old = pvc_Name c \<and> cl_Storage (pvc_Spec old) < cl_Storage (pvc_Spec c)) olds"

definition guard_claims ::
    "(string \<Rightarrow> string \<Rightarrow> string_map \<Rightarrow> 'w \<Rightarrow> go_error option \<times> 'w)
     \<Rightarrow> (pvc \<Rightarrow> 'w \<Rightarrow> go_error option \<times> 'w) \<Rightarrow> pvc list \<Rightarrow> ('w, 'x) kube_env_scheme \<Rightarrow> ('w, 'x) kube_env_scheme" where
  "guard_claims d f olds K =
     K\<lparr>PatchPvc := \<lambda>c. if larger_claim olds c then PatchPvc K c else f c, DeletePvcObj := d\<rparr>"

lemma guard_fields [frame_simps]:
  "PatchPvc (guard_claims d f olds K) c = (if larger_claim olds c then PatchPvc K c else f c)"
  "CreatePvc (guard_claims d f olds K) = CreatePvc K" "ListPvcs (guard_claims d f olds K) = ListPvcs K"
  "Eventf (guard_claims d f olds K) = Eventf K"
  by (simp_all add: guard_claims_def)

lemma guard_notices [frame_simps]:
  "warn (guard_claims d f olds K) = warn K" "notice (guard_claims d f olds K) = notice K"
  by (simp_all add: warn_def notice_def frame_simps fun_eq_iff)

text \<open>The claims that the loop carries along: those listed, some of them grown.\<close>

definition grown :: "pvc list \<Rightarrow> pvc list \<Rightarrow> bool" where
  "grown = list_all2 (\<lambda>old c. pvc_Name old = pvc_Name c \<and> cl_Storage (pvc_Spec old) \<le> cl_Storage (pvc_Spec c))"

lemma grown_refl: "grown olds olds"
  by (simp add: grown_def list_all2_same)

lemma grown_larger:
  "grown olds cur \<Longrightarrow> getPvc cur n = Some c \<Longrightarrow> cl_Storage (pvc_Spec c) < q \<Longrightarrow>
   larger_claim olds (set_storage q c)"
  unfolding grown_def
proof (induction rule: list_all2_induct)
  case (Cons old olds c' cur)
  then show ?case
    by (cases "pvc_Name c' = n") (auto simp: larger_claim_def getPvc_def set_storage_def)
qed (simp add: getPvc_def)

lemma grown_update:
  "grown olds cur \<Longrightarrow> getPvc cur n = Some c \<Longrightarrow> cl_Storage (pvc_Spec c) < q \<Longrightarrow>
   grown olds (update_first (\<lambda>c. pvc_Name c = n) (set_storage q) cur)"
  unfolding grown_def
  by (induction rule: list_all2_induct) (auto simp: getPvc_def set_storage_def)

lemma reconcileClaim_guarded:
  assumes "grown olds cur"
  shows "reconcileClaim (guard_claims d f olds K) ddc cur p w = reconcileClaim K ddc cur p w"
    and "fst (reconcileClaim K ddc cur p w) = Inr cur' \<Longrightarrow> grown olds cur'"
  using assms grown_larger [OF assms] grown_update [OF assms]
  by (auto simp: reconcileClaim_def Let_def frame_simps split: option.splits prod.splits if_splits)

lemma reconcileClaims_guarded:
  assumes "grown olds cur"
  shows "reconcileClaims (guard_claims d f olds K) ddc cur ps w = reconcileClaims K ddc cur ps w \<and>
    (\<forall>cur'. fst (reconcileClaims K ddc cur ps w) = Inr cur' \<longrightarrow> grown olds cur')"
  using assms
proof (induction ps arbitrary: cur w)
  case (Cons p ps)
  obtain r w' where step: "reconcileClaim K ddc cur p w = (r, w')" by fastforce
  then have "reconcileClaim (guard_claims d f olds K) ddc cur p w = (r, w')"
      "\<And>cur'. r = Inr cur' \<Longrightarrow> grown olds cur'"
    using reconcileClaim_guarded [OF Cons.prems] by (metis, metis fst_conv)
  with step Cons.IH show ?case by (cases r) auto
qed simp

lemma reconcileTemplates_guarded:
  "grown olds cur \<Longrightarrow>
   reconcileTemplates (guard_claims d f olds K) ddc sts replicas cur ts w =
   reconcileTemplates K ddc sts replicas cur ts w"
proof (induction ts arbitrary: cur w)
  case (Cons t ts)
  show ?case
  proof (cases replicas)
    case (Some n)
    let ?ps = "map (\<lambda>ordinal. BuildDisaggregatedPVC t (sts_Selector sts) (ddc_Namespace ddc)
        (sts_Name sts) (Itoa (int ordinal))) [0..<nat n]"
    obtain r w' where "reconcileClaims K ddc cur ?ps w = (r, w')" by fastforce
    with reconcileClaims_guarded [OF Cons.prems, of d f K ddc ?ps w] Some Cons show ?thesis
      by (cases r) auto
  qed (use Cons in auto)
qed simp

lemma guard_hash [frame_simps]: "SpewClaim (guard_claims d f olds K) = SpewClaim K"
  by (simp add: guard_claims_def)

lemma guard_volumes [frame_simps]:
  "BuildVolumesVolumeMountsAndPVCs (guard_claims d f olds K) confMap ct cs =
   BuildVolumesVolumeMountsAndPVCs K confMap ct cs"
proof -
  have claim: "claim_volume (guard_claims d f olds K) = claim_volume K"
    by (simp add: claim_volume_def BuildDisaggregatedPVCAnnotations_def frame_simps fun_eq_iff)
  show ?thesis
    unfolding BuildVolumesVolumeMountsAndPVCs_def PersistentVolumeBuildVolumesVolumeMountsAndPVCs_def
      PersistentVolumeArrayBuildVolumesVolumeMountsAndPVCs_def claims_of_path_def claim by (rule refl)
qed

text \<open>
  C33. Storage is never taken away: the claims of a component are patched only to a size
  above the one the API server listed, and none is deleted. The reconcile of the claims
  gives the same result, whatever the API server would answer to a patch that does not
  enlarge a listed claim or to a deletion.
\<close>

theorem claims_never_shrink:
  assumes "ListPvcs K (ddc_Namespace ddc) (sts_Selector sts) w = (Inr olds, w')"
  shows "ReconcilePVC (guard_claims d f olds K) ddc cm ct sts cg w = ReconcilePVC K ddc cm ct sts cg w"
  using assms by (simp add: ReconcilePVC_def frame_simps reconcileTemplates_guarded [OF grown_refl] split: sum.split)

definition data_claim :: pvc where
  "data_claim = \<lparr>pvc_Name = ''one-c-ms-0'', pvc_Namespace = '''', pvc_Labels = Map.empty,
     pvc_Annotations = Map.empty, pvc_Finalizers = [],
     pvc_Spec = (pv_ClaimSpec (data_volume []))\<lparr>cl_Storage := 5\<rparr>\<rparr>"

definition data_cluster :: DorisDisaggregatedCluster where
  "data_cluster = set_MsCommonSpec (data_spec [''/data/one'']) zero_ddc"

definition data_sts :: statefulset where
  "data_sts = zero_sts\<lparr>sts_Name := ''c-ms''\<rparr>"

definition data_world :: world where
  "data_world = zero_world\<lparr>w_Pvcs := [data_claim]\<rparr>"

lemma claims_never_shrink_witness:
  "ListPvcs mem_env (ddc_Namespace data_cluster) (sts_Selector data_sts) data_world = (Inr [data_claim], data_world) \<and>
   map (cl_Storage \<circ> pvc_Spec) (w_Pvcs (snd
     (ReconcilePVC (guard_claims (\<lambda>_ _ _ w. (None, zero_world)) (\<lambda>_ w. (None, zero_world)) [data_claim] mem_env)
        data_cluster [] DisaggregatedMS data_sts None data_world))) = [10]"
proof -
  have listed: "ListPvcs mem_env (ddc_Namespace data_cluster) (sts_Selector data_sts) data_world =
      (Inr [data_claim], data_world)"
    by (simp add: mem_env_def data_cluster_def data_sts_def data_world_def data_claim_def zero_sts_def
        zero_ddc_def set_MsCommonSpec_def mem_selects_def label_keys_def)
  have "map (cl_Storage \<circ> pvc_Spec) (w_Pvcs (snd
      (ReconcilePVC mem_env data_cluster [] DisaggregatedMS data_sts None data_world))) = [10]"
    by code_simp
  with claims_never_shrink [OF listed, of "\<lambda>_ _ _ w. (None, zero_world)" "\<lambda>_ w. (None, zero_world)"] listed
  show ?thesis by simp
qed

end
