(* ===== verification/Template_Props.thy ===== *)
theory Template_Props
  imports Compute_Sync Volume_Props
begin

text \<open>
  The StatefulSets that the three sub-controllers build are well formed: the template
  carries the labels of the selector, every mount of a container names a volume, and every
  volume taken from a claim has a claim template.
\<close>

section \<open>Well-formed StatefulSets\<close>

definition backed :: "volume list \<Rightarrow> container list \<Rightarrow> bool" where
  "backed vs cs = (\<forall>c\<in>set cs. vm_Name ` set (c_VolumeMounts c) \<subseteq> v_Name ` set vs)"

fun claim_name :: "volume_source \<Rightarrow> string option" where
  "claim_name (ClaimSource n) = Some n"
| "claim_name _ = None"

definition claimed :: "volume list \<Rightarrow> pvc list \<Rightarrow> bool" where
  "claimed vs pvcs = (\<forall>v\<in>set vs. \<forall>n. claim_name (v_Source v) = Some n \<longrightarrow> n \<in> set (map pvc_Name pvcs))"

definition well_formed :: "statefulset \<Rightarrow> bool" where
  "well_formed st =
     (sts_Selector st \<subseteq>\<^sub>m pt_Labels (sts_Template st) \<and>
      backed (pt_Volumes (sts_Template st)) (pt_Containers (sts_Template st)) \<and>
      claimed (pt_Volumes (sts_Template st)) (sts_VolumeClaimTemplates st))"

named_theorems template_simps

lemma claimed_append [template_simps]: "claimed (us @ vs) pvcs \<longleftrightarrow> claimed us pvcs \<and> claimed vs pvcs"
  by (auto simp: claimed_def)

lemma claimed_simps [template_simps]: "claimed [] pvcs" 
  "claimed (v # vs) pvcs \<longleftrightarrow>
     (\<forall>n. claim_name (v_Source v) = Some n \<longrightarrow> n \<in> set (map pvc_Name pvcs)) \<and> claimed vs pvcs"
  by (auto simp: claimed_def)

lemma unzip3_triples:
  assumes "\<forall>t\<in>set ts. \<exists>n p pv. t = claim_volume K n p pv" "unzip3 ts = (vs, vms, pvcs)"
  shows "map vm_Name vms = map v_Name vs" "claimed vs pvcs"
proof -
  have fields: "vs = map fst ts" "vms = map (fst \<circ> snd) ts" "pvcs = map (snd \<circ> snd) ts"
    using assms(2) by (simp_all add: unzip3_def)
  have "vm_Name (fst (snd t)) = v_Name (fst t) \<and> claim_name (v_Source (fst t)) = Some (pvc_Name (snd (snd t)))"
    if "t \<in> set ts" for t
    using assms(1) that by (auto simp: claim_volume_def mount_def)
  then show "map vm_Name vms = map v_Name vs" "claimed vs pvcs" by (auto simp: fields claimed_def)
qed

lemma empty_dirs_backed:
  "getEmptyDirVolumesVolumeMounts confMap ct = Inr (vs, vms) \<Longrightarrow>
   map vm_Name vms = map v_Name vs \<and> claimed vs []"
  by (cases ct) (auto simp: bindE_Inr_iff getMSEmptyDirVolumesVolumeMounts_def getFEEmptyDirVolumesVolumeMounts_def
      getBEEmptyDirVolumesVolumeMounts_def empty_dir_def mount_def claimed_def)

lemma volumes_backed:
  assumes "BuildVolumesVolumeMountsAndPVCs K confMap ct cs = Inr (vs, vms, pvcs)"
  shows "map vm_Name vms = map v_Name vs \<and> claimed vs pvcs"
proof (cases "cms_PersistentVolume cs = None \<and> cms_PersistentVolumes cs = []")
  case True
  with assms empty_dirs_backed show ?thesis
    by (auto simp: BuildVolumesVolumeMountsAndPVCs_def bindE_Inr_iff)
next
  case False
  show ?thesis
  proof (cases "cms_PersistentVolume cs")
    case None
    with False assms obtain ps where u: "unzip3 (concat (map (claims_of_path K (cms_PersistentVolumes cs) (path_names ps)) (rev (remdups ps)))) =
         (vs, vms, pvcs)"
      by (auto simp: BuildVolumesVolumeMountsAndPVCs_def bindE_Inr_iff
          PersistentVolumeArrayBuildVolumesVolumeMountsAndPVCs_def)
    have "\<forall>t\<in>set (concat (map (claims_of_path K (cms_PersistentVolumes cs) (path_names ps)) (rev (remdups ps)))).
        \<exists>n p pv. t = claim_volume K n p pv"
      by (auto simp: claims_of_path_def split: option.splits)
    then show ?thesis using unzip3_triples [OF _ u] by blast
  next
    case (Some pv)
    with assms obtain names ps where
        "unzip3 (map (\<lambda>path. claim_volume K (map_get names path) path pv) ps) = (vs, vms, pvcs)"
      by (auto simp: BuildVolumesVolumeMountsAndPVCs_def bindE_Inr_iff
          PersistentVolumeBuildVolumesVolumeMountsAndPVCs_def)
    moreover have "\<forall>t\<in>set (map (\<lambda>path. claim_volume K (map_get names path) path pv) ps).
        \<exists>n p pv. t = claim_volume K n p pv" by auto
    ultimately show ?thesis using unzip3_triples by blast
  qed
qed

section \<open>The parts of a template\<close>

lemma config_volumes [template_simps]:
  "map vm_Name (snd (BuildDefaultConfigMapVolumesVolumeMounts cms)) =
   map v_Name (fst (BuildDefaultConfigMapVolumesVolumeMounts cms))"
  "claimed (fst (BuildDefaultConfigMapVolumesVolumeMounts cms)) pvcs"
  by (auto simp: BuildDefaultConfigMapVolumesVolumeMounts_def config_volume_def mount_def claimed_def)

lemma secret_volumes [template_simps]:
  "map vm_Name (snd (GetMultiSecretVolumeAndVolumeMountWithCommonSpec cs)) =
   map v_Name (fst (GetMultiSecretVolumeAndVolumeMountWithCommonSpec cs))"
  "claimed (fst (GetMultiSecretVolumeAndVolumeMountWithCommonSpec cs)) pvcs"
  by (auto simp: GetMultiSecretVolumeAndVolumeMountWithCommonSpec_def secret_volume_def mount_def claimed_def)

lemma auth_volumes_backed [template_simps]:
  "map vm_Name (auth_mounts ddc) = map v_Name (auth_volumes ddc)" "claimed (auth_volumes ddc) pvcs"
  by (auto simp: auth_mounts_def auth_volumes_def mount_def claimed_def)

lemma kerberos_volumes [template_simps]:
  "map vm_Name (snd (GetDv1KerberosVolumeAndVolumeMount k)) = map v_Name (fst (GetDv1KerberosVolumeAndVolumeMount k))"
  "claimed (fst (GetDv1KerberosVolumeAndVolumeMount k)) pvcs"
  by (auto simp: GetDv1KerberosVolumeAndVolumeMount_def getKerberosConfigAndSecretVolumeAndVolumeMount_def
      mount_def claimed_def split: option.splits)

lemma podinfo_backed [template_simps]:
  "vm_Name podinfo_mount = POD_INFO_VOLUME_NAME" "v_Name podinfo_volume = POD_INFO_VOLUME_NAME"
  "claim_name (v_Source podinfo_volume) = None" "claim_name (v_Source (empty_dir n)) = None"
  by (simp_all add: podinfo_mount_def podinfo_volume_def mount_def empty_dir_def)

lemma base_template:
  assumes "NewPodTemplateSpecWithCommonSpec skip cs ct = (pts, cs')"
  shows "pt_Volumes pts = [podinfo_volume]" "pt_Containers pts = []"
    "cs' = cs\<lparr>cms_SystemInitialization := cms_SystemInitialization cs'\<rparr>"
  using assms by (auto simp: NewPodTemplateSpecWithCommonSpec_def zero_pod_template_def split: prod.splits)

lemma grace_period_keeps:
  "AddTerminationGracePeriodSeconds config n pts = Inr pts' \<Longrightarrow>
   pt_Volumes pts' = pt_Volumes pts \<and> pt_Containers pts' = pt_Containers pts \<and> pt_Labels pts' = pt_Labels pts"
  by (auto simp: AddTerminationGracePeriodSeconds_def bindE_Inr_iff Let_def split: if_splits)

lemma probe_keeps [template_simps]: "c_VolumeMounts (BuildDisaggregatedProbe cs ct c) = c_VolumeMounts c"
  by (simp add: BuildDisaggregatedProbe_def Let_def)

lemma backed_append: "backed vs cs \<Longrightarrow> backed (vs @ us) cs"
  by (auto simp: backed_def)

lemma backed_Cons: "backed vs (c # cs) \<longleftrightarrow> vm_Name ` set (c_VolumeMounts c) \<subseteq> v_Name ` set vs \<and> backed vs cs"
  by (simp add: backed_def)

lemma backed_add:
  assumes "backed vs cs" "map vm_Name vms = map v_Name us"
    and mounts: "\<And>c. c_VolumeMounts (g c) = c_VolumeMounts c @ vms"
  shows "backed (vs @ us) (update_first P g cs)"
proof -
  have names: "vm_Name ` set vms = v_Name ` set us" using assms(2) by (metis list.set_map)
  show ?thesis using assms(1)
  proof (induction cs)
    case (Cons c cs)
    then have "vm_Name ` set (c_VolumeMounts c) \<subseteq> v_Name ` set vs" "backed (vs @ us) cs"
      by (auto simp: backed_Cons intro: backed_append)
    moreover have "backed (vs @ us) (update_first P g cs)" using Cons by (simp add: backed_Cons)
    ultimately show ?case by (auto simp: backed_Cons mounts image_Un names le_supI1)
  qed (simp add: backed_def)
qed

lemma add_to_container_keeps:
  assumes "add_to_container name envs vms pts = Inr pts'" "backed (pt_Volumes pts) (pt_Containers pts)"
    and "map vm_Name vms = map v_Name us"
  shows "backed (pt_Volumes pts @ us) (pt_Containers pts') \<and> pt_Volumes pts' = pt_Volumes pts \<and>
    pt_Labels pts' = pt_Labels pts"
  using assms backed_append [OF assms(2)] backed_add [OF assms(2,3)]
  by (auto simp: add_to_container_def split: if_splits)

lemma cluster_spec_keeps:
  assumes "AddClusterSpecForPodTemplate ct confMap spec pts = Inr pts'"
    and "backed (pt_Volumes pts) (pt_Containers pts)" "claimed (pt_Volumes pts) pvcs"
  shows "backed (pt_Volumes pts') (pt_Containers pts') \<and> claimed (pt_Volumes pts') pvcs \<and>
    pt_Labels pts' = pt_Labels pts"
proof (cases "ct \<noteq> DisaggregatedFE \<and> ct \<noteq> DisaggregatedBE")
  case True
  with assms show ?thesis by (simp add: AddClusterSpecForPodTemplate_def)
next
  case False
  let ?k = "GetDv1KerberosVolumeAndVolumeMount (spec_KerberosInfo spec)"
  from assms(1) False obtain name envs p1 where p1:
      "add_to_container name envs (snd ?k) pts = Inr p1" "pts' = p1\<lparr>pt_Volumes := pt_Volumes p1 @ fst ?k\<rparr>"
    by (auto simp: AddClusterSpecForPodTemplate_def bindE_Inr_iff Let_def case_prod_beta split: if_splits)
  with add_to_container_keeps [OF p1(1) assms(2) kerberos_volumes(1)] assms(3) show ?thesis
    by (simp add: template_simps)
qed

section \<open>The three builders\<close>

text \<open>The mounts of the main container, by name.\<close>

lemma container_mounts:
  "NewMSContainer K ddc cvs w = (Inr c, w') \<Longrightarrow>
   BuildVolumesVolumeMountsAndPVCs K cvs DisaggregatedMS (ms_CommonSpec (spec_MetaService (ddc_Spec ddc))) =
     Inr (vs, vms, pvcs) \<Longrightarrow>
   map vm_Name (c_VolumeMounts c) = POD_INFO_VOLUME_NAME # map v_Name (vs @
     fst (BuildDefaultConfigMapVolumesVolumeMounts (cms_ConfigMaps (ms_CommonSpec (spec_MetaService (ddc_Spec ddc))))) @
     fst (GetMultiSecretVolumeAndVolumeMountWithCommonSpec (ms_CommonSpec (spec_MetaService (ddc_Spec ddc)))))"
  "NewFEContainer K ddc cvs w = (Inr c, w') \<Longrightarrow>
   BuildVolumesVolumeMountsAndPVCs K cvs DisaggregatedFE (fes_CommonSpec (spec_FeSpec (ddc_Spec ddc))) =
     Inr (vs, vms, pvcs) \<Longrightarrow>
   map vm_Name (c_VolumeMounts c) = POD_INFO_VOLUME_NAME # map v_Name (vs @
     fst (BuildDefaultConfigMapVolumesVolumeMounts (cms_ConfigMaps (fes_CommonSpec (spec_FeSpec (ddc_Spec ddc))))) @
     auth_volumes ddc @
     fst (GetMultiSecretVolumeAndVolumeMountWithCommonSpec (fes_CommonSpec (spec_FeSpec (ddc_Spec ddc)))))"
  "NewCGContainer K ddc cvs cg w = (Inr (c, cg'), w') \<Longrightarrow>
   BuildVolumesVolumeMountsAndPVCs K cvs DisaggregatedBE (cg_CommonSpec (make_privileged cg)) =
     Inr (vs, vms, pvcs) \<Longrightarrow>
   map vm_Name (c_VolumeMounts c) = POD_INFO_VOLUME_NAME # map v_Name (vs @
     fst (BuildDefaultConfigMapVolumesVolumeMounts (cms_ConfigMaps (cg_CommonSpec (make_privileged cg)))) @
     [empty_dir gracefulRuntimeVolumeName] @ auth_volumes ddc @
     fst (GetMultiSecretVolumeAndVolumeMountWithCommonSpec (cg_CommonSpec (make_privileged cg))))"
  by (auto simp: NewMSContainer_def NewFEContainer_def NewCGContainer_def Let_def bindW_Inr_iff liftW_def readW_def
      template_simps mount_def empty_dir_def volumes_backed simp del: bindW_lift bindW_read)

lemma volumes_of_changed_spec [template_simps]:
  "BuildVolumesVolumeMountsAndPVCs K cm ct (cs\<lparr>cms_SystemInitialization := si\<rparr>) =
   BuildVolumesVolumeMountsAndPVCs K cm ct cs"
  "BuildVolumesVolumeMountsAndPVCs K cm ct (cs\<lparr>cms_ContainerSecurityContext := sc\<rparr>) =
   BuildVolumesVolumeMountsAndPVCs K cm ct cs"
  "GetMultiSecretVolumeAndVolumeMountWithCommonSpec (cs\<lparr>cms_SystemInitialization := si\<rparr>) =
   GetMultiSecretVolumeAndVolumeMountWithCommonSpec cs"
  "GetMultiSecretVolumeAndVolumeMountWithCommonSpec (cs\<lparr>cms_ContainerSecurityContext := sc\<rparr>) =
   GetMultiSecretVolumeAndVolumeMountWithCommonSpec cs"
  by (simp_all add: BuildVolumesVolumeMountsAndPVCs_def PersistentVolumeBuildVolumesVolumeMountsAndPVCs_def
      PersistentVolumeArrayBuildVolumesVolumeMountsAndPVCs_def storedPaths_def
      GetMultiSecretVolumeAndVolumeMountWithCommonSpec_def split: option.split)

lemma backed_main:
  "map vm_Name (c_VolumeMounts c) = POD_INFO_VOLUME_NAME # map v_Name us \<Longrightarrow> set us \<subseteq> set vs \<Longrightarrow>
   backed (podinfo_volume # vs) [c]"
proof -
  assume m: "map vm_Name (c_VolumeMounts c) = POD_INFO_VOLUME_NAME # map v_Name us" and us: "set us \<subseteq> set vs"
  have "vm_Name ` set (c_VolumeMounts c) = insert POD_INFO_VOLUME_NAME (v_Name ` set us)"
    using arg_cong [OF m, of set] by simp
  with us show ?thesis by (auto simp: backed_def podinfo_backed)
qed

lemma newMSStatefulset_well_formed:
  assumes "newMSStatefulset K ddc confMap w = (Inr (st, ddc'), w')"
  shows "well_formed st"
proof -
  let ?cs = "ms_CommonSpec (spec_MetaService (ddc_Spec ddc))"
  obtain pts cs' where base: "NewPodTemplateSpecWithCommonSpec False ?cs DisaggregatedMS = (pts, cs')" by fastforce
  then obtain si where cs': "cs' = ?cs\<lparr>cms_SystemInitialization := si\<rparr>" using base_template(3) by blast
  let ?ddc = "set_MsCommonSpec cs' ddc"
  from assms base obtain vs vms pvcs c w1 w2 where
      built: "BuildVolumesVolumeMountsAndPVCs K confMap DisaggregatedMS ?cs = Inr (vs, vms, pvcs)"
      and c: "NewMSContainer K ?ddc confMap w1 = (Inr c, w2)"
      and st: "sts_Selector st = msPodLabels ?ddc" "pt_Labels (sts_Template st) = msPodLabels ?ddc"
        "pt_Containers (sts_Template st) = [c]" "sts_VolumeClaimTemplates st = pvcs"
        "pt_Volumes (sts_Template st) = podinfo_volume # vs @
           fst (BuildDefaultConfigMapVolumesVolumeMounts (cms_ConfigMaps ?cs)) @
           fst (GetMultiSecretVolumeAndVolumeMountWithCommonSpec ?cs)"
    by (auto simp: newMSStatefulset_def NewMSPodTemplateSpec_def Let_def bindW_Inr_iff liftW_def
        base_template(1,2) [OF base] simp del: bindW_lift)
  have mounts: "map vm_Name (c_VolumeMounts c) = POD_INFO_VOLUME_NAME # map v_Name (vs @
      fst (BuildDefaultConfigMapVolumesVolumeMounts (cms_ConfigMaps ?cs)) @
      fst (GetMultiSecretVolumeAndVolumeMountWithCommonSpec ?cs))"
    using container_mounts(1) [OF c] built by (simp add: set_MsCommonSpec_def cs' template_simps)
  from volumes_backed [OF built] backed_main [OF mounts subset_refl] show ?thesis
    by (simp add: well_formed_def st template_simps)
qed

lemma newFEStatefulset_well_formed:
  assumes "newFEStatefulset K ddc confMap w = (Inr (st, ddc'), w')"
    and labels: "dom (cms_Labels (fes_CommonSpec (spec_FeSpec (ddc_Spec ddc)))) \<inter> dom (newFEPodsSelector (ddc_Name ddc)) = {}"
  shows "well_formed st"
proof -
  let ?cs = "fes_CommonSpec (spec_FeSpec (ddc_Spec ddc))"
  obtain pts cs' where base: "NewPodTemplateSpecWithCommonSpec False ?cs DisaggregatedFE = (pts, cs')" by fastforce
  then obtain si where cs': "cs' = ?cs\<lparr>cms_SystemInitialization := si\<rparr>" using base_template(3) by blast
  let ?ddc = "set_FeCommonSpec cs' ddc"
  from assms(1) base obtain vs vms pvcs pts1 pts2 c w1 w2 aff where
      built: "BuildVolumesVolumeMountsAndPVCs K confMap DisaggregatedFE ?cs = Inr (vs, vms, pvcs)"
      and grace: "AddTerminationGracePeriodSeconds confMap DEFAULT_FE_TERMINATION_GRACE_PERIOD_SECONDS pts = Inr pts1"
      and c: "NewFEContainer K ?ddc confMap w1 = (Inr c, w2)"
      and st: "AddClusterSpecForPodTemplate DisaggregatedFE confMap (ddc_Spec ?ddc)
          (pts1\<lparr>pt_Labels := getFEPodLabels ?ddc, pt_Containers := pt_Containers pts1 @ [c],
             pt_Volumes := pt_Volumes pts1 @ vs @
               fst (BuildDefaultConfigMapVolumesVolumeMounts (cms_ConfigMaps ?cs)) @ auth_volumes ?ddc @
               fst (GetMultiSecretVolumeAndVolumeMountWithCommonSpec ?cs), pt_Affinity := aff\<rparr>) = Inr pts2"
        "sts_Selector st = newFEPodsSelector (ddc_Name ?ddc)" "sts_Template st = pts2"
        "sts_VolumeClaimTemplates st = pvcs"
    by (auto simp: newFEStatefulset_def NewFEPodTemplateSpec_def Let_def bindW_Inr_iff liftW_def
        simp del: bindW_lift)
  have mounts: "map vm_Name (c_VolumeMounts c) = POD_INFO_VOLUME_NAME # map v_Name (vs @
      fst (BuildDefaultConfigMapVolumesVolumeMounts (cms_ConfigMaps ?cs)) @ auth_volumes ?ddc @
      fst (GetMultiSecretVolumeAndVolumeMountWithCommonSpec ?cs))"
    using container_mounts(2) [OF c] built by (simp add: set_FeCommonSpec_def cs' template_simps)
  have "newFEPodsSelector (ddc_Name ?ddc) \<subseteq>\<^sub>m getFEPodLabels ?ddc"
    using labels by (auto simp: getFEPodLabels_def set_FeCommonSpec_def cs' map_le_def map_add_def split: option.splits)
  moreover note volumes_backed [OF built] backed_main [OF mounts subset_refl]
    cluster_spec_keeps [OF st(1), of pvcs] grace_period_keeps [OF grace] base_template(1,2) [OF base]
  ultimately show ?thesis by (simp add: well_formed_def st template_simps)
qed

lemma make_privileged_spec:
  "cg_CommonSpec (make_privileged cg) = (cg_CommonSpec cg)
     \<lparr>cms_ContainerSecurityContext := cms_ContainerSecurityContext (cg_CommonSpec (make_privileged cg))\<rparr>"
  by (simp add: make_privileged_def)

lemma NewCGStatefulset_well_formed:
  assumes "NewCGStatefulset K ddc cg cvs w = (Inr (st, cg'), w')"
  shows "well_formed st"
proof -
  let ?cs = "cg_CommonSpec cg"
  obtain pts cs' where base:
      "NewPodTemplateSpecWithCommonSpec (cg_SkipDefaultSystemInit cg) ?cs DisaggregatedBE = (pts, cs')" by fastforce
  then obtain si where cs': "cs' = ?cs\<lparr>cms_SystemInitialization := si\<rparr>" using base_template(3) by blast
  let ?cg = "cg\<lparr>cg_CommonSpec := cs'\<rparr>"
  from assms(1) base obtain vs vms pvcs pts1 pts2 c cg2 w1 w2 aff where
      built: "BuildVolumesVolumeMountsAndPVCs K cvs DisaggregatedBE ?cs = Inr (vs, vms, pvcs)"
      and grace: "AddTerminationGracePeriodSeconds cvs DEFAULT_BE_TERMINATION_GRACE_PERIOD_SECONDS pts = Inr pts1"
      and c: "NewCGContainer K ddc cvs ?cg w1 = (Inr (c, cg2), w2)"
      and st: "AddClusterSpecForPodTemplate DisaggregatedBE cvs (ddc_Spec ddc)
          (pts1\<lparr>pt_Labels := cgPodLabels ddc cg, pt_Containers := pt_Containers pts1 @ [c],
             pt_Volumes := pt_Volumes pts1 @
               fst (BuildDefaultConfigMapVolumesVolumeMounts (cms_ConfigMaps ?cs)) @ vs @
               [empty_dir gracefulRuntimeVolumeName] @ auth_volumes ddc @
               fst (GetMultiSecretVolumeAndVolumeMountWithCommonSpec ?cs)\<rparr>) = Inr pts2"
        "sts_Selector st = cgPodLabels ddc cg" "sts_Template st = pts2\<lparr>pt_Affinity := aff\<rparr>"
        "sts_VolumeClaimTemplates st = pvcs"
    by (auto simp: NewCGStatefulset_def NewCGPodTemplateSpec_def Let_def bindW_Inr_iff liftW_def
        simp del: bindW_lift)
  have mounts: "map vm_Name (c_VolumeMounts c) = POD_INFO_VOLUME_NAME # map v_Name (vs @
      fst (BuildDefaultConfigMapVolumesVolumeMounts (cms_ConfigMaps ?cs)) @
      [empty_dir gracefulRuntimeVolumeName] @ auth_volumes ddc @
      fst (GetMultiSecretVolumeAndVolumeMountWithCommonSpec ?cs))"
    using container_mounts(3) [OF c] built
    by (subst (asm) (1 2 3) make_privileged_spec) (simp add: cs' template_simps)
  let ?vs = "fst (BuildDefaultConfigMapVolumesVolumeMounts (cms_ConfigMaps ?cs)) @ vs @
      [empty_dir gracefulRuntimeVolumeName] @ auth_volumes ddc @
      fst (GetMultiSecretVolumeAndVolumeMountWithCommonSpec ?cs)"
  have "backed (podinfo_volume # ?vs) [c]" by (rule backed_main [OF mounts]) auto
  moreover note volumes_backed [OF built]
    cluster_spec_keeps [OF st(1), of pvcs] grace_period_keeps [OF grace] base_template(1,2) [OF base]
  ultimately show ?thesis by (simp add: well_formed_def st template_simps)
qed

text \<open>
  C31. Every StatefulSet that a sub-controller builds is well formed: the template carries
  the labels that the selector asks for, every volume mount of its containers names a
  volume of the pod, and every volume backed by a claim has its claim template. For the FE
  the labels of the specification must not set the keys of the selector, which the other
  two builders do not need.
\<close>

theorem built_statefulsets_well_formed:
  assumes "(\<exists>ddc' w'. newMSStatefulset K ddc confMap w = (Inr (st, ddc'), w')) \<or>
    (\<exists>ddc' w'. newFEStatefulset K ddc confMap w = (Inr (st, ddc'), w')) \<and>
      dom (cms_Labels (fes_CommonSpec (spec_FeSpec (ddc_Spec ddc)))) \<inter> dom (newFEPodsSelector (ddc_Name ddc)) = {} \<or>
    (\<exists>cg' w'. NewCGStatefulset K ddc cg confMap w = (Inr (st, cg'), w'))"
  shows "well_formed st"
  using assms
  by (auto intro: newMSStatefulset_well_formed newFEStatefulset_well_formed NewCGStatefulset_well_formed)

lemma built_statefulsets_well_formed_witness:
  "\<exists>st ddc' w'. newMSStatefulset mem_env data_cluster [] zero_world = (Inr (st, ddc'), w') \<and> well_formed st"
proof -
  have "\<not> isl (fst (newMSStatefulset mem_env data_cluster [] zero_world))" by code_simp
  then obtain st ddc' w' where r: "newMSStatefulset mem_env data_cluster [] zero_world = (Inr (st, ddc'), w')"
    by (cases "newMSStatefulset mem_env data_cluster [] zero_world";
        cases "fst (newMSStatefulset mem_env data_cluster [] zero_world)") auto
  with built_statefulsets_well_formed [of mem_env data_cluster "[]" zero_world st] show ?thesis by blast
qed

end
