(* ===== verification/Cluster_Props.thy ===== *)
theory Cluster_Props
  imports Disagg_Cluster Template_Props
begin

text \<open>
  Properties of the reconciler of a disaggregated cluster: what the health and the requeue
  of a pass mean, and what happens when the status cannot be written.
\<close>

section \<open>The counts of the compute groups\<close>

abbreviation health :: "DorisDisaggregatedCluster \<Rightarrow> cluster_health" where
  "health ddc \<equiv> status_ClusterHealth (ddc_Status ddc)"

definition counted :: "DorisDisaggregatedCluster \<Rightarrow> bool" where
  "counted ddc =
     (ch_CGCount (health ddc) = wrap32 (int (length (ddc_ComputeGroupStatuses ddc))) \<and>
      ch_CGAvailableCount (health ddc) =
        wrap32 (int (length (filter (\<lambda>s. cgs_AvailableReplicas s > 0) (ddc_ComputeGroupStatuses ddc)))))"

text \<open>What the updates of the meta service and the FE leave alone.\<close>

definition same_groups :: "DorisDisaggregatedCluster \<Rightarrow> DorisDisaggregatedCluster \<Rightarrow> bool" where
  "same_groups d d' =
     (ddc_ComputeGroupStatuses d' = ddc_ComputeGroupStatuses d \<and> ch_CGCount (health d') = ch_CGCount (health d) \<and>
      ch_CGAvailableCount (health d') = ch_CGAvailableCount (health d))"

lemma UpdateMSStatus_same_groups: "same_groups ddc (fst (fst (UpdateMSStatus K ddc w)))"
  by (auto simp: UpdateMSStatus_def same_groups_def recordMSEndpoint_def set_MSStatus_def Let_def bindE_Inr_iff
      split: prod.split sum.split)

lemma UpdateFEStatus_same_groups: "same_groups ddc (fst (fst (UpdateFEStatus K ddc w)))"
  by (auto simp: UpdateFEStatus_def same_groups_def markFEAvailable_def set_FEStatus_def set_FEPhase_def Let_def
      split: prod.split sum.split option.split)

lemma updateAll_length: "length (fst (fst (updateAll K ddc cgss w))) = length cgss"
  by (induction cgss arbitrary: w) (auto split: prod.splits, metis fst_conv)

lemma countHealth_counted: "counted (countHealth ddc)"
  by (simp add: counted_def countHealth_def Let_def)

lemma recordComputeGroupIds_length:
  "length (ddc_ComputeGroupStatuses (fst (fst (recordComputeGroupIds K ddc w)))) =
   length (ddc_ComputeGroupStatuses ddc)"
  by (simp add: recordComputeGroupIds_def set_ComputeGroupStatuses_def split: prod.split sum.split)

definition no_panic :: "go_error option \<Rightarrow> bool" where
  "no_panic r = (case r of None \<Rightarrow> True | Some e \<Rightarrow> \<not> is_panic e)"

lemma UpdateComponentStatus_counts:
  assumes "UpdateComponentStatus K ddc w = ((d, r), w')" "no_panic r" "ddc_ComputeGroupStatuses ddc \<noteq> []"
  shows "counted d \<and> length (ddc_ComputeGroupStatuses d) = length (ddc_ComputeGroupStatuses ddc)"
proof -
  obtain cgss ms w1 where all: "updateAll K ddc (ddc_ComputeGroupStatuses ddc) w = ((cgss, ms), w1)"
    by (metis prod.exhaust)
  let ?d1 = "set_ComputeGroupStatuses cgss ddc"
  have len: "length (ddc_ComputeGroupStatuses ?d1) = length (ddc_ComputeGroupStatuses ddc)"
    using updateAll_length [of K ddc "ddc_ComputeGroupStatuses ddc" w] all by (simp add: set_ComputeGroupStatuses_def)
  obtain d2 r2 w2 where ids: "(if list_ex (\<lambda>s. cgs_ComputeGroupId s = '''') cgss
      then recordComputeGroupIds K ?d1 w1 else ((?d1, None), w1)) = ((d2, r2), w2)"
    by (metis prod.exhaust)
  then have "length (ddc_ComputeGroupStatuses d2) = length (ddc_ComputeGroupStatuses ddc)"
    using recordComputeGroupIds_length [of K ?d1 w1] len by (auto split: if_splits)
  moreover have "d = countHealth d2"
    using assms all ids by (auto simp: UpdateComponentStatus_def no_panic_def Let_def split: option.splits if_splits)
  ultimately show ?thesis
    using countHealth_counted [of d2] by (simp add: countHealth_def Let_def)
qed

text \<open>The steps of the status loop, for the sub-controllers in any order.\<close>

definition status_controllers :: "('w, 'x) cluster_env_scheme \<Rightarrow> 'w DisaggregatedSubController set" where
  "status_controllers K = {msController K, feController K, cgController K}"

lemma sub_status_step:
  assumes "subC \<in> status_controllers K" "sc_UpdateComponentStatus subC ddc w = ((d, r), w')" "no_panic r"
    and "ddc_ComputeGroupStatuses ddc \<noteq> []"
  shows "length (ddc_ComputeGroupStatuses d) = length (ddc_ComputeGroupStatuses ddc) \<and>
    (counted ddc \<or> subC = cgController K \<longrightarrow> counted d)"
proof -
  consider "subC = cgController K" | "same_groups ddc d"
    using assms(1,2) UpdateMSStatus_same_groups [of ddc K w] UpdateFEStatus_same_groups [of ddc K w]
    by (auto simp: status_controllers_def msController_def feController_def)
  then show ?thesis
  proof cases
    case 1
    with assms have "UpdateComponentStatus K ddc w = ((d, r), w')" by (simp add: cgController_def)
    from UpdateComponentStatus_counts [OF this assms(3,4)] show ?thesis by blast
  next
    case 2
    then have "counted ddc = counted d" "length (ddc_ComputeGroupStatuses d) = length (ddc_ComputeGroupStatuses ddc)"
      by (simp_all add: same_groups_def counted_def)
    moreover have "subC = cgController K \<Longrightarrow> counted d"
      using UpdateComponentStatus_counts [OF _ assms(3,4), of K w d w'] assms(2) by (simp add: cgController_def)
    ultimately show ?thesis by blast
  qed
qed

lemma updateStatuses_counted:
  "set scs \<subseteq> status_controllers K \<Longrightarrow> updateStatuses scs ddc w = (Inr d, w') \<Longrightarrow>
   ddc_ComputeGroupStatuses ddc \<noteq> [] \<Longrightarrow> counted ddc \<or> cgController K \<in> set scs \<Longrightarrow>
   counted d \<and> length (ddc_ComputeGroupStatuses d) = length (ddc_ComputeGroupStatuses ddc)"
proof (induction scs arbitrary: ddc w)
  case (Cons subC scs)
  obtain d1 r w1 where step: "sc_UpdateComponentStatus subC ddc w = ((d1, r), w1)" by (metis prod.exhaust)
  have np: "no_panic r" and rest: "updateStatuses scs d1 w1 = (Inr d, w')"
    using Cons.prems(2) step by (auto simp: no_panic_def split: option.splits if_splits)
  have s: "length (ddc_ComputeGroupStatuses d1) = length (ddc_ComputeGroupStatuses ddc)"
      "counted ddc \<or> subC = cgController K \<longrightarrow> counted d1"
    using sub_status_step [OF _ step np Cons.prems(3), of K] Cons.prems(1) by auto
  moreover from s(1) Cons.prems(3) have "ddc_ComputeGroupStatuses d1 \<noteq> []" by auto
  moreover have "counted d1 \<or> cgController K \<in> set scs" using s(2) Cons.prems(4) by auto
  ultimately show ?case using Cons.IH [OF _ rest] Cons.prems(1) by auto
qed simp

section \<open>Healthy clusters\<close>

definition transitional :: "Phase \<Rightarrow> bool" where
  "transitional p = (p \<in> {Decommissioning, Reconciling, Scaling, ScaleDownFailed, ResumeFailed, SuspendFailed,
     GracefulRolling, GracefulScaling, GracefulDeleting})"

definition healthy :: "DorisDisaggregatedCluster \<Rightarrow> bool" where
  "healthy ddc =
     (mss_AvailableStatus (ddc_MSStatus ddc) = Available \<and> mss_Phase (ddc_MSStatus ddc) = Ready \<and>
      fs_AvailableStatus (ddc_FEStatus ddc) = Available \<and> fs_Phase (ddc_FEStatus ddc) = Ready \<and>
      (\<forall>s\<in>set (ddc_ComputeGroupStatuses ddc). cgs_AvailableReplicas s > 0 \<and> \<not> transitional (cgs_Phase s)))"

lemma shouldRequeue_transitional:
  "p = Decommissioning \<or> shouldRequeueComputeGroupPhase p \<longleftrightarrow> transitional p"
  by (cases p) (auto simp: transitional_def)

lemma colours [simp]: "Green \<noteq> Red" "Green \<noteq> Yellow" "Red \<noteq> Green" "Yellow \<noteq> Green"
  by (simp_all add: Green_def Red_def Yellow_def)

lemma all_available:
  assumes "counted ddc" "in_int32 (int (length (ddc_ComputeGroupStatuses ddc)))"
    and "\<not> ch_CGAvailableCount (health ddc) < ch_CGCount (health ddc)"
  shows "\<forall>s\<in>set (ddc_ComputeGroupStatuses ddc). cgs_AvailableReplicas s > 0"
proof -
  let ?cs = "ddc_ComputeGroupStatuses ddc" and ?P = "\<lambda>s. cgs_AvailableReplicas s > 0"
  have le: "length (filter ?P ?cs) \<le> length ?cs" by (rule length_filter_le)
  then have "in_int32 (int (length (filter ?P ?cs)))" using assms(2) unfolding in_int32_def by linarith
  with assms le have "length (filter ?P ?cs) = length ?cs" by (simp add: counted_def)
  then show ?thesis by (metis filter_id_conv le length_filter_less less_irrefl)
qed

text \<open>
  C23. A pass of the reconciler comes to rest only on a cluster that is healthy by its
  recorded status: when the status of
  all sub-controllers was collected, in whatever order, and the pass neither changed the
  specification nor asks to be run again after ten seconds, the meta service and the FE are
  available and ready, every compute group has an available replica and none is in the
  middle of a change.
\<close>

theorem settled_pass_is_healthy:
  assumes "reorganizeStatus scs ddc w = (Inr (d, r), w1)" "set scs = set (initScs K)"
    and "ddc_ComputeGroupStatuses ddc \<noteq> []" "in_int32 (int (length (ddc_ComputeGroupStatuses ddc)))"
    and "updateObjectORStatus K d (HashSpec K (ddc_Spec d)) w1 = ((res, d'), w2)" "res \<noteq> requeue_after 10"
  shows "healthy d"
proof -
  from assms(1) obtain d0 where upd: "updateStatuses scs ddc w = (Inr d0, w1)" and d: "d = evaluateHealth d0"
    by (auto simp: reorganizeStatus_def bindW_Inr_iff liftW_def Let_def)
  have "set scs \<subseteq> status_controllers K" "cgController K \<in> set scs"
    using assms(2) by (auto simp: initScs_def status_controllers_def)
  from updateStatuses_counted [OF this(1) upd assms(3)] this(2)
  have c0: "counted d0" "length (ddc_ComputeGroupStatuses d0) = length (ddc_ComputeGroupStatuses ddc)" by auto
  have kept: "ch_Health (health d) = Green" "\<not> list_ex (transitional \<circ> cgs_Phase) (ddc_ComputeGroupStatuses d)"
    using assms(5,6)
    by (auto simp: updateObjectORStatus_def Let_def shouldRequeue_transitional clearReconcileAnnotations_def
        comp_def split: if_splits prod.splits)
  then have g: "cluster_health_of ((ddc_Status d0)\<lparr>status_ObservedGeneration := ddc_Generation d0\<rparr>) = Green"
    by (simp add: d evaluateHealth_def Let_def)
  then have "\<not> ch_CGAvailableCount (health d0) < ch_CGCount (health d0)"
    by (auto simp: cluster_health_of_def Let_def split: if_splits)
  from all_available [OF c0(1) _ this] assms(4) c0(2)
  have "\<forall>s\<in>set (ddc_ComputeGroupStatuses d0). cgs_AvailableReplicas s > 0" by simp
  with g kept(2) show ?thesis
    by (auto simp: healthy_def d evaluateHealth_def Let_def cluster_health_of_def list_ex_iff split: if_splits)
qed

text \<open>An API server that keeps one cluster object and answers writes of its status by \<open>answer\<close>.\<close>

definition cluster_server ::
    "(DorisDisaggregatedCluster \<Rightarrow> go_error + DorisDisaggregatedCluster) \<Rightarrow> DorisDisaggregatedCluster
     \<Rightarrow> world cluster_env" where
  "cluster_server answer stored = rollout_env.extend mem_env (cluster_env.fields
     (\<lambda>_ _ w. (Inr stored, w)) (\<lambda>d w. (Inr d, w)) (\<lambda>d w. (answer d, w)) (\<lambda>f d w. f d w) (\<lambda>_. ''spec''))"

definition settled_cluster :: DorisDisaggregatedCluster where
  "settled_cluster = zero_ddc\<lparr>ddc_Name := ''c'', ddc_Status := (ddc_Status zero_ddc)\<lparr>
     status_MetaServiceStatus := (ddc_MSStatus zero_ddc)\<lparr>mss_Phase := Ready, mss_AvailableStatus := Available\<rparr>,
     status_FEStatus := (ddc_FEStatus zero_ddc)\<lparr>fs_Phase := Ready, fs_AvailableStatus := Available\<rparr>,
     status_ComputeGroupStatuses := [zero_ComputeGroupStatus\<lparr>cgs_UniqueId := ''g'', cgs_ComputeGroupId := ''1'',
       cgs_Phase := Ready, cgs_AvailableReplicas := 1, cgs_Replicas := 1\<rparr>]\<rparr>\<rparr>"

lemma settled_pass_is_healthy_witness:
  "\<exists>d r w1 res d' w2.
     reorganizeStatus (initScs (cluster_server Inr settled_cluster)) settled_cluster zero_world = (Inr (d, r), w1) \<and>
     updateObjectORStatus (cluster_server Inr settled_cluster) d
       (HashSpec (cluster_server Inr settled_cluster) (ddc_Spec d)) w1 = ((res, d'), w2) \<and>
     res = zero_Result \<and> healthy d"
proof -
  let ?K = "cluster_server Inr settled_cluster"
  have run: "case reorganizeStatus (initScs ?K) settled_cluster zero_world of
      (Inr (d, r), w1) \<Rightarrow> fst (fst (updateObjectORStatus ?K d (HashSpec ?K (ddc_Spec d)) w1)) = zero_Result
    | (Inl e, w1) \<Rightarrow> False"
    unfolding reorganizeStatus_def initScs_def updateStatuses.simps msController_def feController_def
      cgController_def DisaggregatedSubController.simps
    by code_simp
  then obtain d r w1 where a: "reorganizeStatus (initScs ?K) settled_cluster zero_world = (Inr (d, r), w1)"
    by (auto split: prod.splits sum.splits)
  obtain res d' w2 where b: "updateObjectORStatus ?K d (HashSpec ?K (ddc_Spec d)) w1 = ((res, d'), w2)"
    by (metis prod.exhaust)
  from run a b have res: "res = zero_Result" by simp
  have "res \<noteq> requeue_after 10" by (simp add: res requeue_after_def zero_Result_def)
  moreover have "ddc_ComputeGroupStatuses settled_cluster \<noteq> []"
      "in_int32 (int (length (ddc_ComputeGroupStatuses settled_cluster)))"
    by (simp_all add: settled_cluster_def in_int32_def)
  ultimately have "healthy d" using settled_pass_is_healthy [OF a refl _ _ b] by blast
  with a b res show ?thesis by blast
qed

section \<open>The status that is not written\<close>

text \<open>
  A status that cannot be written is lost silently: when the cluster object can be
  read but the API server refuses every write of its status, the update of the status asks
  for no requeue. The copy that is compared with the new status was overwritten with it
  before the write failed.
\<close>

theorem refused_status_not_requeued:
  assumes read: "\<And>w. \<exists>eddc w1. GetDDC K (ddc_Namespace ddc) (ddc_Name ddc) w = (Inr eddc, w1)"
    and refused: "\<And>d w. \<exists>e w1. UpdateDDCStatus K d w = (Inl e, w1)"
    and retry: "\<And>f d w. \<exists>d1 w1. fst (RetryOnConflict K f d w) = fst (f d1 w1)"
  shows "fst (updateDorisDisaggregatedClusterStatus K ddc w) = zero_Result"
proof -
  obtain d1 w1 where call: "fst (RetryOnConflict K (writeStatus K ddc) zero_ddc w) = fst (writeStatus K ddc d1 w1)"
    using retry by blast
  obtain eddc w2 where "GetDDC K (ddc_Namespace ddc) (ddc_Name ddc) w1 = (Inr eddc, w2)" using read by blast
  moreover obtain e w3 where "UpdateDDCStatus K (eddc\<lparr>ddc_Status := ddc_Status ddc\<rparr>) w2 = (Inl e, w3)"
    using refused by blast
  ultimately have "ddc_Status (snd (fst (writeStatus K ddc d1 w1))) = ddc_Status ddc"
    by (simp add: writeStatus_def)
  with call show ?thesis
    by (simp add: updateDorisDisaggregatedClusterStatus_def disAggregatedInconsistentStatus_def case_prod_beta)
qed

definition refusing :: "world cluster_env" where
  "refusing = cluster_server (\<lambda>_. Inl (StatusError ReasonConflict ''conflict'')) zero_ddc"

lemma refused_status_not_requeued_witness:
  "UpdateDDCStatus refusing settled_cluster zero_world = (Inl (StatusError ReasonConflict ''conflict''), zero_world) \<and>
   fst (updateDorisDisaggregatedClusterStatus refusing settled_cluster zero_world) = zero_Result"
proof -
  have env: "GetDDC refusing ns n w = (Inr zero_ddc, w)"
      "UpdateDDCStatus refusing d w = (Inl (StatusError ReasonConflict ''conflict''), w)"
      "RetryOnConflict refusing f d w = f d w" for ns n d w f
    by (simp_all add: refusing_def cluster_server_def rollout_env.extend_def mem_env_def cluster_env.fields_def)
  have "fst (updateDorisDisaggregatedClusterStatus refusing settled_cluster zero_world) = zero_Result"
    by (rule refused_status_not_requeued) (auto simp: env)
  with env show ?thesis by simp
qed

end
