(* ===== verification/Cluster_Order.thy ===== *)
theory Cluster_Order
  imports Cluster_Props "HOL-Library.Multiset"
begin

text \<open>
  The sub-controllers live in a Go map, so their statuses are updated in an order that the
  language leaves open. Each update writes a part of the status of its own and does not
  read the parts of the others; the locale states this for two updates, and gives that
  they may be exchanged.
\<close>

section \<open>Independent parts of the status\<close>

type_synonym status_update = "DorisDisaggregatedCluster \<Rightarrow> DorisDisaggregatedCluster \<times> go_error option"

locale status_part =
  fixes upd :: status_update
    and writers :: "(DorisDisaggregatedCluster \<Rightarrow> DorisDisaggregatedCluster) set"
  assumes writes: "\<exists>g\<in>writers. fst (upd d) = g d"

locale independent_parts =
  first: status_part upd1 writers1 + second: status_part upd2 writers2
  for upd1 writers1 upd2 writers2 +
  assumes frame1: "h \<in> writers2 \<Longrightarrow> upd1 (h d) = map_prod h id (upd1 d)"
    and frame2: "g \<in> writers1 \<Longrightarrow> upd2 (g d) = map_prod g id (upd2 d)"
    and exchange: "g \<in> writers1 \<Longrightarrow> h \<in> writers2 \<Longrightarrow> g (h d) = h (g d)"
begin

lemma either_order: "fst (upd1 (fst (upd2 d))) = fst (upd2 (fst (upd1 d)))"
proof -
  obtain g where g: "g \<in> writers1" "fst (upd1 d) = g d" using first.writes by blast
  obtain h where h: "h \<in> writers2" "fst (upd2 d) = h d" using second.writes by blast
  show ?thesis using exchange [OF g(1) h(1), of d] by (simp add: g h frame1 frame2)
qed

lemma errors_alone: "snd (upd1 (fst (upd2 d))) = snd (upd1 d)" "snd (upd2 (fst (upd1 d))) = snd (upd2 d)"
proof -
  obtain g where g: "g \<in> writers1" "fst (upd1 d) = g d" using first.writes by blast
  obtain h where h: "h \<in> writers2" "fst (upd2 d) = h d" using second.writes by blast
  show "snd (upd1 (fst (upd2 d))) = snd (upd1 d)" "snd (upd2 (fst (upd1 d))) = snd (upd2 d)"
    by (simp_all add: g h frame1 frame2)
qed

end

section \<open>The parts of the three controllers\<close>

definition write_fe :: "FEStatus \<Rightarrow> bool \<Rightarrow> DorisDisaggregatedCluster \<Rightarrow> DorisDisaggregatedCluster" where
  "write_fe s b ddc = ddc\<lparr>ddc_Status := (ddc_Status ddc)\<lparr>status_FEStatus := s,
     status_ClusterHealth := (health ddc)\<lparr>ch_FeAvailable := b\<rparr>\<rparr>\<rparr>"

definition write_cg ::
    "ComputeGroupStatus list \<Rightarrow> int \<Rightarrow> int \<Rightarrow> int \<Rightarrow> DorisDisaggregatedCluster \<Rightarrow> DorisDisaggregatedCluster" where
  "write_cg css n f a ddc = ddc\<lparr>ddc_Status := (ddc_Status ddc)\<lparr>status_ComputeGroupStatuses := css,
     status_ClusterHealth := (health ddc)\<lparr>ch_CGCount := n, ch_CGFullAvailableCount := f,
       ch_CGAvailableCount := a\<rparr>\<rparr>\<rparr>"

definition ms_writers :: "(DorisDisaggregatedCluster \<Rightarrow> DorisDisaggregatedCluster) set" where
  "ms_writers = range set_MSStatus"

definition fe_writers :: "(DorisDisaggregatedCluster \<Rightarrow> DorisDisaggregatedCluster) set" where
  "fe_writers = {g. \<exists>s b. g = write_fe s b}"

definition cg_writers :: "(DorisDisaggregatedCluster \<Rightarrow> DorisDisaggregatedCluster) set" where
  "cg_writers = {g. \<exists>css n f a. g = write_cg css n f a}"

lemmas writer_defs = ms_writers_def fe_writers_def cg_writers_def

text \<open>A writer changes the status only.\<close>

lemma writers_status_only:
  assumes "g \<in> ms_writers \<union> fe_writers \<union> cg_writers"
  shows "ddc_Spec (g d) = ddc_Spec d" "ddc_Name (g d) = ddc_Name d" "ddc_Namespace (g d) = ddc_Namespace d"
    "ddc_Annotations (g d) = ddc_Annotations d" "ddc_Generation (g d) = ddc_Generation d"
  using assms by (auto simp: writer_defs set_MSStatus_def write_fe_def write_cg_def)

lemma fe_writesI: "d' = write_fe s b d \<Longrightarrow> \<exists>g\<in>fe_writers. d' = g d"
  by (auto simp: fe_writers_def)

lemma cg_writesI: "d' = write_cg css n f a d \<Longrightarrow> \<exists>g\<in>cg_writers. d' = g d"
  unfolding cg_writers_def by blast

lemma fe_keeps: "\<exists>g\<in>fe_writers. d = g d"
  by (rule fe_writesI [of _ "ddc_FEStatus d" "ch_FeAvailable (health d)"]) (simp add: write_fe_def)

lemma fe_phase: "\<exists>g\<in>fe_writers. set_FEPhase p d = g d"
  by (rule fe_writesI [of _ "(ddc_FEStatus d)\<lparr>fs_Phase := p\<rparr>" "ch_FeAvailable (health d)"])
    (simp add: write_fe_def set_FEPhase_def set_FEStatus_def)

lemma fe_available: "\<exists>g\<in>fe_writers. markFEAvailable d = g d"
  by (rule fe_writesI [of _ "(ddc_FEStatus d)\<lparr>fs_AvailableStatus := Available\<rparr>" True])
    (simp add: write_fe_def markFEAvailable_def)

lemma fe_available_phase: "\<exists>g\<in>fe_writers. set_FEPhase p (markFEAvailable d) = g d"
  by (rule fe_writesI [of _ "(ddc_FEStatus d)\<lparr>fs_AvailableStatus := Available, fs_Phase := p\<rparr>" True])
    (simp add: write_fe_def markFEAvailable_def set_FEPhase_def set_FEStatus_def)

lemmas fe_changes = fe_keeps fe_phase fe_available fe_available_phase

lemma UpdateFEStatus_writes: "\<exists>g\<in>fe_writers. fst (fst (UpdateFEStatus K d w)) = g d"
  by (simp add: UpdateFEStatus_def Let_def fe_changes split: prod.split sum.split option.split)

lemma ms_changes:
  "\<exists>g\<in>ms_writers. d = g d" "\<exists>g\<in>ms_writers. set_MSStatus s d = g d"
  "\<exists>g\<in>ms_writers. set_MSStatus s (set_MSStatus s' d) = g d"
  by (auto simp: ms_writers_def set_MSStatus_def intro: exI [of _ "ddc_MSStatus d"])

lemma UpdateMSStatus_writes: "\<exists>g\<in>ms_writers. fst (fst (UpdateMSStatus K d w)) = g d"
  by (auto simp: UpdateMSStatus_def recordMSEndpoint_def bindE_Inr_iff Let_def ms_changes
      split: prod.split sum.split)

lemma ms_frame:
  assumes h: "h \<in> fe_writers \<union> cg_writers"
  shows "fst (UpdateMSStatus K (h d) w) = map_prod h id (fst (UpdateMSStatus K d w))"
proof -
  have set: "set_MSStatus s (h d) = h (set_MSStatus s d)" "ddc_MSStatus (h d) = ddc_MSStatus d" for s d
    using h by (auto simp: writer_defs set_MSStatus_def write_fe_def write_cg_def)
  have only: "ddc_Spec (h d) = ddc_Spec d" "ddc_Name (h d) = ddc_Name d" "ddc_Namespace (h d) = ddc_Namespace d"
      "ddc_Annotations (h d) = ddc_Annotations d" "ddc_Generation (h d) = ddc_Generation d" for d
    using h writers_status_only [of h d] by auto
  have names: "GetMSStatefulsetName (h d) = GetMSStatefulsetName d" "GetMSServiceName (h d) = GetMSServiceName d" for d
    by (simp_all add: GetMSStatefulsetName_def GetMSServiceName_def only)
  have endpoint: "recordMSEndpoint c (h d) = map_sum id h (recordMSEndpoint c d)" for c d
    by (auto simp: recordMSEndpoint_def bindE_def set only names split: sum.split)
  show ?thesis
    by (simp add: UpdateMSStatus_def Let_def only names endpoint set split: prod.split sum.split)
qed

lemma fe_frame:
  assumes h: "h \<in> ms_writers \<union> cg_writers"
  shows "fst (UpdateFEStatus K (h d) w) = map_prod h id (fst (UpdateFEStatus K d w))"
proof -
  have set: "set_FEPhase p (h d) = h (set_FEPhase p d)" "markFEAvailable (h d) = h (markFEAvailable d)" for p d
    using h by (auto simp: writer_defs set_MSStatus_def write_cg_def set_FEPhase_def set_FEStatus_def markFEAvailable_def)
  have only: "ddc_Spec (h d) = ddc_Spec d" "ddc_Name (h d) = ddc_Name d" "ddc_Namespace (h d) = ddc_Namespace d"
      "ddc_Annotations (h d) = ddc_Annotations d" "ddc_Generation (h d) = ddc_Generation d" for d
    using h writers_status_only [of h d] by auto
  have names: "GetFEStatefulsetName (h d) = GetFEStatefulsetName d" "GetElectionNumber (h d) = GetElectionNumber d" for d
    by (simp_all add: GetFEStatefulsetName_def GetElectionNumber_def only)
  show ?thesis
    by (simp add: UpdateFEStatus_def Let_def only names set split: prod.split sum.split option.split)
qed

lemma updateAll_frame:
  assumes "\<And>d. ddc_Name (h d) = ddc_Name d" "\<And>d. ddc_Namespace (h d) = ddc_Namespace d"
    "\<And>d. ddc_Annotations (h d) = ddc_Annotations d" "\<And>d. ddc_Generation (h d) = ddc_Generation d"
  shows "updateAll K (h d) cgss w = updateAll K d cgss w"
proof -
  have one: "updateCGStatus K (h d) cgs w = updateCGStatus K d cgs w" for cgs w
    unfolding updateCGStatus_def assms by (rule refl)
  show ?thesis by (induction cgss arbitrary: w) (simp_all only: updateAll.simps one)
qed

lemma recordComputeGroupIds_frame:
  assumes "\<And>d. ddc_Spec (h d) = ddc_Spec d" "\<And>d. ddc_Name (h d) = ddc_Name d"
    "\<And>d. ddc_Namespace (h d) = ddc_Namespace d" "ddc_ComputeGroupStatuses (h d) = ddc_ComputeGroupStatuses d"
    "\<And>css. set_ComputeGroupStatuses css (h d) = h (set_ComputeGroupStatuses css d)"
  shows "recordComputeGroupIds K (h d) w = map_prod (map_prod h id) id (recordComputeGroupIds K d w)"
proof -
  have reads: "GetManagementAdminUserAndPWD K (h d) w = GetManagementAdminUserAndPWD K d w"
      "FindSecretTLSConfig c (h d) = FindSecretTLSConfig c d" "GetFEVIPAddresss (h d) = GetFEVIPAddresss d" for w c
    unfolding GetManagementAdminUserAndPWD_def FindSecretTLSConfig_def GetFEVIPAddresss_def GetFEServiceName_def assms
    by (rule refl)+
  show ?thesis by (simp add: recordComputeGroupIds_def reads assms split: prod.split sum.split)
qed

lemma cg_frame:
  assumes h: "h \<in> ms_writers \<union> fe_writers"
  shows "fst (UpdateComponentStatus K (h d) w) = map_prod h id (fst (UpdateComponentStatus K d w))"
proof -
  have only: "ddc_Spec (h d) = ddc_Spec d" "ddc_Name (h d) = ddc_Name d" "ddc_Namespace (h d) = ddc_Namespace d"
      "ddc_Annotations (h d) = ddc_Annotations d" "ddc_Generation (h d) = ddc_Generation d" for d
    using h writers_status_only [of h d] by auto
  have set: "set_ComputeGroupStatuses css (h d) = h (set_ComputeGroupStatuses css d)"
      "ddc_ComputeGroupStatuses (h d) = ddc_ComputeGroupStatuses d" "countHealth (h d) = h (countHealth d)" for css d
    using h by (auto simp: writer_defs set_MSStatus_def write_fe_def set_ComputeGroupStatuses_def countHealth_def Let_def)
  have all: "updateAll K (h d) cgss w = updateAll K d cgss w" for cgss d w by (rule updateAll_frame) (rule only)+
  have ids: "recordComputeGroupIds K (h d) w = map_prod (map_prod h id) id (recordComputeGroupIds K d w)" for d w
    by (rule recordComputeGroupIds_frame) (rule only set)+
  show ?thesis
    by (simp add: UpdateComponentStatus_def Let_def all ids set split: prod.split option.split)
qed

lemma cg_keeps: "\<exists>g\<in>cg_writers. d = g d"
  by (rule cg_writesI [of _ "ddc_ComputeGroupStatuses d" "ch_CGCount (health d)" "ch_CGFullAvailableCount (health d)"
      "ch_CGAvailableCount (health d)"]) (simp add: write_cg_def)

lemma cg_set: "\<exists>g\<in>cg_writers. set_ComputeGroupStatuses css d = g d"
  by (rule cg_writesI [of _ css "ch_CGCount (health d)" "ch_CGFullAvailableCount (health d)"
      "ch_CGAvailableCount (health d)"]) (simp add: write_cg_def set_ComputeGroupStatuses_def)

lemma cg_compose:
  assumes "\<exists>g\<in>cg_writers. d1 = g d" "\<exists>g\<in>cg_writers. d2 = g d1"
  shows "\<exists>g\<in>cg_writers. d2 = g d"
proof -
  from assms obtain css n f a css' n' f' a' where "d1 = write_cg css n f a d" "d2 = write_cg css' n' f' a' d1"
    by (auto simp: cg_writers_def)
  then have "d2 = write_cg css' n' f' a' d" by (simp add: write_cg_def)
  then show ?thesis by (rule cg_writesI)
qed

lemma cg_count: "\<exists>g\<in>cg_writers. countHealth d = g d"
  unfolding countHealth_def Let_def
  by (rule cg_writesI [of _ "ddc_ComputeGroupStatuses d"]) (simp add: write_cg_def)

lemma cg_ids: "\<exists>g\<in>cg_writers. fst (fst (recordComputeGroupIds K d w)) = g d"
  by (simp add: recordComputeGroupIds_def cg_keeps cg_set split: prod.split sum.split)

lemma UpdateComponentStatus_writes: "\<exists>g\<in>cg_writers. fst (fst (UpdateComponentStatus K d w)) = g d"
proof -
  obtain cgss ms w1 where all: "updateAll K d (ddc_ComputeGroupStatuses d) w = ((cgss, ms), w1)"
    by (metis prod.exhaust)
  obtain d2 r2 w2 where ids: "(if list_ex (\<lambda>s. cgs_ComputeGroupId s = '''') cgss
      then recordComputeGroupIds K (set_ComputeGroupStatuses cgss d) w1
      else ((set_ComputeGroupStatuses cgss d, None), w1)) = ((d2, r2), w2)"
    by (metis prod.exhaust)
  have d2: "\<exists>g\<in>cg_writers. d2 = g d"
    using ids cg_set [of cgss d] cg_compose [OF cg_set cg_ids [of K "set_ComputeGroupStatuses cgss d" w1]]
    by (auto split: if_splits)
  show ?thesis
    using d2 cg_compose [OF d2 cg_count] cg_keeps [of d] all ids
    by (auto simp: UpdateComponentStatus_def Let_def split: option.splits)
qed

section \<open>Any order\<close>

lemma exchange_writers:
  "g \<in> ms_writers \<Longrightarrow> h \<in> fe_writers \<Longrightarrow> g (h d) = h (g d)"
  "g \<in> ms_writers \<Longrightarrow> h \<in> cg_writers \<Longrightarrow> g (h d) = h (g d)"
  "g \<in> fe_writers \<Longrightarrow> h \<in> cg_writers \<Longrightarrow> g (h d) = h (g d)"
  by (auto simp: writer_defs set_MSStatus_def write_fe_def write_cg_def)

interpretation ms_fe: independent_parts
  "\<lambda>d. fst (UpdateMSStatus K d w)" ms_writers "\<lambda>d. fst (UpdateFEStatus K d w)" fe_writers for K w
  by unfold_locales
    (auto simp: UpdateMSStatus_writes UpdateFEStatus_writes ms_frame fe_frame intro: exchange_writers(1))

interpretation ms_cg: independent_parts
  "\<lambda>d. fst (UpdateMSStatus K d w)" ms_writers "\<lambda>d. fst (UpdateComponentStatus K d w)" cg_writers for K w
  by unfold_locales
    (auto simp: UpdateMSStatus_writes UpdateComponentStatus_writes ms_frame cg_frame intro: exchange_writers(2))

interpretation fe_cg: independent_parts
  "\<lambda>d. fst (UpdateFEStatus K d w)" fe_writers "\<lambda>d. fst (UpdateComponentStatus K d w)" cg_writers for K w
  by unfold_locales
    (auto simp: UpdateFEStatus_writes UpdateComponentStatus_writes fe_frame cg_frame intro: exchange_writers(3))

text \<open>Reads that leave the outside world as it is.\<close>

definition quiet :: "('w, 'x) kube_env_scheme \<Rightarrow> bool" where
  "quiet K =
     (\<forall>w. (\<forall>ns n. snd (GetSts K ns n w) = w) \<and> (\<forall>ns sel. snd (ListPods K ns sel w) = w) \<and>
        (\<forall>ns n. snd (GetConfigMapObj K ns n w) = w) \<and> (\<forall>ns n. snd (GetSecretObj K ns n w) = w) \<and>
        (\<forall>k ca cert key. snd (RegisterTLSConfig K k ca cert key w) = w) \<and> (\<forall>dsn. snd (SqlxOpen K dsn w) = w) \<and>
        (\<forall>db. snd (Ping K db w) = w) \<and> (\<forall>db. snd (SelectBackends K db w) = w) \<and> (\<forall>db. CloseDB K db w = w))"

lemma quietD:
  assumes "quiet K"
  shows "GetSts K ns n w = (r1, w1) \<Longrightarrow> w1 = w" "ListPods K ns sel w = (r2, w1) \<Longrightarrow> w1 = w"
    "GetConfigMapObj K ns n w = (r3, w1) \<Longrightarrow> w1 = w" "GetSecretObj K ns n w = (r4, w1) \<Longrightarrow> w1 = w"
    "RegisterTLSConfig K k ca cert key w = (r5, w1) \<Longrightarrow> w1 = w" "SqlxOpen K dsn w = (r6, w1) \<Longrightarrow> w1 = w"
    "Ping K db w = (r7, w1) \<Longrightarrow> w1 = w" "SelectBackends K db w = (r8, w1) \<Longrightarrow> w1 = w" "CloseDB K db w = w"
  using assms unfolding quiet_def by (metis snd_conv)+

lemma quiet_config:
  "quiet K \<Longrightarrow> GetConfigValuesFromConfigMaps K ns key cms w = (c, w1) \<Longrightarrow> w1 = w"
  by (induction cms arbitrary: w) (auto split: prod.splits sum.splits option.splits dest: quietD(3))

lemma quiet_secret: "quiet K \<Longrightarrow> GetSecret K ns n w = (s, w1) \<Longrightarrow> w1 = w"
  by (auto simp: GetSecret_def split: prod.splits sum.splits dest: quietD(4))

lemma quiet_account: "quiet K \<Longrightarrow> GetManagementAdminUserAndPWD K d w = (a, w1) \<Longrightarrow> w1 = w"
  by (auto simp: GetManagementAdminUserAndPWD_def split: if_splits prod.splits option.splits dest: quiet_secret)

lemma quiet_open: "quiet K \<Longrightarrow> openAndPing K dsn w = (r, w1) \<Longrightarrow> w1 = w"
  by (auto simp: openAndPing_def split: prod.splits sum.splits option.splits dest: quietD(6,7))

lemma quiet_sql: "quiet K \<Longrightarrow> NewDorisSqlDB K cfg tls sec w = (r, w1) \<Longrightarrow> w1 = w"
  by (auto simp: NewDorisSqlDB_def Let_def split: prod.splits sum.splits option.splits if_splits
      dest: quietD(5) quiet_open)

lemmas quiet_reads = quietD(1,2,8) quiet_config quiet_secret quiet_account quiet_sql

lemma quiet_ms: "quiet K \<Longrightarrow> snd (UpdateMSStatus K d w) = w"
  by (auto simp: UpdateMSStatus_def Let_def split: prod.splits sum.splits dest: quiet_reads)

lemma quiet_fe: "quiet K \<Longrightarrow> snd (UpdateFEStatus K d w) = w"
  by (auto simp: UpdateFEStatus_def Let_def split: prod.splits sum.splits option.splits dest: quiet_reads)

lemma quiet_all: "quiet K \<Longrightarrow> snd (updateAll K d cgss w) = w"
proof (induction cgss arbitrary: w)
  case (Cons cgs cgss)
  have "snd (updateCGStatus K d cgs w) = w"
    using Cons.prems by (auto simp: updateCGStatus_def Let_def split: prod.splits sum.splits dest: quiet_reads)
  with Cons show ?case by (auto split: prod.splits) (metis snd_conv)
qed simp

lemma quiet_ids: "quiet K \<Longrightarrow> snd (recordComputeGroupIds K d w) = w"
  by (auto simp: recordComputeGroupIds_def quietD(9) split: prod.splits sum.splits dest: quiet_reads)

lemma quiet_cg: "quiet K \<Longrightarrow> snd (UpdateComponentStatus K d w) = w"
  using quiet_all [of K d "ddc_ComputeGroupStatuses d" w] quiet_ids [of K]
  by (auto simp: UpdateComponentStatus_def Let_def split: prod.splits option.splits if_splits)
    (metis snd_conv)+

lemma updateStatuses_step:
  assumes "sc_UpdateComponentStatus subC d w = ((d', r), w)"
  shows "updateStatuses (subC # scs) d w =
    (if no_panic r then updateStatuses scs d' w else (Inl (the r), w))"
  using assms by (cases r) (auto simp: no_panic_def)

lemma permutations_of_three:
  assumes "mset xs = mset [a, b, c]"
  shows "xs \<in> {[a, b, c], [a, c, b], [b, a, c], [b, c, a], [c, a, b], [c, b, a]}"
proof -
  have "length xs = 3" using mset_eq_length [OF assms] by simp
  then obtain x y z where xs: "xs = [x, y, z]" by (auto simp: numeral_3_eq_3 length_Suc_conv)
  with assms show ?thesis by (auto simp: add_eq_conv_ex)
qed

text \<open>
  C27. The status of a cluster does not depend on the order in which the sub-controllers
  are visited: Go leaves open in which order the map of sub-controllers is traversed. Where
  reading does not change the outside world, a round of status updates that does not panic
  gives the same cluster in every order.
\<close>

theorem status_order_irrelevant:
  assumes "quiet K" "mset scs = mset (initScs K)" "mset scs' = mset (initScs K)"
    and "updateStatuses scs ddc w = (Inr d, w')"
  shows "updateStatuses scs' ddc w = (Inr d, w')"
proof -
  let ?a = "\<lambda>d. fst (UpdateMSStatus K d w)" and ?b = "\<lambda>d. fst (UpdateFEStatus K d w)"
    and ?c = "\<lambda>d. fst (UpdateComponentStatus K d w)"
  have upd: "sc_UpdateComponentStatus (msController K) d w = ((fst (?a d), snd (?a d)), w)"
      "sc_UpdateComponentStatus (feController K) d w = ((fst (?b d), snd (?b d)), w)"
      "sc_UpdateComponentStatus (cgController K) d w = ((fst (?c d), snd (?c d)), w)" for d
    using quiet_ms [OF assms(1), of d w] quiet_fe [OF assms(1), of d w] quiet_cg [OF assms(1), of d w]
    by (simp_all add: msController_def feController_def cgController_def prod_eq_iff)
  note steps = upd [THEN updateStatuses_step]
  note errors = ms_fe.errors_alone ms_cg.errors_alone fe_cg.errors_alone
  have all: "updateStatuses xs ddc w = (Inr d, w') \<longleftrightarrow>
      no_panic (snd (?a ddc)) \<and> no_panic (snd (?b ddc)) \<and> no_panic (snd (?c ddc)) \<and>
      d = fst (?c (fst (?b (fst (?a ddc))))) \<and> w' = w" if "mset xs = mset (initScs K)" for xs
    using permutations_of_three [OF that [unfolded initScs_def]]
    by (elim insertE emptyE) (auto simp: steps errors ms_fe.either_order ms_cg.either_order fe_cg.either_order
        simp del: updateStatuses.simps(2))
  from assms(4) show ?thesis unfolding all [OF assms(2)] all [OF assms(3)] .
qed

lemma mem_quiet: "quiet (cluster_server answer stored)"
  by (simp add: quiet_def cluster_server_def rollout_env.extend_def cluster_env.fields_def mem_env_def mem_find_def
      split: option.split)

lemma status_order_irrelevant_witness:
  "\<exists>d w'. updateStatuses (initScs (cluster_server Inr settled_cluster)) settled_cluster zero_world = (Inr d, w') \<and>
     updateStatuses (rev (initScs (cluster_server Inr settled_cluster))) settled_cluster zero_world = (Inr d, w')"
proof -
  let ?K = "cluster_server Inr settled_cluster"
  have "\<not> isl (fst (updateStatuses (initScs ?K) settled_cluster zero_world))"
    unfolding initScs_def updateStatuses.simps msController_def feController_def
      cgController_def DisaggregatedSubController.simps by code_simp
  then obtain d w' where "updateStatuses (initScs ?K) settled_cluster zero_world = (Inr d, w')"
    by (cases "updateStatuses (initScs ?K) settled_cluster zero_world";
        cases "fst (updateStatuses (initScs ?K) settled_cluster zero_world)") auto
  with status_order_irrelevant [OF mem_quiet refl _ this, of "rev (initScs ?K)"] show ?thesis by auto
qed

end
