(* ===== verification/Instance_Props.thy ===== *)
theory Instance_Props
  imports Disagg_FE
begin

text \<open>
  The identifier that the operator gives an FE cluster: its range, the length of its text,
  and clusters that share one.
\<close>

lemma dec_nat_length: "10 ^ k \<le> n \<Longrightarrow> n < 10 ^ Suc k \<Longrightarrow> length (dec_nat n) = Suc k"
proof (induction k arbitrary: n)
  case 0
  then show ?case by (simp add: dec_nat.simps [of n])
next
  case (Suc k)
  then have "10 ^ k \<le> n div 10" "n div 10 < 10 ^ Suc k"
    by (auto simp: less_mult_imp_div_less intro: div_le_mono [of "10 * 10 ^ k" n 10, simplified])
  moreover from this(1) have "\<not> n < 10"
    by (metis div_less le_zero_eq power_not_zero zero_neq_numeral)
  ultimately show ?case using Suc.IH [of "n div 10"] by (subst dec_nat.simps) simp
qed

text \<open>
  C38. The cluster identifier given to the FE is a number of exactly ten digits that starts
  with a one, whatever the names: it lies between 1000000000 and 1999999999, so it fits in
  32 bits and its text, the value of CLUSTER_ID in the pods, has ten characters.
\<close>

theorem instance_id_bounds:
  "1000000000 \<le> GetInstanceHashId ddc \<and> GetInstanceHashId ddc < 2000000000 \<and>
   in_int32 (GetInstanceHashId ddc) \<and> length (Itoa (GetInstanceHashId ddc)) = 10"
proof -
  let ?id = "GetInstanceHashId ddc"
  have range: "1000000000 \<le> ?id" "?id < 2000000000"
    by (simp_all add: GetInstanceHashId_def Let_def)
  then have "length (dec_nat (nat ?id)) = Suc 9" by (intro dec_nat_length) auto
  moreover have "Itoa ?id = dec_nat (nat ?id)" using Itoa_of_nat [of "nat ?id"] range by simp
  ultimately show ?thesis using range by (simp add: in_int32_def)
qed

text \<open>
  The identifier is a hash of namespace and name joined by a dash, so two clusters whose
  joined names agree share it.
\<close>

lemma instance_ids_shared:
  "ddc_Namespace d1 = ''a'' \<Longrightarrow> ddc_Name d1 = ''b-c'' \<Longrightarrow> ddc_Namespace d2 = ''a-b'' \<Longrightarrow> ddc_Name d2 = ''c'' \<Longrightarrow>
   GetInstanceHashId d1 = GetInstanceHashId d2"
  by (simp add: GetInstanceHashId_def)

end
