(* ===== verification/Graceful_Ends.thy ===== *)
theory Graceful_Ends
  imports Graceful_Props
begin

text \<open>
  Termination of the wait for a drain. The wait is spread over reconciles: each finds the
  cluster in a state of its own (a view) and polls the machine once. A poll whose question
  for the pod the API server does not answer is lost; every other one either leaves phase
  WaitDrain or keeps its pod and its deadline, so the clock bounds their number.
\<close>

type_synonym 'w view = "statefulset \<times> 'w"

definition poll_action ::
    "('w, 'x) rollout_env_scheme \<Rightarrow> DorisDisaggregatedCluster \<Rightarrow> ComputeGroupStatus \<Rightarrow> 'w view
     \<Rightarrow> GracefulAction \<Rightarrow> GracefulAction" where
  "poll_action K cluster cgStatus v ga =
     fst (fst (runGracefulStateMachine K cluster cgStatus (fst v)
       (refreshRollingUpdateTargetRevision (fst v) ga) (snd v)))"

text \<open>Whether the API server knows what became of a pod, and the clock after its answer.\<close>

definition pod_answered :: "('w, 'x) kube_env_scheme \<Rightarrow> string \<Rightarrow> string \<Rightarrow> 'w view \<Rightarrow> bool" where
  "pod_answered K ns pn v =
     (case fst (GetPodObj K ns pn (snd v)) of Inr _ \<Rightarrow> True | Inl e \<Rightarrow> IsNotFound e)"

definition answer_time :: "('w, 'x) kube_env_scheme \<Rightarrow> string \<Rightarrow> string \<Rightarrow> 'w view \<Rightarrow> time" where
  "answer_time K ns pn v = fst (Now K (snd (GetPodObj K ns pn (snd v))))"

lemma wait_drain_states:
  assumes "ga_Phase ga = GracefulPhaseWaitDrain"
    and "GetPodObj K (ddc_Namespace cluster) (ga_CurrentPod ga) w = (Inr p, w1)"
    and "runGracefulStateMachine K cluster cgStatus est ga w = ((ga', r), w')"
  shows "ga_CurrentPod ga' = ga_CurrentPod ga \<and>
    (ga_Phase ga' = GracefulPhaseDeletePod \<or>
     ga_Phase ga' = GracefulPhaseWaitDrain \<and> fst (Now K w1) \<le> ga_DeadlineAt ga)"
  using assms
  by (auto simp: runGracefulStateMachine_def handleWaitDrain_def getPod_def afterDeadline_def Let_def
      not_less split: prod.splits bool.splits if_splits)

lemma poll_drain_cases:
  assumes "ga_Phase ga = GracefulPhaseWaitDrain" and "ga' = poll_action K cluster cgStatus v ga"
  shows "ga_Phase ga' \<noteq> GracefulPhaseWaitDrain \<or>
    ga_CurrentPod ga' = ga_CurrentPod ga \<and> ga_DeadlineAt ga' = ga_DeadlineAt ga \<and>
    (pod_answered K (ddc_Namespace cluster) (ga_CurrentPod ga) v \<longrightarrow>
       answer_time K (ddc_Namespace cluster) (ga_CurrentPod ga) v \<le> ga_DeadlineAt ga)"
proof -
  let ?g = "refreshRollingUpdateTargetRevision (fst v) ga"
  obtain q w1 where q: "GetPodObj K (ddc_Namespace cluster) (ga_CurrentPod ga) (snd v) = (q, w1)" by fastforce
  obtain r w' where run: "runGracefulStateMachine K cluster cgStatus (fst v) ?g (snd v) = ((ga', r), w')"
    using assms(2) by (metis poll_action_def prod.collapse)
  have ph: "ga_Phase ?g = GracefulPhaseWaitDrain" using assms(1) by simp
  show ?thesis
  proof (cases q)
    case (Inl e)
    with run ph q show ?thesis
      by (auto simp: runGracefulStateMachine_def handleWaitDrain_def getPod_def pod_answered_def split: if_splits)
  next
    case (Inr p)
    have d: "ga_DeadlineAt ga' = ga_DeadlineAt ga" 
      using run ph q Inr
      by (auto simp: runGracefulStateMachine_def handleWaitDrain_def getPod_def Let_def
          split: prod.splits bool.splits if_splits)
    from wait_drain_states [OF ph _ run] q Inr d show ?thesis
      by (auto simp: answer_time_def split: if_splits)
  qed
qed

lemma drain_stays:
  assumes "ga_Phase ga = GracefulPhaseWaitDrain"
    and "\<forall>k \<le> length vs. ga_Phase (fold (poll_action K cluster cgStatus) (take k vs) ga) = GracefulPhaseWaitDrain"
  shows "\<forall>v \<in> set vs. pod_answered K (ddc_Namespace cluster) (ga_CurrentPod ga) v \<longrightarrow>
           answer_time K (ddc_Namespace cluster) (ga_CurrentPod ga) v \<le> ga_DeadlineAt ga"
  using assms
proof (induction vs arbitrary: ga)
  case (Cons v vs)
  let ?ga' = "poll_action K cluster cgStatus v ga"
  have rest: "\<forall>k \<le> length vs. ga_Phase (fold (poll_action K cluster cgStatus) (take k vs) ?ga') = GracefulPhaseWaitDrain"
    using Cons.prems(2) by (metis Suc_le_mono fold_simps(2) length_Cons take_Suc_Cons)
  then have wait: "ga_Phase ?ga' = GracefulPhaseWaitDrain" by (metis fold_simps(1) le0 take0)
  with poll_drain_cases [OF Cons.prems(1) refl, of K cluster cgStatus v] Cons.IH [OF wait rest]
  show ?case by auto
qed simp

lemma spaced_times_spread:
  fixes ts :: "int list"
  assumes "sorted_wrt (\<lambda>a b. a + d \<le> b) ts" and "ts \<noteq> []"
  shows "hd ts + d * (int (length ts) - 1) \<le> last ts"
  using assms
proof (induction ts rule: rev_induct)
  case (snoc t ts)
  show ?case
  proof (cases "ts = []")
    case False
    have "last ts + d \<le> t" using snoc.prems False by (simp add: sorted_wrt_append)
    moreover have "hd ts + d * (int (length ts) - 1) \<le> last ts"
      using snoc False by (simp add: sorted_wrt_append)
    ultimately show ?thesis using False by (simp add: algebra_simps)
  qed simp
qed simp

text \<open>
  C5. The wait for a drain ends. Take any sequence of reconciles from an action in phase
  WaitDrain; of those where the API server answers the question for the pod, with the pod
  or with not-found (the others change nothing), each reads a clock at least \<open>d\<close> later than
  those before. Once so many are answered that \<open>d\<close> for each after the first reaches
  beyond the deadline, some poll has left the phase, whatever the pod does.
\<close>

theorem drain_wait_ends:
  assumes "ga_Phase ga = GracefulPhaseWaitDrain"
    and "as = filter (pod_answered K (ddc_Namespace cluster) (ga_CurrentPod ga)) vs"
    and "ts = map (answer_time K (ddc_Namespace cluster) (ga_CurrentPod ga)) as"
    and "sorted_wrt (\<lambda>a b. a + d \<le> b) ts" and "as \<noteq> []"
    and "ga_DeadlineAt ga < hd ts + d * (int (length as) - 1)"
  shows "\<exists>k \<le> length vs. ga_Phase (fold (poll_action K cluster cgStatus) (take k vs) ga) \<noteq> GracefulPhaseWaitDrain"
proof (rule ccontr)
  assume "\<not> ?thesis"
  with drain_stays [OF assms(1), of vs K cluster cgStatus]
  have "\<forall>v \<in> set as. answer_time K (ddc_Namespace cluster) (ga_CurrentPod ga) v \<le> ga_DeadlineAt ga"
    by (auto simp: assms(2))
  then have "last ts \<le> ga_DeadlineAt ga" using assms(3,5) by (simp add: last_map)
  moreover have "hd ts + d * (int (length as) - 1) \<le> last ts"
    using spaced_times_spread [OF assms(4)] assms(3,5) by simp
  ultimately show False using assms(6) by simp
qed

definition draining_pod :: pod where
  "draining_pod = zero_pod\<lparr>pod_Name := ''c-g-2''\<rparr>"

definition drain_view :: "int \<Rightarrow> world view" where
  "drain_view t = (zero_sts, zero_world\<lparr>w_Pods := [draining_pod], w_Clock := t\<rparr>)"

lemma drain_view_pod:
  "GetPodObj mem_env (ddc_Namespace zero_ddc) (ga_CurrentPod waiting_action) (snd (drain_view t)) =
     (Inr draining_pod, snd (drain_view t))"
  by (simp add: drain_view_def draining_pod_def mem_find_def zero_ddc_def zero_pod_def
      waiting_action_def zero_world_def)

lemma drain_wait_ends_witness:
  "\<exists>k \<le> 4. ga_Phase (fold (poll_action mem_env zero_ddc zero_ComputeGroupStatus)
      (take k (map drain_view [-8, -3, 2, 7])) waiting_action) \<noteq> GracefulPhaseWaitDrain"
proof -
  have a: "pod_answered mem_env (ddc_Namespace zero_ddc) (ga_CurrentPod waiting_action) (drain_view t)" for t
    unfolding pod_answered_def drain_view_pod by simp
  have t: "answer_time mem_env (ddc_Namespace zero_ddc) (ga_CurrentPod waiting_action) (drain_view t) = t" for t
    unfolding answer_time_def drain_view_pod by (simp add: drain_view_def)
  have d: "ga_DeadlineAt waiting_action = 0"
    by (simp add: waiting_action_def newAction_def zero_GracefulAction_def)
  from drain_wait_ends [OF waiting_phase refl refl, where K = mem_env and cluster = zero_ddc and d = 5
      and vs = "map drain_view [-8, -3, 2, 7]" and cgStatus = zero_ComputeGroupStatus]
  show ?thesis by (simp add: a t d eval_nat_numeral)
qed

end
