(* ===== verification/Doris_Types.thy ===== *)
theory Doris_Types
  imports Disagg_Pods
begin

text \<open>
  The API types of \<^verbatim>\<open>api/doris/v1\<close> (\<^verbatim>\<open>types.go\<close>, \<^verbatim>\<open>autoscaler.go\<close>) and the
  names, labels and addresses of a DorisCluster (\<^verbatim>\<open>doriscluster_util.go\<close>). Structs that
  have the fields of their disaggregated counterpart (a mounted secret or config map, the
  administrator, the probe policy, the system initialisation, Kerberos) use its record.
  Where the code reads the specification of a component that is not deployed, it
  dereferences nil: such a function returns a panic.
\<close>

section \<open>Specification\<close>

record Endpoints =
  ep_Address :: "string list"
  ep_Port :: int

record FeAddress =
  fa_ServiceName :: string
  fa_Endpoints :: Endpoints

record DorisServicePort =
  dsp_NodePort :: int
  dsp_TargetPort :: int

record ExportService =
  xs_Type :: string
  xs_ServicePorts :: "DorisServicePort list"
  xs_Annotations :: string_map
  xs_LoadBalancerIP :: string

record ConfigMapInfo =
  cmi_ConfigMapName :: string
  cmi_ResolveKey :: string
  cmi_ConfigMaps :: "cm_mount list"

record PersistentVolume =
  dpv_ClaimSpec :: claim_spec
  dpv_MountPath :: string
  dpv_Name :: string
  dpv_Annotations :: string_map
  dpv_PVCProvisioner :: string

definition PVCProvisionerOperator_dcr :: string where "PVCProvisionerOperator_dcr = ''Operator''"

record BaseSpec =
  bs_StartTimeout :: int
  bs_LiveTimeout :: int
  bs_ReadinessProbePolicy :: "readiness_probe_policy option"
  bs_Annotations :: string_map
  bs_ServiceAccount :: string
  bs_Service :: "ExportService option"
  bs_FeAddress :: "FeAddress option"
  bs_Replicas :: "int option"
  bs_Image :: string
  bs_ImagePullSecrets :: "string list"
  bs_ConfigMapInfo :: ConfigMapInfo
  bs_Resources :: resource_requirements
  bs_NodeSelector :: string_map
  bs_EnvVars :: "env_var list"
  bs_Affinity :: "affinity option"
  bs_Tolerations :: "opaque list"
  bs_PodLabels :: string_map
  bs_HostAliases :: "opaque list"
  bs_PersistentVolumes :: "PersistentVolume list"
  bs_SystemInitialization :: "system_initialization option"
  bs_SecurityContext :: "opaque option"
  bs_ContainerSecurityContext :: "security_context option"
  bs_Secrets :: "secret_mount list"

definition zero_BaseSpec :: BaseSpec where
  "zero_BaseSpec = \<lparr>bs_StartTimeout = 0, bs_LiveTimeout = 0, bs_ReadinessProbePolicy = None,
     bs_Annotations = Map.empty, bs_ServiceAccount = '''', bs_Service = None, bs_FeAddress = None,
     bs_Replicas = None, bs_Image = '''', bs_ImagePullSecrets = [],
     bs_ConfigMapInfo = \<lparr>cmi_ConfigMapName = '''', cmi_ResolveKey = '''', cmi_ConfigMaps = []\<rparr>,
     bs_Resources = zero_resources, bs_NodeSelector = Map.empty, bs_EnvVars = [], bs_Affinity = None,
     bs_Tolerations = [], bs_PodLabels = Map.empty, bs_HostAliases = [], bs_PersistentVolumes = [],
     bs_SystemInitialization = None, bs_SecurityContext = None, bs_ContainerSecurityContext = None,
     bs_Secrets = []\<rparr>"

record FeSpec =
  feSpec_ElectionNumber :: "int option"
  feSpec_BaseSpec :: BaseSpec

record BeSpec =
  beSpec_BaseSpec :: BaseSpec
  beSpec_EnableWorkloadGroup :: bool
  beSpec_SkipDefaultSystemInit :: bool
  beSpec_EnableFeAffinity :: bool
  beSpec_AutoResolveLimitCPU :: bool

text \<open>The metrics and the behaviour of a policy are copied to the autoscaler.\<close>

record HPAPolicy =
  hpap_Metrics :: "opaque list"
  hpap_Behavior :: "opaque option"

record AutoScalingPolicy =
  asp_HPAPolicy :: "HPAPolicy option"
  asp_Version :: string
  asp_MinReplicas :: "int option"
  asp_MaxReplicas :: int

definition AutoScalerV1 :: string where "AutoScalerV1 = ''v1''"
definition AutoSclaerV2 :: string where "AutoSclaerV2 = ''v2''"

record CnSpec =
  cnSpec_BaseSpec :: BaseSpec
  cnSpec_SkipDefaultSystemInit :: bool
  cnSpec_AutoScalingPolicy :: "AutoScalingPolicy option"
  cnSpec_AutoResolveLimitCPU :: bool

record BrokerSpec =
  brokerSpec_BaseSpec :: BaseSpec
  brokerSpec_KickOffAffinityBe :: bool

datatype ComponentType = Component_FE | Component_BE | Component_CN | Component_Broker | Component_Other string

fun component_string :: "ComponentType \<Rightarrow> string" where
  "component_string Component_FE = ''fe''"
| "component_string Component_BE = ''be''"
| "component_string Component_CN = ''cn''"
| "component_string Component_Broker = ''broker''"
| "component_string (Component_Other t) = t"

record SharedPersistentVolumeClaim =
  spvc_MountPath :: string
  spvc_PersistentVolumeClaimName :: string
  spvc_SupportComponents :: "ComponentType list"

record DorisClusterSpec =
  dcs_FeSpec :: "FeSpec option"
  dcs_BeSpec :: "BeSpec option"
  dcs_CnSpec :: "CnSpec option"
  dcs_BrokerSpec :: "BrokerSpec option"
  dcs_AdminUser :: "admin_user option"
  dcs_AuthSecret :: string
  dcs_EnableRestartWhenConfigChange :: bool
  dcs_KerberosInfo :: "kerberos_info option"
  dcs_SharedPersistentVolumeClaims :: "SharedPersistentVolumeClaim list"

section \<open>Status\<close>

datatype ComponentPhase =
    Phase_Reconciling
  | Phase_WaitScheduling
  | Phase_HaveMemberFailed
  | Phase_Available
  | Phase_Initializing
  | Phase_Upgrading
  | Phase_Scaling
  | Phase_Restarting
  | Phase_Other string

text \<open>
  A \<^verbatim>\<open>metav1.Time\<close> as the comparison of structs sees it: one taken from the clock carries
  a monotonic reading, one decoded from the API server's answer (and the zero time) does not.
\<close>

datatype stamp = ClockStamp time | StoredStamp time

record ComponentCondition =
  cc_SubResourceName :: string
  cc_Phase :: ComponentPhase
  cc_LastTransitionTime :: stamp
  cc_Reason :: string
  cc_Message :: string

record ComponentStatus =
  cst_AccessService :: string
  cst_CoreConfigMapHashValue :: string
  cst_FailedMembers :: "string list"
  cst_CreatingMembers :: "string list"
  cst_RunningMembers :: "string list"
  cst_ComponentCondition :: ComponentCondition

definition zero_ComponentStatus :: ComponentStatus where
  "zero_ComponentStatus = \<lparr>cst_AccessService = '''', cst_CoreConfigMapHashValue = '''',
     cst_FailedMembers = [], cst_CreatingMembers = [], cst_RunningMembers = [],
     cst_ComponentCondition = \<lparr>cc_SubResourceName = '''', cc_Phase = Phase_Other '''',
       cc_LastTransitionTime = StoredStamp 0, cc_Reason = '''', cc_Message = ''''\<rparr>\<rparr>"

abbreviation cst_Phase :: "ComponentStatus \<Rightarrow> ComponentPhase" where
  "cst_Phase s \<equiv> cc_Phase (cst_ComponentCondition s)"

definition set_phase :: "ComponentPhase \<Rightarrow> ComponentStatus \<Rightarrow> ComponentStatus" where
  "set_phase p s = s\<lparr>cst_ComponentCondition := (cst_ComponentCondition s)\<lparr>cc_Phase := p\<rparr>\<rparr>"

record HorizontalScaler =
  hs_Name :: string
  hs_Version :: string

record CnStatus =
  cns_ComponentStatus :: ComponentStatus
  cns_HorizontalScaler :: "HorizontalScaler option"

record DorisClusterStatus =
  dst_FEStatus :: "ComponentStatus option"
  dst_BEStatus :: "ComponentStatus option"
  dst_CnStatus :: "CnStatus option"
  dst_BrokerStatus :: "ComponentStatus option"

record DorisCluster =
  dcr_Name :: string
  dcr_Namespace :: string
  dcr_UID :: string
  dcr_ResourceVersion :: string
  dcr_DeletionTimestamp :: time
  dcr_Annotations :: string_map
  dcr_Spec :: DorisClusterSpec
  dcr_Status :: DorisClusterStatus

definition zero_dcr :: DorisCluster where
  "zero_dcr = \<lparr>dcr_Name = '''', dcr_Namespace = '''', dcr_UID = '''', dcr_ResourceVersion = '''',
     dcr_DeletionTimestamp = 0, dcr_Annotations = Map.empty,
     dcr_Spec = \<lparr>dcs_FeSpec = None, dcs_BeSpec = None, dcs_CnSpec = None, dcs_BrokerSpec = None,
       dcs_AdminUser = None, dcs_AuthSecret = '''', dcs_EnableRestartWhenConfigChange = False,
       dcs_KerberosInfo = None, dcs_SharedPersistentVolumeClaims = []\<rparr>,
     dcr_Status = \<lparr>dst_FEStatus = None, dst_BEStatus = None, dst_CnStatus = None, dst_BrokerStatus = None\<rparr>\<rparr>"

abbreviation dcr_FeSpec :: "DorisCluster \<Rightarrow> FeSpec option" where "dcr_FeSpec dcr \<equiv> dcs_FeSpec (dcr_Spec dcr)"
abbreviation dcr_BeSpec :: "DorisCluster \<Rightarrow> BeSpec option" where "dcr_BeSpec dcr \<equiv> dcs_BeSpec (dcr_Spec dcr)"
abbreviation dcr_CnSpec :: "DorisCluster \<Rightarrow> CnSpec option" where "dcr_CnSpec dcr \<equiv> dcs_CnSpec (dcr_Spec dcr)"
abbreviation dcr_BrokerSpec :: "DorisCluster \<Rightarrow> BrokerSpec option" where
  "dcr_BrokerSpec dcr \<equiv> dcs_BrokerSpec (dcr_Spec dcr)"
abbreviation dcr_FEStatus :: "DorisCluster \<Rightarrow> ComponentStatus option" where
  "dcr_FEStatus dcr \<equiv> dst_FEStatus (dcr_Status dcr)"
abbreviation dcr_BEStatus :: "DorisCluster \<Rightarrow> ComponentStatus option" where
  "dcr_BEStatus dcr \<equiv> dst_BEStatus (dcr_Status dcr)"
abbreviation dcr_CnStatus :: "DorisCluster \<Rightarrow> CnStatus option" where "dcr_CnStatus dcr \<equiv> dst_CnStatus (dcr_Status dcr)"
abbreviation dcr_BrokerStatus :: "DorisCluster \<Rightarrow> ComponentStatus option" where
  "dcr_BrokerStatus dcr \<equiv> dst_BrokerStatus (dcr_Status dcr)"

definition set_dcr_FEStatus :: "ComponentStatus option \<Rightarrow> DorisCluster \<Rightarrow> DorisCluster" where
  "set_dcr_FEStatus s dcr = dcr\<lparr>dcr_Status := (dcr_Status dcr)\<lparr>dst_FEStatus := s\<rparr>\<rparr>"

definition set_dcr_BEStatus :: "ComponentStatus option \<Rightarrow> DorisCluster \<Rightarrow> DorisCluster" where
  "set_dcr_BEStatus s dcr = dcr\<lparr>dcr_Status := (dcr_Status dcr)\<lparr>dst_BEStatus := s\<rparr>\<rparr>"

definition set_dcr_CnStatus :: "CnStatus option \<Rightarrow> DorisCluster \<Rightarrow> DorisCluster" where
  "set_dcr_CnStatus s dcr = dcr\<lparr>dcr_Status := (dcr_Status dcr)\<lparr>dst_CnStatus := s\<rparr>\<rparr>"

definition set_dcr_BrokerStatus :: "ComponentStatus option \<Rightarrow> DorisCluster \<Rightarrow> DorisCluster" where
  "set_dcr_BrokerStatus s dcr = dcr\<lparr>dcr_Status := (dcr_Status dcr)\<lparr>dst_BrokerStatus := s\<rparr>\<rparr>"

text \<open>
  \<^verbatim>\<open>getBaseSpecFromCluster\<close>: the pointer into the specification, read where it is taken;
  a component that is not deployed panics. \<open>set_base\<close> writes through it.
\<close>

fun getBaseSpecFromCluster :: "DorisCluster \<Rightarrow> ComponentType \<Rightarrow> go_error + BaseSpec" where
  "getBaseSpecFromCluster dcr Component_FE =
     (case dcr_FeSpec dcr of None \<Rightarrow> Inl (Panic ''dcr.Spec.FeSpec.BaseSpec'') | Some s \<Rightarrow> Inr (feSpec_BaseSpec s))"
| "getBaseSpecFromCluster dcr Component_BE =
     (case dcr_BeSpec dcr of None \<Rightarrow> Inl (Panic ''dcr.Spec.BeSpec.BaseSpec'') | Some s \<Rightarrow> Inr (beSpec_BaseSpec s))"
| "getBaseSpecFromCluster dcr Component_CN =
     (case dcr_CnSpec dcr of None \<Rightarrow> Inl (Panic ''dcr.Spec.CnSpec.BaseSpec'') | Some s \<Rightarrow> Inr (cnSpec_BaseSpec s))"
| "getBaseSpecFromCluster dcr Component_Broker =
     (case dcr_BrokerSpec dcr of
        None \<Rightarrow> Inl (Panic ''dcr.Spec.BrokerSpec.BaseSpec'') | Some s \<Rightarrow> Inr (brokerSpec_BaseSpec s))"
| "getBaseSpecFromCluster dcr (Component_Other t) = Inl (Panic ''bSpec'')"

fun set_base :: "BaseSpec \<Rightarrow> ComponentType \<Rightarrow> DorisCluster \<Rightarrow> DorisCluster" where
  "set_base b Component_FE dcr =
     dcr\<lparr>dcr_Spec := (dcr_Spec dcr)\<lparr>dcs_FeSpec := map_option (feSpec_BaseSpec_update (\<lambda>_. b)) (dcr_FeSpec dcr)\<rparr>\<rparr>"
| "set_base b Component_BE dcr =
     dcr\<lparr>dcr_Spec := (dcr_Spec dcr)\<lparr>dcs_BeSpec := map_option (beSpec_BaseSpec_update (\<lambda>_. b)) (dcr_BeSpec dcr)\<rparr>\<rparr>"
| "set_base b Component_CN dcr =
     dcr\<lparr>dcr_Spec := (dcr_Spec dcr)\<lparr>dcs_CnSpec := map_option (cnSpec_BaseSpec_update (\<lambda>_. b)) (dcr_CnSpec dcr)\<rparr>\<rparr>"
| "set_base b Component_Broker dcr =
     dcr\<lparr>dcr_Spec := (dcr_Spec dcr)\<lparr>dcs_BrokerSpec :=
       map_option (brokerSpec_BaseSpec_update (\<lambda>_. b)) (dcr_BrokerSpec dcr)\<rparr>\<rparr>"
| "set_base b (Component_Other t) dcr = dcr"

section \<open>Keys and names\<close>

definition FERestartAt :: string where "FERestartAt = ''apache.doris.fe/restartedAt''"
definition BERestartAt :: string where "BERestartAt = ''apache.doris.be/restartedAt''"
definition ComponentLabelKey :: string where "ComponentLabelKey = ''app.kubernetes.io/component''"
definition DorisClusterLabelKey :: string where "DorisClusterLabelKey = ''app.doris.cluster''"
definition OwnerReference :: string where "OwnerReference = ''app.doris.ownerreference/name''"
definition Service_Role_Access :: string where "Service_Role_Access = ''access''"
definition SEARCH_SERVICE_SUFFIX :: string where "SEARCH_SERVICE_SUFFIX = ''-internal''"
definition DefaultFeElectionNumber :: int where "DefaultFeElectionNumber = 3"

fun GenerateExternalServiceName :: "DorisCluster \<Rightarrow> ComponentType \<Rightarrow> string" where
  "GenerateExternalServiceName dcr Component_FE = dcr_Name dcr @ ''-'' @ ''fe'' @ ''-service''"
| "GenerateExternalServiceName dcr Component_CN = dcr_Name dcr @ ''-'' @ ''cn'' @ ''-service''"
| "GenerateExternalServiceName dcr Component_BE = dcr_Name dcr @ ''-'' @ ''be'' @ ''-service''"
| "GenerateExternalServiceName dcr Component_Broker = dcr_Name dcr @ ''-'' @ ''broker'' @ ''-service''"
| "GenerateExternalServiceName dcr (Component_Other t) = ''''"

definition feStatefulSetName :: "DorisCluster \<Rightarrow> string" where
  "feStatefulSetName dcr = dcr_Name dcr @ ''-'' @ ''fe''"

definition beStatefulSetName :: "DorisCluster \<Rightarrow> string" where
  "beStatefulSetName dcr = dcr_Name dcr @ ''-'' @ ''be''"

definition cnStatefulSetName :: "DorisCluster \<Rightarrow> string" where
  "cnStatefulSetName dcr = dcr_Name dcr @ ''-'' @ ''cn''"

definition brokerStatefulSetName :: "DorisCluster \<Rightarrow> string" where
  "brokerStatefulSetName dcr = dcr_Name dcr @ ''-'' @ ''broker''"

fun GenerateComponentStatefulSetName :: "DorisCluster \<Rightarrow> ComponentType \<Rightarrow> string" where
  "GenerateComponentStatefulSetName dcr Component_FE = feStatefulSetName dcr"
| "GenerateComponentStatefulSetName dcr Component_BE = beStatefulSetName dcr"
| "GenerateComponentStatefulSetName dcr Component_CN = cnStatefulSetName dcr"
| "GenerateComponentStatefulSetName dcr Component_Broker = brokerStatefulSetName dcr"
| "GenerateComponentStatefulSetName dcr (Component_Other t) = ''''"

definition GenerateInternalCommunicateServiceName :: "DorisCluster \<Rightarrow> ComponentType \<Rightarrow> string" where
  "GenerateInternalCommunicateServiceName dcr componentType =
     dcr_Name dcr @ ''-'' @ component_string componentType @ SEARCH_SERVICE_SUFFIX"

fun GeneratePodTemplateName :: "DorisCluster \<Rightarrow> ComponentType \<Rightarrow> string" where
  "GeneratePodTemplateName dcr Component_FE = dcr_Name dcr @ ''-'' @ ''fe''"
| "GeneratePodTemplateName dcr Component_BE = dcr_Name dcr @ ''-'' @ ''be''"
| "GeneratePodTemplateName dcr Component_CN = dcr_Name dcr @ ''-'' @ ''cn''"
| "GeneratePodTemplateName dcr Component_Broker = dcr_Name dcr @ ''-'' @ ''broker''"
| "GeneratePodTemplateName dcr (Component_Other t) = ''''"

section \<open>Labels\<close>

definition AddLabel :: "string_map \<Rightarrow> string_map \<Rightarrow> string_map" where
  "AddLabel l label = l ++ label"

definition GenerateExternalServiceLabels :: "DorisCluster \<Rightarrow> ComponentType \<Rightarrow> string_map" where
  "GenerateExternalServiceLabels dcr componentType =
     [OwnerReference \<mapsto> dcr_Name dcr, ComponentLabelKey \<mapsto> component_string componentType,
      ServiceRoleForCluster \<mapsto> Service_Role_Access]"

definition GenerateInternalServiceLabels :: "DorisCluster \<Rightarrow> ComponentType \<Rightarrow> string_map" where
  "GenerateInternalServiceLabels dcr componentType =
     [OwnerReference \<mapsto> dcr_Name dcr, ComponentLabelKey \<mapsto> component_string componentType,
      ServiceRoleForCluster \<mapsto> Service_Role_Internal]"

definition feStatefulSetSelector :: "DorisCluster \<Rightarrow> string_map" where
  "feStatefulSetSelector dcr = [OwnerReference \<mapsto> feStatefulSetName dcr, ComponentLabelKey \<mapsto> ''fe'']"

definition beStatefulSetSelector :: "DorisCluster \<Rightarrow> string_map" where
  "beStatefulSetSelector dcr = [OwnerReference \<mapsto> beStatefulSetName dcr, ComponentLabelKey \<mapsto> ''be'']"

definition cnStatefulSetSelector :: "DorisCluster \<Rightarrow> string_map" where
  "cnStatefulSetSelector dcr = [OwnerReference \<mapsto> cnStatefulSetName dcr, ComponentLabelKey \<mapsto> ''cn'']"

definition brokerStatefulSetSelector :: "DorisCluster \<Rightarrow> string_map" where
  "brokerStatefulSetSelector dcr = [OwnerReference \<mapsto> brokerStatefulSetName dcr, ComponentLabelKey \<mapsto> ''broker'']"

fun GenerateStatefulSetSelector :: "DorisCluster \<Rightarrow> ComponentType \<Rightarrow> string_map" where
  "GenerateStatefulSetSelector dcr Component_FE = feStatefulSetSelector dcr"
| "GenerateStatefulSetSelector dcr Component_BE = beStatefulSetSelector dcr"
| "GenerateStatefulSetSelector dcr Component_CN = cnStatefulSetSelector dcr"
| "GenerateStatefulSetSelector dcr Component_Broker = brokerStatefulSetSelector dcr"
| "GenerateStatefulSetSelector dcr (Component_Other t) = Map.empty"

definition GenerateServiceSelector :: "DorisCluster \<Rightarrow> ComponentType \<Rightarrow> string_map" where
  "GenerateServiceSelector dcr componentType = GenerateStatefulSetSelector dcr componentType"

fun GenerateStatefulSetLabels :: "DorisCluster \<Rightarrow> ComponentType \<Rightarrow> string_map" where
  "GenerateStatefulSetLabels dcr (Component_Other t) = Map.empty"
| "GenerateStatefulSetLabels dcr componentType =
     [OwnerReference \<mapsto> dcr_Name dcr, ComponentLabelKey \<mapsto> component_string componentType]"

definition getDefaultLabels :: "DorisCluster \<Rightarrow> string_map" where
  "getDefaultLabels dcr = [DorisClusterLabelKey \<mapsto> dcr_Name dcr]"

fun GetPodLabels :: "DorisCluster \<Rightarrow> ComponentType \<Rightarrow> go_error + string_map" where
  "GetPodLabels dcr (Component_Other t) = Inr Map.empty"
| "GetPodLabels dcr componentType =
     bindE (getBaseSpecFromCluster dcr componentType) (\<lambda>spec.
       Inr (AddLabel (AddLabel (GenerateStatefulSetSelector dcr componentType) (getDefaultLabels dcr))
              (bs_PodLabels spec)))"

section \<open>Addresses, account and status\<close>

text \<open>\<^verbatim>\<open>getEndpointsToString\<close>; the port is -1 where no address is given.\<close>

definition getEndpointsToString :: "Endpoints \<Rightarrow> string \<times> int" where
  "getEndpointsToString ep =
     (if ep_Address ep = [] then ('''', - 1) else (join_with '','' (ep_Address ep), ep_Port ep))"

definition addresses_of :: "BaseSpec option \<Rightarrow> Endpoints option" where
  "addresses_of spec =
     (case Option.bind spec bs_FeAddress of
        None \<Rightarrow> None
      | Some fa \<Rightarrow> if ep_Address (fa_Endpoints fa) \<noteq> [] then Some (fa_Endpoints fa) else None)"

definition getFEAccessAddrForFEADD :: "DorisCluster \<Rightarrow> string \<times> int" where
  "getFEAccessAddrForFEADD dcr =
     (case addresses_of (map_option feSpec_BaseSpec (dcr_FeSpec dcr)) of
        Some ep \<Rightarrow> getEndpointsToString ep
      | None \<Rightarrow> ('''', - 1))"

definition getFEAddrForBackends :: "DorisCluster \<Rightarrow> string \<times> int" where
  "getFEAddrForBackends dcr =
     (case addresses_of (map_option beSpec_BaseSpec (dcr_BeSpec dcr)) of
        Some ep \<Rightarrow> getEndpointsToString ep
      | None \<Rightarrow> getFEAccessAddrForFEADD dcr)"

definition getFeAddrForComputeNodes :: "DorisCluster \<Rightarrow> string \<times> int" where
  "getFeAddrForComputeNodes dcr =
     (case addresses_of (map_option cnSpec_BaseSpec (dcr_CnSpec dcr)) of
        Some ep \<Rightarrow> getEndpointsToString ep
      | None \<Rightarrow> getFEAccessAddrForFEADD dcr)"

definition getFeAddrForBroker :: "DorisCluster \<Rightarrow> string \<times> int" where
  "getFeAddrForBroker dcr =
     (case addresses_of (map_option brokerSpec_BaseSpec (dcr_BrokerSpec dcr)) of
        Some ep \<Rightarrow> getEndpointsToString ep
      | None \<Rightarrow> getFEAccessAddrForFEADD dcr)"

fun GetConfigFEAddrForAccess :: "DorisCluster \<Rightarrow> ComponentType \<Rightarrow> string \<times> int" where
  "GetConfigFEAddrForAccess dcr Component_FE = getFEAccessAddrForFEADD dcr"
| "GetConfigFEAddrForAccess dcr Component_BE = getFEAddrForBackends dcr"
| "GetConfigFEAddrForAccess dcr Component_CN = getFeAddrForComputeNodes dcr"
| "GetConfigFEAddrForAccess dcr Component_Broker = getFeAddrForBroker dcr"
| "GetConfigFEAddrForAccess dcr (Component_Other t) = ('''', - 1)"

definition GetClusterSecret :: "DorisCluster \<Rightarrow> secret option \<Rightarrow> string \<times> string" where
  "GetClusterSecret dcr sec =
     (case Option.bind sec secret_Data of
        Some d \<Rightarrow> (map_get d ''username'', map_get d ''password'')
      | None \<Rightarrow>
          (case dcs_AdminUser (dcr_Spec dcr) of
             Some u \<Rightarrow> (au_Name u, au_Password u)
           | None \<Rightarrow> (''root'', '''')))"

definition IsReconcilingStatusPhase :: "ComponentStatus \<Rightarrow> bool" where
  "IsReconcilingStatusPhase c =
     (cst_Phase c = Phase_Upgrading \<or> cst_Phase c = Phase_Scaling \<or>
      cst_Phase c = Phase_Restarting \<or> cst_Phase c = Phase_Reconciling)"

definition GetElectionNumber_dcr :: "DorisCluster \<Rightarrow> go_error + int" where
  "GetElectionNumber_dcr dcr =
     (case dcr_FeSpec dcr of
        None \<Rightarrow> Inl (Panic ''dcr.Spec.FeSpec.ElectionNumber'')
      | Some s \<Rightarrow> Inr (case feSpec_ElectionNumber s of Some n \<Rightarrow> n | None \<Rightarrow> DefaultFeElectionNumber))"

fun GetRestartAnnotationKey :: "ComponentType \<Rightarrow> string" where
  "GetRestartAnnotationKey Component_FE = FERestartAt"
| "GetRestartAnnotationKey Component_BE = BERestartAt"
| "GetRestartAnnotationKey _ = ''''"

text \<open>The pointer that \<^verbatim>\<open>GetComponentStatus\<close> returns is written through by its caller.\<close>

fun set_component_phase :: "ComponentPhase \<Rightarrow> ComponentType \<Rightarrow> DorisCluster \<Rightarrow> go_error + DorisCluster" where
  "set_component_phase p Component_FE dcr =
     (case dcr_FEStatus dcr of
        None \<Rightarrow> Inl (Panic ''status.ComponentCondition'')
      | Some s \<Rightarrow> Inr (set_dcr_FEStatus (Some (set_phase p s)) dcr))"
| "set_component_phase p Component_BE dcr =
     (case dcr_BEStatus dcr of
        None \<Rightarrow> Inl (Panic ''status.ComponentCondition'')
      | Some s \<Rightarrow> Inr (set_dcr_BEStatus (Some (set_phase p s)) dcr))"
| "set_component_phase p Component_CN dcr =
     (case dcr_CnStatus dcr of
        None \<Rightarrow> Inl (Panic ''dcr.Status.CnStatus'')
      | Some s \<Rightarrow> Inr (set_dcr_CnStatus
          (Some (s\<lparr>cns_ComponentStatus := set_phase p (cns_ComponentStatus s)\<rparr>)) dcr))"
| "set_component_phase p Component_Broker dcr =
     (case dcr_BrokerStatus dcr of
        None \<Rightarrow> Inl (Panic ''status.ComponentCondition'')
      | Some s \<Rightarrow> Inr (set_dcr_BrokerStatus (Some (set_phase p s)) dcr))"
| "set_component_phase p (Component_Other t) dcr = Inl (Panic ''status.ComponentCondition'')"

end
