(* ===== verification/Doris_Volumes.thy ===== *)
theory Doris_Volumes
  imports Doris_Types
begin

text \<open>
  The start configuration of a DorisCluster (\<^verbatim>\<open>resource/configmap.go\<close>,
  \<^verbatim>\<open>k8s/client.go\<close>) and the persistent volumes that it and the specification ask for:
  the storage paths and their names (\<^verbatim>\<open>doris/storage_conf.go\<close>), the explanation of a
  volume template (\<^verbatim>\<open>resource/persistent_volume_claim.go\<close>), shared claims, and the
  volumes and mounts of config maps and secrets (\<^verbatim>\<open>resource/pod.go\<close>).
\<close>

section \<open>Parameters\<close>

text \<open>
  The part of the API server, the clock and the JSON encoder that only this controller
  uses. \<open>MarshalConf\<close> prints a configuration, whose values the reader of the files chose;
  \<open>ParseRFC3339\<close> and \<open>FormatRFC3339\<close> are \<^verbatim>\<open>time.Parse\<close> and \<^verbatim>\<open>Time.Format\<close>.
\<close>

record hpa =
  hpa_Version :: string
  hpa_Name :: string
  hpa_Namespace :: string
  hpa_Labels :: string_map
  hpa_OwnerReferences :: "owner_ref list"
  hpa_TargetName :: string
  hpa_TargetKind :: string
  hpa_MaxReplicas :: int
  hpa_MinReplicas :: "int option"
  hpa_Metrics :: "opaque list"
  hpa_Behavior :: "opaque option"

record 'w dcr_env = "'w hash_env" +
  GetPvcObj :: "string \<Rightarrow> string \<Rightarrow> 'w \<Rightarrow> (go_error + pvc) \<times> 'w"
  GetHPA :: "string \<Rightarrow> string \<Rightarrow> string \<Rightarrow> 'w \<Rightarrow> (go_error + hpa) \<times> 'w"
  CreateHPA :: "hpa \<Rightarrow> 'w \<Rightarrow> go_error option \<times> 'w"
  UpdateHPA :: "hpa \<Rightarrow> 'w \<Rightarrow> go_error option \<times> 'w"
  DeleteHPAObj :: "hpa \<Rightarrow> 'w \<Rightarrow> go_error option \<times> 'w"
  GetDCR :: "string \<Rightarrow> string \<Rightarrow> 'w \<Rightarrow> (go_error + DorisCluster) \<times> 'w"
  PatchDCR :: "DorisCluster \<Rightarrow> 'w \<Rightarrow> (go_error + DorisCluster) \<times> 'w"
  UpdateDCRStatus :: "DorisCluster \<Rightarrow> 'w \<Rightarrow> (go_error + DorisCluster) \<times> 'w"
  RetryOnConflictDCR ::
    "(DorisCluster \<Rightarrow> 'w \<Rightarrow> (go_error option \<times> DorisCluster) \<times> 'w)
     \<Rightarrow> DorisCluster \<Rightarrow> 'w \<Rightarrow> (go_error option \<times> DorisCluster) \<times> 'w"
  ParseRFC3339 :: "string \<Rightarrow> go_error + time"
  FormatRFC3339 :: "time \<Rightarrow> string"
  MarshalConf :: "conf \<Rightarrow> go_error + string"

section \<open>Start configuration\<close>

definition CN_RESOLVEKEY :: string where "CN_RESOLVEKEY = ''be.conf''"
definition BROKER_RESOLVEKEY :: string where "BROKER_RESOLVEKEY = ''apache_hdfs_broker.conf''"

fun getDefaultResolveKey :: "ComponentType \<Rightarrow> string" where
  "getDefaultResolveKey Component_FE = FE_RESOLVEKEY"
| "getDefaultResolveKey Component_BE = BE_RESOLVEKEY"
| "getDefaultResolveKey Component_CN = CN_RESOLVEKEY"
| "getDefaultResolveKey Component_Broker = BROKER_RESOLVEKEY"
| "getDefaultResolveKey (Component_Other t) = ''''"

text \<open>
  The first config map that holds the key decides. The home directory that the source puts
  into the environment of the reader depends on the key alone, which the reader is given.
\<close>

fun first_value :: "string \<Rightarrow> config_map list \<Rightarrow> string option" where
  "first_value key [] = None"
| "first_value key (cm # cms) =
     (case Option.bind (cm_Data cm) (\<lambda>d. d key) of
        Some v \<Rightarrow> Some v
      | None \<Rightarrow> first_value key cms)"

definition ResolveConfigMaps ::
    "('w, 'x) kube_env_scheme \<Rightarrow> config_map list \<Rightarrow> ComponentType \<Rightarrow> conf \<times> go_error option" where
  "ResolveConfigMaps K configMaps componentType =
     (let key = getDefaultResolveKey componentType
      in case first_value key configMaps of
           Some v \<Rightarrow> (ViperSettings K key v, None)
         | None \<Rightarrow> ([], Some (ErrorString (''not fund configmap ResolveKey: '' @ key))))"

definition GetMountConfigMapInfo :: "ConfigMapInfo \<Rightarrow> cm_mount list" where
  "GetMountConfigMapInfo c =
     (if cmi_ConfigMapName c \<noteq> '''' then [\<lparr>cmm_Name = cmi_ConfigMapName c, cmm_MountPath = ''''\<rparr>] else []) @
     cmi_ConfigMaps c"

text \<open>A config map that cannot be read is listed without data; the errors are collected.\<close>

fun readConfigMaps ::
    "('w, 'x) kube_env_scheme \<Rightarrow> string \<Rightarrow> cm_mount list \<Rightarrow> 'w \<Rightarrow> (config_map list \<times> string) \<times> 'w" where
  "readConfigMaps K ns [] w = (([], ''''), w)"
| "readConfigMaps K ns (cm # cms) w =
     (case GetConfigMapObj K ns (cmm_Name cm) w of
        (Inl e, w) \<Rightarrow>
          (case readConfigMaps K ns cms w of
             ((maps, errs), w) \<Rightarrow>
               ((\<lparr>cm_Data = None\<rparr> # maps,
                 ''(name: '' @ cmm_Name cm @ '', namespace: '' @ ns @ '', err: '' @ error_text e @ ''), '' @ errs), w))
      | (Inr m, w) \<Rightarrow>
          (case readConfigMaps K ns cms w of ((maps, errs), w) \<Rightarrow> ((m # maps, errs), w)))"

definition GetConfigMaps ::
    "('w, 'x) kube_env_scheme \<Rightarrow> string \<Rightarrow> cm_mount list \<Rightarrow> 'w \<Rightarrow> (config_map list \<times> go_error option) \<times> 'w" where
  "GetConfigMaps K ns cms w =
     (case readConfigMaps K ns cms w of
        ((maps, errMessage), w) \<Rightarrow>
          ((maps, if errMessage \<noteq> '''' then Some (ErrorString (''Failed to get configmap: '' @ errMessage)) else None), w))"

definition k8s_GetConfig ::
    "('w, 'x) kube_env_scheme \<Rightarrow> ConfigMapInfo \<Rightarrow> string \<Rightarrow> ComponentType \<Rightarrow> 'w \<Rightarrow> (conf \<times> go_error option) \<times> 'w" where
  "k8s_GetConfig K configMapInfo ns componentType w =
     (let cms = GetMountConfigMapInfo configMapInfo
      in if cms = [] then (([], None), w)
         else case GetConfigMaps K ns cms w of
             ((configMaps, err), w) \<Rightarrow>
               (case ResolveConfigMaps K configMaps componentType of
                  (res, resolveErr) \<Rightarrow> ((res, MergeError err resolveErr), w)))"

text \<open>The name of the config map that holds the configuration file of a component.\<close>

definition getDorisCoreConfigMapName :: "DorisCluster \<Rightarrow> ComponentType \<Rightarrow> go_error + string" where
  "getDorisCoreConfigMapName dcr componentType =
     bindE (getBaseSpecFromCluster dcr componentType) (\<lambda>spec.
       Inr (case List.find (\<lambda>cm. cmm_MountPath cm = '''' \<or> cmm_MountPath cm = ConfigEnvPath)
                   (GetMountConfigMapInfo (bs_ConfigMapInfo spec)) of
              None \<Rightarrow> ''''
            | Some cm \<Rightarrow> cmm_Name cm))"

text \<open>The map from components to names; a component that is not deployed has no entry.\<close>

definition GetDorisCoreConfigMapNames :: "DorisCluster \<Rightarrow> ComponentType \<Rightarrow> string" where
  "GetDorisCoreConfigMapNames dcr componentType =
     (case getDorisCoreConfigMapName dcr componentType of Inl e \<Rightarrow> '''' | Inr cm \<Rightarrow> cm)"

section \<open>Storage paths\<close>

definition drop_slash :: "string \<Rightarrow> string" where
  "drop_slash path = (if HasSuffix path ''/'' then butlast path else path)"

definition parseSinglePath :: "string \<Rightarrow> string" where
  "parseSinglePath pathConfig =
     (if pathConfig = '''' then ''''
      else drop_slash (TrimSpace (hd (Split (hd (Split pathConfig ''.'')) '',''))))"

definition ResolveStorageRootPath :: "string \<Rightarrow> string list" where
  "ResolveStorageRootPath configPath =
     (if configPath = '''' then []
      else filter (\<lambda>p. p \<noteq> '''') (map parseSinglePath (Split configPath '';'')))"

text \<open>The names are found as those of a disaggregated cluster (\<open>path_names\<close>).\<close>

definition GetNameOfEachPath :: "string list \<Rightarrow> string list" where
  "GetNameOfEachPath paths =
     map (\<lambda>p. ReplaceAll (map_get (path_names paths) p) (CHR ''_'') (CHR ''-'')) paths"

section \<open>Persistent volumes\<close>

fun getDefaultDorisHome :: "ComponentType \<Rightarrow> string" where
  "getDefaultDorisHome Component_FE = DEFAULT_ROOT_PATH @ ''/fe''"
| "getDefaultDorisHome Component_BE = DEFAULT_ROOT_PATH @ ''/be''"
| "getDefaultDorisHome Component_CN = DEFAULT_ROOT_PATH @ ''/be''"
| "getDefaultDorisHome Component_Broker = DEFAULT_ROOT_PATH @ ''/apache_hdfs_broker''"
| "getDefaultDorisHome (Component_Other t) = ''''"

fun data_path_key :: "ComponentType \<Rightarrow> (string \<times> string) option" where
  "data_path_key Component_FE = Some (''meta_dir'', getDefaultDorisHome Component_FE @ ''/doris-meta'')"
| "data_path_key Component_BE = Some (''storage_root_path'', getDefaultDorisHome Component_BE @ ''/storage'')"
| "data_path_key Component_CN = Some (''storage_root_path'', getDefaultDorisHome Component_CN @ ''/storage'')"
| "data_path_key _ = None"

definition data_paths :: "conf \<Rightarrow> string \<Rightarrow> string \<Rightarrow> go_error + string list" where
  "data_paths config dataPathKey dataDefaultPath =
     (case map_of config dataPathKey of
        None \<Rightarrow> Inr [dataDefaultPath]
      | Some v \<Rightarrow> bindE (string_of_conf v) (\<lambda>s. Inr (ResolveStorageRootPath s)))"

text \<open>Volumes with a path are taken as they are, unless a shared claim is mounted there.\<close>

definition given_volumes :: "PersistentVolume list \<Rightarrow> string list \<Rightarrow> PersistentVolume list" where
  "given_volumes pvs excludePaths =
     filter (\<lambda>pv. dpv_MountPath pv \<noteq> '''' \<and> drop_slash (dpv_MountPath pv) \<notin> set excludePaths) pvs"

definition last_template :: "PersistentVolume list \<Rightarrow> PersistentVolume option" where
  "last_template pvs = List.find (\<lambda>pv. dpv_MountPath pv = '''') (rev pvs)"

definition explain_template :: "PersistentVolume \<Rightarrow> string list \<Rightarrow> string list \<Rightarrow> PersistentVolume list" where
  "explain_template template dataPaths excludePaths =
     filter (\<lambda>pv. dpv_MountPath pv \<notin> set excludePaths)
       (case dataPaths of
          [p] \<Rightarrow> [template\<lparr>dpv_MountPath := p\<rparr>]
        | _ \<Rightarrow> map2 (\<lambda>p n. template\<lparr>dpv_Name := dpv_Name template @ ''-'' @ n, dpv_MountPath := p\<rparr>)
                 dataPaths (GetNameOfEachPath dataPaths))"

definition GenerateEveryoneMountPathDorisPersistentVolume ::
    "BaseSpec \<Rightarrow> string list \<Rightarrow> conf \<Rightarrow> ComponentType \<Rightarrow> go_error + PersistentVolume list" where
  "GenerateEveryoneMountPathDorisPersistentVolume spec excludePaths config componentType =
     (let pvs = bs_PersistentVolumes spec; given = given_volumes pvs excludePaths
      in case (last_template pvs, data_path_key componentType) of
           (None, _) \<Rightarrow> Inr given
         | (Some template, None) \<Rightarrow> Inr given
         | (Some template, Some (dataPathKey, dataDefaultPath)) \<Rightarrow>
             bindE (data_paths config dataPathKey dataDefaultPath) (\<lambda>dataPaths.
               Inr (given @ explain_template template dataPaths excludePaths)))"

definition pvc_finalizer :: string where "pvc_finalizer = ''selectdb.doris.com/pvc-finalizer''"
definition pvc_manager_annotation :: string where "pvc_manager_annotation = ''selectdb.doris.com/pvc-manager''"

definition buildPVCAnnotations :: "('w, 'x) hash_env_scheme \<Rightarrow> PersistentVolume \<Rightarrow> string_map" where
  "buildPVCAnnotations K volume =
     (if dpv_PVCProvisioner volume = PVCProvisionerOperator_dcr
      then [pvc_manager_annotation \<mapsto> ''operator'',
            ComponentResourceHash \<mapsto> hash_text (SpewClaim K (dpv_ClaimSpec volume))]
      else Map.empty) ++ dpv_Annotations volume"

definition BuildPVC ::
    "('w, 'x) hash_env_scheme \<Rightarrow> PersistentVolume \<Rightarrow> string_map \<Rightarrow> string \<Rightarrow> string \<Rightarrow> string \<Rightarrow> pvc" where
  "BuildPVC K volume labels namespace stsName ordinal =
     \<lparr>pvc_Name = BuildPVCName stsName ordinal (dpv_Name volume), pvc_Namespace = namespace,
      pvc_Labels = labels, pvc_Annotations = buildPVCAnnotations K volume,
      pvc_Finalizers = [pvc_finalizer], pvc_Spec = dpv_ClaimSpec volume\<rparr>"

definition claim_template :: "('w, 'x) hash_env_scheme \<Rightarrow> PersistentVolume \<Rightarrow> pvc" where
  "claim_template K volume =
     \<lparr>pvc_Name = dpv_Name volume, pvc_Namespace = '''', pvc_Labels = Map.empty,
      pvc_Annotations = buildPVCAnnotations K volume, pvc_Finalizers = [], pvc_Spec = dpv_ClaimSpec volume\<rparr>"

section \<open>Volumes and mounts\<close>

definition be_storage_name :: string where "be_storage_name = ''be-storage''"
definition be_storage_path :: string where "be_storage_path = ''/opt/apache-doris/be/storage''"
definition fe_meta_path :: string where "fe_meta_path = ''/opt/apache-doris/fe/doris-meta''"
definition fe_meta_name :: string where "fe_meta_name = ''fe-meta''"

definition getFeDefaultVolumesVolumeMounts :: "volume list \<times> volume_mount list" where
  "getFeDefaultVolumesVolumeMounts = ([empty_dir fe_meta_name], [mount fe_meta_name fe_meta_path])"

definition getBeDefaultVolumesVolumeMounts :: "volume list \<times> volume_mount list" where
  "getBeDefaultVolumesVolumeMounts = ([empty_dir be_storage_name], [mount be_storage_name be_storage_path])"

fun getDefaultVolumesVolumeMounts :: "ComponentType \<Rightarrow> volume list \<times> volume_mount list" where
  "getDefaultVolumesVolumeMounts Component_FE = getFeDefaultVolumesVolumeMounts"
| "getDefaultVolumesVolumeMounts Component_BE = getBeDefaultVolumesVolumeMounts"
| "getDefaultVolumesVolumeMounts Component_CN = getBeDefaultVolumesVolumeMounts"
| "getDefaultVolumesVolumeMounts _ = ([], [])"

text \<open>\<^verbatim>\<open>strings.ReplaceAll\<close> of a text, here of the variable that names the home directory.\<close>

definition expand_home :: "string \<Rightarrow> string \<Rightarrow> string" where
  "expand_home home path = join_with home (Split path ''$DORIS_HOME'')"

definition shared_path :: "ComponentType \<Rightarrow> SharedPersistentVolumeClaim \<Rightarrow> string" where
  "shared_path componentType claim = drop_slash (expand_home (getDefaultDorisHome componentType) (spvc_MountPath claim))"

definition BuildSharedVolumesAndVolumeMounts ::
    "SharedPersistentVolumeClaim list \<Rightarrow> ComponentType \<Rightarrow> volume list \<times> volume_mount list \<times> string list" where
  "BuildSharedVolumesAndVolumeMounts spvcs componentType =
     (let claims = filter (\<lambda>c. spvc_SupportComponents c = [] \<or> componentType \<in> set (spvc_SupportComponents c)) spvcs
      in (map (\<lambda>c. \<lparr>v_Name = spvc_PersistentVolumeClaimName c,
                    v_Source = ClaimSource (spvc_PersistentVolumeClaimName c)\<rparr>) claims,
          map (\<lambda>c. mount (spvc_PersistentVolumeClaimName c) (shared_path componentType c)) claims,
          map (shared_path componentType) claims))"

definition newVolumesFromBaseSpec ::
    "BaseSpec \<Rightarrow> string list \<Rightarrow> conf \<Rightarrow> ComponentType \<Rightarrow> go_error + volume list" where
  "newVolumesFromBaseSpec spec sharedPaths config componentType =
     bindE (GenerateEveryoneMountPathDorisPersistentVolume spec sharedPaths config componentType) (\<lambda>pvs.
       Inr (map (\<lambda>pv. \<lparr>v_Name = dpv_Name pv, v_Source = ClaimSource (dpv_Name pv)\<rparr>) pvs))"

definition buildVolumeMounts ::
    "BaseSpec \<Rightarrow> string list \<Rightarrow> conf \<Rightarrow> ComponentType \<Rightarrow> go_error + volume_mount list" where
  "buildVolumeMounts spec sharedPaths config componentType =
     (if bs_PersistentVolumes spec = []
      then Inr (podinfo_mount # snd (getDefaultVolumesVolumeMounts componentType))
      else bindE (GenerateEveryoneMountPathDorisPersistentVolume spec sharedPaths config componentType) (\<lambda>pvs.
        Inr (podinfo_mount # map (\<lambda>pv. mount (dpv_Name pv) (dpv_MountPath pv)) pvs)))"

definition getMultiConfigVolumeAndVolumeMount :: "ConfigMapInfo \<Rightarrow> volume list \<times> volume_mount list" where
  "getMultiConfigVolumeAndVolumeMount cmInfo =
     (let cms = GetMountConfigMapInfo cmInfo
      in (map (fst \<circ> config_volume) cms, map (snd \<circ> config_volume) cms))"

definition getMultiSecretVolumeAndVolumeMount :: "BaseSpec \<Rightarrow> volume list \<times> volume_mount list" where
  "getMultiSecretVolumeAndVolumeMount bSpec =
     (map (fst \<circ> secret_volume) (bs_Secrets bSpec), map (snd \<circ> secret_volume) (bs_Secrets bSpec))"

definition getKerberosVolumeAndVolumeMount :: "kerberos_info option \<Rightarrow> volume list \<times> volume_mount list" where
  "getKerberosVolumeAndVolumeMount kerberosInfo =
     (case kerberosInfo of
        None \<Rightarrow> ([], [])
      | Some k \<Rightarrow> getKerberosConfigAndSecretVolumeAndVolumeMount (ki_Krb5ConfigMap k) (ki_KeytabSecretName k))"

end
