(* ===== verification/Doris_Pods.thy ===== *)
theory Doris_Pods
  imports Doris_Volumes
begin

text \<open>
  Services, pods and StatefulSets of a DorisCluster: ports and services
  (\<^verbatim>\<open>resource/service.go\<close>), the pod template and the main container with its probes,
  environment and mounts (\<^verbatim>\<open>resource/pod.go\<close>), the StatefulSet and its comparison with
  the stored one, which forgives a variable that older operators wrote several times
  (\<^verbatim>\<open>resource/statefulset.go\<close>).
\<close>

section \<open>Services\<close>

definition owner_of_dcr :: "DorisCluster \<Rightarrow> owner_ref" where
  "owner_of_dcr dcr = \<lparr>or_Name = dcr_Name dcr, or_UID = dcr_UID dcr\<rparr>"

fun getInternalServicePort :: "conf \<Rightarrow> ComponentType \<Rightarrow> go_error + service_port" where
  "getInternalServicePort config Component_FE = service_port_of config QUERY_PORT"
| "getInternalServicePort config Component_BE = service_port_of config HEARTBEAT_SERVICE_PORT"
| "getInternalServicePort config Component_CN = service_port_of config HEARTBEAT_SERVICE_PORT"
| "getInternalServicePort config Component_Broker = service_port_of config BROKER_IPC_PORT"
| "getInternalServicePort config (Component_Other t) =
     Inr \<lparr>sp_Name = '''', sp_Port = 0, sp_TargetPort = 0, sp_NodePort = 0\<rparr>"

definition BuildInternalService :: "DorisCluster \<Rightarrow> ComponentType \<Rightarrow> conf \<Rightarrow> go_error + service" where
  "BuildInternalService dcr componentType config =
     bindE (getInternalServicePort config componentType) (\<lambda>port.
       Inr (zero_service\<lparr>svc_Name := GenerateInternalCommunicateServiceName dcr componentType,
              svc_Namespace := dcr_Namespace dcr, svc_Labels := GenerateInternalServiceLabels dcr componentType,
              svc_OwnerReferences := [owner_of_dcr dcr], svc_ClusterIP := ''None'', svc_Ports := [port],
              svc_Selector := GenerateServiceSelector dcr componentType,
              svc_PublishNotReadyAddresses := True\<rparr>))"

definition getFeServicePorts :: "conf \<Rightarrow> go_error + service_port list" where
  "getFeServicePorts config = with_arrow_flight config [HTTP_PORT, RPC_PORT, QUERY_PORT, EDIT_LOG_PORT]"

definition getBeServicePorts :: "conf \<Rightarrow> go_error + service_port list" where
  "getBeServicePorts config = with_arrow_flight config [BE_PORT, WEBSERVER_PORT, HEARTBEAT_SERVICE_PORT, BRPC_PORT]"

definition ClusterIP :: string where "ClusterIP = ''ClusterIP''"

definition setServiceType :: "ExportService option \<Rightarrow> service \<Rightarrow> service" where
  "setServiceType svc sv =
     (case svc of
        None \<Rightarrow> sv\<lparr>svc_Type := ClusterIP\<rparr>
      | Some x \<Rightarrow>
          (let sv = sv\<lparr>svc_Type := (if xs_Type x \<noteq> '''' then xs_Type x else ClusterIP)\<rparr>
           in if svc_Type sv = LoadBalancer \<and> xs_LoadBalancerIP x \<noteq> ''''
              then sv\<lparr>svc_LoadBalancerIP := xs_LoadBalancerIP x\<rparr> else sv))"

text \<open>Every exported port is written into each port with its target; the last one wins.\<close>

definition export_port :: "DorisServicePort list \<Rightarrow> service_port \<Rightarrow> service_port" where
  "export_port eps p =
     foldl (\<lambda>p ep. if dsp_TargetPort ep = sp_TargetPort p then p\<lparr>sp_NodePort := dsp_NodePort ep\<rparr> else p) p eps"

definition constructServiceSpec ::
    "ExportService option \<Rightarrow> string_map \<Rightarrow> service_port list \<Rightarrow> service \<Rightarrow> service" where
  "constructServiceSpec exportService selector ports svc =
     (let exportPorts = (case exportService of None \<Rightarrow> [] | Some x \<Rightarrow> xs_ServicePorts x);
          loadBalanced = (case exportService of None \<Rightarrow> False | Some x \<Rightarrow> xs_Type x = LoadBalancer)
      in setServiceType exportService
           (svc\<lparr>svc_Selector := selector, svc_Ports := map (export_port exportPorts) ports,
              svc_SessionAffinity := (if loadBalanced then AffinityNone else AffinityClientIP)\<rparr>))"

fun external_ports :: "conf \<Rightarrow> ComponentType \<Rightarrow> go_error + service_port list" where
  "external_ports config Component_FE = getFeServicePorts config"
| "external_ports config Component_BE = getBeServicePorts config"
| "external_ports config Component_CN = getBeServicePorts config"
| "external_ports config _ = Inr []"

fun export_service_of :: "DorisCluster \<Rightarrow> ComponentType \<Rightarrow> go_error + ExportService option" where
  "export_service_of dcr Component_Broker = Inr None"
| "export_service_of dcr (Component_Other t) = Inr None"
| "export_service_of dcr componentType =
     bindE (getBaseSpecFromCluster dcr componentType) (\<lambda>spec. Inr (bs_Service spec))"

definition BuildExternalService :: "DorisCluster \<Rightarrow> ComponentType \<Rightarrow> conf \<Rightarrow> go_error + service" where
  "BuildExternalService dcr componentType config =
     bindE (export_service_of dcr componentType) (\<lambda>exportService.
     bindE (external_ports config componentType) (\<lambda>ports.
       let svc = constructServiceSpec exportService (GenerateServiceSelector dcr componentType) ports
             (zero_service\<lparr>svc_Name := GenerateExternalServiceName dcr componentType,
                svc_Namespace := dcr_Namespace dcr,
                svc_Labels := GenerateExternalServiceLabels dcr componentType\<rparr>)
       in Inr (svc\<lparr>svc_Annotations := (case exportService of None \<Rightarrow> Map.empty | Some x \<Rightarrow> xs_Annotations x),
                 svc_OwnerReferences := [owner_of_dcr dcr]\<rparr>)))"

definition ServiceDeepEqual ::
    "('w, 'x) hash_env_scheme \<Rightarrow> service \<Rightarrow> service \<Rightarrow> bool \<times> service" where
  "ServiceDeepEqual K newSvc oldSvc = ServiceDeepEqualWithAnnoKey K ComponentResourceHash newSvc oldSvc"

definition getBrokerContainerPorts :: "conf \<Rightarrow> go_error + container_port list" where
  "getBrokerContainerPorts config = container_ports_of config [(BROKER_IPC_PORT, '''')]"

text \<open>A compute node gets no container ports.\<close>

fun GetContainerPorts :: "conf \<Rightarrow> ComponentType \<Rightarrow> go_error + container_port list" where
  "GetContainerPorts config Component_FE = getFeContainerPorts config"
| "GetContainerPorts config Component_BE = getBeContainerPorts config"
| "GetContainerPorts config Component_Broker = getBrokerContainerPorts config"
| "GetContainerPorts config _ = Inr []"

section \<open>Probes\<close>

definition HEALTH_API_PATH :: string where "HEALTH_API_PATH = ''/api/health''"
definition HEALTH_BROKER_LIVE_COMMAND :: string where
  "HEALTH_BROKER_LIVE_COMMAND = ''/opt/apache-doris/broker_is_alive.sh''"

datatype ProbeType = HttpGetProbe | TcpSocketProbe | ExecProbe | NoProbeType

definition getHttpProbe :: "int \<Rightarrow> string \<Rightarrow> probe_handler" where
  "getHttpProbe port path = (if path \<noteq> '''' then HTTPGet path port else NoHandler)"

definition getExecProbe :: "string list \<Rightarrow> probe_handler" where
  "getExecProbe commands = (if commands = [] then NoHandler else ExecAction commands)"

fun getProbe :: "int \<Rightarrow> string \<Rightarrow> string list \<Rightarrow> ProbeType \<Rightarrow> probe_handler" where
  "getProbe port path commands TcpSocketProbe = TCPSocket port"
| "getProbe port path commands HttpGetProbe = getHttpProbe port path"
| "getProbe port path commands ExecProbe = getExecProbe commands"
| "getProbe port path commands NoProbeType = NoHandler"

definition startupProbe :: "int \<Rightarrow> int \<Rightarrow> string \<Rightarrow> string list \<Rightarrow> ProbeType \<Rightarrow> probe" where
  "startupProbe port timeout path commands pt =
     (let timeout = (if timeout < 360 then 360 else timeout)
      in \<lparr>pr_PeriodSeconds = 5, pr_FailureThreshold = timeout div 5, pr_InitialDelaySeconds = 0,
          pr_TimeoutSeconds = 0, pr_Handler = getProbe port path commands pt\<rparr>)"

definition livenessProbe :: "int \<Rightarrow> int \<Rightarrow> string \<Rightarrow> string list \<Rightarrow> ProbeType \<Rightarrow> probe" where
  "livenessProbe port timeout path commands pt =
     (let timeout = (if timeout < 1 then 180 else timeout)
      in \<lparr>pr_PeriodSeconds = 5, pr_FailureThreshold = 3, pr_InitialDelaySeconds = 80,
          pr_TimeoutSeconds = timeout, pr_Handler = getProbe port path commands pt\<rparr>)"

definition with_policy :: "readiness_probe_policy option \<Rightarrow> probe \<Rightarrow> probe" where
  "with_policy policy probe =
     (case policy of
        None \<Rightarrow> probe
      | Some p \<Rightarrow> applyReadinessProbePolicy (rpp_TimeoutSeconds p) (rpp_FailureThreshold p) (rpp_PeriodSeconds p) probe)"

definition ready_probe :: "probe_handler \<Rightarrow> probe" where
  "ready_probe handler = \<lparr>pr_PeriodSeconds = 5, pr_FailureThreshold = 3, pr_InitialDelaySeconds = 0,
     pr_TimeoutSeconds = 0, pr_Handler = handler\<rparr>"

definition readinessProbe ::
    "int \<Rightarrow> string \<Rightarrow> string list \<Rightarrow> ProbeType \<Rightarrow> readiness_probe_policy option \<Rightarrow> probe" where
  "readinessProbe port path commands pt policy = with_policy policy (ready_probe (getProbe port path commands pt))"

text \<open>The client certificates of a probe by \<^verbatim>\<open>curl\<close>.\<close>

definition curl_certs :: "conf \<Rightarrow> go_error + string" where
  "curl_certs config =
     bindE (GetString config ''tls_ca_certificate_path'') (\<lambda>caCert.
     bindE (GetString config ''tls_certificate_path'') (\<lambda>clientCert.
     bindE (GetString config ''tls_private_key_path'') (\<lambda>clientKey.
       Inr (''--cacert '' @ caCert @ '' --cert '' @ clientCert @ '' --key '' @ clientKey))))"

definition dquote :: "string \<Rightarrow> string" where
  "dquote s = [CHR 0x22] @ s @ [CHR 0x22]"

definition resolve_host :: string where
  "resolve_host = ''host=$(hostname -f); (getent hosts '' @ dquote ''$host'' @ '' >/dev/null 2>&1 || nslookup '' @
     dquote ''$host'' @ '' >/dev/null 2>&1) && curl --fail --silent --output /dev/null ''"

definition buildFQDNReadinessExecProbe :: "string \<Rightarrow> conf \<Rightarrow> int \<Rightarrow> string \<Rightarrow> go_error + probe" where
  "buildFQDNReadinessExecProbe enableTLS config port path =
     bindE (if enableTLS = ''true''
            then bindE (curl_certs config) (\<lambda>certs. Inr (certs @ '' https://$host:'' @ Itoa port @ path))
            else Inr (''http://$host:'' @ Itoa port @ path)) (\<lambda>target.
       Inr (ready_probe (ExecAction [''bash'', ''-c'', resolve_host @ target])))"

definition buildTLSReadinessExecProbe :: "conf \<Rightarrow> int \<Rightarrow> string \<Rightarrow> go_error + probe" where
  "buildTLSReadinessExecProbe config port path =
     bindE (curl_certs config) (\<lambda>certs.
       Inr (ready_probe (ExecAction [''bash'', ''-c'',
         ''curl --fail --silent --output /dev/null '' @ certs @ '' https://localhost:'' @ Itoa port @ path])))"

definition lifeCycle :: "string \<Rightarrow> string list" where
  "lifeCycle preStopScriptPath = [preStopScriptPath]"

section \<open>Environment\<close>

fun getCommand :: "ComponentType \<Rightarrow> string list \<times> string list" where
  "getCommand Component_FE = ([''/opt/apache-doris/fe_entrypoint.sh''], [''$(ENV_FE_ADDR)''])"
| "getCommand Component_BE = ([''/opt/apache-doris/be_entrypoint.sh''], [''$(ENV_FE_ADDR)''])"
| "getCommand Component_CN = ([''/opt/apache-doris/be_entrypoint.sh''], [''$(ENV_FE_ADDR)''])"
| "getCommand Component_Broker = ([''/opt/apache-doris/broker_entrypoint.sh''], [''$(ENV_FE_ADDR)''])"
| "getCommand (Component_Other t) = ([], [])"

definition buildBaseEnvs :: "DorisCluster \<Rightarrow> env_var list" where
  "buildBaseEnvs dcr =
     buildEnvFromPod @
     (case dcs_AdminUser (dcr_Spec dcr) of
        Some u \<Rightarrow> env ''USER'' (au_Name u) # (if au_Password u \<noteq> '''' then [env ''PASSWD'' (au_Password u)] else [])
      | None \<Rightarrow> [env ''USER'' ''root'', env ''DORIS_ROOT'' DEFAULT_ROOT_PATH])"

text \<open>The variables of the user come first and hide the defaults of the same name.\<close>

definition mergeEnvs :: "env_var list \<Rightarrow> env_var list \<Rightarrow> env_var list" where
  "mergeEnvs src dst =
     (if dst = [] then src
      else if src = [] then dst
      else dst @ filter (\<lambda>e. ev_Name e \<notin> ev_Name ` set dst) src)"

fun krb5ConfPath_dcr :: "conf \<Rightarrow> ComponentType \<Rightarrow> go_error + string" where
  "krb5ConfPath_dcr config Component_FE = krb5ConfPath config DisaggregatedFE"
| "krb5ConfPath_dcr config Component_BE = krb5ConfPath config DisaggregatedBE"
| "krb5ConfPath_dcr config Component_CN = krb5ConfPath config DisaggregatedBE"
| "krb5ConfPath_dcr config _ = Inr ''''"

definition buildKerberosEnv :: "kerberos_info option \<Rightarrow> conf \<Rightarrow> ComponentType \<Rightarrow> go_error + env_var list" where
  "buildKerberosEnv info config componentType =
     (case info of
        None \<Rightarrow> Inr []
      | Some k \<Rightarrow>
          bindE (krb5ConfPath_dcr config componentType) (\<lambda>confPath.
            Inr [env ''KRB5_MOUNT_PATH'' krb5_default_mount_path, env ''KRB5_CONFIG'' confPath,
                 env ''KEYTAB_MOUNT_PATH'' keytab_default_mount_path,
                 env ''KEYTAB_FINAL_USED_PATH''
                   (if ki_KeytabPath k \<noteq> '''' then ki_KeytabPath k else keytab_default_mount_path)]))"

section \<open>The main container\<close>

fun skip_init :: "DorisCluster \<Rightarrow> ComponentType \<Rightarrow> bool" where
  "skip_init dcr Component_BE = (case dcr_BeSpec dcr of None \<Rightarrow> False | Some s \<Rightarrow> beSpec_SkipDefaultSystemInit s)"
| "skip_init dcr Component_CN = (case dcr_CnSpec dcr of None \<Rightarrow> False | Some s \<Rightarrow> cnSpec_SkipDefaultSystemInit s)"
| "skip_init dcr _ = False"

text \<open>\<^verbatim>\<open>Limits.Cpu()\<close> never is nil, so the limit of a BE is passed on even where none is set.\<close>

fun auto_limit :: "DorisCluster \<Rightarrow> ComponentType \<Rightarrow> bool" where
  "auto_limit dcr Component_BE = (case dcr_BeSpec dcr of None \<Rightarrow> False | Some s \<Rightarrow> beSpec_AutoResolveLimitCPU s)"
| "auto_limit dcr Component_CN = (case dcr_CnSpec dcr of None \<Rightarrow> False | Some s \<Rightarrow> cnSpec_AutoResolveLimitCPU s)"
| "auto_limit dcr _ = False"

definition auth_volumes_dcr :: "DorisCluster \<Rightarrow> volume list" where
  "auth_volumes_dcr dcr =
     (if dcs_AuthSecret (dcr_Spec dcr) \<noteq> ''''
      then [\<lparr>v_Name = auth_volume_name, v_Source = SecretSource (dcs_AuthSecret (dcr_Spec dcr))\<rparr>] else [])"

definition auth_mounts_dcr :: "DorisCluster \<Rightarrow> volume_mount list" where
  "auth_mounts_dcr dcr =
     (if dcs_AuthSecret (dcr_Spec dcr) \<noteq> '''' then [mount auth_volume_name basic_auth_path] else [])"

text \<open>What a component's probes ask: readiness port, liveness port, prestop script, commands.\<close>

record probe_plan =
  pp_Readness :: int
  pp_Liveness :: int
  pp_LiveType :: ProbeType
  pp_ReadyType :: ProbeType
  pp_PreStop :: string
  pp_HealthPath :: string
  pp_Commands :: "string list"

definition http_plan :: "conf \<Rightarrow> string \<Rightarrow> string \<Rightarrow> string \<Rightarrow> go_error + probe_plan" where
  "http_plan config readyKey liveKey prestop =
     bindE (GetPort config readyKey) (\<lambda>readnessPort.
     bindE (GetPort config liveKey) (\<lambda>livenessPort.
       Inr \<lparr>pp_Readness = readnessPort, pp_Liveness = livenessPort, pp_LiveType = TcpSocketProbe,
            pp_ReadyType = HttpGetProbe, pp_PreStop = prestop, pp_HealthPath = HEALTH_API_PATH, pp_Commands = []\<rparr>))"

fun probe_plan_of :: "conf \<Rightarrow> ComponentType \<Rightarrow> go_error + probe_plan" where
  "probe_plan_of config Component_FE = http_plan config HTTP_PORT QUERY_PORT ''/opt/apache-doris/fe_prestop.sh''"
| "probe_plan_of config Component_BE =
     http_plan config WEBSERVER_PORT HEARTBEAT_SERVICE_PORT ''/opt/apache-doris/be_prestop.sh''"
| "probe_plan_of config Component_CN =
     http_plan config WEBSERVER_PORT HEARTBEAT_SERVICE_PORT ''/opt/apache-doris/be_prestop.sh''"
| "probe_plan_of config Component_Broker =
     bindE (GetPort config BROKER_IPC_PORT) (\<lambda>port.
       Inr \<lparr>pp_Readness = port, pp_Liveness = port, pp_LiveType = ExecProbe, pp_ReadyType = ExecProbe,
            pp_PreStop = ''/opt/apache-doris/broker_prestop.sh'', pp_HealthPath = '''',
            pp_Commands = [HEALTH_BROKER_LIVE_COMMAND, Itoa port]\<rparr>)"
| "probe_plan_of config (Component_Other t) =
     Inr \<lparr>pp_Readness = 0, pp_Liveness = 0, pp_LiveType = NoProbeType, pp_ReadyType = NoProbeType,
          pp_PreStop = '''', pp_HealthPath = '''', pp_Commands = []\<rparr>"

fun is_http :: "probe_handler \<Rightarrow> bool" where
  "is_http (HTTPGet path port) = True"
| "is_http _ = False"

text \<open>
  The readiness probe by HTTP is replaced by \<^verbatim>\<open>curl\<close> where the pods are known by name,
  and where TLS asks for client certificates.
\<close>

definition readiness_of ::
    "conf \<Rightarrow> ComponentType \<Rightarrow> probe_plan \<Rightarrow> readiness_probe_policy option \<Rightarrow> go_error + probe" where
  "readiness_of config componentType plan policy =
     (let port = pp_Readness plan; path = pp_HealthPath plan;
          http = readinessProbe port path (pp_Commands plan) (pp_ReadyType plan) policy
      in bindE (GetString config ''enable_tls'') (\<lambda>enableTLS.
         if \<not> is_http (pr_Handler http) then Inr http
         else bindE (GetStartMode config) (\<lambda>mode.
           if mode = START_MODEL_FQDN \<and> componentType \<in> {Component_FE, Component_BE, Component_CN} then
             bindE (buildFQDNReadinessExecProbe enableTLS config port path) (\<lambda>p. Inr (with_policy policy p))
           else if enableTLS = ''true'' then
             bindE (buildTLSReadinessExecProbe config port path) (\<lambda>p. Inr (with_policy policy p))
           else Inr http)))"

definition main_envs :: "DorisCluster \<Rightarrow> conf \<Rightarrow> ComponentType \<Rightarrow> BaseSpec \<Rightarrow> go_error + env_var list" where
  "main_envs dcr config componentType spec =
     bindE (buildKerberosEnv (dcs_KerberosInfo (dcr_Spec dcr)) config componentType) (\<lambda>kerberos.
       Inr (mergeEnvs (buildBaseEnvs dcr @ kerberos) (bs_EnvVars spec) @
            (if skip_init dcr componentType then [env ''SKIP_CHECK_ULIMIT'' ''true''] else []) @
            (if auto_limit dcr componentType then [env ''BE_CPU_LIMIT'' (rr_LimitsCpu (bs_Resources spec))] else [])))"

definition NewBaseMainContainer :: "DorisCluster \<Rightarrow> conf \<Rightarrow> ComponentType \<Rightarrow> go_error + container" where
  "NewBaseMainContainer dcr config componentType =
     bindE (case componentType of Component_Other t \<Rightarrow> Inr zero_BaseSpec
            | _ \<Rightarrow> getBaseSpecFromCluster dcr componentType) (\<lambda>spec.
     let (command, args) = getCommand componentType;
         (_, sharedVolumeMounts, sharedPaths) =
           BuildSharedVolumesAndVolumeMounts (dcs_SharedPersistentVolumeClaims (dcr_Spec dcr)) componentType
     in bindE (buildVolumeMounts spec sharedPaths config componentType) (\<lambda>volumeMounts.
        bindE (main_envs dcr config componentType spec) (\<lambda>envs.
        bindE (probe_plan_of config componentType) (\<lambda>plan.
        bindE (readiness_of config componentType plan (bs_ReadinessProbePolicy spec)) (\<lambda>readiness.
          Inr (zero_container\<lparr>c_Image := bs_Image spec, c_Name := component_string componentType,
             c_Command := command, c_Args := args, c_Env := envs,
             c_VolumeMounts := volumeMounts @ snd (getMultiConfigVolumeAndVolumeMount (bs_ConfigMapInfo spec)) @
               snd (getMultiSecretVolumeAndVolumeMount spec) @
               snd (getKerberosVolumeAndVolumeMount (dcs_KerberosInfo (dcr_Spec dcr))) @
               auth_mounts_dcr dcr @ sharedVolumeMounts,
             c_ImagePullPolicy := ''IfNotPresent'', c_Resources := bs_Resources spec,
             c_LivenessProbe := Some (livenessProbe (pp_Liveness plan) (bs_LiveTimeout spec)
               (pp_HealthPath plan) (pp_Commands plan) (pp_LiveType plan)),
             c_StartupProbe := Some (startupProbe (pp_Liveness plan) (bs_StartTimeout spec)
               (pp_HealthPath plan) (pp_Commands plan) (pp_LiveType plan)),
             c_ReadinessProbe := Some readiness, c_PreStop := Some (lifeCycle (pp_PreStop plan))\<rparr>))))))"

definition ApplySecurityContext :: "container list \<Rightarrow> security_context option \<Rightarrow> container list" where
  "ApplySecurityContext containers securityContext =
     (case securityContext of
        None \<Rightarrow> containers
      | Some sc \<Rightarrow> map (\<lambda>c. if c_SecurityContext c = None then c\<lparr>c_SecurityContext := Some sc\<rparr> else c) containers)"

section \<open>The pod template\<close>

text \<open>
  \<^verbatim>\<open>newBaseInitContainer\<close> for the user's initialisation; the default initialisation of a
  BE uses the user's image where one is given.
\<close>

definition constructInitContainers ::
    "bool \<Rightarrow> ComponentType \<Rightarrow> system_initialization option \<Rightarrow> container list" where
  "constructInitContainers skipInit componentType si =
     (if \<not> skipInit \<and> (componentType = Component_BE \<or> componentType = Component_CN)
      then [constructBeDefaultInitContainer (case si of None \<Rightarrow> '''' | Some s \<Rightarrow> si_InitImage s)] else []) @
     (case si of
        None \<Rightarrow> []
      | Some s \<Rightarrow> [init_container ''init'' (if si_InitImage s = '''' then DEFAULT_INIT_IMAGE else si_InitImage s)
                    (si_Command s) (si_Args s) (si_Resources s)])"

definition getDefaultAffinity :: "ComponentType \<Rightarrow> affinity" where
  "getDefaultAffinity componentType =
     \<lparr>af_NodeAffinity = None, af_PodAffinity = None,
      af_PodAntiAffinity = Some \<lparr>paa_Required = [],
        paa_Preferred = [LabelTerm 20 ComponentLabelKey [component_string componentType] NODE_TOPOLOGYKEY]\<rparr>\<rparr>"

definition constructAffinity :: "affinity option \<Rightarrow> ComponentType \<Rightarrow> affinity" where
  "constructAffinity dcrAffinity componentType =
     (let affinity = getDefaultAffinity componentType
      in case dcrAffinity of
           None \<Rightarrow> affinity
         | Some given \<Rightarrow>
             affinity\<lparr>af_NodeAffinity := af_NodeAffinity given, af_PodAffinity := af_PodAffinity given,
               af_PodAntiAffinity :=
                 (case af_PodAntiAffinity given of
                    None \<Rightarrow> af_PodAntiAffinity affinity
                  | Some g \<Rightarrow> map_option (\<lambda>p. \<lparr>paa_Required = paa_Required g,
                      paa_Preferred = paa_Preferred p @ paa_Preferred g\<rparr>) (af_PodAntiAffinity affinity))\<rparr>)"

text \<open>The volumes of FE and BE come from the specification; those of the others are the defaults.\<close>

fun spec_volumes :: "BaseSpec \<Rightarrow> string list \<Rightarrow> conf \<Rightarrow> ComponentType \<Rightarrow> go_error + volume list" where
  "spec_volumes spec sharedPaths config Component_FE = newVolumesFromBaseSpec spec sharedPaths config Component_FE"
| "spec_volumes spec sharedPaths config Component_BE = newVolumesFromBaseSpec spec sharedPaths config Component_BE"
| "spec_volumes spec sharedPaths config _ = Inr []"

definition NewPodTemplateSpec :: "DorisCluster \<Rightarrow> conf \<Rightarrow> ComponentType \<Rightarrow> go_error + pod_template" where
  "NewPodTemplateSpec dcr config componentType =
     bindE (getBaseSpecFromCluster dcr componentType) (\<lambda>spec.
     let (sharedVolumes, _, sharedPaths) =
           BuildSharedVolumesAndVolumeMounts (dcs_SharedPersistentVolumeClaims (dcr_Spec dcr)) componentType
     in bindE (spec_volumes spec sharedPaths config componentType) (\<lambda>volumes.
        bindE (GetPodLabels dcr componentType) (\<lambda>labels.
          Inr (zero_pod_template\<lparr>pt_Name := GeneratePodTemplateName dcr componentType,
             pt_Annotations := bs_Annotations spec, pt_Labels := labels,
             pt_ImagePullSecrets := bs_ImagePullSecrets spec, pt_NodeSelector := bs_NodeSelector spec,
             pt_Volumes :=
               (if volumes = [] then fst (getDefaultVolumesVolumeMounts componentType) else volumes) @
               [podinfo_volume] @ auth_volumes_dcr dcr @
               fst (getMultiConfigVolumeAndVolumeMount (bs_ConfigMapInfo spec)) @
               fst (getMultiSecretVolumeAndVolumeMount spec) @
               fst (getKerberosVolumeAndVolumeMount (dcs_KerberosInfo (dcr_Spec dcr))) @ sharedVolumes,
             pt_ServiceAccountName := bs_ServiceAccount spec, pt_Tolerations := bs_Tolerations spec,
             pt_HostAliases := bs_HostAliases spec,
             pt_InitContainers := constructInitContainers (skip_init dcr componentType) componentType
               (bs_SystemInitialization spec),
             pt_SecurityContext := bs_SecurityContext spec,
             pt_Affinity := Some (constructAffinity (bs_Affinity spec) componentType)\<rparr>))))"

section \<open>The StatefulSet\<close>

definition NewStatefulSet ::
    "('w, 'x) hash_env_scheme \<Rightarrow> DorisCluster \<Rightarrow> conf \<Rightarrow> ComponentType \<Rightarrow> go_error + statefulset" where
  "NewStatefulSet K dcr config componentType =
     bindE (getBaseSpecFromCluster dcr componentType) (\<lambda>bSpec.
     let (_, _, sharedPaths) =
           BuildSharedVolumesAndVolumeMounts (dcs_SharedPersistentVolumeClaims (dcr_Spec dcr)) componentType
     in bindE (GenerateEveryoneMountPathDorisPersistentVolume bSpec sharedPaths config componentType) (\<lambda>pvs.
        bindE (NewPodTemplateSpec dcr config componentType) (\<lambda>template.
          Inr (zero_sts\<lparr>sts_Namespace := dcr_Namespace dcr,
             sts_Name := GenerateComponentStatefulSetName dcr componentType,
             sts_Labels := GenerateStatefulSetLabels dcr componentType,
             sts_OwnerReferences := [owner_of_dcr dcr], sts_Replicas := bs_Replicas bSpec,
             sts_Selector := GenerateStatefulSetSelector dcr componentType, sts_Template := template,
             sts_VolumeClaimTemplates := map (claim_template K) pvs,
             sts_ServiceName := GenerateInternalCommunicateServiceName dcr componentType,
             sts_RevisionHistoryLimit := Some 5,
             sts_UpdateStrategy := \<lparr>us_Type = RollingUpdateStrategy, us_RollingUpdate = Some (Some 0)\<rparr>,
             sts_PodManagementPolicy := ''Parallel''\<rparr>))))"

section \<open>Comparison\<close>

definition config_env_name :: string where "config_env_name = ''CONFIGMAP_MOUNT_PATH''"

definition config_env :: env_var where
  "config_env = env config_env_name ConfigEnvPath"

definition is_main :: "container \<Rightarrow> bool" where
  "is_main c = (c_Name c \<in> set [''fe'', ''be'', ''cn'', ''broker''])"

definition main_container_envs :: "statefulset \<Rightarrow> env_var list" where
  "main_container_envs st =
     (case List.find is_main (pt_Containers (sts_Template st)) of None \<Rightarrow> [] | Some c \<Rightarrow> c_Env c)"

text \<open>
  The variable is removed from the new environment and put back at the positions it has in
  the stored one; a position behind the end appends it.
\<close>

definition config_positions :: "env_var list \<Rightarrow> nat list" where
  "config_positions envs = map fst (filter (\<lambda>(i, e). ev_Name e = config_env_name) (enumerate 0 envs))"

definition insert_config :: "env_var list \<Rightarrow> nat \<Rightarrow> env_var list" where
  "insert_config envs i = take i envs @ config_env # drop i envs"

definition align_envs :: "env_var list \<Rightarrow> env_var list \<Rightarrow> env_var list" where
  "align_envs newEnvs oldEnvs =
     foldl insert_config (filter (\<lambda>e. ev_Name e \<noteq> config_env_name) newEnvs) (config_positions oldEnvs)"

definition same_envs :: "env_var list \<Rightarrow> env_var list \<Rightarrow> bool" where
  "same_envs newEnvs oldEnvs =
     list_all2 (\<lambda>n e. ev_Name n = ev_Name e \<and> (ev_Value n = '''' \<or> ev_Value n = ev_Value e)) newEnvs oldEnvs"

definition set_main_envs :: "env_var list \<Rightarrow> statefulset \<Rightarrow> statefulset" where
  "set_main_envs envs st =
     st\<lparr>sts_Template := (sts_Template st)\<lparr>pt_Containers :=
       update_first is_main (\<lambda>c. c\<lparr>c_Env := envs\<rparr>) (pt_Containers (sts_Template st))\<rparr>\<rparr>"

text \<open>
  The verdict and the new StatefulSet. Writing the environment of a StatefulSet without a
  main container, and reading the replicas of one without any, panic.
\<close>

definition clear_config_env_path_numbers_alwaysEquals ::
    "('w, 'x) hash_env_scheme \<Rightarrow> statefulset \<Rightarrow> statefulset \<Rightarrow> string \<Rightarrow> bool \<Rightarrow> go_error + bool \<times> statefulset" where
  "clear_config_env_path_numbers_alwaysEquals K new old annoKey excludeReplicas =
     (let oldEnvs = main_container_envs old; newEnvs = align_envs (main_container_envs new) oldEnvs
      in if \<not> same_envs newEnvs oldEnvs then Inr (False, new)
         else if \<not> list_ex is_main (pt_Containers (sts_Template new)) then Inl (Panic ''Containers[nMainContainerIndex]'')
         else case (sts_Replicas new, sts_Replicas old) of
             (Some n, Some r) \<Rightarrow>
               (let avoid = set_main_envs newEnvs new;
                    same = (\<lambda>st. HashObject K (statefulSetHashObject st excludeReplicas) =
                                 map_get (sts_Annotations old) annoKey)
                in if n = r then Inr (same avoid, new)
                   else Inr (False, if same (avoid\<lparr>sts_Replicas := Some r\<rparr>) then avoid else new))
           | _ \<Rightarrow> Inl (Panic ''*new.Spec.Replicas''))"

definition StatefulSetDeepEqual ::
    "('w, 'x) hash_env_scheme \<Rightarrow> statefulset \<Rightarrow> statefulset \<Rightarrow> bool \<Rightarrow> go_error + bool \<times> statefulset" where
  "StatefulSetDeepEqual K new old excludeReplicas =
     (case StatefulsetDeepEqualWithKey K new old ComponentResourceHash excludeReplicas of
        (True, new) \<Rightarrow> Inr (True, new)
      | (False, new) \<Rightarrow> clear_config_env_path_numbers_alwaysEquals K new old ComponentResourceHash excludeReplicas)"

text \<open>
  \<^verbatim>\<open>ApplyStatefulSet\<close> with a comparison that may panic. With one that cannot, it is
  the function of \<^verbatim>\<open>Kube_Client\<close>.
\<close>

definition ApplyStatefulSetE ::
    "('w, 'x) kube_env_scheme \<Rightarrow> statefulset \<Rightarrow> (statefulset \<Rightarrow> statefulset \<Rightarrow> go_error + bool \<times> statefulset)
     \<Rightarrow> (statefulset \<Rightarrow> statefulset) \<Rightarrow> 'w \<Rightarrow> go_error option \<times> 'w" where
  "ApplyStatefulSetE K st equal pasf w =
     (case GetSts K (sts_Namespace st) (sts_Name st) w of
        (Inl e, w) \<Rightarrow>
          (if IsNotFound e then
             (case equal st zero_sts of
                Inl p \<Rightarrow> (Some p, w)
              | Inr (ev, st) \<Rightarrow> CreateSts K (pasf st) w)
           else (Some e, w))
      | (Inr est, w) \<Rightarrow>
          (case equal st est of
             Inl p \<Rightarrow> (Some p, w)
           | Inr (ev, st) \<Rightarrow>
               (if ev then (None, w)
                else case PatchSts K ((pasf st)\<lparr>sts_ResourceVersion := sts_ResourceVersion est\<rparr>) w of
                    (None, w) \<Rightarrow> (None, w)
                  | (Some e, w) \<Rightarrow> if IsConflict e then (None, w) else (Some e, w))))"

lemma ApplyStatefulSetE_total:
  "ApplyStatefulSetE K st (\<lambda>n e. Inr (eq n e)) pasf w =
     (case ApplyStatefulSet K st (\<lambda>n e s. (fst (eq n e), snd (eq n e), s)) pasf () w of ((r, _), w) \<Rightarrow> (r, w))"
  by (auto simp: ApplyStatefulSetE_def ApplyStatefulSet_def Let_def split: prod.split sum.split option.split)

end
