(* ===== verification/Doris_Sub.thy ===== *)
theory Doris_Sub
  imports Doris_Pods
begin

text \<open>
  The code that the sub-controllers of a DorisCluster share
  (\<^verbatim>\<open>sub_controller/sub_controller.go\<close>): the restart asked for by an annotation or by a
  changed configuration, the status from the pods, the checks of secrets, config maps and
  shared claims, the claims provisioned by the operator, and clearing.

  A function that panics returns the panic as its error; the state of the cluster after a
  panic is never read.
\<close>

section \<open>Configuration and volumes\<close>

text \<open>\<^verbatim>\<open>SubDefaultController.GetConfig\<close> logs the error and drops it.\<close>

definition GetConfig ::
    "('w, 'x) kube_env_scheme \<Rightarrow> ConfigMapInfo \<Rightarrow> string \<Rightarrow> ComponentType \<Rightarrow> 'w \<Rightarrow> conf \<times> 'w" where
  "GetConfig K configMapInfo ns componentType w =
     (case k8s_GetConfig K configMapInfo ns componentType w of ((config, err), w) \<Rightarrow> (config, w))"

definition GetFinalPersistentVolumes ::
    "('w, 'x) kube_env_scheme \<Rightarrow> DorisCluster \<Rightarrow> ComponentType \<Rightarrow> 'w \<Rightarrow> (go_error + PersistentVolume list) \<times> 'w" where
  "GetFinalPersistentVolumes K dcr componentType =
     bindW (liftW (getBaseSpecFromCluster dcr componentType)) (\<lambda>baseSpec.
     bindW (readW (GetConfig K (bs_ConfigMapInfo baseSpec) (dcr_Namespace dcr) componentType)) (\<lambda>config.
     let (_, _, sharedPaths) =
           BuildSharedVolumesAndVolumeMounts (dcs_SharedPersistentVolumeClaims (dcr_Spec dcr)) componentType
     in liftW (GenerateEveryoneMountPathDorisPersistentVolume baseSpec sharedPaths config componentType)))"

section \<open>Restart\<close>

definition ten_minutes :: time where "ten_minutes = 10 * 60 * 1000000000"

fun restart_key :: "ComponentType \<Rightarrow> string option" where
  "restart_key Component_FE = Some FERestartAt"
| "restart_key Component_BE = Some BERestartAt"
| "restart_key _ = None"

text \<open>
  The restart time of the cluster's annotation is copied to the pods unless it cannot be
  read or lies more than ten minutes back.
\<close>

definition CheckRestartTimeAndInject ::
    "('w, 'x) dcr_env_scheme \<Rightarrow> DorisCluster \<Rightarrow> ComponentType \<Rightarrow> 'w \<Rightarrow> (go_error + bool \<times> DorisCluster) \<times> 'w" where
  "CheckRestartTimeAndInject K dcr componentType w =
     (case restart_key componentType of
        None \<Rightarrow> (Inr (False, dcr), w)
      | Some key \<Rightarrow>
          (case getBaseSpecFromCluster dcr componentType of
             Inl e \<Rightarrow> (Inl e, w)
           | Inr baseSpec \<Rightarrow>
               (let restartedAt = map_get (dcr_Annotations dcr) key
                in if restartedAt = '''' then (Inr (False, dcr), w)
                   else case ParseRFC3339 K restartedAt of
                       Inl e \<Rightarrow>
                         (Inr (False, dcr), warn K ''RestartTimeInvalid''
                            (''CheckRestartTimeAndInject error: time format is incorrect. dorisClusterName: '' @ dcr_Name dcr @
                             '', namespace: '' @ dcr_Namespace dcr @ '', componentType '' @ component_string componentType @
                             '', wrong parse 'restartedAt': '' @ restartedAt @ '' , error: '' @ error_text e) w)
                     | Inr parseTime \<Rightarrow>
                         (case Now K w of
                            (now, w) \<Rightarrow>
                              (if now - ten_minutes > parseTime then
                                 (Inr (False, dcr), warn K ''RestartTimeInvalid''
                                    (''the '' @ component_string componentType @ '' restart time is not effective. the 'restartedAt' '' @
                                     restartedAt @ '' can't be earlier than 10 minutes before the current time'') w)
                               else
                                 (Inr (True, set_base (baseSpec\<lparr>bs_Annotations := (bs_Annotations baseSpec)
                                    (key \<mapsto> restartedAt)\<rparr>) componentType dcr), w))))))"

definition hex_digit :: "nat \<Rightarrow> char" where
  "hex_digit d = (if d < 10 then char_of (48 + d) else char_of (87 + d))"

definition word_hex :: "word32 \<Rightarrow> string" where
  "word_hex x = map (\<lambda>i. hex_digit (nat (uint x div 16 ^ (7 - i) mod 16))) [0..<8]"

text \<open>\<^verbatim>\<open>set.Map2Hash\<close>: the hexadecimal SHA-256 sum of the JSON text.\<close>

definition Map2Hash :: "('w, 'x) dcr_env_scheme \<Rightarrow> conf \<Rightarrow> string" where
  "Map2Hash K m =
     (case MarshalConf K m of
        Inl e \<Rightarrow> ''''
      | Inr jsonBytes \<Rightarrow> concat (map word_hex (sha256 jsonBytes)))"

definition BuildCoreConfigmapStatusHash ::
    "('w, 'x) dcr_env_scheme \<Rightarrow> DorisCluster \<Rightarrow> ComponentType \<Rightarrow> 'w \<Rightarrow> string \<times> 'w" where
  "BuildCoreConfigmapStatusHash K dcr componentType w =
     (let cmName = GetDorisCoreConfigMapNames dcr componentType;
          failed = (\<lambda>e w. ('''', warn K ''ConfigMapGetFailed'' (''BuildCoreConfigmapStatusHash configmap namespace '' @
             dcr_Namespace dcr @ '' name '' @ cmName @ '' find failed '' @ error_text e) w))
      in if cmName = '''' then ('''', w)
         else case GetConfigMapObj K (dcr_Namespace dcr) cmName w of
             (Inl e, w) \<Rightarrow> failed e w
           | (Inr cm, w) \<Rightarrow>
               (case ResolveConfigMaps K [cm] componentType of
                  (confMap, Some e) \<Rightarrow> failed e w
                | (confMap, None) \<Rightarrow> (Map2Hash K confMap, w)))"

text \<open>A changed configuration of an available component asks for a restart now.\<close>

definition CompareConfigmapAndTriggerRestart ::
    "('w, 'x) dcr_env_scheme \<Rightarrow> DorisCluster \<Rightarrow> ComponentStatus \<Rightarrow> ComponentType \<Rightarrow> 'w
     \<Rightarrow> (go_error + DorisCluster) \<times> 'w" where
  "CompareConfigmapAndTriggerRestart K dcr oldStatus componentType w =
     (let oldCmHash = cst_CoreConfigMapHashValue oldStatus
      in if oldCmHash = '''' then (Inr dcr, w)
         else case BuildCoreConfigmapStatusHash K dcr componentType w of
             (newCmHash, w) \<Rightarrow>
               (if newCmHash = '''' \<or> oldCmHash = newCmHash \<or> cst_Phase oldStatus \<noteq> Phase_Available then (Inr dcr, w)
                else case Now K w of
                    (now, w) \<Rightarrow>
                      (set_component_phase Phase_Restarting componentType
                         (dcr\<lparr>dcr_Annotations := (dcr_Annotations dcr)
                            (GetRestartAnnotationKey componentType \<mapsto> FormatRFC3339 K now)\<rparr>), w)))"

section \<open>Status\<close>

definition ready_pods :: "pod list \<Rightarrow> pod list" where
  "ready_pods pods = filter PodIsReady pods"

definition creating_pods :: "pod list \<Rightarrow> pod list" where
  "creating_pods pods =
     filter (\<lambda>p. \<not> PodIsReady p \<and> (pod_Phase p = PodRunning \<or> pod_Phase p = PodPending)) pods"

definition failed_pods :: "pod list \<Rightarrow> pod list" where
  "failed_pods pods =
     filter (\<lambda>p. \<not> PodIsReady p \<and> pod_Phase p \<noteq> PodRunning \<and> pod_Phase p \<noteq> PodPending) pods"

text \<open>The reason and message of a pod, looked up by its name: the last pod of that name.\<close>

definition explain_by :: "pod list \<Rightarrow> pod \<Rightarrow> ComponentCondition \<Rightarrow> ComponentCondition" where
  "explain_by pods p c =
     (case List.find (\<lambda>q. pod_Name q = pod_Name p) (rev pods) of
        None \<Rightarrow> c\<lparr>cc_Reason := '''', cc_Message := ''''\<rparr>
      | Some q \<Rightarrow> c\<lparr>cc_Reason := pod_Reason q, cc_Message := pod_Message q\<rparr>)"

definition classify_condition ::
    "pod list \<Rightarrow> int \<Rightarrow> ComponentType \<Rightarrow> ComponentCondition \<Rightarrow> ComponentCondition" where
  "classify_condition pods replicas componentType c =
     (let key = GetRestartAnnotationKey componentType;
          same = list_all (\<lambda>p. map_get (pod_Annotations p) key = map_get (pod_Annotations (hd pods)) key) pods
      in if int (length (ready_pods pods)) = replicas \<and> same then c\<lparr>cc_Phase := Phase_Available\<rparr>
         else case (failed_pods pods, creating_pods pods) of
             (p # _, _) \<Rightarrow> explain_by pods p (c\<lparr>cc_Phase := Phase_HaveMemberFailed\<rparr>)
           | ([], p # _) \<Rightarrow> explain_by pods p c
           | ([], []) \<Rightarrow> c)"

definition ClassifyPodsByStatus ::
    "('w, 'x) kube_env_scheme \<Rightarrow> string \<Rightarrow> ComponentStatus \<Rightarrow> string_map \<Rightarrow> int \<Rightarrow> ComponentType \<Rightarrow> 'w
     \<Rightarrow> (ComponentStatus \<times> go_error option) \<times> 'w" where
  "ClassifyPodsByStatus K ns status labels replicas componentType w =
     (case ListPods K ns labels w of
        (Inl e, w) \<Rightarrow> ((status, Some e), w)
      | (Inr pods, w) \<Rightarrow>
          (if pods = [] then ((status, None), w)
           else
             ((status\<lparr>cst_ComponentCondition :=
                 classify_condition pods replicas componentType (cst_ComponentCondition status),
                 cst_RunningMembers := map pod_Name (ready_pods pods),
                 cst_FailedMembers := map pod_Name (failed_pods pods),
                 cst_CreatingMembers := map pod_Name (creating_pods pods)\<rparr>, None), w)))"

text \<open>A component that is being changed keeps its phase; any other one is initialising again.\<close>

definition initial_status ::
    "ComponentStatus option \<Rightarrow> string \<Rightarrow> string \<Rightarrow> time \<Rightarrow> ComponentStatus" where
  "initial_status old stsName svcName now =
     zero_ComponentStatus\<lparr>cst_AccessService := svcName,
       cst_ComponentCondition := \<lparr>cc_SubResourceName = stsName,
         cc_Phase = (case old of
            None \<Rightarrow> Phase_Initializing
          | Some s \<Rightarrow> if IsReconcilingStatusPhase s then cst_Phase s else Phase_Initializing),
         cc_LastTransitionTime = ClockStamp now, cc_Reason = '''', cc_Message = ''''\<rparr>\<rparr>"

definition initFEStatus :: "('w, 'x) kube_env_scheme \<Rightarrow> DorisCluster \<Rightarrow> 'w \<Rightarrow> DorisCluster \<times> 'w" where
  "initFEStatus K cluster w =
     (case Now K w of (now, w) \<Rightarrow>
        (set_dcr_FEStatus (Some (initial_status (dcr_FEStatus cluster)
           (GenerateComponentStatefulSetName cluster Component_FE)
           (GenerateExternalServiceName cluster Component_FE) now)) cluster, w))"

definition initBEStatus :: "('w, 'x) kube_env_scheme \<Rightarrow> DorisCluster \<Rightarrow> 'w \<Rightarrow> DorisCluster \<times> 'w" where
  "initBEStatus K cluster w =
     (case Now K w of (now, w) \<Rightarrow>
        (set_dcr_BEStatus (Some (initial_status (dcr_BEStatus cluster)
           (GenerateComponentStatefulSetName cluster Component_BE)
           (GenerateExternalServiceName cluster Component_BE) now)) cluster, w))"

fun InitStatus :: "('w, 'x) kube_env_scheme \<Rightarrow> DorisCluster \<Rightarrow> ComponentType \<Rightarrow> 'w \<Rightarrow> DorisCluster \<times> 'w" where
  "InitStatus K dcr Component_FE w = initFEStatus K dcr w"
| "InitStatus K dcr Component_BE w = initBEStatus K dcr w"
| "InitStatus K dcr _ w = (dcr, w)"

section \<open>Checks\<close>

fun repeatedConfigPaths :: "string_map \<Rightarrow> cm_mount list \<Rightarrow> (string \<times> string \<times> string) list" where
  "repeatedConfigPaths mountsMap [] = []"
| "repeatedConfigPaths mountsMap (cm # cms) =
     (case mountsMap (cmm_MountPath cm) of None \<Rightarrow> [] | Some m \<Rightarrow> [(cmm_MountPath cm, cmm_Name cm, m)]) @
     repeatedConfigPaths (mountsMap(cmm_MountPath cm \<mapsto> cmm_Name cm)) cms"

definition CheckConfigMountPath :: "('w, 'x) kube_env_scheme \<Rightarrow> BaseSpec \<Rightarrow> 'w \<Rightarrow> 'w" where
  "CheckConfigMountPath K spec w =
     foldl (\<lambda>w (path, new, old). warn K ''ConfigMapPathRepeated''
         (''the mountPath '' @ path @ '' is repeated between configmap: '' @ new @ '' and configmap: '' @ old @ ''.'') w)
       w (repeatedConfigPaths Map.empty (GetMountConfigMapInfo (bs_ConfigMapInfo spec)))"

definition CheckSecretExist_dcr :: "('w, 'x) kube_env_scheme \<Rightarrow> DorisCluster \<Rightarrow> secret_mount list \<Rightarrow> 'w \<Rightarrow> 'w" where
  "CheckSecretExist_dcr K dcr secrets w =
     (case missingSecrets K (dcr_Namespace dcr) secrets w of
        (errMessage, w) \<Rightarrow>
          (if errMessage \<noteq> '''' then
             warn K ''SecretNotExist'' (''CheckSecretExist error: '' @ errMessage @ ''.'') w else w))"

text \<open>The three checks that every Sync makes of the mounts of its component.\<close>

definition check_mounts :: "('w, 'x) kube_env_scheme \<Rightarrow> DorisCluster \<Rightarrow> BaseSpec \<Rightarrow> 'w \<Rightarrow> 'w" where
  "check_mounts K dcr spec w =
     CheckSecretExist_dcr K dcr (bs_Secrets spec) (CheckSecretMountPath K (bs_Secrets spec) (CheckConfigMountPath K spec w))"

text \<open>
  The first shared claim that is missing or cannot be shared is reported. The source prints
  the error in Go syntax; its text stands for that here.
\<close>

fun CheckSharedPVC ::
    "('w, 'x) dcr_env_scheme \<Rightarrow> string \<Rightarrow> SharedPersistentVolumeClaim list \<Rightarrow> 'w \<Rightarrow> 'w" where
  "CheckSharedPVC K ns [] w = w"
| "CheckSharedPVC K ns (claim # claims) w =
     (let name = spvc_PersistentVolumeClaimName claim
      in case GetPvcObj K ns name w of
           (Inl e, w) \<Rightarrow>
             warn K ''CheckSharePVC'' (''(PersistentVolumeClaim get failed name: '' @ name @ '', namespace: '' @ ns @
               '', err: '' @ error_text e @ ''), '') w
         | (Inr p, w) \<Rightarrow>
             (if ''ReadWriteMany'' \<notin> set (cl_AccessModes (pvc_Spec p)) then
                warn K ''CheckSharePVC'' (''(PersistentVolumeClaim name: '' @ name @ '', namespace: '' @ ns @
                  '' AccessMode cannot be shared: ['' @ join_with '' '' (cl_AccessModes (pvc_Spec p)) @ '']), '') w
              else CheckSharedPVC K ns claims w))"

definition FindSecretTLSConfig_dcr ::
    "conf \<Rightarrow> DorisCluster \<Rightarrow> go_error + TLSConfig option \<times> string" where
  "FindSecretTLSConfig_dcr feConfMap dcr =
     bindE (GetString feConfMap ''enable_tls'') (\<lambda>enableTLS.
       if enableTLS = '''' then Inr (None, '''')
       else
         bindE (GetString feConfMap ''tls_ca_certificate_path'') (\<lambda>caCertFile.
         bindE (GetString feConfMap ''tls_certificate_path'') (\<lambda>clientCertFile.
         bindE (GetString feConfMap ''tls_private_key_path'') (\<lambda>clientKeyFile.
         let caCertDir = filepath_Dir caCertFile;
             secrets = (case dcr_FeSpec dcr of None \<Rightarrow> [] | Some s \<Rightarrow> bs_Secrets (feSpec_BaseSpec s));
             secretName = (case List.find (\<lambda>sn. sm_MountPath sn = caCertDir) secrets of
                             None \<Rightarrow> '''' | Some sn \<Rightarrow> sm_SecretName sn)
         in Inr (Some \<lparr>tls_CAFileName = path_Base caCertFile, tls_ClientCertFileName = path_Base clientCertFile,
                       tls_ClientKeyFileName = path_Base clientKeyFile\<rparr>, secretName)))))"

definition FeAvailable :: "('w, 'x) kube_env_scheme \<Rightarrow> DorisCluster \<Rightarrow> 'w \<Rightarrow> bool \<times> 'w" where
  "FeAvailable K dcr w =
     (if fst (GetConfigFEAddrForAccess dcr Component_BE) \<noteq> '''' then (True, w)
      else case GetEndpoints K (dcr_Namespace dcr) (GenerateExternalServiceName dcr Component_FE) w of
          (Inl e, w) \<Rightarrow> (False, w)
        | (Inr subsets, w) \<Rightarrow> (list_ex (\<lambda>addresses. addresses \<noteq> []) subsets, w))"

section \<open>Claims provisioned by the operator\<close>

text \<open>
  A listed claim belongs to the first volume whose name begins its own; a claim that no
  volume claims is kept under the empty name.
\<close>

definition claim_key :: "PersistentVolume list \<Rightarrow> pvc \<Rightarrow> string" where
  "claim_key pvs c =
     (case List.find (\<lambda>pv. dpv_Name pv \<noteq> '''' \<and> HasPrefix (pvc_Name c) (dpv_Name pv)) pvs of
        None \<Rightarrow> '''' | Some pv \<Rightarrow> dpv_Name pv)"

definition claims_of :: "PersistentVolume list \<Rightarrow> pvc list \<Rightarrow> string \<Rightarrow> pvc list" where
  "claims_of pvs claims name = filter (\<lambda>c. claim_key pvs c = name) claims"

fun resizeClaims ::
    "('w, 'x) kube_env_scheme \<Rightarrow> PersistentVolume \<Rightarrow> pvc list \<Rightarrow> 'w \<Rightarrow> bool \<times> 'w" where
  "resizeClaims K volume [] w = (True, w)"
| "resizeClaims K volume (c # cs) w =
     (let newCapacity = cl_Storage (dpv_ClaimSpec volume)
      in if cl_Storage (pvc_Spec c) = newCapacity then resizeClaims K volume cs w
         else
           (let w = (case PatchPvc K (set_storage newCapacity c) w of
                 (None, w) \<Rightarrow> notice K ''PVCUpdated'' (pvc_Name c @ '' update successfully!'') w
               | (Some e, w) \<Rightarrow> warn K ''PVCUpdateFailed'' (pvc_Name c @ '' update failed, '' @ error_text e) w)
            in case resizeClaims K volume cs w of (_, w) \<Rightarrow> (False, w)))"

fun createClaims ::
    "('w, 'x) hash_env_scheme \<Rightarrow> PersistentVolume \<Rightarrow> string_map \<Rightarrow> string \<Rightarrow> string \<Rightarrow> nat list \<Rightarrow> 'w \<Rightarrow> 'w" where
  "createClaims K volume selector ns stsName [] w = w"
| "createClaims K volume selector ns stsName (i # is) w =
     (case CreatePvc K (BuildPVC K volume selector ns stsName (dec_nat i)) w of
        (Some e, w) \<Rightarrow>
          createClaims K volume selector ns stsName is
            (if IsAlreadyExists e then w else warn K ''PVCCreateFailed'' (error_text e) w)
      | (None, w) \<Rightarrow> createClaims K volume selector ns stsName is w)"

definition patchPVCs ::
    "('w, 'x) hash_env_scheme \<Rightarrow> DorisCluster \<Rightarrow> string_map \<Rightarrow> pvc list \<Rightarrow> string \<Rightarrow> PersistentVolume \<Rightarrow> int \<Rightarrow> 'w
     \<Rightarrow> bool \<times> 'w" where
  "patchPVCs K dcr selector pvcs stsName volume replicas w =
     (case resizeClaims K volume pvcs w of
        (prepared, w) \<Rightarrow>
          (if int (length pvcs) < replicas then
             (False, createClaims K volume selector (dcr_Namespace dcr) stsName [length pvcs..<nat replicas]
                (notice K ''PVCCreate'' (''create PVC ordinal '' @ dec_nat (length pvcs) @ '' - '' @ Itoa replicas) w))
           else (prepared, w)))"

fun patchVolumes ::
    "('w, 'x) hash_env_scheme \<Rightarrow> DorisCluster \<Rightarrow> string_map \<Rightarrow> string \<Rightarrow> PersistentVolume list \<Rightarrow> pvc list \<Rightarrow> int
     \<Rightarrow> PersistentVolume list \<Rightarrow> 'w \<Rightarrow> bool \<times> 'w" where
  "patchVolumes K dcr selector stsName all claims replicas [] w = (True, w)"
| "patchVolumes K dcr selector stsName all claims replicas (pv # pvs) w =
     (if dpv_PVCProvisioner pv \<noteq> PVCProvisionerOperator_dcr
      then patchVolumes K dcr selector stsName all claims replicas pvs w
      else case patchPVCs K dcr selector (claims_of all claims (dpv_Name pv)) stsName pv replicas w of
          (p, w) \<Rightarrow>
            (case patchVolumes K dcr selector stsName all claims replicas pvs w of (q, w) \<Rightarrow> (p \<and> q, w)))"

definition component_replicas :: "DorisCluster \<Rightarrow> ComponentType \<Rightarrow> go_error + int" where
  "component_replicas dcr componentType =
     bindE (getBaseSpecFromCluster dcr componentType) (\<lambda>spec.
       case bs_Replicas spec of None \<Rightarrow> Inl (Panic ''*spec.Replicas'') | Some r \<Rightarrow> Inr r)"

definition preparePersistentVolumeClaim ::
    "('w, 'x) hash_env_scheme \<Rightarrow> DorisCluster \<Rightarrow> ComponentType \<Rightarrow> 'w \<Rightarrow> (go_error + bool) \<times> 'w" where
  "preparePersistentVolumeClaim K dcr componentType =
     bindW (liftW (component_replicas dcr componentType)) (\<lambda>replicas.
     bindW (GetFinalPersistentVolumes K dcr componentType) (\<lambda>pvs w.
       let selector = GenerateStatefulSetSelector dcr componentType;
           stsName = GenerateComponentStatefulSetName dcr componentType
       in case ListPvcs K (dcr_Namespace dcr) selector w of
            (Inl e, w) \<Rightarrow>
              (Inr False, warn K ''PVCListFailed'' (''list component '' @ component_string componentType @ '' failed!'') w)
          | (Inr claims, w) \<Rightarrow>
              (case patchVolumes K dcr selector stsName pvs claims replicas pvs w of (p, w) \<Rightarrow> (Inr p, w))))"

definition PrepareReconcileResources ::
    "('w, 'x) hash_env_scheme \<Rightarrow> DorisCluster \<Rightarrow> ComponentType \<Rightarrow> 'w \<Rightarrow> (go_error + bool) \<times> 'w" where
  "PrepareReconcileResources K dcr componentType w =
     (if componentType \<notin> {Component_FE, Component_BE, Component_CN} then (Inr True, w)
      else case getBaseSpecFromCluster dcr componentType of
          Inl e \<Rightarrow> (Inl e, w)
        | Inr spec \<Rightarrow>
            (if bs_PersistentVolumes spec \<noteq> [] then preparePersistentVolumeClaim K dcr componentType w
             else (Inr True, w)))"

section \<open>Clearing\<close>

text \<open>The claims above the replicas, from the highest ordinal down; errors are merged.\<close>

fun deletePVCs_dcr ::
    "('w, 'x) kube_env_scheme \<Rightarrow> string \<Rightarrow> string_map \<Rightarrow> string \<Rightarrow> string \<Rightarrow> int list \<Rightarrow> go_error option \<Rightarrow> 'w
     \<Rightarrow> go_error option \<times> 'w" where
  "deletePVCs_dcr K ns selector stsName volumeName [] mergeError w = (mergeError, w)"
| "deletePVCs_dcr K ns selector stsName volumeName (i # is) mergeError w =
     (case DeletePVC K ns (BuildPVCName stsName (Itoa i) volumeName) selector w of
        (Some e, w) \<Rightarrow>
          deletePVCs_dcr K ns selector stsName volumeName is (MergeError mergeError (Some e))
            (warn K ''PVCDeleteFailed'' (error_text e) w)
      | (None, w) \<Rightarrow> deletePVCs_dcr K ns selector stsName volumeName is mergeError w)"

definition surplus :: "nat \<Rightarrow> int \<Rightarrow> int list" where
  "surplus pvcSize replicas = rev [replicas..int pvcSize - 1]"

fun deleteVolumes ::
    "('w, 'x) kube_env_scheme \<Rightarrow> string \<Rightarrow> string_map \<Rightarrow> string \<Rightarrow> PersistentVolume list \<Rightarrow> pvc list \<Rightarrow> int
     \<Rightarrow> PersistentVolume list \<Rightarrow> go_error option \<Rightarrow> 'w \<Rightarrow> go_error option \<times> 'w" where
  "deleteVolumes K ns selector stsName all claims replicas [] mergeError w = (mergeError, w)"
| "deleteVolumes K ns selector stsName all claims replicas (pv # pvs) mergeError w =
     (let n = length (claims_of all claims (dpv_Name pv))
      in if int n \<le> replicas then deleteVolumes K ns selector stsName all claims replicas pvs mergeError w
         else case deletePVCs_dcr K ns selector stsName (dpv_Name pv) (surplus n replicas) None w of
             (Some e, w) \<Rightarrow>
               deleteVolumes K ns selector stsName all claims replicas pvs (MergeError mergeError (Some e)) w
           | (None, w) \<Rightarrow> deleteVolumes K ns selector stsName all claims replicas pvs mergeError w)"

definition listAndDeletePersistentVolumeClaim_dcr ::
    "('w, 'x) kube_env_scheme \<Rightarrow> DorisCluster \<Rightarrow> ComponentType \<Rightarrow> 'w \<Rightarrow> go_error option \<times> 'w" where
  "listAndDeletePersistentVolumeClaim_dcr K dcr componentType w =
     (case component_replicas dcr componentType of
        Inl e \<Rightarrow> (Some e, w)
      | Inr replicas \<Rightarrow>
          (case GetFinalPersistentVolumes K dcr componentType w of
             (Inl e, w) \<Rightarrow> (Some e, w)
           | (Inr pvs, w) \<Rightarrow>
               (let selector = GenerateStatefulSetSelector dcr componentType;
                    stsName = GenerateComponentStatefulSetName dcr componentType
                in case ListPvcs K (dcr_Namespace dcr) selector w of
                     (Inl e, w) \<Rightarrow>
                       (Some e, warn K ''PVCListFailed'' (''list component '' @ component_string componentType @ '' failed!'') w)
                   | (Inr claims, w) \<Rightarrow>
                       deleteVolumes K (dcr_Namespace dcr) selector stsName pvs claims replicas pvs None w)))"

definition recycleFEResources :: "('w, 'x) kube_env_scheme \<Rightarrow> DorisCluster \<Rightarrow> 'w \<Rightarrow> go_error option \<times> 'w" where
  "recycleFEResources K dcr w =
     (case getBaseSpecFromCluster dcr Component_FE of
        Inl e \<Rightarrow> (Some e, w)
      | Inr spec \<Rightarrow>
          (if bs_PersistentVolumes spec \<noteq> [] then listAndDeletePersistentVolumeClaim_dcr K dcr Component_FE w
           else (None, w)))"

fun RecycleResources ::
    "('w, 'x) kube_env_scheme \<Rightarrow> DorisCluster \<Rightarrow> ComponentType \<Rightarrow> 'w \<Rightarrow> go_error option \<times> 'w" where
  "RecycleResources K dcr Component_FE w = recycleFEResources K dcr w"
| "RecycleResources K dcr _ w = (None, w)"

text \<open>The object is gone, or the deletion failed for another reason than its absence.\<close>

definition real_error :: "go_error option \<Rightarrow> go_error option" where
  "real_error r = (case r of Some e \<Rightarrow> if IsNotFound e then None else Some e | None \<Rightarrow> None)"

definition ClearCommonResources ::
    "('w, 'x) kube_env_scheme \<Rightarrow> DorisCluster \<Rightarrow> ComponentType \<Rightarrow> 'w \<Rightarrow> (bool \<times> go_error option) \<times> 'w" where
  "ClearCommonResources K dcr componentType w =
     (let ns = dcr_Namespace dcr
      in case DeleteStatefulset K ns (GenerateComponentStatefulSetName dcr componentType) w of
           (r, w) \<Rightarrow>
     (case real_error r of
        Some e \<Rightarrow> ((False, Some e), w)
      | None \<Rightarrow>
     (case DeleteService K ns (GenerateInternalCommunicateServiceName dcr componentType) w of
        (r, w) \<Rightarrow>
     (case real_error r of
        Some e \<Rightarrow> ((False, Some e), w)
      | None \<Rightarrow>
     (case DeleteService K ns (GenerateExternalServiceName dcr componentType) w of
        (r, w) \<Rightarrow>
     (case real_error r of
        Some e \<Rightarrow> ((False, Some e), w)
      | None \<Rightarrow> ((True, None), w)))))))"

end
