(* ===== verification/Doris_FE.thy ===== *)
theory Doris_FE
  imports Doris_Sub Disagg_FE
begin

text \<open>
  The FE controller of a DorisCluster (\<^verbatim>\<open>sub_controller/fe\<close>): its StatefulSet, the guard
  that keeps the followers (\<^verbatim>\<open>safeScaleDown\<close>), dropping observers before a scale-down,
  Sync, the status and clearing.
\<close>

section \<open>The StatefulSet\<close>

text \<open>The address and the query port of the FE, as a container of a component gets them.\<close>

definition fe_access :: "DorisCluster \<Rightarrow> ComponentType \<Rightarrow> conf \<Rightarrow> go_error + string \<times> string" where
  "fe_access dcr componentType feConfig =
     (case GetConfigFEAddrForAccess dcr componentType of
        (addr, port) \<Rightarrow>
          bindE (GetPort feConfig QUERY_PORT) (\<lambda>queryPort.
            Inr (if addr = '''' then GenerateExternalServiceName dcr Component_FE else addr,
                 Itoa (if port \<noteq> - 1 then port else queryPort))))"

definition feContainer :: "DorisCluster \<Rightarrow> conf \<Rightarrow> go_error + container" where
  "feContainer dcr config =
     bindE (NewBaseMainContainer dcr config Component_FE) (\<lambda>c.
     bindE (fe_access dcr Component_FE config) (\<lambda>(feAddr, queryPort).
     bindE (GetElectionNumber_dcr dcr) (\<lambda>ele.
     bindE (GetContainerPorts config Component_FE) (\<lambda>ports.
       Inr (c\<lparr>c_Name := ''fe'', c_Ports := c_Ports c @ ports,
              c_Env := c_Env c @ [env ''ENV_FE_ADDR'' feAddr, env ''FE_QUERY_PORT'' queryPort,
                                  env ''ELECT_NUMBER'' (Itoa ele)]\<rparr>)))))"

definition buildFEPodTemplateSpec :: "DorisCluster \<Rightarrow> conf \<Rightarrow> go_error + pod_template" where
  "buildFEPodTemplateSpec dcr config =
     bindE (NewPodTemplateSpec dcr config Component_FE) (\<lambda>pts.
     bindE (AddTerminationGracePeriodSeconds config DEFAULT_FE_TERMINATION_GRACE_PERIOD_SECONDS pts) (\<lambda>pts.
     bindE (feContainer dcr config) (\<lambda>c.
     bindE (getBaseSpecFromCluster dcr Component_FE) (\<lambda>spec.
       Inr (pts\<lparr>pt_Containers := ApplySecurityContext [c] (bs_ContainerSecurityContext spec)\<rparr>)))))"

definition buildFEStatefulSet ::
    "('w, 'x) hash_env_scheme \<Rightarrow> DorisCluster \<Rightarrow> conf \<Rightarrow> go_error + statefulset" where
  "buildFEStatefulSet K dcr config =
     bindE (NewStatefulSet K dcr config Component_FE) (\<lambda>st.
     bindE (buildFEPodTemplateSpec dcr config) (\<lambda>pts. Inr (st\<lparr>sts_Template := pts\<rparr>)))"

section \<open>Scaling down\<close>

definition fe_base :: "DorisCluster \<Rightarrow> BaseSpec" where
  "fe_base dcr = (case dcr_FeSpec dcr of None \<Rightarrow> zero_BaseSpec | Some s \<Rightarrow> feSpec_BaseSpec s)"

definition set_fe_replicas :: "int \<Rightarrow> DorisCluster \<Rightarrow> DorisCluster" where
  "set_fe_replicas n dcr = set_base ((fe_base dcr)\<lparr>bs_Replicas := Some n\<rparr>) Component_FE dcr"

definition scale_down_warning :: string where
  "scale_down_warning = ''Replicas is not allowed less than ElectionNumber, because of the bdbje (like raft) consistency protocol, if want do that please set ElectionNumber less than replicas. like that '' @
     dquote ''spec:{feSpec:{electionNumber}}''"

definition follower_warning :: string where
  "follower_warning = ''Replicas less than electionNumber, so not allowed scale down. This is because the bdbje(like raft) consistency protocol, if want do that please set ElectionNumber less than replicas. like that '' @
     dquote ''spec:{feSpec:{electionNumber}}''"

text \<open>
  The wanted replicas \<open>nr\<close>, the running ones \<open>r\<close> and the election number \<open>ele\<close> give the
  replicas that are applied, with the warning if they differ from the wanted ones.
\<close>

definition safe_replicas :: "int \<Rightarrow> int \<Rightarrow> int \<Rightarrow> int \<times> string option" where
  "safe_replicas nr r ele =
     (if nr \<ge> r then (nr, None)
      else if nr \<ge> ele then (nr, None)
      else if r \<ge> ele then (ele, Some scale_down_warning)
      else (r, Some follower_warning))"

definition safeScaleDown ::
    "('w, 'x) kube_env_scheme \<Rightarrow> DorisCluster \<Rightarrow> statefulset \<Rightarrow> 'w \<Rightarrow> (go_error + DorisCluster) \<times> 'w" where
  "safeScaleDown K cluster ost w =
     (case GetElectionNumber_dcr cluster of
        Inl e \<Rightarrow> (Inl e, w)
      | Inr ele \<Rightarrow>
          (case (bs_Replicas (fe_base cluster), sts_Replicas ost) of
             (Some nr, Some r) \<Rightarrow>
               (case safe_replicas nr r ele of
                  (n, None) \<Rightarrow> (Inr cluster, w)
                | (n, Some msg) \<Rightarrow> (Inr (set_fe_replicas n cluster), warn K ''FollowerScaleDownFailed'' msg w))
           | _ \<Rightarrow> (Inl (Panic ''*Spec.Replicas''), w)))"

definition observerMap_dcr ::
    "('w, 'x) kube_env_scheme \<Rightarrow> DorisCluster \<Rightarrow> conf \<Rightarrow> Frontend list \<Rightarrow> 'w
     \<Rightarrow> (go_error + (int \<times> Frontend) list option) \<times> 'w" where
  "observerMap_dcr K targetDCR maps allObserves w =
     (let podTemplateName = GeneratePodTemplateName targetDCR Component_FE;
          build = (\<lambda>podMap. case BuildSeqNumberToFrontendMap allObserves podMap podTemplateName [] of
             Inl e \<Rightarrow> if is_panic e then Inl e else Inr None
           | Inr m \<Rightarrow> Inr (Some m))
      in case GetStartMode maps of
           Inl e \<Rightarrow> (Inl e, w)
         | Inr mode \<Rightarrow>
             (if mode = START_MODEL_FQDN then (build Map.empty, w)
              else case GetPodLabels targetDCR Component_FE of
                  Inl e \<Rightarrow> (Inl e, w)
                | Inr labels \<Rightarrow>
                    (case ListPods K (dcr_Namespace targetDCR) labels w of
                       (Inl e, w) \<Rightarrow> (Inr None, w)
                     | (Inr pods, w) \<Rightarrow> (build (pod_ip_map podTemplateName pods), w))))"

definition dropObservers_dcr ::
    "('w, 'x) kube_env_scheme \<Rightarrow> DorisCluster \<Rightarrow> conf \<Rightarrow> conn \<Rightarrow> 'w \<Rightarrow> go_error option \<times> 'w" where
  "dropObservers_dcr K targetDCR maps db w =
     (case GetObservers K db w of
        (Inl e, w) \<Rightarrow> (Some e, w)
      | (Inr allObserves, w) \<Rightarrow>
          (case (GetElectionNumber_dcr targetDCR, bs_Replicas (fe_base targetDCR)) of
             (Inl e, _) \<Rightarrow> (Some e, w)
           | (_, None) \<Rightarrow> (Some (Panic ''*targetDCR.Spec.FeSpec.Replicas''), w)
           | (Inr electionNumber, Some replicas) \<Rightarrow>
               (let amount = needRemoved (length allObserves) replicas electionNumber
                in if amount \<le> 0 then (None, w)
                   else case observerMap_dcr K targetDCR maps allObserves w of
                       (Inl e, w) \<Rightarrow> (Some e, w)
                     | (Inr None, w) \<Rightarrow> (None, w)
                     | (Inr (Some frontendMap), w) \<Rightarrow>
                         DropObserver K db (FindNeedDeletedObservers frontendMap amount) w)))"

definition tls_secret ::
    "('w, 'x) kube_env_scheme \<Rightarrow> string \<Rightarrow> TLSConfig option \<Rightarrow> string \<Rightarrow> 'w \<Rightarrow> secret option \<times> 'w" where
  "tls_secret K ns tlsConfig secretName w =
     (if tlsConfig \<noteq> None \<and> secretName \<noteq> '''' then GetSecret K ns secretName w else (None, w))"

definition dropObserverBySqlClient ::
    "('w, 'x) kube_env_scheme \<Rightarrow> DorisCluster \<Rightarrow> 'w \<Rightarrow> go_error option \<times> 'w" where
  "dropObserverBySqlClient K targetDCR w =
     (let ns = dcr_Namespace targetDCR
      in case GetSecret K ns (dcs_AuthSecret (dcr_Spec targetDCR)) w of (sec, w) \<Rightarrow>
      (case k8s_GetConfig K (bs_ConfigMapInfo (fe_base targetDCR)) ns Component_FE w of ((maps, _), w) \<Rightarrow>
       (case bindE (GetPort maps QUERY_PORT) (\<lambda>queryPort.
               bindE (FindSecretTLSConfig_dcr maps targetDCR) (\<lambda>(tlsConfig, secretName).
                 Inr (queryPort, tlsConfig, secretName))) of
          Inl e \<Rightarrow> (Some e, w)
        | Inr (queryPort, tlsConfig, secretName) \<Rightarrow>
            (case tls_secret K ns tlsConfig secretName w of (tlsSecret, w) \<Rightarrow>
               (case NewDorisMasterSqlDB K
                       \<lparr>db_User = fst (GetClusterSecret targetDCR sec), db_Password = snd (GetClusterSecret targetDCR sec),
                        db_Host = GenerateExternalServiceName targetDCR Component_FE @ ''.'' @ ns,
                        db_Port = Itoa queryPort, db_Database = ''mysql''\<rparr> tlsConfig tlsSecret w of
                  (Inl e, w) \<Rightarrow> (Some e, w)
                | (Inr db, w) \<Rightarrow>
                    (case dropObservers_dcr K targetDCR maps db w of (r, w) \<Rightarrow> (r, CloseDB K db w)))))))"

text \<open>
  \<^verbatim>\<open>prepareStatefulsetApply\<close>: a StatefulSet that cannot be read needs no preparation; a
  scale-down drops observers first; otherwise a restart may be injected.
\<close>

definition restart_if_available ::
    "('w, 'x) dcr_env_scheme \<Rightarrow> DorisCluster \<Rightarrow> ComponentStatus \<Rightarrow> ComponentType \<Rightarrow> 'w
     \<Rightarrow> (go_error + DorisCluster) \<times> 'w" where
  "restart_if_available K cluster oldStatus componentType w =
     (if cst_Phase oldStatus \<noteq> Phase_Available then (Inr cluster, w)
      else case CheckRestartTimeAndInject K cluster componentType w of
          (Inl e, w) \<Rightarrow> (Inl e, w)
        | (Inr (False, cluster), w) \<Rightarrow> (Inr cluster, w)
        | (Inr (True, cluster), w) \<Rightarrow> (set_component_phase Phase_Restarting componentType cluster, w))"

definition prepareStatefulsetApply ::
    "('w, 'x) dcr_env_scheme \<Rightarrow> DorisCluster \<Rightarrow> ComponentStatus \<Rightarrow> 'w \<Rightarrow> (go_error + DorisCluster) \<times> 'w" where
  "prepareStatefulsetApply K cluster oldStatus w =
     (case GetSts K (dcr_Namespace cluster) (GenerateComponentStatefulSetName cluster Component_FE) w of
        (Inl e, w) \<Rightarrow> (Inr cluster, w)
      | (Inr oldSt, w) \<Rightarrow>
          (let cluster = (if bs_Replicas (fe_base cluster) = None then set_fe_replicas 0 cluster else cluster)
           in bindW (safeScaleDown K cluster oldSt) (\<lambda>cluster.
                if wrap32 (the (bs_Replicas (fe_base cluster)) - the (sts_Replicas oldSt)) < 0 then
                  bindW (runW (dropObserverBySqlClient K cluster)) (\<lambda>_. liftW (Inr cluster))
                else restart_if_available K cluster oldStatus Component_FE) w))"

section \<open>Sync\<close>

definition status_or_zero :: "ComponentStatus option \<Rightarrow> ComponentStatus" where
  "status_or_zero s = (case s of None \<Rightarrow> zero_ComponentStatus | Some s \<Rightarrow> s)"

text \<open>The comparison of FE and BE: claim templates are kept, then the hashes decide.\<close>

definition sts_equal ::
    "('w, 'x) hash_env_scheme \<Rightarrow> statefulset \<Rightarrow> statefulset \<Rightarrow> go_error + bool \<times> statefulset" where
  "sts_equal K new est = StatefulSetDeepEqual K (RestrictConditionsEqual new est) est False"

definition configured_restart ::
    "('w, 'x) dcr_env_scheme \<Rightarrow> DorisCluster \<Rightarrow> ComponentStatus \<Rightarrow> ComponentType \<Rightarrow> 'w
     \<Rightarrow> (go_error + DorisCluster) \<times> 'w" where
  "configured_restart K cluster oldStatus componentType w =
     (if dcs_EnableRestartWhenConfigChange (dcr_Spec cluster)
      then CompareConfigmapAndTriggerRestart K cluster oldStatus componentType w else (Inr cluster, w))"

text \<open>Both services of a component, the internal one first.\<close>

definition applyServices ::
    "('w, 'x) hash_env_scheme \<Rightarrow> DorisCluster \<Rightarrow> ComponentType \<Rightarrow> conf \<Rightarrow> 'w \<Rightarrow> (go_error + unit) \<times> 'w" where
  "applyServices K dcr componentType config =
     bindW (liftW (BuildExternalService dcr componentType config)) (\<lambda>svc.
     bindW (liftW (BuildInternalService dcr componentType config)) (\<lambda>internalService.
     bindW (runW (ApplyService K internalService (ServiceDeepEqual K))) (\<lambda>_.
       runW (ApplyService K svc (ServiceDeepEqual K)))))"

definition applyFEStatefulSet ::
    "('w, 'x) dcr_env_scheme \<Rightarrow> DorisCluster \<Rightarrow> conf \<Rightarrow> ComponentStatus \<Rightarrow> 'w \<Rightarrow> (go_error + DorisCluster) \<times> 'w" where
  "applyFEStatefulSet K cluster config oldStatus =
     bindW (prepareStatefulsetApply K cluster oldStatus) (\<lambda>cluster.
     bindW (liftW (buildFEStatefulSet K cluster config)) (\<lambda>st.
     bindW (runW (ApplyStatefulSetE K st (sts_equal K) id)) (\<lambda>_. liftW (Inr cluster))))"

definition SyncFE_dcr ::
    "('w, 'x) dcr_env_scheme \<Rightarrow> DorisCluster \<Rightarrow> 'w \<Rightarrow> (go_error + DorisCluster) \<times> 'w" where
  "SyncFE_dcr K cluster =
     (case dcr_FeSpec cluster of
        None \<Rightarrow> liftW (Inr cluster)
      | Some feSpec \<Rightarrow>
          (let oldStatus = status_or_zero (dcr_FEStatus cluster); spec = feSpec_BaseSpec feSpec
           in bindW (readW (InitStatus K cluster Component_FE)) (\<lambda>cluster.
              bindW (configured_restart K cluster oldStatus Component_FE) (\<lambda>cluster.
              bindW (readW (GetConfig K (bs_ConfigMapInfo spec) (dcr_Namespace cluster) Component_FE)) (\<lambda>config.
              bindW (actW (\<lambda>w. CheckSharedPVC K (dcr_Namespace cluster)
                        (dcs_SharedPersistentVolumeClaims (dcr_Spec cluster)) (check_mounts K cluster spec w))) (\<lambda>_.
              bindW (applyServices K cluster Component_FE config) (\<lambda>_.
              bindW (PrepareReconcileResources K cluster Component_FE) (\<lambda>prepared.
                if prepared then applyFEStatefulSet K cluster config oldStatus
                else liftW (Inr cluster)))))))))"

section \<open>Status and clearing\<close>

definition UpdateFEStatus_dcr ::
    "('w, 'x) dcr_env_scheme \<Rightarrow> DorisCluster \<Rightarrow> 'w \<Rightarrow> (go_error + DorisCluster) \<times> 'w" where
  "UpdateFEStatus_dcr K cluster w =
     (if dcr_FeSpec cluster = None then (Inr (set_dcr_FEStatus None cluster), w)
      else case BuildCoreConfigmapStatusHash K cluster Component_FE w of
          (newCmHash, w) \<Rightarrow>
            (case (dcr_FEStatus cluster, bs_Replicas (fe_base cluster)) of
               (Some s, Some replicas) \<Rightarrow>
                 (case ClassifyPodsByStatus K (dcr_Namespace cluster) (s\<lparr>cst_CoreConfigMapHashValue := newCmHash\<rparr>)
                         (GenerateStatefulSetSelector cluster Component_FE) replicas Component_FE w of
                    ((s, Some e), w) \<Rightarrow> (Inl e, w)
                  | ((s, None), w) \<Rightarrow> (Inr (set_dcr_FEStatus (Some s) cluster), w))
             | _ \<Rightarrow> (Inl (Panic ''cluster.Status.FEStatus''), w)))"

definition ClearFEResources_dcr ::
    "('w, 'x) kube_env_scheme \<Rightarrow> DorisCluster \<Rightarrow> 'w \<Rightarrow> (bool \<times> go_error option) \<times> 'w" where
  "ClearFEResources_dcr K cluster w =
     (if dcr_FEStatus cluster = None then ((True, None), w)
      else case RecycleResources K cluster Component_FE w of
          (Some e, w) \<Rightarrow> ((False, Some e), w)
        | (None, w) \<Rightarrow>
            (if dcr_DeletionTimestamp cluster = 0 then ((True, None), w)
             else ClearCommonResources K cluster Component_FE w))"

end
