(* ===== verification/Doris_BE.thy ===== *)
theory Doris_BE
  imports Doris_FE
begin

text \<open>
  The BE controller of a DorisCluster (\<^verbatim>\<open>sub_controller/be\<close>): affinity with the FE, the
  StatefulSet, Sync, the status and clearing; and the broker controller
  (\<^verbatim>\<open>sub_controller/broker\<close>).
\<close>

section \<open>Affinity\<close>

definition no_affinity :: affinity where
  "no_affinity = \<lparr>af_NodeAffinity = None, af_PodAffinity = None, af_PodAntiAffinity = None\<rparr>"

definition no_terms :: pod_affinity_terms where
  "no_terms = \<lparr>paa_Required = [], paa_Preferred = []\<rparr>"

definition or_else :: "'a option \<Rightarrow> 'a \<Rightarrow> 'a" where
  "or_else x d = (case x of None \<Rightarrow> d | Some a \<Rightarrow> a)"

definition add_term :: "affinity_term \<Rightarrow> pod_affinity_terms option \<Rightarrow> pod_affinity_terms option" where
  "add_term t terms =
     (let a = or_else terms no_terms in Some (a\<lparr>paa_Preferred := paa_Preferred a @ [t]\<rparr>))"

definition addFeAntiAffinity :: "pod_template \<Rightarrow> pod_template" where
  "addFeAntiAffinity tplSpec =
     (let a = or_else (pt_Affinity tplSpec) no_affinity
      in tplSpec\<lparr>pt_Affinity := Some (a\<lparr>af_PodAntiAffinity :=
           add_term (MatchTerm 80 NODE_TOPOLOGYKEY ''fe'' NODE_TOPOLOGYKEY) (af_PodAntiAffinity a)\<rparr>)\<rparr>)"

definition addFeAffinity :: "pod_template \<Rightarrow> pod_template" where
  "addFeAffinity tplSpec =
     (let a = or_else (pt_Affinity tplSpec) no_affinity
      in tplSpec\<lparr>pt_Affinity := Some (a\<lparr>af_PodAffinity :=
           add_term (LabelTerm 15 ComponentLabelKey [''fe''] NODE_TOPOLOGYKEY) (af_PodAffinity a)\<rparr>)\<rparr>)"

section \<open>The StatefulSet of the BE\<close>

text \<open>
  The configuration of the FE is read only where its address is not given: with a given
  address the port that is not given is the default one.
\<close>

definition fe_config ::
    "('w, 'x) kube_env_scheme \<Rightarrow> DorisCluster \<Rightarrow> ComponentType \<Rightarrow> 'w \<Rightarrow> conf \<times> 'w" where
  "fe_config K dcr componentType w =
     (case (fst (GetConfigFEAddrForAccess dcr componentType) = '''', dcr_FeSpec dcr) of
        (True, Some feSpec) \<Rightarrow>
          (case k8s_GetConfig K (bs_ConfigMapInfo (feSpec_BaseSpec feSpec)) (dcr_Namespace dcr) Component_FE w of
             ((config, _), w) \<Rightarrow> (config, w))
      | _ \<Rightarrow> ([], w))"

text \<open>The main container of a BE, a compute node or a broker, with the access to the FE.\<close>

definition node_container ::
    "('w, 'x) kube_env_scheme \<Rightarrow> DorisCluster \<Rightarrow> ComponentType \<Rightarrow> conf \<Rightarrow> 'w \<Rightarrow> (go_error + container) \<times> 'w" where
  "node_container K dcr componentType config =
     bindW (liftW (NewBaseMainContainer dcr config componentType)) (\<lambda>c.
     bindW (readW (fe_config K dcr componentType)) (\<lambda>feConfig.
     bindW (liftW (fe_access dcr componentType feConfig)) (\<lambda>(addr, feQueryPort).
     bindW (liftW (GetContainerPorts config componentType)) (\<lambda>ports.
       liftW (Inr (c\<lparr>c_Name := component_string componentType, c_Ports := c_Ports c @ ports,
         c_Env := c_Env c @ [env ''ENV_FE_ADDR'' addr, env ''FE_QUERY_PORT'' feQueryPort]\<rparr>))))))"

definition beContainer ::
    "('w, 'x) kube_env_scheme \<Rightarrow> DorisCluster \<Rightarrow> BeSpec \<Rightarrow> 'w \<Rightarrow> (go_error + container) \<times> 'w" where
  "beContainer K dcr beSpec =
     bindW (readW (GetConfig K (bs_ConfigMapInfo (beSpec_BaseSpec beSpec)) (dcr_Namespace dcr) Component_BE)) (\<lambda>config.
     bindW (node_container K dcr Component_BE config) (\<lambda>c.
       liftW (Inr (c\<lparr>c_Env := c_Env c @
         (if beSpec_EnableWorkloadGroup beSpec then [env ''ENABLE_WORKLOAD_GROUP'' ''true''] else [])\<rparr>))))"

text \<open>A workload group makes the container privileged, in the specification too.\<close>

definition workload_context :: "BeSpec \<Rightarrow> security_context option" where
  "workload_context beSpec =
     (let given = bs_ContainerSecurityContext (beSpec_BaseSpec beSpec)
      in if beSpec_EnableWorkloadGroup beSpec
         then Some ((or_else given \<lparr>scx_Privileged = None, scx_Other = ''''\<rparr>)\<lparr>scx_Privileged := Some True\<rparr>)
         else given)"

definition set_security_context :: "security_context option \<Rightarrow> BeSpec \<Rightarrow> DorisCluster \<Rightarrow> DorisCluster" where
  "set_security_context c beSpec dcr =
     set_base ((beSpec_BaseSpec beSpec)\<lparr>bs_ContainerSecurityContext := c\<rparr>) Component_BE dcr"

definition buildBEPodTemplateSpec ::
    "('w, 'x) kube_env_scheme \<Rightarrow> DorisCluster \<Rightarrow> BeSpec \<Rightarrow> conf \<Rightarrow> 'w
     \<Rightarrow> (go_error + pod_template \<times> DorisCluster) \<times> 'w" where
  "buildBEPodTemplateSpec K dcr beSpec config =
     bindW (liftW (NewPodTemplateSpec dcr config Component_BE)) (\<lambda>pts.
     let pts = (if beSpec_EnableFeAffinity beSpec then addFeAffinity pts else addFeAntiAffinity pts) in
     bindW (readW (GetConfig K (bs_ConfigMapInfo (beSpec_BaseSpec beSpec)) (dcr_Namespace dcr) Component_BE)) (\<lambda>graceConfig.
     bindW (liftW (AddTerminationGracePeriodSeconds graceConfig DEFAULT_BE_TERMINATION_GRACE_PERIOD_SECONDS pts)) (\<lambda>pts.
     bindW (beContainer K dcr beSpec) (\<lambda>c.
       let ctx = workload_context beSpec
       in liftW (Inr (pts\<lparr>pt_Containers := ApplySecurityContext (pt_Containers pts @ [c]) ctx\<rparr>,
            set_security_context ctx beSpec dcr))))))"

definition buildBEStatefulSet ::
    "('w, 'x) hash_env_scheme \<Rightarrow> DorisCluster \<Rightarrow> BeSpec \<Rightarrow> conf \<Rightarrow> 'w
     \<Rightarrow> (go_error + statefulset \<times> DorisCluster) \<times> 'w" where
  "buildBEStatefulSet K dcr beSpec config =
     bindW (liftW (NewStatefulSet K dcr config Component_BE)) (\<lambda>st.
     bindW (buildBEPodTemplateSpec K dcr beSpec config) (\<lambda>(pts, dcr).
       liftW (Inr (st\<lparr>sts_Template := pts\<rparr>, dcr))))"

definition useNewDefaultValuesInStatefulset_dcr :: "statefulset \<Rightarrow> statefulset" where
  "useNewDefaultValuesInStatefulset_dcr st =
     st\<lparr>sts_Template := UseNewDefaultInitContainerImage (sts_Template st)\<rparr>"

section \<open>Sync of the BE\<close>

text \<open>
  The injected restart changes the specification, from which the StatefulSet is then built;
  the claims are prepared after it is built.
\<close>

definition applyBEStatefulSet ::
    "('w, 'x) dcr_env_scheme \<Rightarrow> DorisCluster \<Rightarrow> conf \<Rightarrow> ComponentStatus \<Rightarrow> 'w \<Rightarrow> (go_error + DorisCluster) \<times> 'w" where
  "applyBEStatefulSet K dcr config oldStatus =
     bindW (restart_if_available K dcr oldStatus Component_BE) (\<lambda>dcr.
     case dcr_BeSpec dcr of
       None \<Rightarrow> liftW (Inl (Panic ''dcr.Spec.BeSpec''))
     | Some beSpec \<Rightarrow>
         bindW (buildBEStatefulSet K dcr beSpec config) (\<lambda>(st, dcr).
         bindW (PrepareReconcileResources K dcr Component_BE) (\<lambda>prepared.
           if prepared then
             bindW (runW (ApplyStatefulSetE K st (sts_equal K) useNewDefaultValuesInStatefulset_dcr))
               (\<lambda>_. liftW (Inr dcr))
           else liftW (Inr dcr))))"

definition SyncBE ::
    "('w, 'x) dcr_env_scheme \<Rightarrow> DorisCluster \<Rightarrow> 'w \<Rightarrow> (go_error + DorisCluster) \<times> 'w" where
  "SyncBE K dcr =
     (case dcr_BeSpec dcr of
        None \<Rightarrow> liftW (Inr dcr)
      | Some beSpec \<Rightarrow>
          (let oldStatus = status_or_zero (dcr_BEStatus dcr); spec = beSpec_BaseSpec beSpec
           in bindW (readW (InitStatus K dcr Component_BE)) (\<lambda>dcr.
              bindW (readW (FeAvailable K dcr)) (\<lambda>available.
                if \<not> available then liftW (Inr dcr)
                else
                  bindW (configured_restart K dcr oldStatus Component_BE) (\<lambda>dcr.
                  bindW (readW (GetConfig K (bs_ConfigMapInfo spec) (dcr_Namespace dcr) Component_BE)) (\<lambda>config.
                  bindW (actW (check_mounts K dcr spec)) (\<lambda>_.
                  bindW (applyServices K dcr Component_BE config) (\<lambda>_.
                    applyBEStatefulSet K dcr config oldStatus))))))))"

section \<open>Status and clearing of the BE\<close>

definition be_base :: "DorisCluster \<Rightarrow> BaseSpec" where
  "be_base dcr = (case dcr_BeSpec dcr of None \<Rightarrow> zero_BaseSpec | Some s \<Rightarrow> beSpec_BaseSpec s)"

definition UpdateBEStatus ::
    "('w, 'x) dcr_env_scheme \<Rightarrow> DorisCluster \<Rightarrow> 'w \<Rightarrow> (go_error + DorisCluster) \<times> 'w" where
  "UpdateBEStatus K cluster w =
     (if dcr_BeSpec cluster = None then (Inr (set_dcr_BEStatus None cluster), w)
      else case BuildCoreConfigmapStatusHash K cluster Component_BE w of
          (newCmHash, w) \<Rightarrow>
            (case (dcr_BEStatus cluster, bs_Replicas (be_base cluster)) of
               (Some s, Some replicas) \<Rightarrow>
                 (case ClassifyPodsByStatus K (dcr_Namespace cluster) (s\<lparr>cst_CoreConfigMapHashValue := newCmHash\<rparr>)
                         (GenerateStatefulSetSelector cluster Component_BE) replicas Component_BE w of
                    ((s, Some e), w) \<Rightarrow> (Inl e, w)
                  | ((s, None), w) \<Rightarrow> (Inr (set_dcr_BEStatus (Some s) cluster), w))
             | _ \<Rightarrow> (Inl (Panic ''cluster.Status.BEStatus''), w)))"

definition ClearBEResources ::
    "('w, 'x) kube_env_scheme \<Rightarrow> DorisCluster \<Rightarrow> 'w \<Rightarrow> (bool \<times> go_error option) \<times> 'w" where
  "ClearBEResources K dcr w =
     (if dcr_BEStatus dcr = None then ((True, None), w)
      else if dcr_BeSpec dcr = None then ClearCommonResources K dcr Component_BE w
      else ((True, None), w))"

section \<open>Broker\<close>

definition broker_term :: affinity_term where
  "broker_term = LabelTerm 20 ComponentLabelKey [''be''] NODE_TOPOLOGYKEY"

text \<open>The template of every component has an affinity, so the pointer is not nil.\<close>

definition addDefaultBorkerPodAffinity :: "BrokerSpec \<Rightarrow> pod_template \<Rightarrow> pod_template" where
  "addDefaultBorkerPodAffinity spec pts =
     (if \<not> brokerSpec_KickOffAffinityBe spec then pts
      else pts\<lparr>pt_Affinity := map_option (\<lambda>a. a\<lparr>af_PodAffinity := add_term broker_term (af_PodAffinity a)\<rparr>)
             (pt_Affinity pts)\<rparr>)"

definition brokerContainer ::
    "('w, 'x) kube_env_scheme \<Rightarrow> DorisCluster \<Rightarrow> BrokerSpec \<Rightarrow> 'w \<Rightarrow> (go_error + container) \<times> 'w" where
  "brokerContainer K dcr brokerSpec =
     bindW (readW (GetConfig K (bs_ConfigMapInfo (brokerSpec_BaseSpec brokerSpec)) (dcr_Namespace dcr) Component_Broker))
       (node_container K dcr Component_Broker)"

definition buildBrokerPodTemplateSpec ::
    "('w, 'x) kube_env_scheme \<Rightarrow> DorisCluster \<Rightarrow> BrokerSpec \<Rightarrow> conf \<Rightarrow> 'w \<Rightarrow> (go_error + pod_template) \<times> 'w" where
  "buildBrokerPodTemplateSpec K dcr brokerSpec config =
     bindW (liftW (NewPodTemplateSpec dcr config Component_Broker)) (\<lambda>pts.
     let pts = addDefaultBorkerPodAffinity brokerSpec pts in
     bindW (brokerContainer K dcr brokerSpec) (\<lambda>c.
       liftW (Inr (pts\<lparr>pt_Containers := ApplySecurityContext (pt_Containers pts @ [c])
         (bs_ContainerSecurityContext (brokerSpec_BaseSpec brokerSpec))\<rparr>))))"

definition buildBKStatefulSet ::
    "('w, 'x) hash_env_scheme \<Rightarrow> DorisCluster \<Rightarrow> BrokerSpec \<Rightarrow> conf \<Rightarrow> 'w \<Rightarrow> (go_error + statefulset) \<times> 'w" where
  "buildBKStatefulSet K dcr brokerSpec config =
     bindW (liftW (NewStatefulSet K dcr config Component_Broker)) (\<lambda>st.
     bindW (buildBrokerPodTemplateSpec K dcr brokerSpec config) (\<lambda>pts.
       liftW (Inr (st\<lparr>sts_Template := pts\<rparr>))))"

definition SyncBroker ::
    "('w, 'x) dcr_env_scheme \<Rightarrow> DorisCluster \<Rightarrow> 'w \<Rightarrow> (go_error + DorisCluster) \<times> 'w" where
  "SyncBroker K dcr =
     (case dcr_BrokerSpec dcr of
        None \<Rightarrow> liftW (Inr dcr)
      | Some brokerSpec \<Rightarrow>
          (let spec = brokerSpec_BaseSpec brokerSpec
           in bindW (readW (FeAvailable K dcr)) (\<lambda>available.
                if \<not> available then liftW (Inr dcr)
                else
                  bindW (readW (GetConfig K (bs_ConfigMapInfo spec) (dcr_Namespace dcr) Component_Broker)) (\<lambda>config.
                  bindW (actW (check_mounts K dcr spec)) (\<lambda>_.
                  bindW (liftW (BuildInternalService dcr Component_Broker config)) (\<lambda>internalService.
                  bindW (runW (ApplyService K internalService (ServiceDeepEqual K))) (\<lambda>_.
                  bindW (buildBKStatefulSet K dcr brokerSpec config) (\<lambda>st.
                  bindW (runW (ApplyStatefulSetE K st (\<lambda>new est. StatefulSetDeepEqual K new est False) id))
                    (\<lambda>_. liftW (Inr dcr))))))))))"

text \<open>A status that exists is kept, whatever its phase; a new one starts as reconciling.\<close>

definition broker_status :: "DorisCluster \<Rightarrow> time \<Rightarrow> ComponentStatus" where
  "broker_status cluster now =
     (case dcr_BrokerStatus cluster of
        Some s \<Rightarrow> s
      | None \<Rightarrow> zero_ComponentStatus\<lparr>cst_ComponentCondition := \<lparr>
          cc_SubResourceName = GenerateComponentStatefulSetName cluster Component_Broker,
          cc_Phase = Phase_Reconciling, cc_LastTransitionTime = ClockStamp now, cc_Reason = '''', cc_Message = ''''\<rparr>\<rparr>)
      \<lparr>cst_AccessService := GenerateExternalServiceName cluster Component_Broker\<rparr>"

definition UpdateBrokerStatus ::
    "('w, 'x) dcr_env_scheme \<Rightarrow> DorisCluster \<Rightarrow> 'w \<Rightarrow> (go_error + DorisCluster) \<times> 'w" where
  "UpdateBrokerStatus K cluster w =
     (case dcr_BrokerSpec cluster of
        None \<Rightarrow> (Inr (set_dcr_BrokerStatus None cluster), w)
      | Some brokerSpec \<Rightarrow>
          (case Now K w of
             (now, w) \<Rightarrow>
               (case bs_Replicas (brokerSpec_BaseSpec brokerSpec) of
                  None \<Rightarrow> (Inl (Panic ''*cluster.Spec.BrokerSpec.Replicas''), w)
                | Some replicas \<Rightarrow>
                    (case ClassifyPodsByStatus K (dcr_Namespace cluster) (broker_status cluster now)
                            (GenerateStatefulSetSelector cluster Component_Broker) replicas Component_Broker w of
                       ((s, Some e), w) \<Rightarrow> (Inl e, w)
                     | ((s, None), w) \<Rightarrow> (Inr (set_dcr_BrokerStatus (Some s) cluster), w)))))"

definition ClearBrokerResources ::
    "('w, 'x) kube_env_scheme \<Rightarrow> DorisCluster \<Rightarrow> 'w \<Rightarrow> (bool \<times> go_error option) \<times> 'w" where
  "ClearBrokerResources K dcr w =
     (if dcr_BrokerStatus dcr = None then ((True, None), w)
      else if dcr_BrokerSpec dcr = None then ClearCommonResources K dcr Component_Broker w
      else ((True, None), w))"

end
