(* ===== verification/Doris_CN.thy ===== *)
theory Doris_CN
  imports Doris_BE
begin

text \<open>
  The compute-node controller of a DorisCluster (\<^verbatim>\<open>sub_controller/cn\<close>): the StatefulSet,
  whose replicas the autoscaler may own, the autoscaler itself
  (\<^verbatim>\<open>resource/autoscaler.go\<close>), Sync, the status and clearing.
\<close>

section \<open>The StatefulSet\<close>

definition cnContainer ::
    "('w, 'x) kube_env_scheme \<Rightarrow> DorisCluster \<Rightarrow> CnSpec \<Rightarrow> 'w \<Rightarrow> (go_error + container) \<times> 'w" where
  "cnContainer K dcr cnSpec =
     bindW (readW (k8s_GetConfig K (bs_ConfigMapInfo (cnSpec_BaseSpec cnSpec)) (dcr_Namespace dcr) Component_CN))
       (\<lambda>(cnConfig, _).
     bindW (node_container K dcr Component_CN cnConfig) (\<lambda>c.
       liftW (Inr (c\<lparr>c_Env := c_Env c @ [env ''COMPONENT_TYPE'' ''COMPUTE'']\<rparr>))))"

definition buildCnPodTemplateSpec ::
    "('w, 'x) kube_env_scheme \<Rightarrow> DorisCluster \<Rightarrow> CnSpec \<Rightarrow> conf \<Rightarrow> 'w \<Rightarrow> (go_error + pod_template) \<times> 'w" where
  "buildCnPodTemplateSpec K dcr cnSpec config =
     bindW (liftW (NewPodTemplateSpec dcr config Component_CN)) (\<lambda>pts.
     bindW (liftW (AddTerminationGracePeriodSeconds config DEFAULT_BE_TERMINATION_GRACE_PERIOD_SECONDS pts)) (\<lambda>pts.
     bindW (cnContainer K dcr cnSpec) (\<lambda>c.
       liftW (Inr (pts\<lparr>pt_Containers := ApplySecurityContext (pt_Containers pts @ [c])
         (bs_ContainerSecurityContext (cnSpec_BaseSpec cnSpec))\<rparr>)))))"

definition buildCnStatefulSet ::
    "('w, 'x) hash_env_scheme \<Rightarrow> DorisCluster \<Rightarrow> CnSpec \<Rightarrow> conf \<Rightarrow> 'w \<Rightarrow> (go_error + statefulset) \<times> 'w" where
  "buildCnStatefulSet K dcr cnSpec config =
     bindW (liftW (NewStatefulSet K dcr config Component_CN)) (\<lambda>st.
     bindW (buildCnPodTemplateSpec K dcr cnSpec config) (\<lambda>pts.
       liftW (Inr (st\<lparr>sts_Template := pts\<rparr>))))"

section \<open>Merging metadata\<close>

definition mergeMaps :: "string_map \<Rightarrow> string_map \<Rightarrow> string_map" where
  "mergeMaps new old = old ++ new"

definition mergeOwnerReferences :: "owner_ref list \<Rightarrow> owner_ref list \<Rightarrow> owner_ref list" where
  "mergeOwnerReferences old new = old @ filter (\<lambda>r. r \<notin> set old) new"

text \<open>
  \<^verbatim>\<open>MergeMetadata\<close>: the keys of the new object win, its owners come first. Finalizers,
  which the operator never sets on a StatefulSet, are not part of the record.
\<close>

definition MergeStatefulSets :: "statefulset \<Rightarrow> statefulset \<Rightarrow> statefulset" where
  "MergeStatefulSets new old =
     new\<lparr>sts_ResourceVersion := sts_ResourceVersion old,
         sts_Labels := mergeMaps (sts_Labels new) (sts_Labels old),
         sts_Annotations := mergeMaps (sts_Annotations new) (sts_Annotations old),
         sts_OwnerReferences := mergeOwnerReferences (sts_OwnerReferences new) (sts_OwnerReferences old)\<rparr>"

text \<open>
  \<^verbatim>\<open>applyStatefulSet\<close>: without replicas and without an autoscaler the replicas are left
  out of the comparison. The result is the StatefulSet as it was sent.
\<close>

definition applyStatefulSet ::
    "('w, 'x) hash_env_scheme \<Rightarrow> statefulset \<Rightarrow> bool \<Rightarrow> 'w \<Rightarrow> (go_error + statefulset) \<times> 'w" where
  "applyStatefulSet K st autoscaler w =
     (case GetSts K (sts_Namespace st) (sts_Name st) w of
        (Inl e, w) \<Rightarrow>
          (if IsNotFound e then
             (case CreateSts K st w of (Some e, w) \<Rightarrow> (Inl e, w) | (None, w) \<Rightarrow> (Inr st, w))
           else (Inl e, w))
      | (Inr est, w) \<Rightarrow>
          (let excludeReplica = (sts_Replicas st = None \<and> \<not> autoscaler)
           in case StatefulSetDeepEqual K (RestrictConditionsEqual st est) est excludeReplica of
                Inl p \<Rightarrow> (Inl p, w)
              | Inr (True, st) \<Rightarrow> (Inr st, w)
              | Inr (False, st) \<Rightarrow>
                  (let st = (if sts_Replicas st \<noteq> None then MergeStatefulSets st est
                             else st\<lparr>sts_ResourceVersion := sts_ResourceVersion est\<rparr>)
                   in case UpdateSts K st w of (Some e, w) \<Rightarrow> (Inl e, w) | (None, w) \<Rightarrow> (Inr st, w))))"

section \<open>Autoscaler\<close>

definition generateAutoScalerName :: "DorisCluster \<Rightarrow> string" where
  "generateAutoScalerName dcr = GenerateComponentStatefulSetName dcr Component_CN @ ''-autoscaler''"

record PodAutoscalerParams =
  pap_AutoscalerType :: string
  pap_Namespace :: string
  pap_Name :: string
  pap_Labels :: string_map
  pap_TargetName :: string
  pap_OwnerReferences :: "owner_ref list"
  pap_ScalerPolicy :: AutoScalingPolicy

definition buildCnAutoscalerParams ::
    "AutoScalingPolicy \<Rightarrow> statefulset \<Rightarrow> DorisCluster \<Rightarrow> PodAutoscalerParams" where
  "buildCnAutoscalerParams scalerInfo target dcr =
     \<lparr>pap_AutoscalerType = asp_Version scalerInfo, pap_Namespace = sts_Namespace target,
      pap_Name = generateAutoScalerName dcr,
      pap_Labels = (sts_Labels target)(ComponentLabelKey \<mapsto> ''autoscaler''),
      pap_TargetName = sts_Name target, pap_OwnerReferences = sts_OwnerReferences target,
      pap_ScalerPolicy = scalerInfo\<rparr>"

definition buildAutoscalerV1 :: "PodAutoscalerParams \<Rightarrow> hpa" where
  "buildAutoscalerV1 pap =
     \<lparr>hpa_Version = AutoScalerV1, hpa_Name = pap_Name pap, hpa_Namespace = pap_Namespace pap,
      hpa_Labels = pap_Labels pap, hpa_OwnerReferences = pap_OwnerReferences pap,
      hpa_TargetName = pap_TargetName pap, hpa_TargetKind = ''StatefulSet'',
      hpa_MaxReplicas = asp_MaxReplicas (pap_ScalerPolicy pap),
      hpa_MinReplicas = asp_MinReplicas (pap_ScalerPolicy pap), hpa_Metrics = [], hpa_Behavior = None\<rparr>"

definition buildAutoscalerV2 :: "PodAutoscalerParams \<Rightarrow> hpa" where
  "buildAutoscalerV2 pap =
     (let ha = (buildAutoscalerV1 pap)\<lparr>hpa_Version := AutoSclaerV2\<rparr>
      in case asp_HPAPolicy (pap_ScalerPolicy pap) of
           None \<Rightarrow> ha
         | Some p \<Rightarrow> ha\<lparr>hpa_Metrics := hpap_Metrics p, hpa_Behavior := hpap_Behavior p\<rparr>)"

text \<open>An unknown version gives nil.\<close>

definition BuildHorizontalPodAutoscaler :: "PodAutoscalerParams \<Rightarrow> hpa option" where
  "BuildHorizontalPodAutoscaler pap =
     (if pap_AutoscalerType pap = AutoScalerV1 then Some (buildAutoscalerV1 pap)
      else if pap_AutoscalerType pap = AutoSclaerV2 then Some (buildAutoscalerV2 pap)
      else None)"

definition CreateOrUpdateHPA :: "('w, 'x) dcr_env_scheme \<Rightarrow> hpa \<Rightarrow> 'w \<Rightarrow> go_error option \<times> 'w" where
  "CreateOrUpdateHPA K ob w =
     (case UpdateHPA K ob w of
        (None, w) \<Rightarrow> (None, w)
      | (Some e, w) \<Rightarrow> if IsNotFound e then CreateHPA K ob w else (Some e, w))"

text \<open>Logging the object that is nil panics.\<close>

definition deployAutoScaler ::
    "('w, 'x) dcr_env_scheme \<Rightarrow> AutoScalingPolicy \<Rightarrow> statefulset \<Rightarrow> DorisCluster \<Rightarrow> 'w \<Rightarrow> go_error option \<times> 'w" where
  "deployAutoScaler K policy target dcr w =
     (case BuildHorizontalPodAutoscaler (buildCnAutoscalerParams policy target dcr) of
        None \<Rightarrow> (Some (Panic ''object.GetNamespace()''), w)
      | Some autoScaler \<Rightarrow> CreateOrUpdateHPA K autoScaler w)"

definition k8s_DeleteAutoscaler ::
    "('w, 'x) dcr_env_scheme \<Rightarrow> string \<Rightarrow> string \<Rightarrow> string \<Rightarrow> 'w \<Rightarrow> go_error option \<times> 'w" where
  "k8s_DeleteAutoscaler K ns name version w =
     (if version \<noteq> AutoScalerV1 \<and> version \<noteq> AutoSclaerV2
      then (Some (ErrorString (''the autoscaler type '' @ version @ '' is not supported.'')), w)
      else case GetHPA K version ns name w of
          (Inl e, w) \<Rightarrow> (if IsNotFound e then None else Some e, w)
        | (Inr h, w) \<Rightarrow> DeleteHPAObj K h w)"

definition DeleteAutoscaler ::
    "('w, 'x) dcr_env_scheme \<Rightarrow> DorisCluster \<Rightarrow> 'w \<Rightarrow> (go_error option \<times> DorisCluster) \<times> 'w" where
  "DeleteAutoscaler K dcr w =
     (case dcr_CnStatus dcr of
        None \<Rightarrow> ((None, dcr), w)
      | Some s \<Rightarrow>
          (case cns_HorizontalScaler s of
             None \<Rightarrow> ((None, dcr), w)
           | Some h \<Rightarrow>
               (case k8s_DeleteAutoscaler K (dcr_Namespace dcr) (hs_Name h) (hs_Version h) w of
                  (r, w) \<Rightarrow>
                    (case real_error r of
                       Some e \<Rightarrow> ((Some e, dcr), w)
                     | None \<Rightarrow> ((None, set_dcr_CnStatus
                         (Some (s\<lparr>cns_HorizontalScaler := Some \<lparr>hs_Name = '''', hs_Version = ''''\<rparr>\<rparr>)) dcr), w)))))"

section \<open>Clearing and Sync\<close>

text \<open>
  The policy is read before the specification is tested: once the compute nodes are taken
  out of the specification of a cluster that has their status, this panics.
\<close>

definition ClearCNResources ::
    "('w, 'x) dcr_env_scheme \<Rightarrow> DorisCluster \<Rightarrow> 'w \<Rightarrow> (DorisCluster \<times> bool \<times> go_error option) \<times> 'w" where
  "ClearCNResources K dcr w =
     (if dcr_CnStatus dcr = None then ((dcr, True, None), w)
      else case dcr_CnSpec dcr of
          None \<Rightarrow> ((dcr, False, Some (Panic ''dcr.Spec.CnSpec.AutoScalingPolicy'')), w)
        | Some cnSpec \<Rightarrow>
            (if cnSpec_AutoScalingPolicy cnSpec = None \<or> dcr_DeletionTimestamp dcr \<noteq> 0 then
               (case DeleteAutoscaler K dcr w of
                  ((None, dcr), w) \<Rightarrow> ((dcr, True, None), w)
                | ((Some e, dcr), w) \<Rightarrow>
                    ((dcr, True, None), warn K ''AutoScalerDeleteFailed'' (''cn autoscaler deleted failed.'' @ error_text e) w))
             else ((dcr, True, None), w)))"

definition syncAutoScaler ::
    "('w, 'x) dcr_env_scheme \<Rightarrow> CnSpec \<Rightarrow> statefulset \<Rightarrow> DorisCluster \<Rightarrow> 'w \<Rightarrow> (go_error + DorisCluster) \<times> 'w" where
  "syncAutoScaler K cnSpec st dcr w =
     (case cnSpec_AutoScalingPolicy cnSpec of
        None \<Rightarrow> (Inr dcr, w)
      | Some policy \<Rightarrow>
          (case deployAutoScaler K policy st dcr w of
             (Some e, w) \<Rightarrow> (if is_panic e then Inl e else Inr dcr, w)
           | (None, w) \<Rightarrow> (Inr dcr, w)))"

definition SyncCN ::
    "('w, 'x) dcr_env_scheme \<Rightarrow> DorisCluster \<Rightarrow> 'w \<Rightarrow> (go_error + DorisCluster) \<times> 'w" where
  "SyncCN K dcr =
     (case dcr_CnSpec dcr of
        None \<Rightarrow>
          (\<lambda>w. case ClearCNResources K dcr w of
             ((dcr, _, Some e), w) \<Rightarrow> (Inl e, w)
           | ((dcr, _, None), w) \<Rightarrow> (Inr dcr, w))
      | Some cnSpec \<Rightarrow>
          (let spec = cnSpec_BaseSpec cnSpec
           in bindW (readW (FeAvailable K dcr)) (\<lambda>available.
                if \<not> available then liftW (Inr dcr)
                else
                  bindW (readW (k8s_GetConfig K (bs_ConfigMapInfo spec) (dcr_Namespace dcr) Component_CN)) (\<lambda>(config, err).
                  bindW (liftW (case err of Some e \<Rightarrow> Inl e | None \<Rightarrow> Inr ())) (\<lambda>_.
                  bindW (actW (check_mounts K dcr spec)) (\<lambda>_.
                  bindW (applyServices K dcr Component_CN config) (\<lambda>_.
                  bindW (buildCnStatefulSet K dcr cnSpec config) (\<lambda>st.
                  bindW (PrepareReconcileResources K dcr Component_CN) (\<lambda>prepared.
                    if \<not> prepared then liftW (Inr dcr)
                    else bindW (applyStatefulSet K st (cnSpec_AutoScalingPolicy cnSpec \<noteq> None)) (\<lambda>st.
                      syncAutoScaler K cnSpec st dcr))))))))))"

section \<open>Status\<close>

definition cn_status :: "DorisCluster \<Rightarrow> CnSpec \<Rightarrow> time \<Rightarrow> CnStatus" where
  "cn_status cluster cnSpec now =
     \<lparr>cns_ComponentStatus = zero_ComponentStatus\<lparr>cst_ComponentCondition := \<lparr>
        cc_SubResourceName = GenerateComponentStatefulSetName cluster Component_CN,
        cc_Phase = Phase_Reconciling, cc_LastTransitionTime = ClockStamp now, cc_Reason = '''', cc_Message = ''''\<rparr>\<rparr>,
      cns_HorizontalScaler = map_option (\<lambda>p. \<lparr>hs_Name = generateAutoScalerName cluster, hs_Version = asp_Version p\<rparr>)
        (cnSpec_AutoScalingPolicy cnSpec)\<rparr>"

definition UpdateCNStatus ::
    "('w, 'x) dcr_env_scheme \<Rightarrow> DorisCluster \<Rightarrow> 'w \<Rightarrow> (go_error + DorisCluster) \<times> 'w" where
  "UpdateCNStatus K cluster w =
     (case dcr_CnSpec cluster of
        None \<Rightarrow> (Inr (set_dcr_CnStatus None cluster), w)
      | Some cnSpec \<Rightarrow>
          (case Now K w of
             (now, w) \<Rightarrow>
               (let stsName = GenerateComponentStatefulSetName cluster Component_CN; cs = cn_status cluster cnSpec now
                in case GetSts K (dcr_Namespace cluster) stsName w of
                     (Inl e, w) \<Rightarrow>
                       (Inr (set_dcr_CnStatus (Some cs) cluster),
                        warn K ''StatefulSetNotExist'' (''the cn statefulset '' @ stsName @ '' not exist.'') w)
                   | (Inr est, w) \<Rightarrow>
                       (case sts_Replicas est of
                          None \<Rightarrow> (Inl (Panic ''*est.Spec.Replicas''), w)
                        | Some replicas \<Rightarrow>
                            (case ClassifyPodsByStatus K (dcr_Namespace cluster)
                                    ((cns_ComponentStatus cs)\<lparr>cst_AccessService :=
                                       GenerateExternalServiceName cluster Component_CN\<rparr>)
                                    (GenerateStatefulSetSelector cluster Component_CN) replicas Component_CN w of
                               ((s, Some e), w) \<Rightarrow> (Inl e, w)
                             | ((s, None), w) \<Rightarrow>
                                 (Inr (set_dcr_CnStatus (Some (cs\<lparr>cns_ComponentStatus := s\<rparr>)) cluster), w))))))"

end
