(* ===== verification/Doris_Cluster.thy ===== *)
theory Doris_Cluster
  imports Doris_CN Disagg_Cluster
begin

text \<open>
  The reconciler of a DorisCluster (\<^verbatim>\<open>doriscluster_controller.go\<close>), the comparison of
  statuses (\<^verbatim>\<open>controllers_utils.go\<close>), the watch on config maps, and the validating
  webhook (\<^verbatim>\<open>doriscluster_webhook.go\<close>).

  Unlike the disaggregated reconciler, a pass ends with the first error. The
  sub-controllers are kept in a Go map: each loop takes the order it meets as a list.
\<close>

section \<open>Sub-controllers\<close>

record 'w SubController =
  sub_Name :: string
  sub_Sync :: "DorisCluster \<Rightarrow> 'w \<Rightarrow> (go_error + DorisCluster) \<times> 'w"
  sub_ClearResources :: "DorisCluster \<Rightarrow> 'w \<Rightarrow> (DorisCluster \<times> bool \<times> go_error option) \<times> 'w"
  sub_UpdateComponentStatus :: "DorisCluster \<Rightarrow> 'w \<Rightarrow> (go_error + DorisCluster) \<times> 'w"

definition keep_dcr ::
    "(DorisCluster \<Rightarrow> 'w \<Rightarrow> (bool \<times> go_error option) \<times> 'w)
     \<Rightarrow> DorisCluster \<Rightarrow> 'w \<Rightarrow> (DorisCluster \<times> bool \<times> go_error option) \<times> 'w" where
  "keep_dcr f dcr w = (case f dcr w of (r, w) \<Rightarrow> ((dcr, r), w))"

definition feSub :: "('w, 'x) dcr_env_scheme \<Rightarrow> 'w SubController" where
  "feSub K = \<lparr>sub_Name = ''feController'', sub_Sync = SyncFE_dcr K,
     sub_ClearResources = keep_dcr (ClearFEResources_dcr K), sub_UpdateComponentStatus = UpdateFEStatus_dcr K\<rparr>"

definition beSub :: "('w, 'x) dcr_env_scheme \<Rightarrow> 'w SubController" where
  "beSub K = \<lparr>sub_Name = ''beController'', sub_Sync = SyncBE K,
     sub_ClearResources = keep_dcr (ClearBEResources K), sub_UpdateComponentStatus = UpdateBEStatus K\<rparr>"

definition cnSub :: "('w, 'x) dcr_env_scheme \<Rightarrow> 'w SubController" where
  "cnSub K = \<lparr>sub_Name = ''cnController'', sub_Sync = SyncCN K,
     sub_ClearResources = ClearCNResources K, sub_UpdateComponentStatus = UpdateCNStatus K\<rparr>"

definition brokerSub :: "('w, 'x) dcr_env_scheme \<Rightarrow> 'w SubController" where
  "brokerSub K = \<lparr>sub_Name = ''brokerController'', sub_Sync = SyncBroker K,
     sub_ClearResources = keep_dcr (ClearBrokerResources K), sub_UpdateComponentStatus = UpdateBrokerStatus K\<rparr>"

definition initSubs :: "('w, 'x) dcr_env_scheme \<Rightarrow> 'w SubController list" where
  "initSubs K = [feSub K, beSub K, cnSub K, brokerSub K]"

section \<open>Loops\<close>

fun syncAll :: "'w SubController list \<Rightarrow> DorisCluster \<Rightarrow> 'w \<Rightarrow> (go_error + DorisCluster) \<times> 'w" where
  "syncAll [] dcr = liftW (Inr dcr)"
| "syncAll (rc # rcs) dcr = bindW (sub_Sync rc dcr) (\<lambda>dcr. syncAll rcs dcr)"

text \<open>The errors of clearing are dropped; only a panic ends the pass.\<close>

fun clearNoEffectResources :: "'w SubController list \<Rightarrow> DorisCluster \<Rightarrow> 'w \<Rightarrow> (go_error + DorisCluster) \<times> 'w" where
  "clearNoEffectResources [] dcr w = (Inr dcr, w)"
| "clearNoEffectResources (rc # rcs) dcr w =
     (case sub_ClearResources rc dcr w of
        ((dcr, _, None), w) \<Rightarrow> clearNoEffectResources rcs dcr w
      | ((dcr, _, Some e), w) \<Rightarrow> (if is_panic e then (Inl e, w) else clearNoEffectResources rcs dcr w))"

fun updateAllStatuses :: "'w SubController list \<Rightarrow> DorisCluster \<Rightarrow> 'w \<Rightarrow> (go_error + DorisCluster) \<times> 'w" where
  "updateAllStatuses [] dcr = liftW (Inr dcr)"
| "updateAllStatuses (rc # rcs) dcr = bindW (sub_UpdateComponentStatus rc dcr) (\<lambda>dcr. updateAllStatuses rcs dcr)"

section \<open>Comparison of statuses\<close>

text \<open>
  The first status is the new one. The lists of members are sorted in place where they are
  compared, so the comparison also returns the new status, with the lists it sorted. The
  conditions are compared as Go structs: a time taken from the clock differs from every
  time that was read from the API server, because of its monotonic reading.
\<close>

definition equalSplice :: "string list \<Rightarrow> string list \<Rightarrow> bool \<times> string list" where
  "equalSplice e n = (if length e \<noteq> length n then (False, e) else (sort e = sort n, sort e))"

definition inconsistentMembers :: "ComponentStatus \<Rightarrow> ComponentStatus \<Rightarrow> bool \<times> ComponentStatus" where
  "inconsistentMembers e n =
     (case equalSplice (cst_CreatingMembers e) (cst_CreatingMembers n) of
        (eq, c) \<Rightarrow>
     (let e = e\<lparr>cst_CreatingMembers := c\<rparr>
      in if \<not> eq then (True, e)
         else case equalSplice (cst_RunningMembers e) (cst_RunningMembers n) of
             (eq, r) \<Rightarrow>
     (let e = e\<lparr>cst_RunningMembers := r\<rparr>
      in if \<not> eq then (True, e)
         else case equalSplice (cst_FailedMembers e) (cst_FailedMembers n) of
             (eq, f) \<Rightarrow> (\<not> eq, e\<lparr>cst_FailedMembers := f\<rparr>))))"

fun inconsistentComponentStatus ::
    "ComponentStatus option \<Rightarrow> ComponentStatus option \<Rightarrow> bool \<times> ComponentStatus option" where
  "inconsistentComponentStatus None None = (False, None)"
| "inconsistentComponentStatus None (Some n) = (True, None)"
| "inconsistentComponentStatus (Some e) None = (True, Some e)"
| "inconsistentComponentStatus (Some e) (Some n) =
     (if cst_ComponentCondition e \<noteq> cst_ComponentCondition n \<or> cst_AccessService e \<noteq> cst_AccessService n
      then (True, Some e)
      else case inconsistentMembers e n of (b, e) \<Rightarrow> (b, Some e))"

fun inconsistentHorizontalStatus :: "HorizontalScaler option \<Rightarrow> HorizontalScaler option \<Rightarrow> bool" where
  "inconsistentHorizontalStatus (Some eh) (Some nh) = (hs_Name eh \<noteq> hs_Name nh \<or> hs_Version eh \<noteq> hs_Version nh)"
| "inconsistentHorizontalStatus None None = False"
| "inconsistentHorizontalStatus _ _ = True"

definition cn_component :: "CnStatus option \<Rightarrow> ComponentStatus" where
  "cn_component s = (case s of None \<Rightarrow> zero_ComponentStatus | Some s \<Rightarrow> cns_ComponentStatus s)"

definition inconsistentCnStatus :: "CnStatus option \<Rightarrow> CnStatus option \<Rightarrow> bool \<times> CnStatus option" where
  "inconsistentCnStatus e n =
     (if e = None \<and> n = None then (False, None)
      else case inconsistentComponentStatus (Some (cn_component e)) (Some (cn_component n)) of
          (b, c) \<Rightarrow>
            (b \<or> inconsistentHorizontalStatus (Option.bind e cns_HorizontalScaler) (Option.bind n cns_HorizontalScaler),
             map_option (cns_ComponentStatus_update (\<lambda>_. the c)) e))"

definition inconsistentStatus :: "DorisClusterStatus \<Rightarrow> DorisClusterStatus \<Rightarrow> bool \<times> DorisClusterStatus" where
  "inconsistentStatus s n =
     (case inconsistentComponentStatus (dst_FEStatus s) (dst_FEStatus n) of
        (b, c) \<Rightarrow>
     (let s = s\<lparr>dst_FEStatus := c\<rparr>
      in if b then (True, s)
         else case inconsistentComponentStatus (dst_BEStatus s) (dst_BEStatus n) of
             (b, c) \<Rightarrow>
     (let s = s\<lparr>dst_BEStatus := c\<rparr>
      in if b then (True, s)
         else case inconsistentCnStatus (dst_CnStatus s) (dst_CnStatus n) of
             (b, c) \<Rightarrow>
     (let s = s\<lparr>dst_CnStatus := c\<rparr>
      in if b then (True, s)
         else case inconsistentComponentStatus (dst_BrokerStatus s) (dst_BrokerStatus n) of
             (b, c) \<Rightarrow> (b, s\<lparr>dst_BrokerStatus := c\<rparr>)))))"

section \<open>Writing the object and its status\<close>

text \<open>The pass is run again while a deployed component is not available.\<close>

definition not_available :: "bool \<Rightarrow> ComponentStatus option \<Rightarrow> go_error + bool" where
  "not_available deployed s =
     (if \<not> deployed then Inr False
      else case s of
          None \<Rightarrow> Inl (Panic ''Status.ComponentCondition'')
        | Some s \<Rightarrow> Inr (cst_Phase s \<noteq> Phase_Available))"

definition reconcile_dcr :: "DorisCluster \<Rightarrow> go_error + bool" where
  "reconcile_dcr dcr =
     bindE (not_available (dcr_FeSpec dcr \<noteq> None) (dcr_FEStatus dcr)) (\<lambda>fe.
     if fe then Inr True
     else bindE (not_available (dcr_BeSpec dcr \<noteq> None) (dcr_BEStatus dcr)) (\<lambda>be.
     if be then Inr True
     else bindE (not_available (dcr_CnSpec dcr \<noteq> None) (map_option cns_ComponentStatus (dcr_CnStatus dcr))) (\<lambda>cn.
     if cn then Inr True
     else not_available (dcr_BrokerSpec dcr \<noteq> None) (dcr_BrokerStatus dcr))))"

definition ApplyDorisCluster ::
    "('w, 'x) dcr_env_scheme \<Rightarrow> DorisCluster \<Rightarrow> 'w \<Rightarrow> (go_error + DorisCluster) \<times> 'w" where
  "ApplyDorisCluster K dcr w =
     (case PatchDCR K dcr w of
        (Inr dcr, w) \<Rightarrow> (Inr dcr, w)
      | (Inl e, w) \<Rightarrow> if IsConflict e then (Inr dcr, w) else (Inl e, w))"

text \<open>A cluster without an FE of its own has no replicas to compare: the dereference panics.\<close>

definition revertDorisClusterSomeFields ::
    "('w, 'x) dcr_env_scheme \<Rightarrow> DorisCluster \<Rightarrow> DorisCluster \<Rightarrow> 'w \<Rightarrow> (go_error + DorisCluster) \<times> 'w" where
  "revertDorisClusterSomeFields K getDcr updatedDcr w =
     (case (component_replicas getDcr Component_FE, component_replicas updatedDcr Component_FE) of
        (Inl e, _) \<Rightarrow> (Inl e, w)
      | (_, Inl e) \<Rightarrow> (Inl e, w)
      | (Inr r, Inr u) \<Rightarrow> if r \<noteq> u then ApplyDorisCluster K updatedDcr w else (Inr updatedDcr, w))"

definition updateDorisClusterStatus ::
    "('w, 'x) dcr_env_scheme \<Rightarrow> DorisCluster \<Rightarrow> 'w \<Rightarrow> (go_error + ctrl_Result \<times> go_error option) \<times> 'w" where
  "updateDorisClusterStatus K dcr w =
     (case GetDCR K (dcr_Namespace dcr) (dcr_Name dcr) w of
        (Inl e, w) \<Rightarrow> (Inr (zero_Result, Some e), w)
      | (Inr edcr, w) \<Rightarrow>
          (case inconsistentStatus (dcr_Status dcr) (dcr_Status edcr) of
             (b, s) \<Rightarrow>
               (let dcr = dcr\<lparr>dcr_Status := s\<rparr>;
                    write = (\<lambda>w. case RetryOnConflictDCR K (\<lambda>edcr w. case UpdateDCRStatus K edcr w of
                                (Inl e, w) \<Rightarrow> ((Some e, edcr), w)
                              | (Inr edcr, w) \<Rightarrow> ((None, edcr), w)) (edcr\<lparr>dcr_Status := s\<rparr>) w of
                         ((r, _), w) \<Rightarrow> (Inr (zero_Result, r), w))
                in if b then write w
                   else case reconcile_dcr dcr of
                       Inl e \<Rightarrow> (Inl e, w)
                     | Inr again \<Rightarrow> if again then (Inr (requeue_after 5, None), w) else write w)))"

section \<open>Reconcile\<close>

definition namespacedName :: "string \<Rightarrow> string \<Rightarrow> string" where
  "namespacedName ns name = ns @ ''/'' @ name"

text \<open>The config maps of a cluster that is restarted when they change are remembered.\<close>

definition watch_config_maps :: "DorisCluster \<Rightarrow> string_map \<Rightarrow> string_map" where
  "watch_config_maps dcr watch =
     (if \<not> dcs_EnableRestartWhenConfigChange (dcr_Spec dcr) then watch
      else foldl (\<lambda>m t. let cm = GetDorisCoreConfigMapNames dcr t
                        in if cm = '''' then m
                           else m(namespacedName (dcr_Namespace dcr) cm \<mapsto> namespacedName (dcr_Namespace dcr) (dcr_Name dcr)))
             watch [Component_FE, Component_BE, Component_CN, Component_Broker])"

text \<open>
  One pass over a cluster that is not being deleted. \<open>Inl\<close> is an error or a panic that ends
  the pass; the result then is the zero result with that error.
\<close>

definition reconcilePass ::
    "('w, 'x) dcr_env_scheme \<Rightarrow> 'w SubController list \<Rightarrow> 'w SubController list \<Rightarrow> 'w SubController list
     \<Rightarrow> DorisCluster \<Rightarrow> 'w \<Rightarrow> (go_error + ctrl_Result \<times> go_error option) \<times> 'w" where
  "reconcilePass K syncOrder clearOrder statusOrder edcr =
     bindW (syncAll syncOrder edcr) (\<lambda>dcr.
     bindW (clearNoEffectResources clearOrder dcr) (\<lambda>dcr.
     bindW (updateAllStatuses statusOrder dcr) (\<lambda>dcr.
     bindW (revertDorisClusterSomeFields K edcr dcr) (\<lambda>dcr.
       updateDorisClusterStatus K dcr))))"

definition Reconcile_dcr ::
    "('w, 'x) dcr_env_scheme \<Rightarrow> 'w SubController list \<Rightarrow> 'w SubController list \<Rightarrow> 'w SubController list
     \<Rightarrow> string \<Rightarrow> string \<Rightarrow> string_map \<times> 'w
     \<Rightarrow> (go_error + ctrl_Result \<times> go_error option) \<times> string_map \<times> 'w" where
  "Reconcile_dcr K syncOrder clearOrder statusOrder ns name s =
     (case s of (watch, w) \<Rightarrow>
     (case GetDCR K ns name w of
        (Inl e, w) \<Rightarrow>
          (if IsNotFound e then (Inr (zero_Result, None), watch, w) else (Inr (zero_Result, Some e), watch, w))
      | (Inr edcr, w) \<Rightarrow>
          (if dcr_DeletionTimestamp edcr \<noteq> 0 then
             (case clearNoEffectResources clearOrder edcr w of
                (Inl p, w) \<Rightarrow> (Inl p, watch, w)
              | (Inr _, w) \<Rightarrow> (Inr (zero_Result, None), watch, w))
           else
             (case reconcilePass K syncOrder clearOrder statusOrder edcr w of
                (Inl e, w) \<Rightarrow>
                  (if is_panic e then Inl e else Inr (zero_Result, Some e), watch_config_maps edcr watch, w)
              | (Inr r, w) \<Rightarrow> (Inr r, watch_config_maps edcr watch, w)))))"

section \<open>Watches\<close>

text \<open>An event on a pod asks for a pass over the cluster its label names.\<close>

definition pod_requests :: "pod \<Rightarrow> (string \<times> string) list" where
  "pod_requests p =
     (let dorisName = map_get (pod_Labels p) DorisClusterLabelKey
      in if dorisName \<noteq> '''' then [(pod_Namespace p, dorisName)] else [])"

fun pod_event_passes :: "pod_event \<Rightarrow> bool" where
  "pod_event_passes (PodCreated p) = (pod_Labels p DorisClusterLabelKey \<noteq> None)"
| "pod_event_passes (PodUpdated same old new) = (pod_Labels old DorisClusterLabelKey \<noteq> None \<and> \<not> same)"
| "pod_event_passes (PodDeleted p) = (pod_Labels p DorisClusterLabelKey \<noteq> None)"

text \<open>The events on config maps: created and updated ones pass when they are watched.\<close>

definition config_map_event_passes :: "string_map \<Rightarrow> string \<Rightarrow> string \<Rightarrow> bool" where
  "config_map_event_passes watch ns name = (watch (namespacedName ns name) \<noteq> None)"

definition config_map_requests :: "string_map \<Rightarrow> string \<Rightarrow> string \<Rightarrow> (string \<times> string) list" where
  "config_map_requests watch ns name =
     (case watch (namespacedName ns name) of
        None \<Rightarrow> []
      | Some s \<Rightarrow> (case Split s ''/'' of [a, b] \<Rightarrow> [(a, b)] | _ \<Rightarrow> []))"

section \<open>Webhook\<close>

text \<open>\<^verbatim>\<open>strings.EqualFold\<close> on ASCII text.\<close>

definition validateManagementUser :: "DorisCluster \<Rightarrow> string list" where
  "validateManagementUser r =
     (case dcs_AdminUser (dcr_Spec r) of
        None \<Rightarrow> []
      | Some u \<Rightarrow>
          if ToLower (au_Name u) = ''admin''
          then [[CHR 0x27] @ ''adminUser.name'' @ [CHR 0x27] @ '' error: admin is not supported as management user, use root or a dedicated user with NODE_PRIV''] else [])"

definition ValidateCreate :: "DorisCluster \<Rightarrow> string list" where
  "ValidateCreate cluster = validateManagementUser cluster"

definition ValidateUpdate :: "DorisCluster \<Rightarrow> go_error + string list" where
  "ValidateUpdate cluster =
     (case dcr_FeSpec cluster of
        None \<Rightarrow> Inl (Panic ''cluster.Spec.FeSpec.Replicas'')
      | Some s \<Rightarrow>
          bindE (GetElectionNumber_dcr cluster) (\<lambda>ele.
            Inr (validateManagementUser cluster @
              (case bs_Replicas (feSpec_BaseSpec s) of
                 None \<Rightarrow> []
               | Some r \<Rightarrow> if r < ele then [[CHR 0x27] @ ''FeSpec.Replicas'' @ [CHR 0x27] @ '' error: the number of FeSpec.Replicas should greater than or equal to FeSpec.ElectionNumber''] else []))))"

end
