(* ===== verification/Doris_Memory.thy ===== *)
theory Doris_Memory
  imports Doris_Cluster Memory_Cluster
begin

text \<open>
  The world in memory of \<^verbatim>\<open>Memory_Cluster\<close> with what the DorisCluster controllers use
  beyond it: a stored cluster, no autoscalers, and restart times written as decimal numbers.
  It instantiates the parameters of the model in the examples.
\<close>

definition dcr_server :: "DorisCluster \<Rightarrow> world dcr_env" where
  "dcr_server stored = hash_env.extend (hash_env.truncate mem_env) (dcr_env.fields
     (\<lambda>ns n w. mem_find (\<lambda>c. pvc_Namespace c = ns \<and> pvc_Name c = n) (w_Pvcs w) w)
     (\<lambda>_ _ _ w. (Inl not_found, w)) (\<lambda>_ w. (None, w)) (\<lambda>_ w. (Some not_found, w)) (\<lambda>_ w. (None, w))
     (\<lambda>_ _ w. (Inr stored, w)) (\<lambda>dcr w. (Inr dcr, w)) (\<lambda>dcr w. (Inr dcr, w)) (\<lambda>f dcr w. f dcr w)
     (\<lambda>s. case Atoi s of None \<Rightarrow> Inl (ErrorString ''invalid time'') | Some t \<Rightarrow> Inr t) Itoa (\<lambda>c. Inr (concat (map fst c))))"

definition sample_dcr :: DorisCluster where
  "sample_dcr = zero_dcr\<lparr>dcr_Name := ''c'', dcr_Spec := (dcr_Spec zero_dcr)\<lparr>dcs_FeSpec :=
     Some \<lparr>feSpec_ElectionNumber = Some 3, feSpec_BaseSpec = zero_BaseSpec\<lparr>bs_Replicas := Some 1\<rparr>\<rparr>\<rparr>\<rparr>"

definition sample_be :: DorisCluster where
  "sample_be = set_dcr_BEStatus (Some zero_ComponentStatus) (zero_dcr\<lparr>dcr_Name := ''c'', dcr_Spec := (dcr_Spec zero_dcr)
     \<lparr>dcs_EnableRestartWhenConfigChange := True, dcs_BeSpec :=
       Some \<lparr>beSpec_BaseSpec = zero_BaseSpec\<lparr>bs_Replicas := Some 1,
               bs_ConfigMapInfo := \<lparr>cmi_ConfigMapName = ''m'', cmi_ResolveKey = '''', cmi_ConfigMaps = []\<rparr>\<rparr>,
             beSpec_EnableWorkloadGroup = False, beSpec_SkipDefaultSystemInit = False,
             beSpec_EnableFeAffinity = False, beSpec_AutoResolveLimitCPU = False\<rparr>\<rparr>\<rparr>)"

definition sample_fe_sts :: statefulset where
  "sample_fe_sts = zero_sts\<lparr>sts_Name := ''c-fe'', sts_Replicas := Some 5\<rparr>"

definition sample_world :: world where
  "sample_world = zero_world\<lparr>w_Sts := [sample_fe_sts]\<rparr>"

lemmas dcr_server_defs = dcr_server_def hash_env.extend_def hash_env.truncate_def dcr_env.fields_def mem_env_def

end
