(* ===== verification/Doris_FE_Props.thy ===== *)
theory Doris_FE_Props
  imports Doris_Memory FE_Props
begin

text \<open>
  Properties of the FE controller of a DorisCluster: a scale-down keeps the followers.
\<close>

section \<open>What the guard of patches leaves alone\<close>

lemma guard_patch_dcr_fields [frame_simps]:
  "ParseRFC3339 (guard_patch Q P K) = ParseRFC3339 K"
  by (simp add: guard_patch_def)

lemma guard_patch_more_fields [frame_simps]:
  "Now (guard_patch Q P K) = Now K" "SpewClaim (guard_patch Q P K) = SpewClaim K"
  by (simp_all add: guard_patch_def)

lemma guard_patch_maps [frame_simps]:
  "readConfigMaps (guard_patch Q P K) ns cms w = readConfigMaps K ns cms w"
  by (induction cms arbitrary: w) (simp_all add: frame_simps split: prod.split sum.split)

lemma guard_patch_drop_observers [frame_simps]:
  "dropObserverBySqlClient (guard_patch Q P K) cluster w = dropObserverBySqlClient K cluster w"
  unfolding dropObserverBySqlClient_def GetSecret_def k8s_GetConfig_def GetConfigMaps_def ResolveConfigMaps_def
    tls_secret_def dropObservers_dcr_def observerMap_dcr_def GetObservers_def DropObserver_def
    NewDorisMasterSqlDB_def GetFollowers_def NewDorisSqlDB_def openAndPing_def frame_simps
  by (rule refl)

lemma guard_patch_prepare [frame_simps]:
  "prepareStatefulsetApply (guard_patch Q P K) cluster oldStatus w = prepareStatefulsetApply K cluster oldStatus w"
  unfolding prepareStatefulsetApply_def safeScaleDown_def restart_if_available_def CheckRestartTimeAndInject_def
    runW_def bindW_def warn_def frame_simps
  by (rule refl)

lemma guard_patch_claims [frame_simps]: "claim_template (guard_patch Q P K) = claim_template K"
  by (rule ext) (simp add: claim_template_def buildPVCAnnotations_def frame_simps)

lemma guard_patch_build [frame_simps]:
  "buildFEStatefulSet (guard_patch Q P K) dcr config = buildFEStatefulSet K dcr config"
  unfolding buildFEStatefulSet_def NewStatefulSet_def frame_simps by (rule refl)

lemma guard_patch_sts_equal [frame_simps]: "sts_equal (guard_patch Q P K) = sts_equal K"
  unfolding sts_equal_def [abs_def] StatefulSetDeepEqual_def clear_config_env_path_numbers_alwaysEquals_def
    StatefulsetDeepEqualWithKey_def hash_of_def HashObject_def frame_simps
  by (rule refl)

section \<open>Replicas of the FE\<close>

lemma fe_base_set [simp]:
  "bs_Replicas (fe_base (set_base b Component_FE dcr)) = (if dcr_FeSpec dcr = None then None else bs_Replicas b)"
  by (auto simp: fe_base_def zero_BaseSpec_def split: option.split)

lemma GetElectionNumber_set [simp]:
  "GetElectionNumber_dcr (set_base b Component_FE dcr) = GetElectionNumber_dcr dcr"
  by (auto simp: GetElectionNumber_dcr_def split: option.split)

lemma fe_base_phase: "set_component_phase p t dcr = Inr dcr' \<Longrightarrow> dcr_Spec dcr' = dcr_Spec dcr"
  by (cases t) (auto simp: set_dcr_FEStatus_def set_dcr_BEStatus_def set_dcr_CnStatus_def set_dcr_BrokerStatus_def
      split: option.splits)

lemma fe_base_cong: "dcr_Spec dcr' = dcr_Spec dcr \<Longrightarrow> fe_base dcr' = fe_base dcr"
  by (simp add: fe_base_def)

lemma fe_base_set_replicas [simp]:
  "dcr_FeSpec dcr \<noteq> None \<Longrightarrow> fe_base (set_fe_replicas n dcr) = (fe_base dcr)\<lparr>bs_Replicas := Some n\<rparr>"
  "(dcr_FeSpec (set_fe_replicas n dcr) = None) = (dcr_FeSpec dcr = None)"
  "GetElectionNumber_dcr (set_fe_replicas n dcr) = GetElectionNumber_dcr dcr"
  by (auto simp: set_fe_replicas_def fe_base_def GetElectionNumber_dcr_def split: option.split)

lemma safe_replicas_bound: "fst (safe_replicas nr r ele) = max nr (min r ele)"
  by (auto simp: safe_replicas_def)

lemma safe_replicas_unchanged: "safe_replicas nr r ele = (n, None) \<Longrightarrow> n = nr"
  by (auto simp: safe_replicas_def split: if_splits)

lemma safeScaleDown_replicas:
  assumes "safeScaleDown K cluster ost w = (Inr cluster', w')" and "GetElectionNumber_dcr cluster = Inr ele"
    and "bs_Replicas (fe_base cluster) = Some nr" and "sts_Replicas ost = Some r"
  shows "bs_Replicas (fe_base cluster') = Some (max nr (min r ele))"
proof -
  have spec: "dcr_FeSpec cluster \<noteq> None" using assms(2) by (auto simp: GetElectionNumber_dcr_def split: option.splits)
  obtain n m where n: "safe_replicas nr r ele = (n, m)" by (cases "safe_replicas nr r ele")
  then have "n = max nr (min r ele)" using safe_replicas_bound [of nr r ele] by simp
  then show ?thesis
    using assms n spec safe_replicas_unchanged [of nr r ele n]
    by (cases m) (auto simp: safeScaleDown_def)
qed

lemma inject_keeps_replicas:
  assumes "CheckRestartTimeAndInject K cluster Component_FE w = (Inr (b, cluster'), w')"
  shows "bs_Replicas (fe_base cluster') = bs_Replicas (fe_base cluster)"
  using assms
  by (auto simp: CheckRestartTimeAndInject_def Let_def fe_base_def zero_BaseSpec_def
      split: if_splits prod.splits sum.splits option.splits)

lemma restart_keeps_replicas:
  assumes "restart_if_available K cluster oldStatus Component_FE w = (Inr cluster', w')"
  shows "bs_Replicas (fe_base cluster') = bs_Replicas (fe_base cluster)"
  using assms
  by (auto simp: restart_if_available_def inject_keeps_replicas fe_base_cong [OF fe_base_phase]
      simp del: set_component_phase.simps
      split: if_splits prod.splits sum.splits bool.splits)

text \<open>
  Where the StatefulSet runs \<open>r\<close> replicas, the specification asks for at least the smaller of
  \<open>r\<close> and the election number once the preparation has passed.
\<close>

lemma prepare_replicas:
  assumes "GetSts K (dcr_Namespace cluster) (GenerateComponentStatefulSetName cluster Component_FE) w = (Inr est, w1)"
    and "sts_Replicas est = Some r" and "GetElectionNumber_dcr cluster = Inr ele"
    and "prepareStatefulsetApply K cluster oldStatus w = (Inr cluster', w')"
  shows "\<exists>n. bs_Replicas (fe_base cluster') = Some n \<and> min r ele \<le> n"
proof -
  define c where "c = (if bs_Replicas (fe_base cluster) = None then set_fe_replicas 0 cluster else cluster)"
  have spec: "dcr_FeSpec cluster \<noteq> None" using assms(3) by (auto simp: GetElectionNumber_dcr_def split: option.splits)
  then have "\<exists>nr. bs_Replicas (fe_base c) = Some nr"
    by (cases "bs_Replicas (fe_base cluster)") (simp_all add: c_def)
  then obtain nr where nr: "bs_Replicas (fe_base c) = Some nr" ..
  have ele: "GetElectionNumber_dcr c = Inr ele" using assms(3) by (simp add: c_def)
  obtain c2 w2 where down: "safeScaleDown K c est w1 = (Inr c2, w2)"
    and rest: "(if wrap32 (the (bs_Replicas (fe_base c2)) - the (sts_Replicas est)) < 0 then
        bindW (runW (dropObserverBySqlClient K c2)) (\<lambda>_. liftW (Inr c2))
      else restart_if_available K c2 oldStatus Component_FE) w2 = (Inr cluster', w')"
    using assms(1,4)
    by (auto simp: prepareStatefulsetApply_def c_def [symmetric] bindW_def Let_def split: prod.splits sum.splits)
  have "bs_Replicas (fe_base cluster') = bs_Replicas (fe_base c2)"
    using rest restart_keeps_replicas [of K c2 oldStatus w2 cluster' w']
    by (auto simp: bindW_def runW_def liftW_def split: if_splits prod.splits sum.splits option.splits)
  then show ?thesis using safeScaleDown_replicas [OF down ele nr assms(2)] by simp
qed

lemma buildFEStatefulSet_replicas:
  "buildFEStatefulSet K dcr config = Inr st \<Longrightarrow> sts_Replicas st = bs_Replicas (fe_base dcr)"
  by (auto simp: buildFEStatefulSet_def NewStatefulSet_def bindE_def fe_base_def Let_def
      split: sum.splits option.splits prod.splits)

lemma sts_equal_replicas: "sts_equal K st est = Inr (ev, st1) \<Longrightarrow> sts_Replicas st1 = sts_Replicas st"
  by (auto simp: sts_equal_def StatefulSetDeepEqual_def clear_config_env_path_numbers_alwaysEquals_def
      StatefulsetDeepEqualWithKey_def RestrictConditionsEqual_def set_main_envs_def Let_def
      split: if_splits prod.splits option.splits bool.splits)

lemma guard_patch_applyE:
  assumes "\<And>s. sts_Replicas s = sts_Replicas st \<Longrightarrow> Q s"
  shows "ApplyStatefulSetE (guard_patch Q P K) st (sts_equal K) id w = ApplyStatefulSetE K st (sts_equal K) id w"
proof -
  have "PatchSts (guard_patch Q P K) (st1\<lparr>sts_ResourceVersion := rv\<rparr>) = PatchSts K (st1\<lparr>sts_ResourceVersion := rv\<rparr>)"
    if "sts_equal K st est = Inr (ev, st1)" for est ev st1 rv
    using sts_equal_replicas [OF that] assms by (simp add: guard_patch_def)
  then show ?thesis
    unfolding ApplyStatefulSetE_def frame_simps by (auto split: prod.split sum.split)
qed

text \<open>
  C20. Where the guard against scaling down the followers can read the StatefulSet, the FE
  controller of a DorisCluster does not patch it below the followers that run: with \<open>r\<close>
  replicas running and \<open>ele\<close> followers to elect, it does not matter what the API server would
  do with a patch to fewer than the smaller of both. When that read fails the guard is
  skipped (\<open>unread_statefulset_unguarded\<close>).
\<close>

theorem fe_scale_down_keeps_followers:
  assumes "GetSts K (dcr_Namespace cluster) (GenerateComponentStatefulSetName cluster Component_FE) w = (Inr est, w1)"
    and "sts_Replicas est = Some r" and "GetElectionNumber_dcr cluster = Inr ele"
  shows "applyFEStatefulSet (guard_patch (\<lambda>s. \<exists>n. sts_Replicas s = Some n \<and> min r ele \<le> n) P K)
      cluster config oldStatus w = applyFEStatefulSet K cluster config oldStatus w"
proof -
  let ?Q = "\<lambda>s. \<exists>n. sts_Replicas s = Some n \<and> min r ele \<le> n"
  have "ApplyStatefulSetE (guard_patch ?Q P K) st (sts_equal K) id w' = ApplyStatefulSetE K st (sts_equal K) id w'"
    if "prepareStatefulsetApply K cluster oldStatus w = (Inr c, w2)" "buildFEStatefulSet K c config = Inr st" for c w2 st w'
    using prepare_replicas [OF assms that(1)] buildFEStatefulSet_replicas [OF that(2)]
    by (intro guard_patch_applyE) simp
  then show ?thesis
    unfolding applyFEStatefulSet_def frame_simps bindW_def runW_def liftW_def
    by (auto split: prod.split sum.split)
qed

text \<open>A master that answers, so that the scale-down from five reaches its patch.\<close>

definition master_world :: world where
  "master_world = sample_world\<lparr>w_Frontends := [zero_Frontend\<lparr>fe_Host := ''c-fe-0.c-fe-internal'',
     fe_Role := FE_FOLLOWER_ROLE, fe_IsMaster := True, fe_CurrentConnected := ''Yes''\<rparr>]\<rparr>"

lemma fe_scale_down_keeps_followers_witness:
  "map sts_Replicas (w_Sts (snd (applyFEStatefulSet
      (guard_patch (\<lambda>s. \<exists>n. sts_Replicas s = Some n \<and> 3 \<le> n) (\<lambda>_ w. (None, w\<lparr>w_Sts := []\<rparr>)) (dcr_server sample_dcr))
      sample_dcr [] zero_ComponentStatus master_world))) = [Some 3]"
proof -
  have get: "GetSts (dcr_server sample_dcr) (dcr_Namespace sample_dcr)
      (GenerateComponentStatefulSetName sample_dcr Component_FE) master_world = (Inr sample_fe_sts, master_world)"
    by (simp add: dcr_server_defs mem_find_def sample_world_def sample_dcr_def sample_fe_sts_def zero_dcr_def
        zero_sts_def feStatefulSetName_def master_world_def)
  have "map sts_Replicas (w_Sts (snd (applyFEStatefulSet (dcr_server sample_dcr) sample_dcr [] zero_ComponentStatus
      master_world))) = [Some 3]" by code_simp
  with fe_scale_down_keeps_followers [OF get, of 5 3]
  show ?thesis by (simp add: sample_fe_sts_def GetElectionNumber_dcr_def sample_dcr_def zero_dcr_def)
qed

text \<open>
  A StatefulSet that could not be read is taken to need no preparation: the wanted one is
  built and applied as specified, with whatever number of replicas, and no observer is
  dropped.
\<close>

lemma unread_statefulset_unguarded:
  assumes "GetSts K (dcr_Namespace cluster) (GenerateComponentStatefulSetName cluster Component_FE) w = (Inl e, w1)"
    and "buildFEStatefulSet K cluster config = Inr st"
  shows "sts_Replicas st = bs_Replicas (fe_base cluster) \<and>
    applyFEStatefulSet K cluster config oldStatus w =
      bindW (runW (ApplyStatefulSetE K st (sts_equal K) id)) (\<lambda>_. liftW (Inr cluster)) w1"
  using assms buildFEStatefulSet_replicas [OF assms(2)]
  by (simp add: applyFEStatefulSet_def prepareStatefulsetApply_def bindW_def liftW_def)

end
