(* ===== verification/Doris_Claims.thy ===== *)
theory Doris_Claims
  imports Doris_Memory "HOL-Library.Sublist"
begin

text \<open>
  Properties of the claims that the operator provisions for a DorisCluster
  (\<^verbatim>\<open>preparePersistentVolumeClaim\<close>, \<^verbatim>\<open>listAndDeletePersistentVolumeClaim\<close>): when they count
  as prepared, a pair of volume names for which they never do, and which claims are deleted.
\<close>

section \<open>Prepared claims\<close>

definition claims_ready :: "PersistentVolume \<Rightarrow> pvc list \<Rightarrow> int \<Rightarrow> bool" where
  "claims_ready volume pvcs replicas =
     (replicas \<le> int (length pvcs) \<and> list_all (\<lambda>c. cl_Storage (pvc_Spec c) = cl_Storage (dpv_ClaimSpec volume)) pvcs)"

lemma resizeClaims_result:
  "fst (resizeClaims K volume pvcs w) = list_all (\<lambda>c. cl_Storage (pvc_Spec c) = cl_Storage (dpv_ClaimSpec volume)) pvcs"
  by (induction pvcs arbitrary: w) (auto simp: Let_def split: prod.split option.split)

lemma resizeClaims_idle:
  "list_all (\<lambda>c. cl_Storage (pvc_Spec c) = cl_Storage (dpv_ClaimSpec volume)) pvcs
   \<Longrightarrow> resizeClaims K volume pvcs w = (True, w)"
  by (induction pvcs) simp_all

lemma patchPVCs_result: "fst (patchPVCs K dcr selector pvcs stsName volume replicas w) = claims_ready volume pvcs replicas"
  using resizeClaims_result [of K volume pvcs w]
  by (auto simp: patchPVCs_def claims_ready_def split: prod.split)

lemma patchPVCs_idle:
  "claims_ready volume pvcs replicas \<Longrightarrow> patchPVCs K dcr selector pvcs stsName volume replicas w = (True, w)"
  by (simp add: patchPVCs_def claims_ready_def resizeClaims_idle)

definition volumes_ready :: "PersistentVolume list \<Rightarrow> pvc list \<Rightarrow> int \<Rightarrow> PersistentVolume list \<Rightarrow> bool" where
  "volumes_ready all claims replicas pvs = list_all (\<lambda>pv. dpv_PVCProvisioner pv = PVCProvisionerOperator_dcr \<longrightarrow>
     claims_ready pv (claims_of all claims (dpv_Name pv)) replicas) pvs"

lemma patchVolumes_result:
  "fst (patchVolumes K dcr selector stsName all claims replicas pvs w) = volumes_ready all claims replicas pvs"
proof (induction pvs arbitrary: w)
  case (Cons pv pvs)
  then show ?case
    by (simp add: volumes_ready_def patchPVCs_result case_prod_beta)
qed (simp add: volumes_ready_def)

lemma patchVolumes_idle:
  "volumes_ready all claims replicas pvs
   \<Longrightarrow> patchVolumes K dcr selector stsName all claims replicas pvs w = (True, w)"
  by (induction pvs) (simp_all add: volumes_ready_def patchPVCs_idle)

text \<open>
  C34. The claims of a component count as prepared exactly when every volume that the operator
  provisions has at least as many claims as replicas, all of the size asked for; preparing
  them then only reads. As Sync goes on to the StatefulSet only with prepared claims, its
  pods never meet a missing claim or one of the wrong size.
\<close>

theorem prepared_claims_complete:
  assumes "component_replicas dcr t = Inr replicas" and "GetFinalPersistentVolumes K dcr t w = (Inr pvs, w1)"
    and "ListPvcs K (dcr_Namespace dcr) (GenerateStatefulSetSelector dcr t) w1 = (Inr claims, w2)"
  shows "(fst (preparePersistentVolumeClaim K dcr t w) = Inr True) = volumes_ready pvs claims replicas pvs \<and>
    (volumes_ready pvs claims replicas pvs \<longrightarrow> preparePersistentVolumeClaim K dcr t w = (Inr True, w2))"
proof -
  have "preparePersistentVolumeClaim K dcr t w =
      (case patchVolumes K dcr (GenerateStatefulSetSelector dcr t) (GenerateComponentStatefulSetName dcr t)
         pvs claims replicas pvs w2 of (p, w) \<Rightarrow> (Inr p, w))"
    using assms by (simp add: preparePersistentVolumeClaim_def bindW_def liftW_def Let_def)
  then show ?thesis by (simp add: patchVolumes_result patchVolumes_idle case_prod_beta)
qed

text \<open>
  A cluster whose FE has one volume that the operator provisions, \<open>meta\<close> of size 10, and one
  replica with its claim.
\<close>

definition operator_volume :: "string \<Rightarrow> string \<Rightarrow> int \<Rightarrow> PersistentVolume" where
  "operator_volume name path n = \<lparr>dpv_ClaimSpec = \<lparr>cl_AccessModes = [''ReadWriteOnce''], cl_StorageClassName = None,
       cl_Storage = n, cl_VolumeMode = None\<rparr>,
     dpv_MountPath = path, dpv_Name = name, dpv_Annotations = Map.empty,
     dpv_PVCProvisioner = PVCProvisionerOperator_dcr\<rparr>"

definition claim_of :: "PersistentVolume \<Rightarrow> nat \<Rightarrow> pvc" where
  "claim_of pv i = \<lparr>pvc_Name = BuildPVCName ''c-fe'' (dec_nat i) (dpv_Name pv), pvc_Namespace = '''',
     pvc_Labels = Map.empty, pvc_Annotations = Map.empty, pvc_Finalizers = [], pvc_Spec = dpv_ClaimSpec pv\<rparr>"

definition fe_with_volumes :: "PersistentVolume list \<Rightarrow> DorisCluster" where
  "fe_with_volumes pvs = set_base ((fe_base sample_dcr)\<lparr>bs_PersistentVolumes := pvs\<rparr>) Component_FE sample_dcr"

lemma fe_with_volumes_facts:
  "component_replicas (fe_with_volumes pvs) Component_FE = Inr 1"
  "list_all (\<lambda>pv. dpv_MountPath pv \<noteq> '''') pvs
   \<Longrightarrow> GetFinalPersistentVolumes K (fe_with_volumes pvs) Component_FE w = (Inr pvs, w)"
  "dcr_Namespace (fe_with_volumes pvs) = ''''"
proof -
  show "component_replicas (fe_with_volumes pvs) Component_FE = Inr 1" "dcr_Namespace (fe_with_volumes pvs) = ''''"
    by (simp_all add: fe_with_volumes_def component_replicas_def sample_dcr_def fe_base_def bindE_def zero_dcr_def)
  assume a: "list_all (\<lambda>pv. dpv_MountPath pv \<noteq> '''') pvs"
  then have "last_template pvs = None" "given_volumes pvs [] = pvs"
    by (auto simp: last_template_def given_volumes_def find_None_iff list_all_iff)
  then show "GetFinalPersistentVolumes K (fe_with_volumes pvs) Component_FE w = (Inr pvs, w)"
    by (simp add: GetFinalPersistentVolumes_def fe_with_volumes_def sample_dcr_def fe_base_def bindE_def bindW_def
        liftW_def readW_def zero_dcr_def BuildSharedVolumesAndVolumeMounts_def GetConfig_def k8s_GetConfig_def
        GetMountConfigMapInfo_def zero_BaseSpec_def GenerateEveryoneMountPathDorisPersistentVolume_def)
qed

lemma prepared_claims_complete_witness:
  "let pv = operator_volume ''meta'' ''/meta'' 10; w = sample_world\<lparr>w_Pvcs := [claim_of pv 0]\<rparr>
   in preparePersistentVolumeClaim (dcr_server sample_dcr) (fe_with_volumes [pv]) Component_FE w = (Inr True, w)"
proof -
  let ?pv = "operator_volume ''meta'' ''/meta'' 10"
  let ?w = "sample_world\<lparr>w_Pvcs := [claim_of ?pv 0]\<rparr>"
  have a: "GetFinalPersistentVolumes (dcr_server sample_dcr) (fe_with_volumes [?pv]) Component_FE ?w = (Inr [?pv], ?w)"
    by (rule fe_with_volumes_facts) (simp add: operator_volume_def)
  have b: "ListPvcs (dcr_server sample_dcr) (dcr_Namespace (fe_with_volumes [?pv]))
      (GenerateStatefulSetSelector (fe_with_volumes [?pv]) Component_FE) ?w = (Inr [claim_of ?pv 0], ?w)"
    by (simp add: dcr_server_defs fe_with_volumes_facts claim_of_def mem_selects_def label_keys_def
        feStatefulSetSelector_def fe_with_volumes_def DorisDisaggregatedClusterName_def DorisDisaggregatedPodType_def
        DorisDisaggregatedComputeGroupUniqueId_def DorisDisaggregatedOwnerReference_def OwnerReference_def
        ComponentLabelKey_def sample_dcr_def zero_dcr_def)
  have "volumes_ready [?pv] [claim_of ?pv 0] 1 [?pv]"
    by (simp add: volumes_ready_def claims_ready_def claims_of_def claim_key_def claim_of_def operator_volume_def
        BuildPVCName_def HasPrefix_def)
  then show ?thesis
    using prepared_claims_complete [OF fe_with_volumes_facts(1) a b] by (simp only: Let_def)
qed

section \<open>Volumes whose names begin alike\<close>

lemma claim_key_earlier:
  assumes "q \<in> set before" and "dpv_Name q \<noteq> ''''" and "prefix (dpv_Name q) (dpv_Name pv)"
    and "dpv_Name pv \<notin> dpv_Name ` set before"
  shows "claim_key (before @ pv # after) c \<noteq> dpv_Name pv"
proof
  let ?P = "\<lambda>v. dpv_Name v \<noteq> '''' \<and> HasPrefix (pvc_Name c) (dpv_Name v)"
  assume key: "claim_key (before @ pv # after) c = dpv_Name pv"
  have "dpv_Name pv \<noteq> ''''" using assms(2,3) by auto
  then obtain v where v: "List.find ?P (before @ pv # after) = Some v" "dpv_Name v = dpv_Name pv"
    using key by (auto simp: claim_key_def split: option.splits)
  then have "?P v" by (auto simp: find_Some_iff)
  then have "prefix (dpv_Name pv) (pvc_Name c)" using v(2) by (simp add: HasPrefix_def prefix_def) (metis append_take_drop_id)
  then have "?P q" using assms(2,3) by (auto simp: HasPrefix_def prefix_def)
  then obtain u where "List.find ?P before = Some u" using assms(1) by (cases "List.find ?P before") (auto simp: find_None_iff)
  then have "u \<in> set before" "List.find ?P (before @ pv # after) = Some u"
    by (auto simp: find_Some_iff nth_append intro!: exI [of _ u] split: if_splits)
  then show False using v assms(4) by (metis imageI option.inject)
qed

text \<open>
  C36. Claims are told apart by the beginning of their names. Where the name of an earlier
  volume begins the name of a later one that the operator provisions, as \<open>data\<close> begins
  \<open>data-log\<close>, the claims of the later volume are never found: where replicas are wanted, on
  no world are the claims of the component prepared.
\<close>

theorem prefix_volume_never_prepared:
  assumes "component_replicas dcr t = Inr replicas" and "0 < replicas"
    and "GetFinalPersistentVolumes K dcr t w = (Inr (before @ pv # after), w1)"
    and "dpv_PVCProvisioner pv = PVCProvisionerOperator_dcr"
    and "q \<in> set before" and "dpv_Name q \<noteq> ''''" and "prefix (dpv_Name q) (dpv_Name pv)"
    and "dpv_Name pv \<notin> dpv_Name ` set before"
  shows "fst (preparePersistentVolumeClaim K dcr t w) = Inr False"
proof -
  let ?all = "before @ pv # after"
  have "\<not> volumes_ready ?all claims replicas ?all" for claims
    using claim_key_earlier [OF assms(5-8), of after] assms(2,4)
    by (simp add: volumes_ready_def claims_ready_def claims_of_def)
  then show ?thesis
    using assms(1,3)
    by (simp add: preparePersistentVolumeClaim_def bindW_def liftW_def Let_def case_prod_beta patchVolumes_result
        split: sum.split)
qed

lemma prefix_volume_never_prepared_witness:
  "fst (preparePersistentVolumeClaim (dcr_server sample_dcr)
      (fe_with_volumes [operator_volume ''data'' ''/a'' 1, operator_volume ''data-log'' ''/b'' 1]) Component_FE sample_world) =
    Inr False"
proof -
  let ?a = "operator_volume ''data'' ''/a'' 1" and ?b = "operator_volume ''data-log'' ''/b'' 1"
  have "GetFinalPersistentVolumes (dcr_server sample_dcr) (fe_with_volumes [?a, ?b]) Component_FE sample_world =
      (Inr ([?a] @ ?b # []), sample_world)"
    by (simp add: fe_with_volumes_facts operator_volume_def)
  from prefix_volume_never_prepared [OF fe_with_volumes_facts(1) _ this, of ?a]
  show ?thesis by (simp add: operator_volume_def)
qed

section \<open>Deleted claims\<close>

text \<open>
  \<open>guard_delete\<close> replaces what the API server does with the deletion of a claim outside \<open>Q\<close>.
\<close>

definition guard_delete ::
    "(string \<Rightarrow> bool) \<Rightarrow> (string \<Rightarrow> 'w \<Rightarrow> go_error option \<times> 'w) \<Rightarrow> ('w, 'x) kube_env_scheme \<Rightarrow> ('w, 'x) kube_env_scheme" where
  "guard_delete Q P K = K\<lparr>DeletePvcObj := \<lambda>ns n. if Q n then DeletePvcObj K ns n else (\<lambda>_. P n)\<rparr>"

lemma guard_delete_fields [frame_simps]:
  "ListPvcs (guard_delete Q P K) = ListPvcs K" "Eventf (guard_delete Q P K) = Eventf K"
  "GetConfigMapObj (guard_delete Q P K) = GetConfigMapObj K" "ViperSettings (guard_delete Q P K) = ViperSettings K"
  "GetSts (guard_delete Q P K) = GetSts K" "DeleteStsObj (guard_delete Q P K) = DeleteStsObj K"
  "GetSvc (guard_delete Q P K) = GetSvc K" "DeleteSvcObj (guard_delete Q P K) = DeleteSvcObj K"
  by (simp_all add: guard_delete_def)

lemma guard_delete_maps [frame_simps]:
  "readConfigMaps (guard_delete Q P K) ns cms w = readConfigMaps K ns cms w"
  by (induction cms arbitrary: w) (simp_all add: frame_simps split: prod.split sum.split)

lemma guard_delete_volumes [frame_simps]:
  "GetFinalPersistentVolumes (guard_delete Q P K) dcr t w = GetFinalPersistentVolumes K dcr t w"
  unfolding GetFinalPersistentVolumes_def GetConfig_def k8s_GetConfig_def GetConfigMaps_def ResolveConfigMaps_def
    bindW_def readW_def frame_simps by (rule refl)

lemma deletePVCs_guard:
  assumes "\<And>i. i \<in> set is \<Longrightarrow> Q (BuildPVCName stsName (Itoa i) name)"
  shows "deletePVCs_dcr (guard_delete Q P K) ns selector stsName name is e w = deletePVCs_dcr K ns selector stsName name is e w"
  using assms
proof (induction "is" arbitrary: e w)
  case (Cons i "is")
  have "DeletePVC (guard_delete Q P K) ns (BuildPVCName stsName (Itoa i) name) selector w =
      DeletePVC K ns (BuildPVCName stsName (Itoa i) name) selector w"
    using Cons.prems by (simp add: DeletePVC_def guard_delete_def)
  then show ?case using Cons by (simp add: warn_def frame_simps split: prod.split option.split)
qed simp

lemma set_surplus: "set (surplus n replicas) = {replicas..<int n}"
  by (auto simp: surplus_def)

lemma deleteVolumes_guard:
  assumes "\<And>pv i. pv \<in> set pvs \<Longrightarrow> replicas \<le> i \<Longrightarrow> Q (BuildPVCName stsName (Itoa i) (dpv_Name pv))"
  shows "deleteVolumes (guard_delete Q P K) ns selector stsName all claims replicas pvs e w =
    deleteVolumes K ns selector stsName all claims replicas pvs e w"
  using assms
proof (induction pvs arbitrary: e w)
  case (Cons pv pvs)
  have "deletePVCs_dcr (guard_delete Q P K) ns selector stsName (dpv_Name pv) (surplus n replicas) None w =
      deletePVCs_dcr K ns selector stsName (dpv_Name pv) (surplus n replicas) None w" for n
    using Cons.prems by (intro deletePVCs_guard) (simp add: set_surplus)
  then show ?case using Cons by (simp add: Let_def split: prod.split option.split)
qed simp

text \<open>
  C35. Clearing the FE deletes only claims above the replicas: whatever the API server would
  do with the deletion of another claim, the result is the same.
\<close>

theorem clearing_keeps_used_claims:
  assumes "component_replicas dcr Component_FE = Inr replicas"
    and "GetFinalPersistentVolumes K dcr Component_FE w = (Inr pvs, w1)"
  shows "ClearFEResources_dcr (guard_delete (\<lambda>name. \<exists>pv \<in> set pvs. \<exists>i \<ge> replicas.
        name = BuildPVCName (GenerateComponentStatefulSetName dcr Component_FE) (Itoa i) (dpv_Name pv)) P K) dcr w =
    ClearFEResources_dcr K dcr w"
proof -
  let ?n = "GenerateComponentStatefulSetName dcr Component_FE"
  let ?Q = "\<lambda>name. \<exists>pv \<in> set pvs. \<exists>i \<ge> replicas. name = BuildPVCName ?n (Itoa i) (dpv_Name pv)"
  have del: "deleteVolumes (guard_delete ?Q P K) ns selector ?n all claims replicas pvs e w' =
      deleteVolumes K ns selector ?n all claims replicas pvs e w'" for ns selector all claims e w'
    by (rule deleteVolumes_guard) blast
  have "listAndDeletePersistentVolumeClaim_dcr (guard_delete ?Q P K) dcr Component_FE w =
      listAndDeletePersistentVolumeClaim_dcr K dcr Component_FE w"
    unfolding listAndDeletePersistentVolumeClaim_dcr_def frame_simps warn_def assms
    by (simp add: del Let_def del: GenerateComponentStatefulSetName.simps split: prod.split sum.split)
  then have "RecycleResources (guard_delete ?Q P K) dcr Component_FE w = RecycleResources K dcr Component_FE w"
    unfolding RecycleResources.simps recycleFEResources_def by (simp only:)
  moreover have "ClearCommonResources (guard_delete Q P K) dcr t w' = ClearCommonResources K dcr t w'" for Q t w'
    unfolding ClearCommonResources_def DeleteStatefulset_def DeleteService_def frame_simps by (rule refl)
  ultimately show ?thesis unfolding ClearFEResources_dcr_def by (simp only:)
qed

text \<open>
  An FE with a status, one replica and the claims of three pods: the second and the third
  claim are listed and deleted, the first stays.
\<close>

definition fe_with_status :: DorisCluster where
  "fe_with_status = set_dcr_FEStatus (Some zero_ComponentStatus) (fe_with_volumes [operator_volume ''meta'' ''/meta'' 10])"

definition three_claims :: world where
  "three_claims = sample_world\<lparr>w_Pvcs := map (claim_of (operator_volume ''meta'' ''/meta'' 10)) [0, 1, 2]\<rparr>"

lemma clearing_keeps_used_claims_witness:
  "map pvc_Name (w_Pvcs (snd (ClearFEResources_dcr (guard_delete (\<lambda>name. \<exists>pv \<in> set [operator_volume ''meta'' ''/meta'' 10]. \<exists>i \<ge> 1.
        name = BuildPVCName (GenerateComponentStatefulSetName fe_with_status Component_FE) (Itoa i) (dpv_Name pv))
        (\<lambda>_ w. (None, w\<lparr>w_Pvcs := []\<rparr>)) (dcr_server sample_dcr)) fe_with_status three_claims))) =
   [BuildPVCName ''c-fe'' ''0'' ''meta'']"
proof -
  let ?pv = "operator_volume ''meta'' ''/meta'' 10"
  have r: "component_replicas fe_with_status Component_FE = Inr 1"
    using fe_with_volumes_facts(1) [of "[?pv]"]
    by (simp add: fe_with_status_def set_dcr_FEStatus_def component_replicas_def)
  have "GetFinalPersistentVolumes (dcr_server sample_dcr) fe_with_status Component_FE three_claims =
      GetFinalPersistentVolumes (dcr_server sample_dcr) (fe_with_volumes [?pv]) Component_FE three_claims"
    by (simp add: GetFinalPersistentVolumes_def fe_with_status_def set_dcr_FEStatus_def)
  moreover have "GetFinalPersistentVolumes (dcr_server sample_dcr) (fe_with_volumes [?pv]) Component_FE three_claims =
      (Inr [?pv], three_claims)"
    by (rule fe_with_volumes_facts) (simp add: operator_volume_def)
  ultimately have v: "GetFinalPersistentVolumes (dcr_server sample_dcr) fe_with_status Component_FE three_claims =
      (Inr [?pv], three_claims)" by simp
  have "map pvc_Name (w_Pvcs (snd (ClearFEResources_dcr (dcr_server sample_dcr) fe_with_status three_claims))) =
      [BuildPVCName ''c-fe'' ''0'' ''meta'']" by code_simp
  then show ?thesis by (simp only: clearing_keeps_used_claims [OF r v])
qed

end
