(* ===== verification/Doris_Status.thy ===== *)
theory Doris_Status
  imports Doris_Memory "HOL-Library.Multiset"
begin

text \<open>
  Properties of the status of a DorisCluster: what a phase says about the pods, that a
  component has a status exactly when it is deployed, and that a pass asks for no requeue.
\<close>

section \<open>Pods\<close>

lemma classes_partition:
  "mset (ready_pods pods) + mset (failed_pods pods) + mset (creating_pods pods) = mset pods"
  by (induction pods) (auto simp: ready_pods_def failed_pods_def creating_pods_def)

lemma classify_available:
  assumes "cc_Phase (classify_condition pods replicas t c) = Phase_Available" and "cc_Phase c \<noteq> Phase_Available"
  shows "int (length (ready_pods pods)) = replicas" and
    "\<forall>p \<in> set pods. map_get (pod_Annotations p) (GetRestartAnnotationKey t) =
       map_get (pod_Annotations (hd pods)) (GetRestartAnnotationKey t)"
  using assms
  by (auto simp: classify_condition_def explain_by_def Let_def list_all_iff split: if_splits list.splits option.splits)

text \<open>
  C26. The names of running, failed and creating members together are the names of the pods of
  the component, and a component becomes available only with exactly as many ready pods as
  wanted, all of them started for the same restart.
\<close>

theorem members_partition_pods:
  assumes "ClassifyPodsByStatus K ns s labels replicas t w = ((s', None), w')"
    and "ListPods K ns labels w = (Inr pods, w')" and "pods \<noteq> []"
  shows "mset (cst_RunningMembers s') + mset (cst_FailedMembers s') + mset (cst_CreatingMembers s') =
      mset (map pod_Name pods) \<and>
    (cst_Phase s' = Phase_Available \<and> cst_Phase s \<noteq> Phase_Available \<longrightarrow>
       int (length (cst_RunningMembers s')) = replicas \<and>
       (\<forall>p \<in> set pods. \<forall>q \<in> set pods. map_get (pod_Annotations p) (GetRestartAnnotationKey t) =
          map_get (pod_Annotations q) (GetRestartAnnotationKey t)))"
proof -
  have s': "s' = s\<lparr>cst_ComponentCondition := classify_condition pods replicas t (cst_ComponentCondition s),
      cst_RunningMembers := map pod_Name (ready_pods pods), cst_FailedMembers := map pod_Name (failed_pods pods),
      cst_CreatingMembers := map pod_Name (creating_pods pods)\<rparr>"
    using assms by (simp add: ClassifyPodsByStatus_def)
  have "mset (map pod_Name pods) = image_mset pod_Name (mset (ready_pods pods) + mset (failed_pods pods) + mset (creating_pods pods))"
    by (simp only: classes_partition mset_map)
  then have "mset (cst_RunningMembers s') + mset (cst_FailedMembers s') + mset (cst_CreatingMembers s') = mset (map pod_Name pods)"
    unfolding s' by simp
  moreover have "int (length (cst_RunningMembers s')) = replicas \<and>
      (\<forall>p \<in> set pods. \<forall>q \<in> set pods. map_get (pod_Annotations p) (GetRestartAnnotationKey t) =
         map_get (pod_Annotations q) (GetRestartAnnotationKey t))"
    if "cst_Phase s' = Phase_Available" "cst_Phase s \<noteq> Phase_Available"
  proof -
    have "cc_Phase (classify_condition pods replicas t (cst_ComponentCondition s)) = Phase_Available"
      using that(1) unfolding s' by simp
    from classify_available [OF this that(2)] show ?thesis unfolding s' by simp
  qed
  ultimately show ?thesis by blast
qed

definition ready_pod :: "string \<Rightarrow> pod" where
  "ready_pod name = zero_pod\<lparr>pod_Name := name, pod_Phase := PodRunning, pod_ContainerStatuses := Some []\<rparr>"

lemma members_partition_pods_witness:
  "let w = zero_world\<lparr>w_Pods := [ready_pod ''c-fe-0'']\<rparr>;
       s = fst (fst (ClassifyPodsByStatus (dcr_server sample_dcr) '''' zero_ComponentStatus Map.empty 1 Component_FE w))
   in cst_RunningMembers s = [''c-fe-0''] \<and> cst_Phase s = Phase_Available \<and>
     mset (cst_RunningMembers s) + mset (cst_FailedMembers s) + mset (cst_CreatingMembers s) = {#''c-fe-0''#}"
proof -
  let ?w = "zero_world\<lparr>w_Pods := [ready_pod ''c-fe-0'']\<rparr>"
  let ?r = "ClassifyPodsByStatus (dcr_server sample_dcr) '''' zero_ComponentStatus Map.empty 1 Component_FE ?w"
  have pods: "ListPods (dcr_server sample_dcr) '''' Map.empty ?w = (Inr [ready_pod ''c-fe-0''], ?w)"
    by (simp add: dcr_server_defs ready_pod_def zero_pod_def mem_selects_def label_keys_def)
  have ready: "PodIsReady (ready_pod ''c-fe-0'')" by (simp add: PodIsReady_def ready_pod_def zero_pod_def)
  obtain s where r: "?r = ((s, None), ?w)" "cst_RunningMembers s = [''c-fe-0'']" "cst_Phase s = Phase_Available"
    using pods ready
    by (simp add: ClassifyPodsByStatus_def classify_condition_def ready_pods_def Let_def) (simp add: ready_pod_def)
  from members_partition_pods [OF r(1) pods] r show ?thesis by (simp add: ready_pod_def)
qed

section \<open>One status per deployed component\<close>

text \<open>
  Controllers, one per component, each of which writes the status of its own component and
  no other: afterwards a component has a status exactly when it is deployed.
\<close>

locale status_family =
  fixes update :: "'c \<Rightarrow> DorisCluster \<Rightarrow> 'w \<Rightarrow> (go_error + DorisCluster) \<times> 'w"
    and deployed has :: "'c \<Rightarrow> DorisCluster \<Rightarrow> bool"
  assumes own: "update c dcr w = (Inr dcr', w') \<Longrightarrow> has c dcr' = deployed c dcr"
    and other: "update c dcr w = (Inr dcr', w') \<Longrightarrow> c' \<noteq> c \<Longrightarrow> has c' dcr' = has c' dcr"
    and keeps_spec: "update c dcr w = (Inr dcr', w') \<Longrightarrow> dcr_Spec dcr' = dcr_Spec dcr"
    and deployed_cong: "dcr_Spec dcr' = dcr_Spec dcr \<Longrightarrow> deployed c dcr' = deployed c dcr"
begin

lemma all_specification:
  assumes "updateAllStatuses rcs dcr w = (Inr dcr', w')"
    and "\<And>rc. rc \<in> set rcs \<Longrightarrow> sub_UpdateComponentStatus rc = update (component rc)"
  shows "dcr_Spec dcr' = dcr_Spec dcr"
  using assms
proof (induction rcs arbitrary: dcr w)
  case (Cons rc rcs)
  then obtain d w1 where "update (component rc) dcr w = (Inr d, w1)" "updateAllStatuses rcs d w1 = (Inr dcr', w')"
    by (auto simp: bindW_def split: prod.splits sum.splits)
  then show ?case using Cons.IH [of d w1] Cons.prems(2) keeps_spec by simp
qed (simp add: liftW_def)

lemma all_filled:
  assumes "updateAllStatuses rcs dcr w = (Inr dcr', w')"
    and "\<And>rc. rc \<in> set rcs \<Longrightarrow> sub_UpdateComponentStatus rc = update (component rc)"
    and "\<And>c. c \<in> component ` set rcs \<or> has c dcr = deployed c dcr"
  shows "has c dcr' = deployed c dcr'"
  using assms
proof (induction rcs arbitrary: dcr w)
  case Nil
  then show ?case by (auto simp: liftW_def)
next
  case (Cons rc rcs)
  then obtain d w1 where d: "update (component rc) dcr w = (Inr d, w1)" "updateAllStatuses rcs d w1 = (Inr dcr', w')"
    by (auto simp: bindW_def split: prod.splits sum.splits)
  have "c \<in> component ` set rcs \<or> has c d = deployed c d" for c
    using Cons.prems(3) [of c] own [OF d(1)] other [OF d(1), of c] deployed_cong [OF keeps_spec [OF d(1)], of c]
    by (cases "c = component rc") auto
  with Cons.IH [OF d(2)] Cons.prems(2) show ?case by simp
qed

end

fun component_update ::
    "('w, 'x) dcr_env_scheme \<Rightarrow> ComponentType \<Rightarrow> DorisCluster \<Rightarrow> 'w \<Rightarrow> (go_error + DorisCluster) \<times> 'w" where
  "component_update K Component_FE = UpdateFEStatus_dcr K"
| "component_update K Component_BE = UpdateBEStatus K"
| "component_update K Component_CN = UpdateCNStatus K"
| "component_update K Component_Broker = UpdateBrokerStatus K"
| "component_update K (Component_Other t) = (\<lambda>dcr w. (Inr dcr, w))"

fun component_deployed :: "ComponentType \<Rightarrow> DorisCluster \<Rightarrow> bool" where
  "component_deployed Component_FE dcr = (dcr_FeSpec dcr \<noteq> None)"
| "component_deployed Component_BE dcr = (dcr_BeSpec dcr \<noteq> None)"
| "component_deployed Component_CN dcr = (dcr_CnSpec dcr \<noteq> None)"
| "component_deployed Component_Broker dcr = (dcr_BrokerSpec dcr \<noteq> None)"
| "component_deployed (Component_Other t) dcr = False"

fun component_status :: "ComponentType \<Rightarrow> DorisCluster \<Rightarrow> ComponentStatus option" where
  "component_status Component_FE dcr = dcr_FEStatus dcr"
| "component_status Component_BE dcr = dcr_BEStatus dcr"
| "component_status Component_CN dcr = map_option cns_ComponentStatus (dcr_CnStatus dcr)"
| "component_status Component_Broker dcr = dcr_BrokerStatus dcr"
| "component_status (Component_Other t) dcr = None"

lemmas set_status_defs =
  set_dcr_FEStatus_def set_dcr_BEStatus_def set_dcr_CnStatus_def set_dcr_BrokerStatus_def

lemma component_status_set [simp]:
  "component_status t (set_dcr_FEStatus s dcr) = (if t = Component_FE then s else component_status t dcr)"
  "component_status t (set_dcr_BEStatus s dcr) = (if t = Component_BE then s else component_status t dcr)"
  "component_status t (set_dcr_CnStatus c dcr) =
     (if t = Component_CN then map_option cns_ComponentStatus c else component_status t dcr)"
  "component_status t (set_dcr_BrokerStatus s dcr) = (if t = Component_Broker then s else component_status t dcr)"
  "dcr_Spec (set_dcr_FEStatus s dcr) = dcr_Spec dcr" "dcr_Spec (set_dcr_BEStatus s dcr) = dcr_Spec dcr"
  "dcr_Spec (set_dcr_CnStatus c dcr) = dcr_Spec dcr" "dcr_Spec (set_dcr_BrokerStatus s dcr) = dcr_Spec dcr"
  by (cases t; simp add: set_status_defs)+

lemma component_update_cases:
  assumes "component_update K t dcr w = (Inr dcr', w')"
  shows "(component_status t dcr' \<noteq> None) = component_deployed t dcr \<and> dcr_Spec dcr' = dcr_Spec dcr \<and>
    (\<forall>t'. t' \<noteq> t \<longrightarrow> component_status t' dcr' = component_status t' dcr)"
  using assms
  by (cases t)
    (auto simp: component_status.simps(5) UpdateFEStatus_dcr_def UpdateBEStatus_def UpdateCNStatus_def UpdateBrokerStatus_def Let_def
      simp del: component_status.simps(1-4) split: if_splits prod.splits option.splits sum.splits)

interpretation statuses: status_family "component_update K" component_deployed "\<lambda>t dcr. component_status t dcr \<noteq> None"
  for K :: "('w, 'x) dcr_env_scheme"
proof
  fix c dcr w dcr' w' assume u: "component_update K c dcr w = (Inr dcr', w' :: 'w)"
  from component_update_cases [OF u]
  show "(component_status c dcr' \<noteq> None) = component_deployed c dcr" "dcr_Spec dcr' = dcr_Spec dcr" by blast+
  fix c' assume "c' \<noteq> c"
  with component_update_cases [OF u] show "(component_status c' dcr' \<noteq> None) = (component_status c' dcr \<noteq> None)" by simp
next
  fix dcr' dcr :: DorisCluster and c assume "dcr_Spec dcr' = dcr_Spec dcr"
  then show "component_deployed c dcr' = component_deployed c dcr" by (cases c) simp_all
qed

definition component_of :: "'w SubController \<Rightarrow> ComponentType" where
  "component_of rc =
     (if sub_Name rc = ''feController'' then Component_FE
      else if sub_Name rc = ''beController'' then Component_BE
      else if sub_Name rc = ''cnController'' then Component_CN
      else if sub_Name rc = ''brokerController'' then Component_Broker
      else Component_Other (sub_Name rc))"

lemma initSubs_components:
  "rc \<in> set (initSubs K) \<Longrightarrow> sub_UpdateComponentStatus rc = component_update K (component_of rc)"
  "component_of ` set (initSubs K) = {Component_FE, Component_BE, Component_CN, Component_Broker}"
  by (auto simp: initSubs_def component_of_def feSub_def beSub_def cnSub_def brokerSub_def)

lemma not_available_eq:
  "(deployed \<Longrightarrow> s \<noteq> None) \<Longrightarrow> not_available deployed s = Inr (deployed \<and> cst_Phase (the s) \<noteq> Phase_Available)"
  by (auto simp: not_available_def)

lemma ex_component:
  "(\<exists>t. P t) = (P Component_FE \<or> P Component_BE \<or> P Component_CN \<or> P Component_Broker \<or> (\<exists>x. P (Component_Other x)))"
  by (metis ComponentType.exhaust)

lemma reconcile_dcr_meaning:
  assumes "\<And>t. component_deployed t dcr \<Longrightarrow> component_status t dcr \<noteq> None"
  shows "reconcile_dcr dcr =
    Inr (\<exists>t. component_deployed t dcr \<and> cst_Phase (the (component_status t dcr)) \<noteq> Phase_Available)"
  using assms [of Component_FE] assms [of Component_BE] assms [of Component_CN] assms [of Component_Broker]
  by (simp add: reconcile_dcr_def not_available_eq bindE_def ex_component)

text \<open>
  C24. In whatever order the sub-controllers update their statuses, once they have done so a
  component has a status exactly when it is in the specification, which is as it was; the
  check whether the pass has to run again then never meets a missing status, and answers
  whether some deployed component is not available.
\<close>

theorem statuses_match_specification:
  assumes "set rcs = set (initSubs K)" and "updateAllStatuses rcs dcr w = (Inr dcr', w')"
  shows "dcr_Spec dcr' = dcr_Spec dcr \<and>
    (\<forall>t. (component_status t dcr' \<noteq> None) = component_deployed t dcr) \<and>
    reconcile_dcr dcr' =
      Inr (\<exists>t. component_deployed t dcr' \<and> cst_Phase (the (component_status t dcr')) \<noteq> Phase_Available)"
proof -
  have subs: "\<And>rc. rc \<in> set rcs \<Longrightarrow> sub_UpdateComponentStatus rc = component_update K (component_of rc)"
    using assms(1) initSubs_components(1) by blast
  have fill: "\<And>t. t \<in> component_of ` set rcs \<or> (component_status t dcr \<noteq> None) = component_deployed t dcr"
    using assms(1) initSubs_components(2) [of K] by (case_tac t) simp_all
  have match: "(component_status t dcr' \<noteq> None) = component_deployed t dcr'" for t
    by (rule statuses.all_filled [OF assms(2), where component = component_of]) (rule subs, assumption, rule fill)
  have "dcr_Spec dcr' = dcr_Spec dcr"
    by (rule statuses.all_specification [OF assms(2), where component = component_of]) (rule subs)
  moreover from this have "component_deployed t dcr' = component_deployed t dcr" for t by (rule statuses.deployed_cong)
  moreover have "reconcile_dcr dcr' =
      Inr (\<exists>t. component_deployed t dcr' \<and> cst_Phase (the (component_status t dcr')) \<noteq> Phase_Available)"
    by (rule reconcile_dcr_meaning) (use match in blast)
  ultimately show ?thesis using match by simp
qed

lemma statuses_match_specification_witness:
  "let K = dcr_server sample_dcr; dcr = set_dcr_FEStatus (Some zero_ComponentStatus) sample_dcr
   in \<exists>dcr'. updateAllStatuses (initSubs K) dcr zero_world = (Inr dcr', zero_world) \<and>
     component_status Component_FE dcr' \<noteq> None \<and> component_status Component_BE dcr' = None \<and> reconcile_dcr dcr' = Inr True"
proof -
  let ?K = "dcr_server sample_dcr" and ?dcr = "set_dcr_FEStatus (Some zero_ComponentStatus) sample_dcr"
  have run: "updateAllStatuses (initSubs ?K) ?dcr zero_world = (Inr ?dcr, zero_world)"
    by (simp add: initSubs_def feSub_def beSub_def cnSub_def brokerSub_def bindW_def liftW_def UpdateFEStatus_dcr_def
        UpdateBEStatus_def UpdateCNStatus_def UpdateBrokerStatus_def set_status_defs sample_dcr_def zero_dcr_def
        BuildCoreConfigmapStatusHash_def GetDorisCoreConfigMapNames_def getDorisCoreConfigMapName_def bindE_def
        GetMountConfigMapInfo_def zero_BaseSpec_def fe_base_def ClassifyPodsByStatus_def dcr_server_defs zero_world_def
        zero_ComponentStatus_def Let_def)
  have "reconcile_dcr ?dcr = Inr True" "component_status Component_FE ?dcr \<noteq> None" "component_status Component_BE ?dcr = None"
    using statuses_match_specification [OF refl run]
    by (simp_all add: ex_component sample_dcr_def zero_dcr_def zero_ComponentStatus_def set_status_defs)
  with run show ?thesis unfolding Let_def by blast
qed

section \<open>Requeues\<close>

text \<open>
  Every Sync of the FE stamps its condition with the clock, and nothing else in a pass
  touches that stamp.
\<close>

definition fe_mark :: "DorisCluster \<Rightarrow> stamp option \<times> bool" where
  "fe_mark dcr = (map_option (\<lambda>s. cc_LastTransitionTime (cst_ComponentCondition s)) (dcr_FEStatus dcr),
     dcr_FeSpec dcr = None)"

lemma stepW_Inr_iff:
  "readW m w = (Inr a, w1) \<longleftrightarrow> m w = (a, w1)" "liftW r w = (Inr b, w1) \<longleftrightarrow> r = Inr b \<and> w1 = w"
  by (auto simp: readW_def liftW_def split: prod.split)

lemmas runs = bindW_Inr_iff stepW_Inr_iff

lemma fe_mark_set [simp]:
  "fe_mark (set_base b t dcr) = fe_mark dcr" "fe_mark (set_fe_replicas n dcr) = fe_mark dcr"
  "fe_mark (dcr\<lparr>dcr_Annotations := m\<rparr>) = fe_mark dcr" "fe_mark (set_dcr_BEStatus s dcr) = fe_mark dcr"
  "fe_mark (set_dcr_CnStatus c dcr) = fe_mark dcr" "fe_mark (set_dcr_BrokerStatus s dcr) = fe_mark dcr"
  by (cases t; simp add: fe_mark_def set_fe_replicas_def set_status_defs)+

lemma fe_mark_phase: "set_component_phase p t dcr = Inr dcr' \<Longrightarrow> fe_mark dcr' = fe_mark dcr"
  by (cases t) (auto simp: fe_mark_def set_status_defs set_phase_def split: option.splits)

lemma fe_mark_inject:
  "CheckRestartTimeAndInject K dcr t w = (Inr (b, dcr'), w') \<Longrightarrow> fe_mark dcr' = fe_mark dcr"
  by (auto simp: CheckRestartTimeAndInject_def Let_def split: if_splits prod.splits sum.splits option.splits)

lemma fe_mark_restart:
  "restart_if_available K dcr s t w = (Inr dcr', w') \<Longrightarrow> fe_mark dcr' = fe_mark dcr"
  by (auto simp: restart_if_available_def simp del: set_component_phase.simps dest!: fe_mark_inject fe_mark_phase
      split: if_splits prod.splits sum.splits bool.splits)

lemma fe_mark_configured:
  "configured_restart K dcr s t w = (Inr dcr', w') \<Longrightarrow> fe_mark dcr' = fe_mark dcr"
  by (auto simp: configured_restart_def CompareConfigmapAndTriggerRestart_def Let_def
      simp del: set_component_phase.simps dest!: fe_mark_phase split: if_splits prod.splits)

lemma fe_mark_safe: "safeScaleDown K dcr st w = (Inr dcr', w') \<Longrightarrow> fe_mark dcr' = fe_mark dcr"
  by (auto simp: safeScaleDown_def split: sum.splits option.splits prod.splits)

lemma fe_mark_prepare:
  "prepareStatefulsetApply K dcr s w = (Inr dcr', w') \<Longrightarrow> fe_mark dcr' = fe_mark dcr"
  by (auto simp: prepareStatefulsetApply_def Let_def bindW_Inr_iff liftW_def
      dest!: fe_mark_safe fe_mark_restart split: prod.splits sum.splits if_splits)

lemma fe_mark_applyFE:
  "applyFEStatefulSet K dcr config s w = (Inr dcr', w') \<Longrightarrow> fe_mark dcr' = fe_mark dcr"
  by (auto simp: applyFEStatefulSet_def bindW_Inr_iff liftW_def simp del: bindW_lift dest!: fe_mark_prepare)

lemma fe_mark_buildBE:
  "buildBEStatefulSet K dcr beSpec config w = (Inr (st, dcr'), w') \<Longrightarrow> fe_mark dcr' = fe_mark dcr"
  by (auto simp: buildBEStatefulSet_def buildBEPodTemplateSpec_def set_security_context_def bindW_Inr_iff liftW_def
      Let_def simp del: bindW_lift bindW_read set_base.simps split: prod.splits)

lemma fe_mark_applyBE:
  "applyBEStatefulSet K dcr config s w = (Inr dcr', w') \<Longrightarrow> fe_mark dcr' = fe_mark dcr"
  by (auto simp: applyBEStatefulSet_def bindW_Inr_iff liftW_def simp del: bindW_lift
      dest!: fe_mark_restart fe_mark_buildBE split: option.splits if_splits)

lemma SyncFE_stamps:
  assumes "SyncFE_dcr K dcr w = (Inr dcr', w')" and "dcr_FeSpec dcr \<noteq> None"
  shows "\<exists>t. fe_mark dcr' = (Some (ClockStamp t), False)"
proof -
  have "fe_mark d = (Some (ClockStamp (fst (Now K w))), False)" if "initFEStatus K dcr w = (d, w1)" for d w1
    using that assms(2) by (auto simp: initFEStatus_def initial_status_def fe_mark_def set_status_defs split: prod.splits)
  then show ?thesis
    using assms
    by (auto simp: SyncFE_dcr_def runs Let_def simp del: bindW_lift bindW_read
        dest!: fe_mark_configured fe_mark_applyFE split: option.splits if_splits)
qed

lemma SyncBE_keeps: "SyncBE K dcr w = (Inr dcr', w') \<Longrightarrow> fe_mark dcr' = fe_mark dcr"
  by (auto simp: SyncBE_def runs Let_def initBEStatus_def simp del: bindW_lift bindW_read
      dest!: fe_mark_configured fe_mark_applyBE split: option.splits prod.splits if_splits)

lemma fe_mark_autoscaler: "DeleteAutoscaler K dcr w = ((r, dcr'), w') \<Longrightarrow> fe_mark dcr' = fe_mark dcr"
  by (auto simp: DeleteAutoscaler_def split: option.splits prod.splits)

lemma ClearCN_keeps: "ClearCNResources K dcr w = ((dcr', r), w') \<Longrightarrow> fe_mark dcr' = fe_mark dcr"
  by (auto simp: ClearCNResources_def dest!: fe_mark_autoscaler split: option.splits prod.splits if_splits)

lemma syncAutoScaler_keeps: "syncAutoScaler K cnSpec st dcr w = (Inr dcr', w') \<Longrightarrow> dcr' = dcr"
  by (auto simp: syncAutoScaler_def split: option.splits prod.splits if_splits)

lemma SyncCN_keeps: "SyncCN K dcr w = (Inr dcr', w') \<Longrightarrow> fe_mark dcr' = fe_mark dcr"
  by (auto simp: SyncCN_def runs Let_def simp del: bindW_lift bindW_read dest!: ClearCN_keeps syncAutoScaler_keeps
      split: option.splits prod.splits if_splits)

lemma SyncBroker_keeps: "SyncBroker K dcr w = (Inr dcr', w') \<Longrightarrow> fe_mark dcr' = fe_mark dcr"
  by (auto simp: SyncBroker_def runs Let_def simp del: bindW_lift bindW_read split: option.splits if_splits)

lemma sync_marks:
  assumes "rc \<in> set (initSubs K)" and "sub_Sync rc dcr w = (Inr dcr', w')" and "snd (fe_mark dcr) = False"
  shows "snd (fe_mark dcr') = False" and
    "rc = feSub K \<or> (\<exists>t. fst (fe_mark dcr) = Some (ClockStamp t)) \<Longrightarrow> \<exists>t. fst (fe_mark dcr') = Some (ClockStamp t)"
proof -
  have "(\<exists>t. fe_mark dcr' = (Some (ClockStamp t), False)) \<or> rc \<noteq> feSub K \<and> fe_mark dcr' = fe_mark dcr"
    using assms SyncFE_stamps [of K dcr w dcr' w'] SyncBE_keeps [of K dcr w dcr' w'] SyncCN_keeps [of K dcr w dcr' w']
      SyncBroker_keeps [of K dcr w dcr' w']
    by (auto simp: initSubs_def feSub_def beSub_def cnSub_def brokerSub_def fe_mark_def)
  then show "snd (fe_mark dcr') = False"
    "rc = feSub K \<or> (\<exists>t. fst (fe_mark dcr) = Some (ClockStamp t)) \<Longrightarrow> \<exists>t. fst (fe_mark dcr') = Some (ClockStamp t)"
    using assms(3) by auto
qed

lemma syncAll_stamps:
  assumes "syncAll rcs dcr w = (Inr dcr', w')" and "set rcs \<subseteq> set (initSubs K)" and "snd (fe_mark dcr) = False"
    and "feSub K \<in> set rcs \<or> (\<exists>t. fst (fe_mark dcr) = Some (ClockStamp t))"
  shows "\<exists>t. fe_mark dcr' = (Some (ClockStamp t), False)"
  using assms
proof (induction rcs arbitrary: dcr w)
  case (Cons rc rcs)
  from Cons.prems(1) obtain d w1 where d: "sub_Sync rc dcr w = (Inr d, w1)" "syncAll rcs d w1 = (Inr dcr', w')"
    by (auto simp: bindW_Inr_iff)
  have rc: "rc \<in> set (initSubs K)" using Cons.prems(2) by simp
  note m = sync_marks [OF rc d(1) Cons.prems(3)]
  show ?case using Cons.IH [OF d(2) _ m(1)] Cons.prems(2,4) m(2) by auto
qed (auto simp: bindW_Inr_iff liftW_def prod_eq_iff)

lemma clear_keeps_mark:
  assumes "clearNoEffectResources rcs dcr w = (Inr dcr', w')" and "set rcs \<subseteq> set (initSubs K)"
  shows "fe_mark dcr' = fe_mark dcr"
  using assms
proof (induction rcs arbitrary: dcr w)
  case (Cons rc rcs)
  obtain d b r w1 where d: "sub_ClearResources rc dcr w = ((d, b, r), w1)" by (metis surj_pair)
  have "fe_mark d = fe_mark dcr"
    using d Cons.prems(2) ClearCN_keeps [of K dcr w d "(b, r)" w1]
    by (auto simp: initSubs_def feSub_def beSub_def cnSub_def brokerSub_def keep_dcr_def split: prod.splits)
  then show ?case using Cons d by (auto split: option.splits if_splits)
qed simp

lemma classify_stamp [simp]:
  "cc_LastTransitionTime (classify_condition pods replicas t c) = cc_LastTransitionTime c"
  by (auto simp: classify_condition_def explain_by_def Let_def split: list.split option.split)

lemma UpdateFE_keeps:
  "UpdateFEStatus_dcr K dcr w = (Inr dcr', w') \<Longrightarrow> dcr_FeSpec dcr \<noteq> None \<Longrightarrow> fe_mark dcr' = fe_mark dcr"
  by (auto simp: UpdateFEStatus_dcr_def ClassifyPodsByStatus_def fe_mark_def set_status_defs
      split: prod.splits option.splits sum.splits if_splits)

lemma update_keeps_mark:
  assumes "updateAllStatuses rcs dcr w = (Inr dcr', w')" and "set rcs \<subseteq> set (initSubs K)" and "snd (fe_mark dcr) = False"
  shows "fe_mark dcr' = fe_mark dcr"
  using assms
proof (induction rcs arbitrary: dcr w)
  case (Cons rc rcs)
  from Cons.prems(1) obtain d w1 where d: "sub_UpdateComponentStatus rc dcr w = (Inr d, w1)"
      "updateAllStatuses rcs d w1 = (Inr dcr', w')"
    by (auto simp: bindW_Inr_iff)
  have "component_update K (component_of rc) dcr w = (Inr d, w1)"
    using d(1) Cons.prems(2) initSubs_components(1) [of rc K] by simp
  from component_update_cases [OF this] have "component_of rc \<noteq> Component_FE \<Longrightarrow> fe_mark d = fe_mark dcr"
    using component_status.simps(1) by (metis fe_mark_def)
  moreover have "component_of rc = Component_FE \<Longrightarrow> fe_mark d = fe_mark dcr"
    using UpdateFE_keeps [of K dcr w d w1] \<open>component_update K (component_of rc) dcr w = (Inr d, w1)\<close> Cons.prems(3)
    by (simp add: fe_mark_def)
  ultimately have "fe_mark d = fe_mark dcr" by blast
  with Cons.IH [OF d(2)] Cons.prems(2,3) show ?case by simp
qed (simp add: bindW_Inr_iff liftW_def)

text \<open>What the API server answers has been decoded: no time in it carries a monotonic reading.\<close>

definition fe_decoded :: "DorisCluster \<Rightarrow> bool" where
  "fe_decoded dcr \<longleftrightarrow> (\<forall>t. fst (fe_mark dcr) \<noteq> Some (ClockStamp t))"

lemma stamped_differs:
  "fst (fe_mark dcr) = Some (ClockStamp t) \<Longrightarrow> fe_decoded edcr \<Longrightarrow>
   fst (inconsistentStatus (dcr_Status dcr) (dcr_Status edcr))"
  by (cases "dcr_FEStatus edcr") (auto simp: inconsistentStatus_def fe_decoded_def fe_mark_def Let_def)

text \<open>
  C25. A pass over a DorisCluster never asks to be run again after five seconds, whether or
  not its components are available, unless it patched the specification. The sub-controllers
  run in any order; the clusters the API server answers with are decoded, and the pass left
  the replicas of the FE as they were, so that the specification is not patched. Then the
  fresh stamp of the FE makes the new status differ from the stored one in every pass, and
  the pass ends with the zero result.
\<close>

theorem pass_asks_no_requeue:
  assumes "set syncOrder = set (initSubs K)" and "set clearOrder \<subseteq> set (initSubs K)"
    and "set statusOrder \<subseteq> set (initSubs K)" and "dcr_FeSpec edcr \<noteq> None"
    and "syncAll syncOrder edcr w = (Inr dcr1, w1)"
    and "clearNoEffectResources clearOrder dcr1 w1 = (Inr dcr2, w2)"
    and "updateAllStatuses statusOrder dcr2 w2 = (Inr dcr, w3)"
    and "component_replicas edcr Component_FE = Inr n" and "component_replicas dcr Component_FE = Inr n"
    and "\<And>d w4. GetDCR K (dcr_Namespace dcr) (dcr_Name dcr) w3 = (Inr d, w4) \<Longrightarrow> fe_decoded d"
  shows "\<exists>r. fst (reconcilePass K syncOrder clearOrder statusOrder edcr w) = Inr (zero_Result, r)"
proof -
  have fe: "feSub K \<in> set syncOrder" using assms(1) by (simp add: initSubs_def)
  obtain t where "fe_mark dcr1 = (Some (ClockStamp t), False)"
    using syncAll_stamps [OF assms(5), of K] assms(1,4) fe by (auto simp: fe_mark_def)
  then have mark: "fst (fe_mark dcr) = Some (ClockStamp t)"
    using clear_keeps_mark [OF assms(6,2)] update_keeps_mark [OF assms(7,3)] by simp
  have "reconcilePass K syncOrder clearOrder statusOrder edcr w = updateDorisClusterStatus K dcr w3"
    using assms(5-9) by (simp add: reconcilePass_def bindW_def revertDorisClusterSomeFields_def)
  moreover have "\<exists>r. fst (updateDorisClusterStatus K dcr w3) = Inr (zero_Result, r)"
  proof (cases "GetDCR K (dcr_Namespace dcr) (dcr_Name dcr) w3")
    case (Pair d w4)
    then show ?thesis
      using stamped_differs [OF mark assms(10)]
      by (cases d) (simp_all add: updateDorisClusterStatus_def Let_def case_prod_beta)
  qed
  ultimately show ?thesis by simp
qed

text \<open>
  An FE of one replica whose only pod is still being created, in phase Initializing: the
  pass ends with the zero result all the same.
\<close>

definition resting_dcr :: DorisCluster where
  "resting_dcr = sample_dcr\<lparr>dcr_Spec := (dcr_Spec sample_dcr)\<lparr>dcs_FeSpec :=
     Some \<lparr>feSpec_ElectionNumber = Some 1, feSpec_BaseSpec = zero_BaseSpec\<lparr>bs_Replicas := Some 1\<rparr>\<rparr>\<rparr>\<rparr>"

definition creating_world :: world where
  "creating_world = zero_world\<lparr>w_Sts := [sample_fe_sts\<lparr>sts_Replicas := Some 1\<rparr>],
     w_Pods := [zero_pod\<lparr>pod_Name := ''c-fe-0'', pod_Phase := PodPending\<rparr>]\<rparr>"

definition replicas_and_phase :: "(go_error + DorisCluster) \<times> 'w \<Rightarrow> ((go_error + int) \<times> ComponentPhase option) option" where
  "replicas_and_phase r =
     (case r of
        (Inl e, _) \<Rightarrow> None
      | (Inr d, _) \<Rightarrow> Some (component_replicas d Component_FE, map_option cst_Phase (dcr_FEStatus d)))"

lemma pass_asks_no_requeue_witness:
  "\<exists>r. fst (reconcilePass (dcr_server resting_dcr) (initSubs (dcr_server resting_dcr))
      (initSubs (dcr_server resting_dcr)) (initSubs (dcr_server resting_dcr)) resting_dcr creating_world) =
      Inr (zero_Result, r)"
proof -
  let ?K = "dcr_server resting_dcr" and ?rcs = "initSubs (dcr_server resting_dcr)"
  have "replicas_and_phase (bindW (syncAll ?rcs resting_dcr) (\<lambda>dcr. bindW (clearNoEffectResources ?rcs dcr)
      (updateAllStatuses ?rcs)) creating_world) = Some (Inr 1, Some Phase_Initializing)" by code_simp
  then obtain dcr1 w1 dcr2 w2 dcr w3 where run: "syncAll ?rcs resting_dcr creating_world = (Inr dcr1, w1)"
      "clearNoEffectResources ?rcs dcr1 w1 = (Inr dcr2, w2)" "updateAllStatuses ?rcs dcr2 w2 = (Inr dcr, w3)"
    and rep: "component_replicas dcr Component_FE = Inr 1"
    by (auto simp: replicas_and_phase_def bindW_def split: prod.splits sum.splits)
  have spec: "dcr_FeSpec resting_dcr \<noteq> None" "component_replicas resting_dcr Component_FE = Inr 1"
    by (simp_all add: resting_dcr_def component_replicas_def bindE_def)
  have dec: "fe_decoded d" if "GetDCR ?K ns n w = (Inr d, w')" for ns n w d w'
    using that by (simp add: dcr_server_defs fe_decoded_def fe_mark_def) (auto simp: resting_dcr_def sample_dcr_def zero_dcr_def)
  show ?thesis
    by (rule pass_asks_no_requeue [OF refl subset_refl subset_refl spec(1) run spec(2) rep]) (rule dec)
qed

end
