(* ===== verification/Doris_Props.thy ===== *)
theory Doris_Props
  imports Doris_Memory
begin

text \<open>
  Properties of the DorisCluster controllers that span their parts: passes that cannot
  succeed, restarts after a change of the configuration, the watch on config maps, and the
  comparison of StatefulSets that forgives a repeated variable.
\<close>

section \<open>Passes that cannot succeed\<close>

lemma bindW_fails:
  "fst (m w) = Inl e \<Longrightarrow> bindW m f w = (Inl e, snd (m w))"
  by (cases "m w") (simp add: bindW_def)

lemma bindW_fails_later:
  "(\<And>a w. \<exists>e. fst (f a w) = Inl e) \<Longrightarrow> \<exists>e. fst (bindW m f w) = Inl e"
  by (cases "m w"; cases "fst (m w)") (simp_all add: bindW_def)

text \<open>
  A pass over a cluster without an FE of its own never succeeds, whatever its
  sub-controllers do: the comparison of the FE replicas dereferences nil. The addresses in
  the specification offer such a cluster the FE of another one.
\<close>

theorem pass_without_fe_fails:
  assumes "dcr_FeSpec edcr = None"
  shows "\<exists>e. fst (reconcilePass K syncOrder clearOrder statusOrder edcr w) = Inl e"
  unfolding reconcilePass_def
proof (rule bindW_fails_later, rule bindW_fails_later, rule bindW_fails_later)
  fix dcr w
  have "fst (revertDorisClusterSomeFields K edcr dcr w) = Inl (Panic ''dcr.Spec.FeSpec.BaseSpec'')"
    using assms by (simp add: revertDorisClusterSomeFields_def component_replicas_def bindE_def)
  then show "\<exists>e. fst (bindW (revertDorisClusterSomeFields K edcr dcr) (updateDorisClusterStatus K) w) = Inl e"
    by (simp add: bindW_fails [of "revertDorisClusterSomeFields K edcr dcr"])
qed

lemma pass_without_fe_fails_witness:
  "\<exists>e. fst (reconcilePass (dcr_server zero_dcr) [] [] [] zero_dcr zero_world) = Inl e"
  by (rule pass_without_fe_fails) (simp add: zero_dcr_def)

text \<open>\<open>yields P m\<close>: every result of the action satisfies \<open>P\<close>.\<close>

definition yields :: "('a \<Rightarrow> bool) \<Rightarrow> ('w \<Rightarrow> ('e + 'a) \<times> 'w) \<Rightarrow> bool" where
  "yields P m = (\<forall>w a w'. m w = (Inr a, w') \<longrightarrow> P a)"

named_theorems yields_intros \<open>rules for the results of actions\<close>

lemma yields_lift [yields_intros]: "(\<And>a. r = Inr a \<Longrightarrow> P a) \<Longrightarrow> yields P (liftW r)"
  by (auto simp: yields_def liftW_def)

lemma yields_bind: "yields Q m \<Longrightarrow> (\<And>a. Q a \<Longrightarrow> yields P (f a)) \<Longrightarrow> yields P (bindW m f)"
  by (fastforce simp: yields_def bindW_def split: prod.splits sum.splits)

lemma yields_bind_any [yields_intros]: "(\<And>a. yields P (f a)) \<Longrightarrow> yields P (bindW m f)"
  by (rule yields_bind [where Q = "\<lambda>_. True"]) (simp_all add: yields_def)

lemma yields_read: "(\<And>w. P (fst (m w))) \<Longrightarrow> yields P (readW m)"
  by (auto simp: yields_def readW_def split: prod.splits) (metis fst_conv)

lemma yields_if [yields_intros]: "(b \<Longrightarrow> yields P m) \<Longrightarrow> (\<not> b \<Longrightarrow> yields P n) \<Longrightarrow> yields P (if b then m else n)"
  by simp

text \<open>The compute nodes were taken out of the specification, but their status is still there.\<close>

definition cn_removed :: "DorisCluster \<Rightarrow> bool" where
  "cn_removed dcr = (dcr_CnSpec dcr = None \<and> dcr_CnStatus dcr \<noteq> None)"

lemma cn_removed_writes [simp]:
  "cn_removed (set_dcr_FEStatus s dcr) = cn_removed dcr" "cn_removed (set_dcr_BEStatus s dcr) = cn_removed dcr"
  "cn_removed (set_base b Component_FE dcr) = cn_removed dcr" "cn_removed (set_base b Component_BE dcr) = cn_removed dcr"
  "cn_removed (dcr\<lparr>dcr_Annotations := a\<rparr>) = cn_removed dcr"
  by (simp_all add: cn_removed_def set_dcr_FEStatus_def set_dcr_BEStatus_def)

lemma cn_removed_phase:
  "cn_removed dcr \<Longrightarrow> t \<in> {Component_FE, Component_BE} \<Longrightarrow> set_component_phase p t dcr = Inr dcr' \<Longrightarrow> cn_removed dcr'"
  by (auto split: option.splits)

lemma cn_removed_init: "cn_removed dcr \<Longrightarrow> cn_removed (fst (InitStatus K dcr t w))"
  by (cases t) (simp_all add: initFEStatus_def initBEStatus_def split: prod.split)

lemma cn_removed_init_yields: "cn_removed dcr \<Longrightarrow> yields cn_removed (readW (InitStatus K dcr t))"
  by (rule yields_read) (rule cn_removed_init)

lemma cn_removed_inject:
  assumes "CheckRestartTimeAndInject K dcr t w = (Inr (b, dcr'), w')" and "cn_removed dcr" and "t \<in> {Component_FE, Component_BE}"
  shows "cn_removed dcr'"
  using assms
  by (auto simp: CheckRestartTimeAndInject_def Let_def simp del: set_base.simps
      split: if_splits prod.splits sum.splits option.splits)

lemma cn_removed_restart:
  assumes "cn_removed dcr" and "t \<in> {Component_FE, Component_BE}"
  shows "yields cn_removed (restart_if_available K dcr oldStatus t)"
  unfolding yields_def
proof (intro allI impI)
  fix w a w' assume r: "restart_if_available K dcr oldStatus t w = (Inr a, w')"
  show "cn_removed a"
  proof (cases "cst_Phase oldStatus = Phase_Available")
    case True
    with r obtain b d w1 where i: "CheckRestartTimeAndInject K dcr t w = (Inr (b, d), w1)"
      and "a = d \<or> set_component_phase Phase_Restarting t d = Inr a"
      by (auto simp: restart_if_available_def simp del: set_component_phase.simps
          split: prod.splits sum.splits bool.splits)
    with cn_removed_inject [OF i assms] cn_removed_phase [OF _ assms(2)] show ?thesis by blast
  qed (use r assms in \<open>simp add: restart_if_available_def\<close>)
qed

lemma cn_removed_configured:
  assumes "cn_removed dcr" and "t \<in> {Component_FE, Component_BE}"
  shows "yields cn_removed (configured_restart K dcr oldStatus t)"
  unfolding yields_def
proof (intro allI impI)
  fix w a w' assume r: "configured_restart K dcr oldStatus t w = (Inr a, w')"
  then have "a = dcr \<or> (\<exists>x. set_component_phase Phase_Restarting t (dcr\<lparr>dcr_Annotations := x\<rparr>) = Inr a)"
    by (auto simp: configured_restart_def CompareConfigmapAndTriggerRestart_def Let_def
        simp del: set_component_phase.simps split: if_splits prod.splits)
  then show "cn_removed a" using assms(1) cn_removed_writes(5) cn_removed_phase [OF _ assms(2)] by blast
qed

lemma cn_removed_scale_down: "cn_removed dcr \<Longrightarrow> yields cn_removed (safeScaleDown K dcr ost)"
  by (auto simp: yields_def safeScaleDown_def set_fe_replicas_def simp del: set_base.simps
      split: sum.splits option.splits prod.splits)

lemma cn_removed_prepare:
  assumes "cn_removed dcr"
  shows "yields cn_removed (prepareStatefulsetApply K dcr oldStatus)"
proof -
  define c where "c = (if bs_Replicas (fe_base dcr) = None then set_fe_replicas 0 dcr else dcr)"
  define step where "step est = bindW (safeScaleDown K c est) (\<lambda>d.
      if wrap32 (the (bs_Replicas (fe_base d)) - the (sts_Replicas est)) < 0 then
        bindW (runW (dropObserverBySqlClient K d)) (\<lambda>_. liftW (Inr d))
      else restart_if_available K d oldStatus Component_FE)" for est
  have "cn_removed c" using assms by (simp add: c_def set_fe_replicas_def del: set_base.simps)
  then have main: "yields cn_removed (step est)" for est
    unfolding step_def by (intro yields_bind [OF cn_removed_scale_down] yields_intros cn_removed_restart) simp_all
  show ?thesis
    unfolding yields_def
  proof (intro allI impI)
    fix w a w' assume r: "prepareStatefulsetApply K dcr oldStatus w = (Inr a, w')"
    obtain g w1 where g: "GetSts K (dcr_Namespace dcr) (GenerateComponentStatefulSetName dcr Component_FE) w = (g, w1)"
      by fastforce
    show "cn_removed a"
    proof (cases g)
      case (Inl e)
      with r g assms show ?thesis by (simp add: prepareStatefulsetApply_def)
    next
      case (Inr est)
      with r g have "step est w1 = (Inr a, w')"
        by (simp add: prepareStatefulsetApply_def c_def [symmetric] step_def Let_def)
      with main [of est] show ?thesis unfolding yields_def by blast
    qed
  qed
qed

lemma SyncFE_keeps_removed:
  assumes "cn_removed dcr"
  shows "yields cn_removed (SyncFE_dcr K dcr)"
proof (cases "dcr_FeSpec dcr")
  case (Some feSpec)
  have "yields cn_removed (applyFEStatefulSet K c config oldStatus)" if "cn_removed c" for c config oldStatus
    unfolding applyFEStatefulSet_def
    by (rule yields_bind [OF cn_removed_prepare [OF that]]) (auto intro!: yields_intros)
  then show ?thesis
    unfolding SyncFE_dcr_def Some option.case Let_def
    by (intro yields_bind [OF cn_removed_init_yields [OF assms]] yields_bind [OF cn_removed_configured]
        yields_bind_any yields_if yields_lift) auto
qed (use assms in \<open>simp add: SyncFE_dcr_def yields_def liftW_def\<close>)

lemma SyncBE_keeps_removed:
  assumes "cn_removed dcr"
  shows "yields cn_removed (SyncBE K dcr)"
proof (cases "dcr_BeSpec dcr")
  case (Some beSpec)
  have "cn_removed d" if "cn_removed c" "buildBEStatefulSet K c b config w = (Inr (st, d), w')" for c b config w st d w'
    using that
    by (auto simp: buildBEStatefulSet_def buildBEPodTemplateSpec_def bindW_def liftW_def set_security_context_def Let_def
        simp del: set_base.simps split: prod.splits sum.splits)
  then have build: "yields (\<lambda>(st, d). cn_removed d) (buildBEStatefulSet K c b config)" if "cn_removed c" for c b config
    using that by (fastforce simp: yields_def)
  have "yields cn_removed (applyBEStatefulSet K c config oldStatus)" if "cn_removed c" for c config oldStatus
    unfolding applyBEStatefulSet_def
  proof (rule yields_bind [OF cn_removed_restart [OF that]])
    fix d assume d: "cn_removed d"
    show "yields cn_removed (case dcr_BeSpec d of
         None \<Rightarrow> liftW (Inl (Panic ''dcr.Spec.BeSpec''))
       | Some beSpec \<Rightarrow>
           bindW (buildBEStatefulSet K d beSpec config) (\<lambda>(st, dcr).
           bindW (PrepareReconcileResources K dcr Component_BE) (\<lambda>prepared.
             if prepared then
               bindW (runW (ApplyStatefulSetE K st (sts_equal K) useNewDefaultValuesInStatefulset_dcr))
                 (\<lambda>_. liftW (Inr dcr))
             else liftW (Inr dcr))))"
    proof (cases "dcr_BeSpec d")
      case (Some b)
      show ?thesis unfolding Some option.case
        by (rule yields_bind [OF build [OF d]]) (auto intro!: yields_intros)
    qed (simp add: yields_def liftW_def)
  qed simp
  then show ?thesis
    unfolding SyncBE_def Some option.case Let_def
    by (intro yields_bind [OF cn_removed_init_yields [OF assms]] yields_bind_any yields_if yields_lift
        yields_bind [OF cn_removed_configured]) auto
qed (use assms in \<open>simp add: SyncBE_def yields_def liftW_def\<close>)

lemma SyncBroker_keeps_removed: "cn_removed dcr \<Longrightarrow> yields cn_removed (SyncBroker K dcr)"
  unfolding SyncBroker_def Let_def
  by (cases "dcr_BrokerSpec dcr") (auto intro!: yields_intros)

lemma syncAll_removed_fails:
  assumes "cnSub K \<in> set rcs" and "set rcs \<subseteq> set (initSubs K)" and "cn_removed dcr"
  shows "\<exists>e. fst (syncAll rcs dcr w) = Inl e"
  using assms
proof (induction rcs arbitrary: dcr w)
  case (Cons rc rcs)
  show ?case
  proof (cases "rc = cnSub K")
    case True
    have "fst (sub_Sync rc dcr w) = Inl (Panic ''dcr.Spec.CnSpec.AutoScalingPolicy'')"
      using Cons.prems(3) True by (simp add: cnSub_def SyncCN_def ClearCNResources_def cn_removed_def)
    then show ?thesis by (simp add: bindW_fails [of "sub_Sync rc dcr"])
  next
    case False
    with Cons.prems have "rc \<in> {feSub K, beSub K, brokerSub K}" by (auto simp: initSubs_def)
    then have keeps: "yields cn_removed (sub_Sync rc dcr)"
      using SyncFE_keeps_removed [OF Cons.prems(3), of K] SyncBE_keeps_removed [OF Cons.prems(3), of K]
        SyncBroker_keeps_removed [OF Cons.prems(3), of K]
      by (auto simp: feSub_def beSub_def brokerSub_def)
    obtain r w1 where r: "sub_Sync rc dcr w = (r, w1)" by fastforce
    show ?thesis
    proof (cases r)
      case (Inr d)
      with keeps r have "cn_removed d" unfolding yields_def by blast
      with Cons.IH [of d w1] Cons.prems False Inr r show ?thesis by (simp add: bindW_def)
    qed (simp add: r bindW_def)
  qed
qed simp

text \<open>
  C40. Once the compute nodes are taken out of the specification of a cluster that has their
  status, no pass over it succeeds, in whatever order the sub-controllers run: clearing the
  compute nodes dereferences the specification that is gone, so they are never removed and
  the status is never written again.
\<close>

theorem removed_compute_nodes_stay:
  assumes "dcr_CnSpec edcr = None" and "dcr_CnStatus edcr \<noteq> None" and "set syncOrder = set (initSubs K)"
  shows "\<exists>e. fst (reconcilePass K syncOrder clearOrder statusOrder edcr w) = Inl e"
proof -
  have "cnSub K \<in> set syncOrder" using assms(3) by (simp add: initSubs_def)
  moreover have "cn_removed edcr" using assms(1,2) by (simp add: cn_removed_def)
  ultimately obtain e where "fst (syncAll syncOrder edcr w) = Inl e"
    using syncAll_removed_fails [of K syncOrder edcr w] assms(3) by auto
  then show ?thesis unfolding reconcilePass_def by (simp add: bindW_fails [of "syncAll syncOrder edcr"])
qed

lemma removed_compute_nodes_stay_witness:
  "let K = dcr_server sample_dcr;
       dcr = set_dcr_CnStatus (Some \<lparr>cns_ComponentStatus = zero_ComponentStatus, cns_HorizontalScaler = None\<rparr>) sample_dcr
   in \<exists>e. fst (reconcilePass K (initSubs K) (initSubs K) (initSubs K) dcr zero_world) = Inl e"
  unfolding Let_def
  by (rule removed_compute_nodes_stay) (simp_all add: set_dcr_CnStatus_def sample_dcr_def zero_dcr_def)

section \<open>Restart after a change of the configuration\<close>

text \<open>
  When the configuration of an available BE has changed, the same pass writes the restart
  time to its pods and marks it as restarting. The times are printed with seconds, so a time
  read back lies less than a second before the printed one; the two readings of the clock
  are less than ten minutes apart.
\<close>

theorem changed_configuration_restarts:
  assumes "cst_Phase oldStatus = Phase_Available" and "cst_CoreConfigMapHashValue oldStatus \<noteq> ''''"
    and "BuildCoreConfigmapStatusHash K dcr Component_BE w = (newHash, w1)"
    and "newHash \<noteq> ''''" and "newHash \<noteq> cst_CoreConfigMapHashValue oldStatus"
    and "dcr_BEStatus dcr \<noteq> None" and "dcr_BeSpec dcr \<noteq> None"
    and "Now K w1 = (now, w2)" and "Now K w2 = (later, w3)" and "later < now + ten_minutes - 1000000000"
    and "FormatRFC3339 K now \<noteq> ''''" and "ParseRFC3339 K (FormatRFC3339 K now) = Inr t" and "now - 1000000000 < t"
  shows "\<exists>dcr'. bindW (CompareConfigmapAndTriggerRestart K dcr oldStatus Component_BE)
        (\<lambda>dcr. restart_if_available K dcr oldStatus Component_BE) w = (Inr dcr', w3) \<and>
      bs_Annotations (be_base dcr') BERestartAt = Some (FormatRFC3339 K now) \<and>
      map_option cst_Phase (dcr_BEStatus dcr') = Some Phase_Restarting"
proof -
  obtain s b where s: "dcr_BEStatus dcr = Some s" "dcr_BeSpec dcr = Some b" using assms(6,7) by auto
  have "\<not> later - ten_minutes > t" using assms(10,13) by simp
  then show ?thesis
    using assms(1-5,8,9,11,12) s
    by (simp add: bindW_def CompareConfigmapAndTriggerRestart_def restart_if_available_def CheckRestartTimeAndInject_def
        set_dcr_BEStatus_def set_phase_def be_base_def Let_def map_get_def)
qed

lemma length_round_step: "length (round_step s kw) = length s"
  by (cases "(s, kw)" rule: round_step.cases) (simp_all add: Let_def)

lemma length_rounds: "length (foldl round_step s kws) = length s"
  by (induction kws arbitrary: s) (simp_all add: length_round_step)

lemma small_prime:
  "2 \<le> p \<Longrightarrow> p \<le> 311 \<Longrightarrow> list_all (\<lambda>d. p mod d \<noteq> 0) [2..p - 1] \<Longrightarrow> p \<in> set small_primes"
  unfolding small_primes_def by (simp only: set_filter set_upto mem_Collect_eq atLeastAtMost_iff simp_thms)

lemma eight_small_primes: "8 \<le> length small_primes"
proof -
  have "distinct small_primes" unfolding small_primes_def by (rule distinct_filter) (rule distinct_upto)
  then have "length small_primes = card (set small_primes)" by (rule distinct_card [symmetric])
  moreover have "{2, 3, 5, 7, 11, 13, 17, 19} \<subseteq> set small_primes"
    by (intro subsetI) (elim insertE emptyE; simp only:; rule small_prime; code_simp)
  then have "card {2, 3, 5, 7, 11, 13, 17, 19 :: int} \<le> card (set small_primes)" by (intro card_mono) simp_all
  ultimately show ?thesis by simp
qed

lemma length_sha256: "length (sha256 s) = 8"
proof -
  have "length (foldl compress st bs) = length st" for st bs
    by (induction bs arbitrary: st) (simp_all add: compress_def length_rounds)
  then show ?thesis using eight_small_primes by (simp add: sha256_def initial_state_def)
qed

lemma Map2Hash_nonempty: "MarshalConf K c = Inr bytes \<Longrightarrow> Map2Hash K c \<noteq> ''''"
  using length_sha256 [of bytes] by (cases "sha256 bytes") (simp_all add: Map2Hash_def word_hex_def)

text \<open>A server with one config map for every name.\<close>

definition config_server :: "world dcr_env" where
  "config_server = (dcr_server zero_dcr)\<lparr>GetConfigMapObj := \<lambda>_ _ w. (Inr \<lparr>cm_Data = Some [BE_RESOLVEKEY \<mapsto> '''']\<rparr>, w)\<rparr>"

lemma sample_be_hash:
  "BuildCoreConfigmapStatusHash config_server sample_be Component_BE w = (Map2Hash config_server [], w)"
  by (simp add: BuildCoreConfigmapStatusHash_def GetDorisCoreConfigMapNames_def getDorisCoreConfigMapName_def bindE_def
      sample_be_def zero_dcr_def set_dcr_BEStatus_def GetMountConfigMapInfo_def config_server_def
      ResolveConfigMaps_def dcr_server_defs)

lemma changed_configuration_restarts_witness:
  "let s = set_phase Phase_Available (zero_ComponentStatus\<lparr>cst_CoreConfigMapHashValue := ''x'' @ Map2Hash config_server []\<rparr>)
   in \<exists>dcr'. bindW (CompareConfigmapAndTriggerRestart config_server sample_be s Component_BE)
        (\<lambda>dcr. restart_if_available config_server dcr s Component_BE) zero_world = (Inr dcr', zero_world) \<and>
      bs_Annotations (be_base dcr') BERestartAt = Some (Itoa 0) \<and>
      map_option cst_Phase (dcr_BEStatus dcr') = Some Phase_Restarting"
proof -
  have now: "Now config_server zero_world = (0, zero_world)" and zero: "FormatRFC3339 config_server 0 = ''0''" "Itoa 0 = ''0''"
    and parse: "ParseRFC3339 config_server ''0'' = Inr 0"
    by (simp_all add: config_server_def dcr_server_defs zero_world_def) code_simp+
  have new: "Map2Hash config_server [] \<noteq> ''''"
    by (rule Map2Hash_nonempty) (simp add: config_server_def dcr_server_defs)
  then have differs: "Map2Hash config_server [] \<noteq> ''x'' @ Map2Hash config_server []" by (metis append_self_conv2 list.distinct(1))
  show ?thesis
    using changed_configuration_restarts [OF _ _ sample_be_hash new _ _ _ now now, of
        "set_phase Phase_Available (zero_ComponentStatus\<lparr>cst_CoreConfigMapHashValue := ''x'' @ Map2Hash config_server []\<rparr>)" 0]
      differs zero parse
    by (simp add: Let_def set_phase_def sample_be_def set_dcr_BEStatus_def zero_dcr_def ten_minutes_def)
qed

section \<open>Watched config maps\<close>

lemma foldl_writes:
  "foldl (\<lambda>m t. let c = f t in if c = '''' then m else m(g c \<mapsto> v)) m ts x =
     (if \<exists>t \<in> set ts. f t \<noteq> '''' \<and> g (f t) = x then Some v else m x)"
  by (induction ts arbitrary: m) (auto simp: Let_def)

lemma watch_config_maps_lookup:
  assumes "dcs_EnableRestartWhenConfigChange (dcr_Spec dcr)"
    and "t \<in> {Component_FE, Component_BE, Component_CN, Component_Broker}"
    and "GetDorisCoreConfigMapNames dcr t \<noteq> ''''"
  shows "watch_config_maps dcr watch (namespacedName (dcr_Namespace dcr) (GetDorisCoreConfigMapNames dcr t)) =
    Some (namespacedName (dcr_Namespace dcr) (dcr_Name dcr))"
proof -
  have "\<exists>u \<in> set [Component_FE, Component_BE, Component_CN, Component_Broker]. GetDorisCoreConfigMapNames dcr u \<noteq> '''' \<and>
      namespacedName (dcr_Namespace dcr) (GetDorisCoreConfigMapNames dcr u) =
      namespacedName (dcr_Namespace dcr) (GetDorisCoreConfigMapNames dcr t)"
    using assms(2,3) by (intro bexI [of _ t]) auto
  then show ?thesis using assms(1) unfolding watch_config_maps_def foldl_writes by (simp only: if_True not_True_eq_False if_False)
qed

text \<open>
  After a pass over a cluster that restarts on changes of its configuration, an event on
  the config map that holds the configuration of any of its components asks for a pass over
  exactly this cluster: the names that the watch writes into its map are read back from it.
\<close>

theorem watched_config_map_requests_cluster:
  assumes "dcs_EnableRestartWhenConfigChange (dcr_Spec dcr)"
    and "t \<in> {Component_FE, Component_BE, Component_CN, Component_Broker}"
    and "GetDorisCoreConfigMapNames dcr t \<noteq> ''''"
    and "CHR ''/'' \<notin> set (dcr_Namespace dcr)" and "CHR ''/'' \<notin> set (dcr_Name dcr)"
  shows "config_map_event_passes (watch_config_maps dcr watch) (dcr_Namespace dcr) (GetDorisCoreConfigMapNames dcr t) \<and>
    config_map_requests (watch_config_maps dcr watch) (dcr_Namespace dcr) (GetDorisCoreConfigMapNames dcr t) =
    [(dcr_Namespace dcr, dcr_Name dcr)]"
  using assms(4,5) watch_config_maps_lookup [OF assms(1-3), of watch]
  by (simp add: config_map_event_passes_def config_map_requests_def namespacedName_def Split_first Split_none)

lemma watched_config_map_requests_cluster_witness:
  "config_map_requests (watch_config_maps sample_be Map.empty) '''' ''m'' = [('''', ''c'')]"
proof -
  have "GetDorisCoreConfigMapNames sample_be Component_BE = ''m''" "dcr_Namespace sample_be = ''''" "dcr_Name sample_be = ''c''"
    by (simp_all add: GetDorisCoreConfigMapNames_def getDorisCoreConfigMapName_def bindE_def sample_be_def zero_dcr_def
        set_dcr_BEStatus_def GetMountConfigMapInfo_def)
  then show ?thesis
    using watched_config_map_requests_cluster [of sample_be Component_BE Map.empty]
    by (simp add: sample_be_def zero_dcr_def set_dcr_BEStatus_def)
qed

section \<open>Repeated variables\<close>

lemma config_positions_snoc:
  "config_positions (envs @ [e]) = config_positions envs @ (if ev_Name e = config_env_name then [length envs] else [])"
  by (simp add: config_positions_def enumerate_append_eq)

lemma insert_configs:
  assumes "\<forall>e \<in> set envs. ev_Name e = config_env_name \<longrightarrow> e = config_env"
  shows "foldl insert_config (filter (\<lambda>e. ev_Name e \<noteq> config_env_name) envs @ rest) (config_positions envs) = envs @ rest"
  using assms
proof (induction envs arbitrary: rest rule: rev_induct)
  case (snoc e envs)
  show ?case
  proof (cases "ev_Name e = config_env_name")
    case True
    then show ?thesis using snoc by (simp add: config_positions_snoc insert_config_def)
  next
    case False
    then show ?thesis using snoc.IH [of "e # rest"] snoc.prems by (simp add: config_positions_snoc)
  qed
qed (simp add: config_positions_def)

lemma align_envs_old:
  assumes "filter (\<lambda>e. ev_Name e \<noteq> config_env_name) new = filter (\<lambda>e. ev_Name e \<noteq> config_env_name) old"
    and "\<forall>e \<in> set old. ev_Name e = config_env_name \<longrightarrow> e = config_env"
  shows "align_envs new old = old"
  using insert_configs [OF assms(2), of "[]"] assms(1) by (simp add: align_envs_def)

text \<open>
  C39. A StatefulSet that differs from the stored one only in how often and where the variable
  of the mount path stands, as versions before wrote it, is equal to it: with the
  environment of the stored one its hash is the stored hash, so it is not applied again.
\<close>

theorem repeated_variable_forgiven:
  assumes "filter (\<lambda>e. ev_Name e \<noteq> config_env_name) (main_container_envs new) =
      filter (\<lambda>e. ev_Name e \<noteq> config_env_name) (main_container_envs est)"
    and "\<forall>e \<in> set (main_container_envs est). ev_Name e = config_env_name \<longrightarrow> e = config_env"
    and "list_ex is_main (pt_Containers (sts_Template new))"
    and "sts_Replicas new = Some n" and "sts_Replicas est = Some n"
    and "HashObject K (statefulSetHashObject (set_main_envs (main_container_envs est) new) excludeReplicas) =
      map_get (sts_Annotations est) ComponentResourceHash"
  shows "\<exists>st. StatefulSetDeepEqual K new est excludeReplicas = Inr (True, st)"
proof -
  obtain b new1 where w: "StatefulsetDeepEqualWithKey K new est ComponentResourceHash excludeReplicas = (b, new1)"
    by fastforce
  then have new1: "new1 = new\<lparr>sts_Annotations := sts_Annotations new1\<rparr>"
    by (auto simp: StatefulsetDeepEqualWithKey_def Let_def split: if_splits)
  then obtain a where a: "new1 = new\<lparr>sts_Annotations := a\<rparr>" by blast
  have envs: "align_envs (main_container_envs new1) (main_container_envs est) = main_container_envs est"
    by (rule align_envs_old) (use assms(1,2) in \<open>simp_all add: a main_container_envs_def\<close>)
  have "same_envs (main_container_envs est) (main_container_envs est)" by (simp add: same_envs_def list_all2_refl)
  moreover have "statefulSetHashObject (set_main_envs e new1) excludeReplicas =
      statefulSetHashObject (set_main_envs e new) excludeReplicas" for e
    by (simp add: a set_main_envs_def statefulSetHashObject_def)
  ultimately have "clear_config_env_path_numbers_alwaysEquals K new1 est ComponentResourceHash excludeReplicas = Inr (True, new1)"
    using assms(3-6) envs unfolding a by (simp add: clear_config_env_path_numbers_alwaysEquals_def Let_def)
  then show ?thesis using w by (cases b) (auto simp: StatefulSetDeepEqual_def)
qed

definition env_sts :: "env_var list \<Rightarrow> statefulset" where
  "env_sts envs = zero_sts\<lparr>sts_Name := ''c-fe'', sts_Replicas := Some 1,
     sts_Template := zero_pod_template\<lparr>pt_Containers := [zero_container\<lparr>c_Name := ''fe'', c_Env := envs\<rparr>]\<rparr>\<rparr>"

lemma repeated_variable_forgiven_witness:
  "\<exists>st. StatefulSetDeepEqual (dcr_server zero_dcr) (env_sts [env ''A'' ''1'', config_env])
      ((env_sts [config_env, env ''A'' ''1'', config_env])
         \<lparr>sts_Annotations := [ComponentResourceHash \<mapsto> HashObject (dcr_server zero_dcr)
           (statefulSetHashObject (env_sts [config_env, env ''A'' ''1'', config_env]) False)]\<rparr>) False = Inr (True, st)"
  by (rule repeated_variable_forgiven [where n = 1])
    (simp_all add: env_sts_def main_container_envs_def is_main_def config_env_def config_env_name_def env_def
      zero_container_def zero_sts_def map_get_def set_main_envs_def)

end
