(* ===== verification/Doris_Template.thy ===== *)
theory Doris_Template
  imports Doris_Memory Template_Props
begin

text \<open>
  The StatefulSets that the controllers of a DorisCluster build are well formed: the template
  carries the labels of the selector, every mount names a volume of the pod or a claim
  template, and every volume that is a claim is claimed by a template or shared.
\<close>

definition dcr_well_formed :: "DorisCluster \<Rightarrow> statefulset \<Rightarrow> bool" where
  "dcr_well_formed dcr st =
     (sts_Selector st \<subseteq>\<^sub>m pt_Labels (sts_Template st) \<and>
      (\<forall>c \<in> set (pt_Containers (sts_Template st)). vm_Name ` set (c_VolumeMounts c) \<subseteq>
         v_Name ` set (pt_Volumes (sts_Template st)) \<union> pvc_Name ` set (sts_VolumeClaimTemplates st)) \<and>
      (\<forall>v \<in> set (pt_Volumes (sts_Template st)). \<forall>n. claim_name (v_Source v) = Some n \<longrightarrow>
         n \<in> pvc_Name ` set (sts_VolumeClaimTemplates st) \<union>
             spvc_PersistentVolumeClaimName ` set (dcs_SharedPersistentVolumeClaims (dcr_Spec dcr))))"

section \<open>Parts\<close>

lemma dcr_parts [template_simps]:
  "vm_Name ` set (snd (getMultiConfigVolumeAndVolumeMount i)) = v_Name ` set (fst (getMultiConfigVolumeAndVolumeMount i))"
  "vm_Name ` set (snd (getMultiSecretVolumeAndVolumeMount b)) = v_Name ` set (fst (getMultiSecretVolumeAndVolumeMount b))"
  "vm_Name ` set (snd (getKerberosVolumeAndVolumeMount k)) = v_Name ` set (fst (getKerberosVolumeAndVolumeMount k))"
  "vm_Name ` set (auth_mounts_dcr dcr) = v_Name ` set (auth_volumes_dcr dcr)"
  by (auto simp: getMultiConfigVolumeAndVolumeMount_def getMultiSecretVolumeAndVolumeMount_def
      getKerberosVolumeAndVolumeMount_def getKerberosConfigAndSecretVolumeAndVolumeMount_def config_volume_def
      secret_volume_def auth_mounts_dcr_def auth_volumes_dcr_def mount_def image_iff Let_def split: option.splits)

lemma dcr_default_parts [template_simps]:
  "vm_Name ` set (snd (getDefaultVolumesVolumeMounts t)) = v_Name ` set (fst (getDefaultVolumesVolumeMounts t))"
  "claimed (fst (getDefaultVolumesVolumeMounts t)) pvcs"
  by (cases t; simp add: getFeDefaultVolumesVolumeMounts_def getBeDefaultVolumesVolumeMounts_def empty_dir_def mount_def
      claimed_def)+

lemma dcr_unclaimed [template_simps]:
  "claimed (fst (getMultiConfigVolumeAndVolumeMount i)) pvcs" "claimed (fst (getMultiSecretVolumeAndVolumeMount b)) pvcs"
  "claimed (fst (getKerberosVolumeAndVolumeMount k)) pvcs" "claimed (auth_volumes_dcr dcr) pvcs"
  by (auto simp: claimed_def getMultiConfigVolumeAndVolumeMount_def getMultiSecretVolumeAndVolumeMount_def
      getKerberosVolumeAndVolumeMount_def getKerberosConfigAndSecretVolumeAndVolumeMount_def config_volume_def
      secret_volume_def auth_volumes_dcr_def Let_def split: option.splits)

lemma shared_parts:
  assumes "BuildSharedVolumesAndVolumeMounts spvcs t = (vs, vms, paths)"
  shows "vm_Name ` set vms = v_Name ` set vs"
    and "v \<in> set vs \<Longrightarrow> claim_name (v_Source v) = Some n \<Longrightarrow> n \<in> spvc_PersistentVolumeClaimName ` set spvcs"
  using assms by (auto simp: BuildSharedVolumesAndVolumeMounts_def Let_def mount_def image_image)

lemma spec_volumes_cases:
  assumes "GenerateEveryoneMountPathDorisPersistentVolume spec paths config t = Inr pvs"
    and "spec_volumes spec paths config t = Inr vs"
  shows "vs = [] \<or> vs = map (\<lambda>pv. \<lparr>v_Name = dpv_Name pv, v_Source = ClaimSource (dpv_Name pv)\<rparr>) pvs"
  using assms by (cases t) (auto simp: newVolumesFromBaseSpec_def bindE_Inr_iff)

lemma buildVolumeMounts_names:
  assumes "GenerateEveryoneMountPathDorisPersistentVolume spec paths config t = Inr pvs"
    and "spec_volumes spec paths config t = Inr vs" and "buildVolumeMounts spec paths config t = Inr vms"
  shows "vm_Name ` set vms \<subseteq> insert POD_INFO_VOLUME_NAME (dpv_Name ` set pvs \<union>
    v_Name ` set (if vs = [] then fst (getDefaultVolumesVolumeMounts t) else vs))"
proof (cases "bs_PersistentVolumes spec = []")
  case True
  then have "pvs = []"
    using assms(1)
    by (simp add: GenerateEveryoneMountPathDorisPersistentVolume_def last_template_def given_volumes_def)
  then have "vs = []" using spec_volumes_cases [OF assms(1,2)] by simp
  moreover have "vms = podinfo_mount # snd (getDefaultVolumesVolumeMounts t)"
    using assms(3) True by (simp add: buildVolumeMounts_def)
  then have "vm_Name ` set vms = insert POD_INFO_VOLUME_NAME (v_Name ` set (fst (getDefaultVolumesVolumeMounts t)))"
    by (simp add: template_simps)
  ultimately show ?thesis by auto
next
  case False
  then show ?thesis using assms(1,3) by (auto simp: buildVolumeMounts_def template_simps mount_def)
qed

section \<open>A component\<close>

lemma NewPodTemplateSpec_parts:
  assumes "NewPodTemplateSpec dcr config t = Inr pts" and "getBaseSpecFromCluster dcr t = Inr spec"
    and "BuildSharedVolumesAndVolumeMounts (dcs_SharedPersistentVolumeClaims (dcr_Spec dcr)) t = (svs, svms, paths)"
  shows "\<exists>vs. spec_volumes spec paths config t = Inr vs \<and> GetPodLabels dcr t = Inr (pt_Labels pts) \<and>
    pt_Containers pts = [] \<and>
    pt_Volumes pts = (if vs = [] then fst (getDefaultVolumesVolumeMounts t) else vs) @ [podinfo_volume] @
      auth_volumes_dcr dcr @ fst (getMultiConfigVolumeAndVolumeMount (bs_ConfigMapInfo spec)) @
      fst (getMultiSecretVolumeAndVolumeMount spec) @
      fst (getKerberosVolumeAndVolumeMount (dcs_KerberosInfo (dcr_Spec dcr))) @ svs"
proof -
  from assms obtain vs labels where p: "spec_volumes spec paths config t = Inr vs" "GetPodLabels dcr t = Inr labels"
    by (auto simp: NewPodTemplateSpec_def bindE_Inr_iff)
  show ?thesis
    using assms(1) [symmetric] assms(2,3) p
    by (simp add: NewPodTemplateSpec_def bindE_def zero_pod_template_def)
qed

lemma NewStatefulSet_parts:
  assumes "NewStatefulSet K dcr config t = Inr st"
    and sh: "BuildSharedVolumesAndVolumeMounts (dcs_SharedPersistentVolumeClaims (dcr_Spec dcr)) t = (svs, svms, paths)"
  obtains spec pvs vs where "getBaseSpecFromCluster dcr t = Inr spec"
    and "GenerateEveryoneMountPathDorisPersistentVolume spec paths config t = Inr pvs"
    and "spec_volumes spec paths config t = Inr vs" and "NewPodTemplateSpec dcr config t = Inr (sts_Template st)"
    and "sts_Selector st = GenerateStatefulSetSelector dcr t" and "sts_VolumeClaimTemplates st = map (claim_template K) pvs"
    and "GetPodLabels dcr t = Inr (pt_Labels (sts_Template st))" and "pt_Containers (sts_Template st) = []"
    and "pt_Volumes (sts_Template st) = (if vs = [] then fst (getDefaultVolumesVolumeMounts t) else vs) @ [podinfo_volume] @
      auth_volumes_dcr dcr @ fst (getMultiConfigVolumeAndVolumeMount (bs_ConfigMapInfo spec)) @
      fst (getMultiSecretVolumeAndVolumeMount spec) @
      fst (getKerberosVolumeAndVolumeMount (dcs_KerberosInfo (dcr_Spec dcr))) @ svs"
proof -
  obtain spec pvs where spec: "getBaseSpecFromCluster dcr t = Inr spec"
    and pvs: "GenerateEveryoneMountPathDorisPersistentVolume spec paths config t = Inr pvs"
    and tmpl: "NewPodTemplateSpec dcr config t = Inr (sts_Template st)"
    and st: "sts_Selector st = GenerateStatefulSetSelector dcr t" "sts_VolumeClaimTemplates st = map (claim_template K) pvs"
    using assms by (auto simp: NewStatefulSet_def bindE_Inr_iff)
  from NewPodTemplateSpec_parts [OF tmpl spec sh] show thesis using that [OF spec pvs _ tmpl st] by blast
qed

lemma NewBaseMainContainer_mounts:
  assumes "NewBaseMainContainer dcr config t = Inr c" and "getBaseSpecFromCluster dcr t = Inr spec"
    and sh: "BuildSharedVolumesAndVolumeMounts (dcs_SharedPersistentVolumeClaims (dcr_Spec dcr)) t = (svs, svms, paths)"
  obtains vms where "buildVolumeMounts spec paths config t = Inr vms"
    and "c_VolumeMounts c = vms @ snd (getMultiConfigVolumeAndVolumeMount (bs_ConfigMapInfo spec)) @
      snd (getMultiSecretVolumeAndVolumeMount spec) @
      snd (getKerberosVolumeAndVolumeMount (dcs_KerberosInfo (dcr_Spec dcr))) @ auth_mounts_dcr dcr @ svms"
proof (cases t)
  case (Component_Other x)
  then show ?thesis using assms(2) by simp
qed (use assms that in \<open>auto simp: NewBaseMainContainer_def bindE_Inr_iff Let_def split: prod.splits\<close>)

lemma selector_keys: "DorisClusterLabelKey \<notin> dom (GenerateStatefulSetSelector dcr t)"
  by (cases t) (simp_all add: feStatefulSetSelector_def beStatefulSetSelector_def cnStatefulSetSelector_def
      brokerStatefulSetSelector_def DorisClusterLabelKey_def OwnerReference_def ComponentLabelKey_def)

lemma selector_in_labels:
  assumes "GetPodLabels dcr t = Inr labels" and "getBaseSpecFromCluster dcr t = Inr spec"
    and "dom (bs_PodLabels spec) \<inter> dom (GenerateStatefulSetSelector dcr t) = {}"
  shows "GenerateStatefulSetSelector dcr t \<subseteq>\<^sub>m labels"
proof -
  have "labels = GenerateStatefulSetSelector dcr t ++ [DorisClusterLabelKey \<mapsto> dcr_Name dcr] ++ bs_PodLabels spec"
    using assms(1,2) by (cases t) (simp_all add: bindE_def AddLabel_def getDefaultLabels_def)
  moreover have "bs_PodLabels spec k = None" "k \<noteq> DorisClusterLabelKey" if "k \<in> dom (GenerateStatefulSetSelector dcr t)" for k
    using that assms(3) selector_keys [of dcr t] by blast+
  ultimately show ?thesis by (simp add: map_le_def map_add_def)
qed

text \<open>
  What every builder does: it puts containers with the mounts of the main container into
  the template, and keeps its labels and volumes.
\<close>

lemma component_well_formed:
  assumes st: "NewStatefulSet K dcr config t = Inr st" and c: "NewBaseMainContainer dcr config t = Inr c"
    and spec: "getBaseSpecFromCluster dcr t = Inr spec"
    and "dom (bs_PodLabels spec) \<inter> dom (GenerateStatefulSetSelector dcr t) = {}"
    and "pt_Labels pts = pt_Labels (sts_Template st)" and "pt_Volumes pts = pt_Volumes (sts_Template st)"
    and "\<forall>d \<in> set (pt_Containers pts). c_VolumeMounts d = c_VolumeMounts c"
  shows "dcr_well_formed dcr (st\<lparr>sts_Template := pts\<rparr>)"
proof -
  obtain svs svms paths where sh:
      "BuildSharedVolumesAndVolumeMounts (dcs_SharedPersistentVolumeClaims (dcr_Spec dcr)) t = (svs, svms, paths)"
    by (cases "BuildSharedVolumesAndVolumeMounts (dcs_SharedPersistentVolumeClaims (dcr_Spec dcr)) t")
  obtain spec' pvs vs where s: "getBaseSpecFromCluster dcr t = Inr spec'"
    and pvs: "GenerateEveryoneMountPathDorisPersistentVolume spec' paths config t = Inr pvs"
    and vs: "spec_volumes spec' paths config t = Inr vs" and "NewPodTemplateSpec dcr config t = Inr (sts_Template st)"
    and sel: "sts_Selector st = GenerateStatefulSetSelector dcr t"
    and vct: "sts_VolumeClaimTemplates st = map (claim_template K) pvs"
    and lab: "GetPodLabels dcr t = Inr (pt_Labels (sts_Template st))"
    and vol: "pt_Volumes (sts_Template st) = (if vs = [] then fst (getDefaultVolumesVolumeMounts t) else vs) @
      [podinfo_volume] @ auth_volumes_dcr dcr @ fst (getMultiConfigVolumeAndVolumeMount (bs_ConfigMapInfo spec')) @
      fst (getMultiSecretVolumeAndVolumeMount spec') @
      fst (getKerberosVolumeAndVolumeMount (dcs_KerberosInfo (dcr_Spec dcr))) @ svs"
    by (rule NewStatefulSet_parts [OF st sh])
  have spec': "spec' = spec" using s spec by simp
  obtain vms where vms: "buildVolumeMounts spec paths config t = Inr vms"
    and m: "c_VolumeMounts c = vms @ snd (getMultiConfigVolumeAndVolumeMount (bs_ConfigMapInfo spec)) @
      snd (getMultiSecretVolumeAndVolumeMount spec) @
      snd (getKerberosVolumeAndVolumeMount (dcs_KerberosInfo (dcr_Spec dcr))) @ auth_mounts_dcr dcr @ svms"
    by (rule NewBaseMainContainer_mounts [OF c spec sh])
  have names: "pvc_Name ` claim_template K ` set pvs = dpv_Name ` set pvs"
    by (simp add: image_image claim_template_def)
  have "claimed (if vs = [] then fst (getDefaultVolumesVolumeMounts t) else vs) (map (claim_template K) pvs)"
    using spec_volumes_cases [OF pvs vs] dcr_default_parts(2) [of t "map (claim_template K) pvs"]
    by (cases "vs = []") (simp_all add: claimed_def claim_template_def image_image)
  then have "\<exists>W. pt_Volumes (sts_Template st) = W @ svs \<and> claimed W (map (claim_template K) pvs)"
    unfolding vol by (simp add: template_simps)
  then have "\<forall>v \<in> set (pt_Volumes (sts_Template st)). \<forall>n. claim_name (v_Source v) = Some n \<longrightarrow>
      n \<in> pvc_Name ` set (map (claim_template K) pvs) \<union>
          spvc_PersistentVolumeClaimName ` set (dcs_SharedPersistentVolumeClaims (dcr_Spec dcr))"
    using shared_parts(2) [OF sh] by (auto simp: claimed_def image_image)
  moreover have "vm_Name ` set (c_VolumeMounts c) \<subseteq> v_Name ` set (pt_Volumes (sts_Template st)) \<union> dpv_Name ` set pvs"
    using buildVolumeMounts_names [OF pvs vs] vms shared_parts(1) [OF sh]
    unfolding vol m spec' set_append image_Un dcr_parts by (auto simp: podinfo_backed)
  moreover have "GenerateStatefulSetSelector dcr t \<subseteq>\<^sub>m pt_Labels (sts_Template st)"
    by (rule selector_in_labels [OF lab spec assms(4)])
  ultimately show ?thesis
    using assms(5-7) unfolding dcr_well_formed_def by (simp add: sel vct names)
qed

section \<open>The builders\<close>

lemma security_context_mounts:
  "d \<in> set (ApplySecurityContext cs ctx) \<Longrightarrow> \<exists>c \<in> set cs. c_VolumeMounts d = c_VolumeMounts c"
  by (auto simp: ApplySecurityContext_def split: option.splits if_splits)

lemma affinity_keeps:
  "pt_Labels (addFeAffinity pts) = pt_Labels pts" "pt_Volumes (addFeAffinity pts) = pt_Volumes pts"
  "pt_Containers (addFeAffinity pts) = pt_Containers pts"
  "pt_Labels (addFeAntiAffinity pts) = pt_Labels pts" "pt_Volumes (addFeAntiAffinity pts) = pt_Volumes pts"
  "pt_Containers (addFeAntiAffinity pts) = pt_Containers pts"
  "pt_Labels (addDefaultBorkerPodAffinity b pts) = pt_Labels pts" "pt_Volumes (addDefaultBorkerPodAffinity b pts) = pt_Volumes pts"
  "pt_Containers (addDefaultBorkerPodAffinity b pts) = pt_Containers pts"
  by (simp_all add: addFeAffinity_def addFeAntiAffinity_def addDefaultBorkerPodAffinity_def Let_def)

lemma node_container_mounts:
  assumes "node_container K dcr t config w = (Inr c, w')"
  shows "\<exists>c0. NewBaseMainContainer dcr config t = Inr c0 \<and> c_VolumeMounts c = c_VolumeMounts c0"
  using assms by (auto simp: node_container_def bindW_def liftW_def split: prod.splits sum.splits)

lemma feContainer_mounts:
  assumes "feContainer dcr config = Inr c"
  shows "\<exists>c0. NewBaseMainContainer dcr config Component_FE = Inr c0 \<and> c_VolumeMounts c = c_VolumeMounts c0"
  using assms by (auto simp: feContainer_def bindE_Inr_iff)

lemma NewStatefulSet_template:
  "NewStatefulSet K dcr config t = Inr st \<Longrightarrow> NewPodTemplateSpec dcr config t = Inr (sts_Template st)"
  by (cases "BuildSharedVolumesAndVolumeMounts (dcs_SharedPersistentVolumeClaims (dcr_Spec dcr)) t" rule: prod_cases3)
    (auto simp: NewStatefulSet_def bindE_Inr_iff)

text \<open>
  A builder: a template that keeps labels and volumes of the new one and has one container
  with the mounts of the main one.
\<close>

lemma builder_well_formed:
  assumes "NewStatefulSet K dcr config t = Inr st" and "NewPodTemplateSpec dcr config t = Inr pts0"
    and "NewBaseMainContainer dcr config t = Inr c0" and "c_VolumeMounts c = c_VolumeMounts c0"
    and "pt_Labels pts = pt_Labels pts0" and "pt_Volumes pts = pt_Volumes pts0"
    and "getBaseSpecFromCluster dcr t = Inr spec"
    and "dom (bs_PodLabels spec) \<inter> dom (GenerateStatefulSetSelector dcr t) = {}"
  shows "dcr_well_formed dcr (st\<lparr>sts_Template := pts\<lparr>pt_Containers := ApplySecurityContext [c] ctx\<rparr>\<rparr>)"
proof -
  have "sts_Template st = pts0" using NewStatefulSet_template [OF assms(1)] assms(2) by simp
  then show ?thesis
    using assms(4-6) by (intro component_well_formed [OF assms(1,3,7,8)]) (auto dest: security_context_mounts)
qed

lemma template_containers: "NewPodTemplateSpec dcr config t = Inr pts \<Longrightarrow> pt_Containers pts = []"
  by (cases "BuildSharedVolumesAndVolumeMounts (dcs_SharedPersistentVolumeClaims (dcr_Spec dcr)) t" rule: prod_cases3)
    (auto simp: NewPodTemplateSpec_def bindE_Inr_iff zero_pod_template_def)

lemma buildFEStatefulSet_well_formed:
  assumes "buildFEStatefulSet K dcr config = Inr st" and "getBaseSpecFromCluster dcr Component_FE = Inr spec"
    and "dom (bs_PodLabels spec) \<inter> dom (GenerateStatefulSetSelector dcr Component_FE) = {}"
  shows "dcr_well_formed dcr st"
proof -
  obtain st0 pts where st0: "NewStatefulSet K dcr config Component_FE = Inr st0"
    and "buildFEPodTemplateSpec dcr config = Inr pts" and st: "st = st0\<lparr>sts_Template := pts\<rparr>"
    using assms(1) by (auto simp: buildFEStatefulSet_def bindE_Inr_iff)
  then obtain pts0 pts1 c ctx where t: "NewPodTemplateSpec dcr config Component_FE = Inr pts0"
    and g: "AddTerminationGracePeriodSeconds config DEFAULT_FE_TERMINATION_GRACE_PERIOD_SECONDS pts0 = Inr pts1"
    and c: "feContainer dcr config = Inr c" and pts: "pts = pts1\<lparr>pt_Containers := ApplySecurityContext [c] ctx\<rparr>"
    by (auto simp: buildFEPodTemplateSpec_def bindE_Inr_iff)
  from feContainer_mounts [OF c] obtain c0 where
    c0: "NewBaseMainContainer dcr config Component_FE = Inr c0" "c_VolumeMounts c = c_VolumeMounts c0" by blast
  show ?thesis
    unfolding st pts using builder_well_formed [OF st0 t c0 _ _ assms(2,3)] grace_period_keeps [OF g] by simp
qed

text \<open>
  The builders of BE, compute nodes and broker read the configuration again; the reading is
  the same where the config maps do not change meanwhile.
\<close>

lemma buildBEStatefulSet_well_formed:
  assumes "buildBEStatefulSet K dcr beSpec config w = (Inr (st, dcr'), w')"
    and "getBaseSpecFromCluster dcr Component_BE = Inr spec" and "dcr_BeSpec dcr = Some beSpec"
    and "dom (bs_PodLabels spec) \<inter> dom (GenerateStatefulSetSelector dcr Component_BE) = {}"
    and "\<And>w. fst (GetConfig K (bs_ConfigMapInfo spec) (dcr_Namespace dcr) Component_BE w) = config"
  shows "dcr_well_formed dcr st"
proof -
  obtain st0 pts w1 where st0: "NewStatefulSet K dcr config Component_BE = Inr st0"
    and "buildBEPodTemplateSpec K dcr beSpec config w1 = (Inr (pts, dcr'), w')" and st: "st = st0\<lparr>sts_Template := pts\<rparr>"
    using assms(1) by (auto simp: buildBEStatefulSet_def bindW_def liftW_def split: prod.splits sum.splits)
  then obtain pts0 pts1 c ctx w2 w3 where t: "NewPodTemplateSpec dcr config Component_BE = Inr pts0"
    and g: "pt_Labels pts1 = pt_Labels pts0" "pt_Volumes pts1 = pt_Volumes pts0" "pt_Containers pts1 = pt_Containers pts0"
    and c: "beContainer K dcr beSpec w2 = (Inr c, w3)"
    and pts: "pts = pts1\<lparr>pt_Containers := ApplySecurityContext (pt_Containers pts1 @ [c]) ctx\<rparr>"
    by (auto simp: buildBEPodTemplateSpec_def bindW_def liftW_def Let_def affinity_keeps dest!: grace_period_keeps
        split: prod.splits sum.splits if_splits)
  have spec: "spec = beSpec_BaseSpec beSpec" using assms(2,3) by simp
  obtain c1 w4 where n: "node_container K dcr Component_BE config w4 = (Inr c1, w3)" and c1: "c_VolumeMounts c = c_VolumeMounts c1"
    using c assms(5) unfolding beContainer_def spec
    by (auto simp: bindW_def liftW_def readW_def split: prod.splits sum.splits) (metis fst_conv)+
  from node_container_mounts [OF n] obtain c0 where
    c0: "NewBaseMainContainer dcr config Component_BE = Inr c0" "c_VolumeMounts c = c_VolumeMounts c0" using c1 by auto
  show ?thesis
    unfolding st pts g(3) template_containers [OF t] append_Nil
    using builder_well_formed [OF st0 t c0 g(1,2) assms(2,4)] .
qed

lemma buildCnStatefulSet_well_formed:
  assumes "buildCnStatefulSet K dcr cnSpec config w = (Inr st, w')"
    and "getBaseSpecFromCluster dcr Component_CN = Inr spec" and "dcr_CnSpec dcr = Some cnSpec"
    and "dom (bs_PodLabels spec) \<inter> dom (GenerateStatefulSetSelector dcr Component_CN) = {}"
    and "\<And>w. fst (GetConfig K (bs_ConfigMapInfo spec) (dcr_Namespace dcr) Component_CN w) = config"
  shows "dcr_well_formed dcr st"
proof -
  obtain st0 pts w1 where st0: "NewStatefulSet K dcr config Component_CN = Inr st0"
    and "buildCnPodTemplateSpec K dcr cnSpec config w1 = (Inr pts, w')" and st: "st = st0\<lparr>sts_Template := pts\<rparr>"
    using assms(1) by (auto simp: buildCnStatefulSet_def bindW_def liftW_def split: prod.splits sum.splits)
  then obtain pts0 pts1 c ctx w2 w3 where t: "NewPodTemplateSpec dcr config Component_CN = Inr pts0"
    and g: "pt_Labels pts1 = pt_Labels pts0" "pt_Volumes pts1 = pt_Volumes pts0" "pt_Containers pts1 = pt_Containers pts0"
    and c: "cnContainer K dcr cnSpec w2 = (Inr c, w3)"
    and pts: "pts = pts1\<lparr>pt_Containers := ApplySecurityContext (pt_Containers pts1 @ [c]) ctx\<rparr>"
    by (auto simp: buildCnPodTemplateSpec_def bindW_def liftW_def dest!: grace_period_keeps split: prod.splits sum.splits)
  have spec: "spec = cnSpec_BaseSpec cnSpec" using assms(2,3) by simp
  have read: "fst (fst (k8s_GetConfig K (bs_ConfigMapInfo spec) (dcr_Namespace dcr) Component_CN v)) = config" for v
    using assms(5) [of v] by (simp add: GetConfig_def split: prod.splits)
  obtain c1 w4 where n: "node_container K dcr Component_CN config w4 = (Inr c1, w3)" and c1: "c_VolumeMounts c = c_VolumeMounts c1"
    using c read [of w2] unfolding cnContainer_def spec
    by (auto simp: bindW_def liftW_def readW_def split: prod.splits sum.splits)
  from node_container_mounts [OF n] obtain c0 where
    c0: "NewBaseMainContainer dcr config Component_CN = Inr c0" "c_VolumeMounts c = c_VolumeMounts c0" using c1 by auto
  show ?thesis
    unfolding st pts g(3) template_containers [OF t] append_Nil
    using builder_well_formed [OF st0 t c0 g(1,2) assms(2,4)] .
qed

lemma buildBKStatefulSet_well_formed:
  assumes "buildBKStatefulSet K dcr brokerSpec config w = (Inr st, w')"
    and "getBaseSpecFromCluster dcr Component_Broker = Inr spec" and "dcr_BrokerSpec dcr = Some brokerSpec"
    and "dom (bs_PodLabels spec) \<inter> dom (GenerateStatefulSetSelector dcr Component_Broker) = {}"
    and "\<And>w. fst (GetConfig K (bs_ConfigMapInfo spec) (dcr_Namespace dcr) Component_Broker w) = config"
  shows "dcr_well_formed dcr st"
proof -
  obtain st0 pts w1 where st0: "NewStatefulSet K dcr config Component_Broker = Inr st0"
    and "buildBrokerPodTemplateSpec K dcr brokerSpec config w1 = (Inr pts, w')" and st: "st = st0\<lparr>sts_Template := pts\<rparr>"
    using assms(1) by (auto simp: buildBKStatefulSet_def bindW_def liftW_def split: prod.splits sum.splits)
  then obtain pts0 c w2 w3 where t: "NewPodTemplateSpec dcr config Component_Broker = Inr pts0"
    and c: "brokerContainer K dcr brokerSpec w2 = (Inr c, w3)"
    and pts: "pts = (addDefaultBorkerPodAffinity brokerSpec pts0)\<lparr>pt_Containers := ApplySecurityContext
      (pt_Containers (addDefaultBorkerPodAffinity brokerSpec pts0) @ [c])
      (bs_ContainerSecurityContext (brokerSpec_BaseSpec brokerSpec))\<rparr>"
    by (auto simp: buildBrokerPodTemplateSpec_def bindW_def liftW_def Let_def split: prod.splits sum.splits)
  have spec: "spec = brokerSpec_BaseSpec brokerSpec" using assms(2,3) by simp
  obtain w4 where n: "node_container K dcr Component_Broker config w4 = (Inr c, w3)"
    using c assms(5) [of w2] unfolding brokerContainer_def spec
    by (auto simp: bindW_def readW_def split: prod.splits sum.splits)
  from node_container_mounts [OF n] obtain c0 where
    c0: "NewBaseMainContainer dcr config Component_Broker = Inr c0" "c_VolumeMounts c = c_VolumeMounts c0" by auto
  show ?thesis
    unfolding st pts affinity_keeps template_containers [OF t] append_Nil
    by (rule builder_well_formed [OF st0 t c0 _ _ assms(2,4)]) (simp_all add: affinity_keeps)
qed

text \<open>
  C32. Every StatefulSet that a controller of a DorisCluster builds is well formed: its
  template carries the labels that the selector asks for, every mount names a volume of the
  pod or a claim template, and every volume that is a claim has a claim template or is
  shared. The pod labels of the specification must not set the keys of the selector, and for
  BE, compute nodes and broker the two readings of the configuration must agree.
\<close>

theorem dcr_statefulsets_well_formed:
  assumes "getBaseSpecFromCluster dcr t = Inr spec"
    and "dom (bs_PodLabels spec) \<inter> dom (GenerateStatefulSetSelector dcr t) = {}"
    and "\<And>w. fst (GetConfig K (bs_ConfigMapInfo spec) (dcr_Namespace dcr) t w) = config"
    and "t = Component_FE \<and> buildFEStatefulSet K dcr config = Inr st \<or>
      t = Component_BE \<and> (\<exists>beSpec w w' dcr'. dcr_BeSpec dcr = Some beSpec \<and>
        buildBEStatefulSet K dcr beSpec config w = (Inr (st, dcr'), w')) \<or>
      t = Component_CN \<and> (\<exists>cnSpec w w'. dcr_CnSpec dcr = Some cnSpec \<and>
        buildCnStatefulSet K dcr cnSpec config w = (Inr st, w')) \<or>
      t = Component_Broker \<and> (\<exists>brokerSpec w w'. dcr_BrokerSpec dcr = Some brokerSpec \<and>
        buildBKStatefulSet K dcr brokerSpec config w = (Inr st, w'))"
  shows "dcr_well_formed dcr st"
  using assms(4)
proof (elim disjE conjE exE)
  assume "t = Component_FE" "buildFEStatefulSet K dcr config = Inr st"
  then show ?thesis using buildFEStatefulSet_well_formed assms(1,2) by blast
next
  fix b w w' d assume "t = Component_BE" "dcr_BeSpec dcr = Some b" "buildBEStatefulSet K dcr b config w = (Inr (st, d), w')"
  then show ?thesis
    by (intro buildBEStatefulSet_well_formed [of K dcr b config w]) (use assms(1-3) in \<open>simp_all only:\<close>)
next
  fix b w w' assume "t = Component_CN" "dcr_CnSpec dcr = Some b" "buildCnStatefulSet K dcr b config w = (Inr st, w')"
  then show ?thesis
    by (intro buildCnStatefulSet_well_formed [of K dcr b config w]) (use assms(1-3) in \<open>simp_all only:\<close>)
next
  fix b w w' assume "t = Component_Broker" "dcr_BrokerSpec dcr = Some b" "buildBKStatefulSet K dcr b config w = (Inr st, w')"
  then show ?thesis
    by (intro buildBKStatefulSet_well_formed [of K dcr b config w]) (use assms(1-3) in \<open>simp_all only:\<close>)
qed

lemma dcr_statefulsets_well_formed_witness:
  "\<exists>st. buildFEStatefulSet (dcr_server sample_dcr) sample_dcr [] = Inr st \<and> dcr_well_formed sample_dcr st"
proof -
  have "\<not> isl (buildFEStatefulSet (dcr_server sample_dcr) sample_dcr [])" by code_simp
  then obtain st where st: "buildFEStatefulSet (dcr_server sample_dcr) sample_dcr [] = Inr st"
    by (cases "buildFEStatefulSet (dcr_server sample_dcr) sample_dcr []") auto
  have spec: "getBaseSpecFromCluster sample_dcr Component_FE = Inr (zero_BaseSpec\<lparr>bs_Replicas := Some 1\<rparr>)"
    by (simp add: sample_dcr_def)
  show ?thesis
    using dcr_statefulsets_well_formed [OF spec, of "dcr_server sample_dcr" "[]" st] st
    by (simp add: GetConfig_def k8s_GetConfig_def GetMountConfigMapInfo_def zero_BaseSpec_def)
qed

end
