(* ===== verification/Disagg_Watches.thy ===== *)
theory Disagg_Watches
  imports Template_Props
begin

text \<open>
  What reaches the reconciler of a disaggregated cluster: the validation of its
  specification by the webhook (\<^verbatim>\<open>disaggregatedcluster_webhook.go\<close>) and the events on
  pods that ask for a pass (\<^verbatim>\<open>watchPodBuilder\<close>), with the properties that tie both to
  the controllers: an accepted FE is not corrected, and the pods of every StatefulSet that
  is built ask for a pass over their own cluster.
\<close>

section \<open>Webhook\<close>

text \<open>\<^verbatim>\<open>strings.EqualFold\<close> on ASCII text; an accepted cluster has no messages.\<close>

definition validateManagementUser_ddc :: "DorisDisaggregatedCluster \<Rightarrow> string list" where
  "validateManagementUser_ddc ddc =
     (case spec_AdminUser (ddc_Spec ddc) of
        None \<Rightarrow> []
      | Some u \<Rightarrow>
          if ToLower (au_Name u) = ''admin''
          then [[CHR 0x27] @ ''adminUser.name'' @ [CHR 0x27] @ '' error: admin is not supported as management user, use root or a dedicated user with NODE_PRIV''] else [])"

definition validateFEReplicas :: "DorisDisaggregatedCluster \<Rightarrow> string option" where
  "validateFEReplicas ddc =
     (case fe_Replicas ddc of
        None \<Rightarrow> None
      | Some r \<Rightarrow>
          if r < GetElectionNumber ddc
          then Some ([CHR 0x27] @ ''FeSpec.Replicas'' @ [CHR 0x27] @ '' error: the number of FeSpec.Replicas should greater than or equal to FeSpec.ElectionNumber'')
          else None)"

definition validate_ddc :: "DorisDisaggregatedCluster \<Rightarrow> string list" where
  "validate_ddc ddc =
     validateManagementUser_ddc ddc @ (case validateFEReplicas ddc of None \<Rightarrow> [] | Some e \<Rightarrow> [e])"

definition ValidateCreate_ddc :: "DorisDisaggregatedCluster \<Rightarrow> string list" where
  "ValidateCreate_ddc cluster = validate_ddc cluster"

definition ValidateUpdate_ddc :: "DorisDisaggregatedCluster \<Rightarrow> string list" where
  "ValidateUpdate_ddc cluster = validate_ddc cluster"

section \<open>Events on pods\<close>

definition ddc_pod_requests :: "pod \<Rightarrow> (string \<times> string) list" where
  "ddc_pod_requests p =
     (let dorisName = map_get (pod_Labels p) DorisDisaggregatedClusterName
      in if dorisName \<noteq> '''' then [(pod_Namespace p, dorisName)] else [])"

text \<open>
  The predicates on events. Of an update the labels before it count.
\<close>

fun ddc_event_passes :: "pod_event \<Rightarrow> bool" where
  "ddc_event_passes (PodCreated p) = (pod_Labels p DorisDisaggregatedClusterName \<noteq> None)"
| "ddc_event_passes (PodUpdated same old new) = (pod_Labels old DorisDisaggregatedClusterName \<noteq> None \<and> \<not> same)"
| "ddc_event_passes (PodDeleted p) = (pod_Labels p DorisDisaggregatedClusterName \<noteq> None)"

section \<open>Properties\<close>

text \<open>
  The webhook accepts a cluster exactly when its management user is not admin and the
  replicas of the FE, where given, reach the election number; the FE controller then leaves
  the replicas of an accepted cluster as they are and reports nothing.
\<close>

theorem accepted_replicas_kept:
  "(ValidateUpdate_ddc ddc = []) =
     ((\<forall>u. spec_AdminUser (ddc_Spec ddc) = Some u \<longrightarrow> ToLower (au_Name u) \<noteq> ''admin'') \<and>
      (\<forall>r. fe_Replicas ddc = Some r \<longrightarrow> GetElectionNumber ddc \<le> r)) \<and>
   (ValidateUpdate_ddc ddc = [] \<and> fe_Replicas ddc \<noteq> None \<longrightarrow> correctReplicas K st ddc w = (Inr (st, ddc), w))"
  by (auto simp: ValidateUpdate_ddc_def validate_ddc_def validateManagementUser_ddc_def validateFEReplicas_def
      correctReplicas_def Let_def split: option.splits if_splits)

lemma accepted_replicas_kept_witness:
  "let ddc = set_FeReplicas 3 zero_ddc
   in ValidateUpdate_ddc ddc = [] \<and> correctReplicas mem_env zero_sts ddc zero_world = (Inr (zero_sts, ddc), zero_world)"
proof -
  let ?ddc = "set_FeReplicas 3 zero_ddc"
  have v: "ValidateUpdate_ddc ?ddc = []" and r: "fe_Replicas ?ddc \<noteq> None" by code_simp+
  with accepted_replicas_kept [of ?ddc mem_env zero_sts zero_world] show ?thesis by (simp add: Let_def)
qed

abbreviation user_labels_free :: "common_spec \<Rightarrow> bool" where
  "user_labels_free cs \<equiv> cms_Labels cs DorisDisaggregatedClusterName = None"

lemmas selector_defs = msPodLabels_def cgPodLabels_def newMSPodsSelector_def newFEPodsSelector_def newCGPodsSelector_def

lemma label_keys_differ:
  "DorisDisaggregatedPodType \<noteq> DorisDisaggregatedClusterName"
  "DorisDisaggregatedOwnerReference \<noteq> DorisDisaggregatedClusterName"
  "DorisDisaggregatedComputeGroupUniqueId \<noteq> DorisDisaggregatedClusterName"
  "DorisDisaggregatedClusterName \<noteq> DorisDisaggregatedPodType"
  "DorisDisaggregatedClusterName \<noteq> DorisDisaggregatedOwnerReference"
  "DorisDisaggregatedClusterName \<noteq> DorisDisaggregatedComputeGroupUniqueId"
  by (simp_all add: DorisDisaggregatedPodType_def DorisDisaggregatedClusterName_def
      DorisDisaggregatedOwnerReference_def DorisDisaggregatedComputeGroupUniqueId_def)

lemma built_selector:
  "newMSStatefulset K ddc confMap w = (Inr (st, ddc'), w') \<Longrightarrow>
     user_labels_free (ms_CommonSpec (spec_MetaService (ddc_Spec ddc))) \<Longrightarrow>
     sts_Selector st DorisDisaggregatedClusterName = Some (ddc_Name ddc) \<and> sts_Namespace st = ddc_Namespace ddc"
  "newFEStatefulset K ddc confMap w = (Inr (st, ddc'), w') \<Longrightarrow>
     sts_Selector st DorisDisaggregatedClusterName = Some (ddc_Name ddc) \<and> sts_Namespace st = ddc_Namespace ddc"
  "NewCGStatefulset K ddc cg confMap w = (Inr (st, cg'), w') \<Longrightarrow> user_labels_free (cg_CommonSpec cg) \<Longrightarrow>
     sts_Selector st DorisDisaggregatedClusterName = Some (ddc_Name ddc) \<and> sts_Namespace st = ddc_Namespace ddc"
proof -
  let ?cs = "ms_CommonSpec (spec_MetaService (ddc_Spec ddc))"
  assume built: "newMSStatefulset K ddc confMap w = (Inr (st, ddc'), w')" and free: "user_labels_free ?cs"
  obtain pts cs' where base: "NewPodTemplateSpecWithCommonSpec False ?cs DisaggregatedMS = (pts, cs')" by fastforce
  then obtain si where cs': "cs' = ?cs\<lparr>cms_SystemInitialization := si\<rparr>" using base_template(3) by blast
  have "sts_Selector st = msPodLabels (set_MsCommonSpec cs' ddc) \<and> sts_Namespace st = ddc_Namespace ddc"
    using built base
    by (auto simp: newMSStatefulset_def NewMSPodTemplateSpec_def Let_def bindW_Inr_iff liftW_def
        NewDefaultStatefulset_def set_MsCommonSpec_def simp del: bindW_lift)
  then show "sts_Selector st DorisDisaggregatedClusterName = Some (ddc_Name ddc) \<and> sts_Namespace st = ddc_Namespace ddc"
    using free by (simp add: cs' selector_defs label_keys_differ map_add_def set_MsCommonSpec_def)
next
  assume "newFEStatefulset K ddc confMap w = (Inr (st, ddc'), w')"
  then show "sts_Selector st DorisDisaggregatedClusterName = Some (ddc_Name ddc) \<and> sts_Namespace st = ddc_Namespace ddc"
    by (auto simp: newFEStatefulset_def NewFEPodTemplateSpec_def Let_def bindW_Inr_iff liftW_def selector_defs
        label_keys_differ NewDefaultStatefulset_def set_FeCommonSpec_def split: prod.splits simp del: bindW_lift)
next
  assume "NewCGStatefulset K ddc cg confMap w = (Inr (st, cg'), w')" and "user_labels_free (cg_CommonSpec cg)"
  then show "sts_Selector st DorisDisaggregatedClusterName = Some (ddc_Name ddc) \<and> sts_Namespace st = ddc_Namespace ddc"
    by (auto simp: NewCGStatefulset_def bindW_Inr_iff liftW_def selector_defs label_keys_differ map_add_def
        NewDefaultStatefulset_def simp del: bindW_lift)
qed

text \<open>
  C28. Every pod of a StatefulSet that the operator builds for a disaggregated cluster, one
  in its namespace that carries the labels of the template, asks for a pass over exactly
  this cluster when it is created, deleted or updated. The labels of the specification must
  not set the label of the cluster (for the FE, none of the selector).
\<close>

theorem pods_request_their_cluster:
  assumes "(\<exists>ddc' w'. newMSStatefulset K ddc confMap w = (Inr (st, ddc'), w')) \<and>
      user_labels_free (ms_CommonSpec (spec_MetaService (ddc_Spec ddc))) \<or>
    (\<exists>ddc' w'. newFEStatefulset K ddc confMap w = (Inr (st, ddc'), w')) \<and>
      dom (cms_Labels (fes_CommonSpec (spec_FeSpec (ddc_Spec ddc)))) \<inter> dom (newFEPodsSelector (ddc_Name ddc)) = {} \<or>
    (\<exists>cg' w'. NewCGStatefulset K ddc cg confMap w = (Inr (st, cg'), w')) \<and> user_labels_free (cg_CommonSpec cg)"
    and "pt_Labels (sts_Template st) \<subseteq>\<^sub>m pod_Labels p" and "pod_Namespace p = sts_Namespace st"
    and "ddc_Name ddc \<noteq> ''''"
  shows "ddc_pod_requests p = [(ddc_Namespace ddc, ddc_Name ddc)] \<and>
    ddc_event_passes (PodCreated p) \<and> ddc_event_passes (PodDeleted p) \<and> ddc_event_passes (PodUpdated False p new)"
proof -
  have wf: "well_formed st"
    using assms(1)
    by (auto intro: newMSStatefulset_well_formed newFEStatefulset_well_formed NewCGStatefulset_well_formed)
  have st: "sts_Selector st DorisDisaggregatedClusterName = Some (ddc_Name ddc) \<and> sts_Namespace st = ddc_Namespace ddc"
    using assms(1) by (elim disjE conjE exE) (simp_all only: built_selector simp_thms)
  have "sts_Selector st \<subseteq>\<^sub>m pod_Labels p"
    using wf assms(2) by (auto simp: well_formed_def intro: map_le_trans)
  then have "pod_Labels p DorisDisaggregatedClusterName = Some (ddc_Name ddc)"
    using st by (metis domI map_le_def)
  with assms(3,4) st show ?thesis by (simp add: ddc_pod_requests_def map_get_def)
qed

lemma pods_request_their_cluster_witness:
  "\<exists>st ddc' w'. newMSStatefulset mem_env (data_cluster\<lparr>ddc_Name := ''c''\<rparr>) [] zero_world = (Inr (st, ddc'), w') \<and>
     ddc_pod_requests (zero_pod\<lparr>pod_Labels := pt_Labels (sts_Template st), pod_Namespace := sts_Namespace st\<rparr>) =
     [(ddc_Namespace data_cluster, ''c'')]"
proof -
  let ?ddc = "data_cluster\<lparr>ddc_Name := ''c''\<rparr>"
  have "\<not> isl (fst (newMSStatefulset mem_env ?ddc [] zero_world))" by code_simp
  then obtain st ddc' w' where r: "newMSStatefulset mem_env ?ddc [] zero_world = (Inr (st, ddc'), w')"
    by (cases "newMSStatefulset mem_env ?ddc [] zero_world";
        cases "fst (newMSStatefulset mem_env ?ddc [] zero_world)") auto
  have "user_labels_free (ms_CommonSpec (spec_MetaService (ddc_Spec ?ddc)))" by code_simp
  with r pods_request_their_cluster [of mem_env ?ddc "[]" zero_world st _
      "zero_pod\<lparr>pod_Labels := pt_Labels (sts_Template st), pod_Namespace := sts_Namespace st\<rparr>"]
  have "ddc_pod_requests (zero_pod\<lparr>pod_Labels := pt_Labels (sts_Template st), pod_Namespace := sts_Namespace st\<rparr>) =
     [(ddc_Namespace ?ddc, ddc_Name ?ddc)]" by auto
  then have "ddc_pod_requests (zero_pod\<lparr>pod_Labels := pt_Labels (sts_Template st), pod_Namespace := sts_Namespace st\<rparr>) =
     [(ddc_Namespace data_cluster, ''c'')]" by simp
  with r show ?thesis by blast
qed

end
