(* ===== verification/Webhook_Certs.thy ===== *)
theory Webhook_Certs
  imports Kube_Types
begin

text \<open>
  The certificates of the admission webhooks (\<^verbatim>\<open>common/utils/certificate\<close> and
  \<^verbatim>\<open>controller/unnamedwatches\<close>): a self-signed certificate in a secret, the copies of it
  that the API server trusts in the two webhook configurations, the reconcile that renews
  the one and repeats it in the others, and the events that lead to it.

  Keys, signatures and their encodings are parameters: \<^verbatim>\<open>crypto/rsa\<close>, \<^verbatim>\<open>crypto/x509\<close>
  and \<^verbatim>\<open>encoding/pem\<close> as functions on bytes, the source of random numbers as part of the
  outside world. A private key is an opaque value; of a certificate the model has the fields
  that the code writes or reads; the key that the options of a certificate may give is never
  read. Times are nanoseconds.
\<close>

section \<open>Keys and certificates\<close>

type_synonym bytes = string
type_synonym rsa_key = string

datatype public_key = NoPublicKey | RSAPublicKey string | OtherPublicKey

record x509_certificate =
  x509_SerialNumber :: int
  x509_CommonName :: string
  x509_Organization :: "string list"
  x509_NotBefore :: time
  x509_NotAfter :: time
  x509_DNSNames :: "string list"
  x509_PublicKey :: public_key

record pem_block =
  pem_Type :: string
  pem_Bytes :: bytes

record webhook_configuration =
  wc_Name :: string
  wc_CABundles :: "bytes list"

text \<open>
  The watches use a client set of their own. \<open>RandInt\<close> and \<open>GenerateKey\<close> read the source of random numbers, \<open>CreateCertificate\<close>
  signs a template with a key. The configurations are read and written by name; an update
  answers with an error or nothing.
\<close>

record 'w cert_env =
  TimeNow :: "'w \<Rightarrow> time \<times> 'w"
  RandInt :: "int \<Rightarrow> 'w \<Rightarrow> (go_error + int) \<times> 'w"
  GenerateKey :: "'w \<Rightarrow> (go_error + rsa_key) \<times> 'w"
  CreateCertificate :: "x509_certificate \<Rightarrow> rsa_key \<Rightarrow> 'w \<Rightarrow> (go_error + bytes) \<times> 'w"
  PublicOf :: "rsa_key \<Rightarrow> string"
  MarshalPKCS1PrivateKey :: "rsa_key \<Rightarrow> bytes"
  ParsePKCS1PrivateKey :: "bytes \<Rightarrow> go_error + rsa_key"
  ParseCertificates :: "bytes \<Rightarrow> go_error + x509_certificate list"
  PemEncode :: "pem_block \<Rightarrow> bytes"
  PemDecode :: "bytes \<Rightarrow> pem_block option"
  SecretsGet :: "string \<Rightarrow> string \<Rightarrow> 'w \<Rightarrow> (go_error + secret) \<times> 'w"
  SecretsUpdate :: "secret \<Rightarrow> 'w \<Rightarrow> go_error option \<times> 'w"
  GetMutating :: "string \<Rightarrow> 'w \<Rightarrow> (go_error + webhook_configuration) \<times> 'w"
  UpdateMutating :: "webhook_configuration \<Rightarrow> 'w \<Rightarrow> go_error option \<times> 'w"
  GetValidating :: "string \<Rightarrow> 'w \<Rightarrow> (go_error + webhook_configuration) \<times> 'w"
  UpdateValidating :: "webhook_configuration \<Rightarrow> 'w \<Rightarrow> go_error option \<times> 'w"
  PodsList :: "string \<Rightarrow> string_map \<Rightarrow> 'w \<Rightarrow> (go_error + pod list) \<times> 'w"
  PodsGet :: "string \<Rightarrow> string \<Rightarrow> 'w \<Rightarrow> (go_error + pod) \<times> 'w"
  PodsUpdate :: "pod \<Rightarrow> 'w \<Rightarrow> go_error option \<times> 'w"
  RetryPod :: "('w \<Rightarrow> go_error option \<times> 'w) \<Rightarrow> 'w \<Rightarrow> go_error option \<times> 'w"
  FormatRFC3339Nano :: "time \<Rightarrow> string"

section \<open>Certificates\<close>

definition SerialNumberLimit :: int where "SerialNumberLimit = 2 ^ 128"

definition second :: int where "second = 1000000000"

definition DefaultExpireTimeout :: int where "DefaultExpireTimeout = 365 * 24 * 3600 * second"
definition UpdateCABefore :: int where "UpdateCABefore = 10 * 60 * second"

definition Cert_Type :: string where "Cert_Type = ''CERTIFICATE''"
definition PrivateKey_Type :: string where "PrivateKey_Type = ''RSA PRIVATE KEY''"

record CAOptions =
  cao_CommonName :: string
  cao_Organization :: "string list"
  cao_DnsNames :: "string list"

record CA =
  ca_privateKey :: bytes
  ca_cert :: bytes
  ca_PrivateKey :: rsa_key
  ca_Certificate :: x509_certificate

definition pemEncode :: "('w, 'x) cert_env_scheme \<Rightarrow> string \<Rightarrow> bytes \<Rightarrow> bytes" where
  "pemEncode K asType data = PemEncode K \<lparr>pem_Type = asType, pem_Bytes = data\<rparr>"

text \<open>An error of a library call, with the text the source puts before it.\<close>

definition failing :: "string \<Rightarrow> ('w \<Rightarrow> (go_error + 'a) \<times> 'w) \<Rightarrow> 'w \<Rightarrow> (go_error + 'a) \<times> 'w" where
  "failing msg m w =
     (case m w of (Inl e, w) \<Rightarrow> (Inl (ErrorString (msg @ error_text e)), w) | (Inr a, w) \<Rightarrow> (Inr a, w))"

definition NewCAConfigSecret ::
    "('w, 'x) cert_env_scheme \<Rightarrow> CAOptions \<Rightarrow> 'w \<Rightarrow> (go_error + CA) \<times> 'w" where
  "NewCAConfigSecret K options =
     bindW (failing ''new CA failed, '' (RandInt K SerialNumberLimit)) (\<lambda>serial.
     bindW (failing ''generate key failed, '' (GenerateKey K)) (\<lambda>pk.
     bindW (readW (TimeNow K)) (\<lambda>before.
     bindW (readW (TimeNow K)) (\<lambda>after.
       let certificate = \<lparr>x509_SerialNumber = serial, x509_CommonName = cao_CommonName options,
             x509_Organization = cao_Organization options, x509_NotBefore = before - 10 * 60 * second,
             x509_NotAfter = after + DefaultExpireTimeout, x509_DNSNames = cao_DnsNames options,
             x509_PublicKey = NoPublicKey\<rparr>
       in bindW (failing ''failed to create certificate, '' (CreateCertificate K certificate pk)) (\<lambda>cert.
            liftW (Inr \<lparr>ca_privateKey = pemEncode K PrivateKey_Type (MarshalPKCS1PrivateKey K pk),
                        ca_cert = pemEncode K Cert_Type cert, ca_PrivateKey = pk,
                        ca_Certificate = certificate\<rparr>))))))"

text \<open>The assertion that the public key is an RSA key panics for any other.\<close>

definition ValidCA :: "('w, 'x) cert_env_scheme \<Rightarrow> CA \<Rightarrow> 'w \<Rightarrow> (go_error + bool) \<times> 'w" where
  "ValidCA K ca w =
     (case x509_PublicKey (ca_Certificate ca) of
        RSAPublicKey k \<Rightarrow>
          (if k \<noteq> PublicOf K (ca_PrivateKey ca) then (Inr False, w)
           else case TimeNow K w of (now, w) \<Rightarrow>
             (Inr (\<not> now < x509_NotBefore (ca_Certificate ca) \<and>
                   \<not> now > x509_NotAfter (ca_Certificate ca) - UpdateCABefore), w))
      | _ \<Rightarrow> (Inl (Panic ''ca.Certificate.PublicKey.(*rsa.PublicKey)''), w))"

section \<open>Certificates in a secret\<close>

definition TlsKeyName :: string where "TlsKeyName = ''tls.key''"
definition TLsCertName :: string where "TLsCertName = ''tls.crt''"

text \<open>A key that is not PEM is dereferenced all the same.\<close>

definition parsePrivateKey :: "('w, 'x) cert_env_scheme \<Rightarrow> bytes \<Rightarrow> go_error + rsa_key" where
  "parsePrivateKey K pkBytes =
     (case PemDecode K pkBytes of
        None \<Rightarrow> Inl (Panic ''pkb.Bytes'')
      | Some b \<Rightarrow> ParsePKCS1PrivateKey K (pem_Bytes b))"

definition parsePemCert :: "('w, 'x) cert_env_scheme \<Rightarrow> bytes \<Rightarrow> go_error + x509_certificate" where
  "parsePemCert K caBytes =
     (case PemDecode K caBytes of
        None \<Rightarrow> Inl (ErrorString ''have not pem certificate'')
      | Some b \<Rightarrow>
          (if pem_Type b \<noteq> Cert_Type then Inl (ErrorString ''have not pem certificate'')
           else bindE (ParseCertificates K (pem_Bytes b)) (\<lambda>certs.
             case certs of [] \<Rightarrow> Inl (Panic ''certs[0]'') | c # _ \<Rightarrow> Inr c)))"

text \<open>\<open>Inr None\<close> is the nil that says the secret holds no certificate.\<close>

definition BuildCAFromSecret :: "('w, 'x) cert_env_scheme \<Rightarrow> secret \<Rightarrow> go_error + CA option" where
  "BuildCAFromSecret K s =
     (case secret_Data s of
        None \<Rightarrow> Inr None
      | Some data \<Rightarrow>
          (let caBytes = map_get data TLsCertName; pkBytes = map_get data TlsKeyName
           in if caBytes = '''' \<or> pkBytes = '''' then Inr None
              else case parsePemCert K caBytes of
                  Inl e \<Rightarrow> if is_panic e then Inl e else Inr None
                | Inr cert \<Rightarrow>
                    (case parsePrivateKey K pkBytes of
                       Inl e \<Rightarrow> if is_panic e then Inl e else Inr None
                     | Inr pk \<Rightarrow> Inr (Some \<lparr>ca_privateKey = pkBytes, ca_cert = pkBytes,
                         ca_PrivateKey = pk, ca_Certificate = cert\<rparr>))))"

section \<open>The watches\<close>

record WatchSecret =
  ws_Name :: string
  ws_SecretName :: string
  ws_SecretNamespace :: string
  ws_WebhookService :: string
  ws_MutatingWebhookConfigurationName :: string
  ws_ValidatingWebhookConfigurationName :: string

text \<open>The watches of the two configurations have the same fields.\<close>

record WatchConfiguration =
  wcf_Name :: string
  wcf_ConfigurationName :: string
  wcf_SecretName :: string
  wcf_SecretNamespace :: string

definition certificateType :: string where "certificateType = ''HTTP''"
definition testDNSName :: string where "testDNSName = ''doris.example.com''"
definition OperatorPodSelector :: string_map where
  "OperatorPodSelector = Map.empty(''control-plane'' \<mapsto> ''doris-operator'')"
definition OperatorPodTimeAnnotation :: string where "OperatorPodTimeAnnotation = ''doris-operator/update-time''"

definition dnsNames :: "WatchSecret \<Rightarrow> string list" where
  "dnsNames ws =
     (let host = ws_WebhookService ws @ ''.'' @ ws_SecretNamespace ws
      in [host, host @ ''.svc'', host @ ''.svc.cluster.local'', testDNSName])"

definition generateCASecret :: "WatchSecret \<Rightarrow> CA \<Rightarrow> secret" where
  "generateCASecret ws ca =
     \<lparr>secret_Name = ws_SecretName ws, secret_Namespace = ws_SecretNamespace ws,
      secret_Data = Some (Map.empty(TlsKeyName \<mapsto> ca_privateKey ca, TLsCertName \<mapsto> ca_cert ca))\<rparr>"

definition set_bundles :: "bytes \<Rightarrow> webhook_configuration \<Rightarrow> webhook_configuration" where
  "set_bundles cert c = c\<lparr>wc_CABundles := map (\<lambda>_. cert) (wc_CABundles c)\<rparr>"

definition stampPod :: "('w, 'x) cert_env_scheme \<Rightarrow> pod \<Rightarrow> 'w \<Rightarrow> go_error option \<times> 'w" where
  "stampPod K p w =
     (case PodsGet K (pod_Namespace p) (pod_Name p) w of
        (Inl e, w) \<Rightarrow> (Some e, w)
      | (Inr p, w) \<Rightarrow>
          (case TimeNow K w of (now, w) \<Rightarrow>
             PodsUpdate K (p\<lparr>pod_Annotations := (pod_Annotations p)
               (OperatorPodTimeAnnotation \<mapsto> FormatRFC3339Nano K now)\<rparr>) w))"

text \<open>Every error here is only logged.\<close>

definition updateOperatorPods :: "('w, 'x) cert_env_scheme \<Rightarrow> string \<Rightarrow> 'w \<Rightarrow> 'w" where
  "updateOperatorPods K ns w =
     (case PodsList K ns OperatorPodSelector w of
        (Inl e, w) \<Rightarrow> w
      | (Inr pods, w) \<Rightarrow> foldl (\<lambda>w p. snd (RetryPod K (stampPod K p) w)) w pods)"

definition shareCertificate ::
    "(string \<Rightarrow> 'w \<Rightarrow> (go_error + webhook_configuration) \<times> 'w)
     \<Rightarrow> (webhook_configuration \<Rightarrow> 'w \<Rightarrow> go_error option \<times> 'w) \<Rightarrow> string \<Rightarrow> bytes \<Rightarrow> 'w \<Rightarrow> (go_error + unit) \<times> 'w" where
  "shareCertificate get put name cert =
     bindW (get name) (\<lambda>c. runW (put (set_bundles cert c)))"

definition renewCertificate ::
    "('w, 'x) cert_env_scheme \<Rightarrow> WatchSecret \<Rightarrow> secret \<Rightarrow> 'w \<Rightarrow> (go_error + unit) \<times> 'w" where
  "renewCertificate K ws s =
     bindW (NewCAConfigSecret K \<lparr>cao_CommonName = ws_Name ws @ ''-'' @ certificateType,
              cao_Organization = [ws_Name ws], cao_DnsNames = dnsNames ws\<rparr>) (\<lambda>ca.
     bindW (runW (SecretsUpdate K (s\<lparr>secret_Data := secret_Data (generateCASecret ws ca)\<rparr>))) (\<lambda>_.
     bindW (shareCertificate (GetMutating K) (UpdateMutating K) (ws_MutatingWebhookConfigurationName ws) (ca_cert ca)) (\<lambda>_.
     bindW (shareCertificate (GetValidating K) (UpdateValidating K) (ws_ValidatingWebhookConfigurationName ws) (ca_cert ca)) (\<lambda>_.
       actW (updateOperatorPods K (ws_SecretNamespace ws))))))"

definition ReconcileSecret :: "('w, 'x) cert_env_scheme \<Rightarrow> WatchSecret \<Rightarrow> 'w \<Rightarrow> (go_error + unit) \<times> 'w" where
  "ReconcileSecret K ws =
     bindW (SecretsGet K (ws_SecretNamespace ws) (ws_SecretName ws)) (\<lambda>s.
     bindW (liftW (BuildCAFromSecret K s)) (\<lambda>ca.
       case ca of
         None \<Rightarrow> renewCertificate K ws s
       | Some ca \<Rightarrow>
           bindW (ValidCA K ca) (\<lambda>valid.
             if valid then liftW (Inr ()) else renewCertificate K ws s)))"

definition secretCertificate :: "secret \<Rightarrow> bytes" where
  "secretCertificate s = (case secret_Data s of None \<Rightarrow> '''' | Some data \<Rightarrow> map_get data TLsCertName)"

definition ReconcileMutating ::
    "('w, 'x) cert_env_scheme \<Rightarrow> WatchConfiguration \<Rightarrow> 'w \<Rightarrow> (go_error + unit) \<times> 'w" where
  "ReconcileMutating K wm =
     bindW (SecretsGet K (wcf_SecretNamespace wm) (wcf_SecretName wm)) (\<lambda>s.
       shareCertificate (GetMutating K) (UpdateMutating K) (wcf_ConfigurationName wm) (secretCertificate s))"

definition ReconcileValidating ::
    "('w, 'x) cert_env_scheme \<Rightarrow> WatchConfiguration \<Rightarrow> 'w \<Rightarrow> (go_error + unit) \<times> 'w" where
  "ReconcileValidating K wv =
     bindW (SecretsGet K (wcf_SecretNamespace wv) (wcf_SecretName wv)) (\<lambda>s.
       shareCertificate (GetValidating K) (UpdateValidating K) (wcf_ConfigurationName wv) (secretCertificate s))"

text \<open>Not called; it answers whether the certificate is valid.\<close>

definition shouldRenewCertificate :: "('w, 'x) cert_env_scheme \<Rightarrow> secret option \<Rightarrow> 'w \<Rightarrow> (go_error + bool) \<times> 'w" where
  "shouldRenewCertificate K s =
     (case s of
        None \<Rightarrow> liftW (Inr True)
      | Some s \<Rightarrow> bindW (liftW (BuildCAFromSecret K s)) (\<lambda>ca.
          case ca of None \<Rightarrow> liftW (Inr True) | Some ca \<Rightarrow> ValidCA K ca))"

section \<open>The reconciler\<close>

datatype watch = SecretWatch WatchSecret | ValidatingWatch WatchConfiguration | MutatingWatch WatchConfiguration

fun ReconcileWatch :: "('w, 'x) cert_env_scheme \<Rightarrow> watch \<Rightarrow> 'w \<Rightarrow> (go_error + unit) \<times> 'w" where
  "ReconcileWatch K (SecretWatch ws) = ReconcileSecret K ws"
| "ReconcileWatch K (ValidatingWatch wv) = ReconcileValidating K wv"
| "ReconcileWatch K (MutatingWatch wm) = ReconcileMutating K wm"

fun ReconcileResource :: "('w, 'x) cert_env_scheme \<Rightarrow> watch list \<Rightarrow> 'w \<Rightarrow> (go_error + unit) \<times> 'w" where
  "ReconcileResource K [] w = (Inr (), w)"
| "ReconcileResource K (x # xs) w = bindW (ReconcileWatch K x) (\<lambda>_. ReconcileResource K xs) w"

definition WatchSecretWebhookName :: string where
  "WatchSecretWebhookName = ''doris-operator-webhook-secret-watch''"
definition WatchValidatingWebhookConfigurationName :: string where
  "WatchValidatingWebhookConfigurationName = ''doris-operator-validate-webhook-watch''"
definition WatchMutatingWebhookConfigurationName :: string where
  "WatchMutatingWebhookConfigurationName = ''doris-operator-mutate-webhook-watch''"
definition DefaultMutatingWebhookConfigurationName :: string where
  "DefaultMutatingWebhookConfigurationName = ''doris-operator-mutate-webhook''"
definition DefaultValidatingWebhookConfigurationName :: string where
  "DefaultValidatingWebhookConfigurationName = ''doris-operator-validate-webhook''"

record Options =
  opt_EnableWebHook :: bool
  opt_Name :: string
  opt_SecretName :: string
  opt_Namespace :: string
  opt_WebhookService :: string

text \<open>The watches that \<^verbatim>\<open>Init\<close> registers, in the order in which they are reconciled.\<close>

definition initWatches :: "Options \<Rightarrow> watch list" where
  "initWatches opts =
     (if \<not> opt_EnableWebHook opts then []
      else [SecretWatch \<lparr>ws_Name = WatchSecretWebhookName, ws_SecretName = opt_SecretName opts,
              ws_SecretNamespace = opt_Namespace opts, ws_WebhookService = opt_WebhookService opts,
              ws_MutatingWebhookConfigurationName = DefaultMutatingWebhookConfigurationName,
              ws_ValidatingWebhookConfigurationName = DefaultValidatingWebhookConfigurationName\<rparr>,
            ValidatingWatch \<lparr>wcf_Name = WatchValidatingWebhookConfigurationName,
              wcf_ConfigurationName = DefaultValidatingWebhookConfigurationName,
              wcf_SecretName = opt_SecretName opts, wcf_SecretNamespace = opt_Namespace opts\<rparr>,
            MutatingWatch \<lparr>wcf_Name = WatchMutatingWebhookConfigurationName,
              wcf_ConfigurationName = DefaultMutatingWebhookConfigurationName,
              wcf_SecretName = opt_SecretName opts, wcf_SecretNamespace = opt_Namespace opts\<rparr>])"

text \<open>
  The requests that an event on an object of a watch's type adds to the queue. The secret
  watch compares the name of the secret, the others the name of the watch.
\<close>

fun toReconcileRequest :: "watch \<Rightarrow> string \<Rightarrow> string \<Rightarrow> (string \<times> string) list" where
  "toReconcileRequest (SecretWatch ws) ns name =
     (if name = ws_SecretName ws then [(ws_SecretNamespace ws, ws_SecretName ws)] else [])"
| "toReconcileRequest (ValidatingWatch wv) ns name = (if name = wcf_Name wv then [(ns, name)] else [])"
| "toReconcileRequest (MutatingWatch wm) ns name = (if name = wcf_Name wm then [(ns, name)] else [])"

end
