(* ===== verification/Webhook_Props.thy ===== *)
theory Webhook_Props
  imports Webhook_Certs
begin

text \<open>
  What the reconcile of the webhook certificates achieves. \<open>keeps v m\<close> says that the
  action \<open>m\<close> does not change the part \<open>v\<close> of the world; \<open>webhook_laws\<close> is what the
  theorems ask of the API server, on the secret and the two configurations, and \<open>pki_laws\<close>
  what they ask of the cryptographic libraries.
\<close>

section \<open>Actions that keep a part of the world\<close>

definition keeps :: "('w \<Rightarrow> 'v) \<Rightarrow> ('w \<Rightarrow> 'a \<times> 'w) \<Rightarrow> bool" where
  "keeps v m = (\<forall>w. v (snd (m w)) = v w)"

named_theorems keeps_intros \<open>actions that keep a part of the world\<close>

lemma keepsD: "keeps v m \<Longrightarrow> m w = (a, w') \<Longrightarrow> v w' = v w"
  unfolding keeps_def by (metis snd_conv)

lemma keeps_bindW [keeps_intros]: "keeps v m \<Longrightarrow> (\<And>a. keeps v (f a)) \<Longrightarrow> keeps v (bindW m f)"
  by (auto simp: keeps_def bindW_def split: prod.split sum.split) (metis snd_conv)+

lemma keeps_failing [keeps_intros]: "keeps v m \<Longrightarrow> keeps v (failing msg m)"
  by (auto simp: keeps_def failing_def split: prod.split sum.split) (metis snd_conv)+

lemma keeps_readW [keeps_intros]: "keeps v m \<Longrightarrow> keeps v (readW m)"
  by (auto simp: keeps_def readW_def split: prod.split) (metis snd_conv)

lemma keeps_liftW [keeps_intros]: "keeps v (liftW r)"
  by (simp add: keeps_def liftW_def)

lemma keeps_foldl: "(\<And>x w. v (f w x) = v w) \<Longrightarrow> v (foldl f w xs) = v w"
  by (induction xs arbitrary: w) simp_all

section \<open>Laws\<close>

type_synonym webhook_state = "secret \<times> webhook_configuration \<times> webhook_configuration"

definition webhook_laws ::
    "('w, 'x) cert_env_scheme \<Rightarrow> Options \<Rightarrow> ('w \<Rightarrow> webhook_state) \<Rightarrow> bool" where
  "webhook_laws K opts v \<longleftrightarrow>
     (\<forall>w s w'. SecretsGet K (opt_Namespace opts) (opt_SecretName opts) w = (Inr s, w') \<longrightarrow> s = fst (v w) \<and> v w' = v w) \<and>
     (\<forall>w c w'. GetMutating K DefaultMutatingWebhookConfigurationName w = (Inr c, w') \<longrightarrow>
        c = fst (snd (v w)) \<and> v w' = v w) \<and>
     (\<forall>w c w'. GetValidating K DefaultValidatingWebhookConfigurationName w = (Inr c, w') \<longrightarrow>
        c = snd (snd (v w)) \<and> v w' = v w) \<and>
     (\<forall>s w w'. SecretsUpdate K s w = (None, w') \<longrightarrow> v w' = (s, snd (v w))) \<and>
     (\<forall>c w w'. UpdateMutating K c w = (None, w') \<longrightarrow> v w' = (fst (v w), c, snd (snd (v w)))) \<and>
     (\<forall>c w w'. UpdateValidating K c w = (None, w') \<longrightarrow> v w' = (fst (v w), fst (snd (v w)), c)) \<and>
     keeps v (TimeNow K) \<and> (\<forall>n. keeps v (RandInt K n)) \<and> keeps v (GenerateKey K) \<and>
     (\<forall>t k. keeps v (CreateCertificate K t k)) \<and> (\<forall>ns sel. keeps v (PodsList K ns sel)) \<and>
     (\<forall>ns n. keeps v (PodsGet K ns n)) \<and> (\<forall>p. keeps v (PodsUpdate K p)) \<and>
     (\<forall>f. keeps v f \<longrightarrow> keeps v (RetryPod K f))"

text \<open>
  Encodings can be read back; a created certificate is the template with the public half of
  the key that signed it and its times in whole seconds.
\<close>

definition seconds_of :: "time \<Rightarrow> time" where
  "seconds_of t = t - t mod second"

definition issued :: "('w, 'x) cert_env_scheme \<Rightarrow> x509_certificate \<Rightarrow> rsa_key \<Rightarrow> x509_certificate" where
  "issued K t k = t\<lparr>x509_NotBefore := seconds_of (x509_NotBefore t), x509_NotAfter := seconds_of (x509_NotAfter t),
     x509_PublicKey := RSAPublicKey (PublicOf K k)\<rparr>"

definition pki_laws :: "('w, 'x) cert_env_scheme \<Rightarrow> bool" where
  "pki_laws K \<longleftrightarrow>
     (\<forall>b. PemEncode K b \<noteq> '''' \<and> PemDecode K (PemEncode K b) = Some b) \<and>
     (\<forall>k. ParsePKCS1PrivateKey K (MarshalPKCS1PrivateKey K k) = Inr k) \<and>
     (\<forall>t k w c w'. CreateCertificate K t k w = (Inr c, w') \<longrightarrow> ParseCertificates K c = Inr [issued K t k])"

lemma keeps_laws:
  assumes "webhook_laws K opts v"
  shows "keeps v (TimeNow K)" "keeps v (RandInt K n)" "keeps v (GenerateKey K)" "keeps v (CreateCertificate K t k)"
    "keeps v (PodsList K ns sel)" "keeps v (PodsGet K ns m)" "keeps v (PodsUpdate K p)"
    "keeps v f \<Longrightarrow> keeps v (RetryPod K f)"
  using assms unfolding webhook_laws_def by blast+

lemma keeps_NewCA:
  assumes "webhook_laws K opts v"
  shows "keeps v (NewCAConfigSecret K cao)"
  unfolding NewCAConfigSecret_def Let_def by (intro keeps_intros keeps_laws [OF assms])

lemma keeps_stampPod:
  assumes "webhook_laws K opts v"
  shows "keeps v (stampPod K p)"
  unfolding keeps_def stampPod_def
  using keepsD [OF keeps_laws(6) [OF assms]] keepsD [OF keeps_laws(1) [OF assms]] keepsD [OF keeps_laws(7) [OF assms]]
  by (auto split: prod.split sum.split) (metis prod.collapse)+

lemma updateOperatorPods_keeps:
  assumes "webhook_laws K opts v"
  shows "v (updateOperatorPods K ns w) = v w"
proof -
  have one: "v (snd (RetryPod K (stampPod K p) w)) = v w" for p w
    using keeps_laws(8) [OF assms keeps_stampPod [OF assms]] by (simp add: keeps_def)
  show ?thesis
    unfolding updateOperatorPods_def using keepsD [OF keeps_laws(5) [OF assms]]
    by (auto split: prod.split sum.split) (metis (no_types, lifting) keeps_foldl one)+
qed

section \<open>A created certificate is accepted\<close>

lemma run_Inr_iff:
  "failing msg m w = (Inr a, w') \<longleftrightarrow> m w = (Inr a, w')"
  "readW r w = (Inr b, w') \<longleftrightarrow> r w = (b, w')"
  "liftW q w = (Inr c, w') \<longleftrightarrow> q = Inr c \<and> w' = w"
  "runW u w = (Inr d, w') \<longleftrightarrow> u w = (None, w')"
  "actW f w = (Inr e, w') \<longleftrightarrow> w' = f w"
  by (auto simp: failing_def readW_def liftW_def runW_def actW_def split: prod.split sum.split option.split)

lemma NewCA_result:
  assumes "NewCAConfigSecret K cao w = (Inr ca, w')"
  obtains cert w1 before w2 after w3 where
    "TimeNow K w1 = (before, w2)" "TimeNow K w2 = (after, w3)"
    "CreateCertificate K (ca_Certificate ca) (ca_PrivateKey ca) w3 = (Inr cert, w')"
    "ca_cert ca = pemEncode K Cert_Type cert"
    "ca_privateKey ca = pemEncode K PrivateKey_Type (MarshalPKCS1PrivateKey K (ca_PrivateKey ca))"
    "x509_NotBefore (ca_Certificate ca) = before - 10 * 60 * second"
    "x509_NotAfter (ca_Certificate ca) = after + DefaultExpireTimeout"
    "x509_DNSNames (ca_Certificate ca) = cao_DnsNames cao"
  using assms unfolding NewCAConfigSecret_def bindW_Inr_iff run_Inr_iff Let_def
  by (elim exE conjE) (simp, metis CA.select_convs x509_certificate.select_convs)

lemma NewCA_read_back:
  assumes "pki_laws K" and "NewCAConfigSecret K cao w = (Inr ca, w')"
    and "secret_Data s = secret_Data (generateCASecret ws ca)"
  shows "BuildCAFromSecret K s = Inr (Some \<lparr>ca_privateKey = ca_privateKey ca,
      ca_cert = ca_privateKey ca, ca_PrivateKey = ca_PrivateKey ca,
      ca_Certificate = issued K (ca_Certificate ca) (ca_PrivateKey ca)\<rparr>)"
proof -
  obtain cert w1 w2 where c: "CreateCertificate K (ca_Certificate ca) (ca_PrivateKey ca) w1 = (Inr cert, w2)"
    "ca_cert ca = pemEncode K Cert_Type cert"
    "ca_privateKey ca = pemEncode K PrivateKey_Type (MarshalPKCS1PrivateKey K (ca_PrivateKey ca))"
    using assms(2) by (elim NewCA_result)
  have "TlsKeyName \<noteq> TLsCertName" by (simp add: TlsKeyName_def TLsCertName_def)
  moreover have "ParseCertificates K cert = Inr [issued K (ca_Certificate ca) (ca_PrivateKey ca)]"
    using assms(1) c(1) unfolding pki_laws_def by blast
  ultimately show ?thesis
    using assms(1,3) c(2,3)
    by (simp add: pki_laws_def BuildCAFromSecret_def generateCASecret_def parsePemCert_def parsePrivateKey_def
        pemEncode_def map_get_def Let_def)
qed

lemma NewCA_times:
  assumes "NewCAConfigSecret K cao w = (Inr ca, w')"
    and "RandInt K SerialNumberLimit w = (Inr serial, w1)" and "GenerateKey K w1 = (Inr pk, w2)"
    and "TimeNow K w2 = (created, w3)" and "TimeNow K w3 = (stamped, w4)"
  shows "x509_NotBefore (ca_Certificate ca) = created - 10 * 60 * second"
    "x509_NotAfter (ca_Certificate ca) = stamped + DefaultExpireTimeout"
    "x509_DNSNames (ca_Certificate ca) = cao_DnsNames cao"
  using assms unfolding NewCAConfigSecret_def bindW_Inr_iff run_Inr_iff Let_def by auto

text \<open>
  C30. A certificate that the operator creates for its webhooks names the hosts it was asked
  for and is accepted by every later reconcile that reads it back from the secret, from ten
  minutes before its creation until a year after it, less ten minutes and a second: within
  this time the secret is not renewed and nothing is written.
\<close>

theorem created_certificate_accepted:
  assumes "pki_laws K" and "NewCAConfigSecret K cao w = (Inr ca, w')"
    and "RandInt K SerialNumberLimit w = (Inr serial, w1)" and "GenerateKey K w1 = (Inr pk, w2)"
    and "TimeNow K w2 = (created, w3)" and "TimeNow K w3 = (stamped, w4)"
    and "SecretsGet K (ws_SecretNamespace ws) (ws_SecretName ws) u = (Inr s, u1)"
    and "secret_Data s = secret_Data (generateCASecret ws ca)"
    and "TimeNow K u1 = (now, u2)" and "created - 10 * 60 * second \<le> now"
    and "now \<le> stamped + DefaultExpireTimeout - UpdateCABefore - second"
  shows "x509_DNSNames (ca_Certificate ca) = cao_DnsNames cao \<and> ReconcileSecret K ws u = (Inr (), u2)"
proof -
  note t = NewCA_times [OF assms(2-6)]
  have s: "seconds_of x \<le> x" "x - second < seconds_of x" for x by (simp_all add: seconds_of_def second_def)
  show ?thesis
    using t s [of "created - 10 * 60 * second"] s [of "stamped + DefaultExpireTimeout"] assms(7,9-11)
    by (simp add: ReconcileSecret_def bindW_def liftW_def NewCA_read_back [OF assms(1,2,8)] ValidCA_def issued_def)
qed

section \<open>The configurations trust the certificate\<close>

lemma shareMutating_state:
  assumes "webhook_laws K opts v"
    and "shareCertificate (GetMutating K) (UpdateMutating K) DefaultMutatingWebhookConfigurationName cert w = (Inr (), w')"
  shows "v w' = (fst (v w), set_bundles cert (fst (snd (v w))), snd (snd (v w)))"
  using assms unfolding shareCertificate_def bindW_Inr_iff run_Inr_iff webhook_laws_def by (elim exE conjE) metis

lemma shareValidating_state:
  assumes "webhook_laws K opts v"
    and "shareCertificate (GetValidating K) (UpdateValidating K) DefaultValidatingWebhookConfigurationName cert w = (Inr (), w')"
  shows "v w' = (fst (v w), fst (snd (v w)), set_bundles cert (snd (snd (v w))))"
  using assms unfolding shareCertificate_def bindW_Inr_iff run_Inr_iff webhook_laws_def by (elim exE conjE) metis

text \<open>Whether a secret holds a certificate for its own key.\<close>

definition holds_certificate :: "('w, 'x) cert_env_scheme \<Rightarrow> secret \<Rightarrow> bool" where
  "holds_certificate K s =
     (case BuildCAFromSecret K s of
        Inr (Some ca) \<Rightarrow> x509_PublicKey (ca_Certificate ca) = RSAPublicKey (PublicOf K (ca_PrivateKey ca))
      | _ \<Rightarrow> False)"

definition operator_watch :: "Options \<Rightarrow> WatchSecret" where
  "operator_watch opts = \<lparr>ws_Name = WatchSecretWebhookName, ws_SecretName = opt_SecretName opts,
     ws_SecretNamespace = opt_Namespace opts, ws_WebhookService = opt_WebhookService opts,
     ws_MutatingWebhookConfigurationName = DefaultMutatingWebhookConfigurationName,
     ws_ValidatingWebhookConfigurationName = DefaultValidatingWebhookConfigurationName\<rparr>"

lemma operator_watch_fields [simp]:
  "ws_SecretNamespace (operator_watch opts) = opt_Namespace opts"
  "ws_SecretName (operator_watch opts) = opt_SecretName opts"
  "ws_MutatingWebhookConfigurationName (operator_watch opts) = DefaultMutatingWebhookConfigurationName"
  "ws_ValidatingWebhookConfigurationName (operator_watch opts) = DefaultValidatingWebhookConfigurationName"
  by (simp_all add: operator_watch_def)

lemma renewed_holds:
  assumes "webhook_laws K opts v" and "pki_laws K"
    and "renewCertificate K (operator_watch opts) s w = (Inr (), w')"
  shows "holds_certificate K (fst (v w'))"
proof -
  let ?ws = "operator_watch opts"
  obtain cao ca w1 w2 w3 w4 where ca: "NewCAConfigSecret K cao w = (Inr ca, w1)"
    and up: "SecretsUpdate K (s\<lparr>secret_Data := secret_Data (generateCASecret ?ws ca)\<rparr>) w1 = (None, w2)"
    and m: "shareCertificate (GetMutating K) (UpdateMutating K) DefaultMutatingWebhookConfigurationName (ca_cert ca) w2 = (Inr (), w3)"
    and val: "shareCertificate (GetValidating K) (UpdateValidating K) DefaultValidatingWebhookConfigurationName (ca_cert ca) w3 = (Inr (), w4)"
    and w': "w' = updateOperatorPods K (opt_Namespace opts) w4"
    using assms(3) unfolding renewCertificate_def bindW_Inr_iff run_Inr_iff operator_watch_fields
    by (elim exE conjE) (metis (full_types) old.unit.exhaust)
  have "v w2 = (s\<lparr>secret_Data := secret_Data (generateCASecret ?ws ca)\<rparr>, snd (v w1))"
    using assms(1) up unfolding webhook_laws_def by blast
  then have "fst (v w') = s\<lparr>secret_Data := secret_Data (generateCASecret ?ws ca)\<rparr>"
    using shareMutating_state [OF assms(1) m] shareValidating_state [OF assms(1) val]
    by (simp add: w' updateOperatorPods_keeps [OF assms(1)])
  moreover have "BuildCAFromSecret K (s\<lparr>secret_Data := secret_Data (generateCASecret ?ws ca)\<rparr>) =
      Inr (Some \<lparr>ca_privateKey = ca_privateKey ca, ca_cert = ca_privateKey ca, ca_PrivateKey = ca_PrivateKey ca,
        ca_Certificate = issued K (ca_Certificate ca) (ca_PrivateKey ca)\<rparr>)"
    by (rule NewCA_read_back [OF assms(2) ca, of _ ?ws]) simp
  ultimately show ?thesis by (simp add: holds_certificate_def issued_def)
qed

lemma ValidCA_key:
  "ValidCA K ca w = (Inr True, w') \<Longrightarrow> x509_PublicKey (ca_Certificate ca) = RSAPublicKey (PublicOf K (ca_PrivateKey ca))"
  by (auto simp: ValidCA_def split: public_key.splits if_splits prod.splits)

lemma keeps_ValidCA:
  assumes "webhook_laws K opts v"
  shows "keeps v (ValidCA K ca)"
  unfolding keeps_def ValidCA_def using keepsD [OF keeps_laws(1) [OF assms]]
  by (auto split: public_key.split prod.split)

lemma reconciled_secret_holds:
  assumes "webhook_laws K opts v" and "pki_laws K" and "ReconcileSecret K (operator_watch opts) w = (Inr (), w')"
  shows "holds_certificate K (fst (v w'))"
proof -
  obtain s w1 q where s: "SecretsGet K (opt_Namespace opts) (opt_SecretName opts) w = (Inr s, w1)"
    and q: "BuildCAFromSecret K s = Inr q"
    and rest: "(case q of None \<Rightarrow> renewCertificate K (operator_watch opts) s
       | Some ca \<Rightarrow> bindW (ValidCA K ca) (\<lambda>valid. if valid then liftW (Inr ())
           else renewCertificate K (operator_watch opts) s)) w1 = (Inr (), w')"
    using assms(3) unfolding ReconcileSecret_def bindW_Inr_iff run_Inr_iff operator_watch_fields by blast
  have v1: "s = fst (v w1)" using assms(1) s unfolding webhook_laws_def by (metis (no_types))
  show ?thesis
  proof (cases q)
    case None
    with rest renewed_holds [OF assms(1,2)] show ?thesis by simp
  next
    case (Some ca)
    then obtain valid w2 where va: "ValidCA K ca w1 = (Inr valid, w2)"
      and go: "(if valid then liftW (Inr ()) else renewCertificate K (operator_watch opts) s) w2 = (Inr (), w')"
      using rest by (auto simp: bindW_Inr_iff)
    show ?thesis
    proof (cases valid)
      case True
      then have "v w' = v w1" using go keepsD [OF keeps_ValidCA [OF assms(1)] va] by (simp add: liftW_def)
      with v1 q Some va True ValidCA_key [of K ca w1 w2] show ?thesis by (simp add: holds_certificate_def)
    qed (use go renewed_holds [OF assms(1,2)] in simp)
  qed
qed

text \<open>
  C29. After a successful reconcile of the webhook resources the secret holds a certificate
  for its own key, and every webhook of the two configurations trusts exactly this
  certificate.
\<close>

theorem webhooks_trust_certificate:
  assumes "webhook_laws K opts v" and "pki_laws K" and "opt_EnableWebHook opts"
    and "ReconcileResource K (initWatches opts) w = (Inr (), w')"
  shows "holds_certificate K (fst (v w')) \<and>
    set (wc_CABundles (fst (snd (v w')))) \<union> set (wc_CABundles (snd (snd (v w')))) \<subseteq> {secretCertificate (fst (v w'))}"
proof -
  let ?vn = DefaultValidatingWebhookConfigurationName and ?mn = DefaultMutatingWebhookConfigurationName
  obtain w1 s w2 w3 s' w4 where first: "ReconcileSecret K (operator_watch opts) w = (Inr (), w1)"
    and s: "SecretsGet K (opt_Namespace opts) (opt_SecretName opts) w1 = (Inr s, w2)"
    and vl: "shareCertificate (GetValidating K) (UpdateValidating K) ?vn (secretCertificate s) w2 = (Inr (), w3)"
    and s': "SecretsGet K (opt_Namespace opts) (opt_SecretName opts) w3 = (Inr s', w4)"
    and mu: "shareCertificate (GetMutating K) (UpdateMutating K) ?mn (secretCertificate s') w4 = (Inr (), w')"
    using assms(3,4)
    by (auto simp: initWatches_def operator_watch_def ReconcileValidating_def ReconcileMutating_def bindW_Inr_iff)
  have get: "s = fst (v w1)" "v w2 = v w1" "s' = fst (v w3)" "v w4 = v w3"
    using assms(1) s s' unfolding webhook_laws_def by (metis (no_types))+
  have "v w' = (fst (v w1), set_bundles (secretCertificate (fst (v w1))) (fst (snd (v w1))),
      set_bundles (secretCertificate (fst (v w1))) (snd (snd (v w1))))"
    using shareValidating_state [OF assms(1) vl] shareMutating_state [OF assms(1) mu] get by simp
  with reconciled_secret_holds [OF assms(1,2) first] show ?thesis by (auto simp: set_bundles_def)
qed

section \<open>A server and a certificate authority in memory\<close>

text \<open>
  A world with a clock, a secret and the two configurations, and an authority that signs
  one template. An encoded block starts with the length of its type.
\<close>

record cert_world =
  cw_Clock :: time
  cw_State :: webhook_state

definition mem_pem_encode :: "pem_block \<Rightarrow> bytes" where
  "mem_pem_encode b = replicate (length (pem_Type b)) (CHR ''x'') @ CHR ''.'' # pem_Type b @ pem_Bytes b"

definition mem_pem_decode :: "bytes \<Rightarrow> pem_block option" where
  "mem_pem_decode s =
     (let n = length (takeWhile (\<lambda>c. c = CHR ''x'') s); r = drop (Suc n) s
      in if n = length s then None else Some \<lparr>pem_Type = take n r, pem_Bytes = drop n r\<rparr>)"

lemma takeWhile_mark: "y \<noteq> x \<Longrightarrow> takeWhile (\<lambda>c. c = x) (replicate n x @ y # zs) = replicate n x"
  by (induction n) simp_all

lemma mem_pem_round [simp]: "mem_pem_decode (mem_pem_encode b) = Some b"
  by (simp add: mem_pem_decode_def mem_pem_encode_def takeWhile_mark Let_def)

definition sample_options :: Options where
  "sample_options = \<lparr>opt_EnableWebHook = True, opt_Name = ''op'', opt_SecretName = ''cert'', opt_Namespace = ''ns'',
     opt_WebhookService = ''svc''\<rparr>"

definition sample_ca :: CAOptions where
  "sample_ca = \<lparr>cao_CommonName = WatchSecretWebhookName @ ''-HTTP'', cao_Organization = [WatchSecretWebhookName],
     cao_DnsNames = dnsNames (operator_watch sample_options)\<rparr>"

definition sample_template :: x509_certificate where
  "sample_template = \<lparr>x509_SerialNumber = 7, x509_CommonName = cao_CommonName sample_ca,
     x509_Organization = cao_Organization sample_ca, x509_NotBefore = - (10 * 60 * second),
     x509_NotAfter = DefaultExpireTimeout, x509_DNSNames = cao_DnsNames sample_ca, x509_PublicKey = NoPublicKey\<rparr>"

definition cert_server :: "cert_world cert_env" where
  "cert_server = \<lparr>
     TimeNow = (\<lambda>w. (cw_Clock w, w)),
     RandInt = (\<lambda>_ w. (Inr 7, w)),
     GenerateKey = (\<lambda>w. (Inr ''key'', w)),
     CreateCertificate = (\<lambda>t k w. if t = sample_template \<and> k = ''key'' then (Inr ''signed'', w)
       else (Inl (ErrorString ''refused''), w)),
     PublicOf = (\<lambda>k. ''public '' @ k),
     MarshalPKCS1PrivateKey = (\<lambda>k. k),
     ParsePKCS1PrivateKey = Inr,
     ParseCertificates = (\<lambda>_. Inr [sample_template\<lparr>x509_NotBefore := seconds_of (x509_NotBefore sample_template),
       x509_NotAfter := seconds_of (x509_NotAfter sample_template), x509_PublicKey := RSAPublicKey ''public key''\<rparr>]),
     PemEncode = mem_pem_encode,
     PemDecode = mem_pem_decode,
     SecretsGet = (\<lambda>_ _ w. (Inr (fst (cw_State w)), w)),
     SecretsUpdate = (\<lambda>s w. (None, w\<lparr>cw_State := (s, snd (cw_State w))\<rparr>)),
     GetMutating = (\<lambda>_ w. (Inr (fst (snd (cw_State w))), w)),
     UpdateMutating = (\<lambda>c w. (None, w\<lparr>cw_State := (fst (cw_State w), c, snd (snd (cw_State w)))\<rparr>)),
     GetValidating = (\<lambda>_ w. (Inr (snd (snd (cw_State w))), w)),
     UpdateValidating = (\<lambda>c w. (None, w\<lparr>cw_State := (fst (cw_State w), fst (snd (cw_State w)), c)\<rparr>)),
     PodsList = (\<lambda>_ _ w. (Inr [], w)),
     PodsGet = (\<lambda>_ _ w. (Inl (ErrorString ''none''), w)),
     PodsUpdate = (\<lambda>_ w. (None, w)),
     RetryPod = (\<lambda>f. f),
     FormatRFC3339Nano = (\<lambda>_. '''')\<rparr>"

lemma cert_server_pki: "pki_laws cert_server"
  by (auto simp: pki_laws_def cert_server_def issued_def) (simp add: mem_pem_encode_def)

lemma cert_server_laws: "webhook_laws cert_server opts cw_State"
  by (simp add: webhook_laws_def cert_server_def keeps_def)

definition fresh_world :: cert_world where
  "fresh_world = \<lparr>cw_Clock = 0, cw_State = (\<lparr>secret_Name = ''cert'', secret_Namespace = ''ns'', secret_Data = None\<rparr>,
     \<lparr>wc_Name = DefaultMutatingWebhookConfigurationName, wc_CABundles = ['''']\<rparr>,
     \<lparr>wc_Name = DefaultValidatingWebhookConfigurationName, wc_CABundles = ['''', ''old'']\<rparr>)\<rparr>"

lemma webhooks_trust_certificate_witness:
  "let w' = snd (ReconcileResource cert_server (initWatches sample_options) fresh_world)
   in holds_certificate cert_server (fst (cw_State w')) \<and>
      set (wc_CABundles (fst (snd (cw_State w')))) \<subseteq> {secretCertificate (fst (cw_State w'))}"
proof -
  let ?run = "ReconcileResource cert_server (initWatches sample_options) fresh_world"
  have "fst ?run = Inr ()" by code_simp
  then have "?run = (Inr (), snd ?run)" by (metis prod.collapse)
  from webhooks_trust_certificate [OF cert_server_laws cert_server_pki _ this]
  show ?thesis by (simp add: sample_options_def Let_def)
qed

definition sample_new :: CA where
  "sample_new = \<lparr>ca_privateKey = mem_pem_encode \<lparr>pem_Type = PrivateKey_Type, pem_Bytes = ''key''\<rparr>,
     ca_cert = mem_pem_encode \<lparr>pem_Type = Cert_Type, pem_Bytes = ''signed''\<rparr>, ca_PrivateKey = ''key'',
     ca_Certificate = sample_template\<rparr>"

lemma cert_server_fields [simp]:
  "TimeNow cert_server w = (cw_Clock w, w)" "RandInt cert_server lim w = (Inr 7, w)"
  "GenerateKey cert_server w = (Inr ''key'', w)" "SecretsGet cert_server ns n w = (Inr (fst (cw_State w)), w)"
  by (simp_all add: cert_server_def)

lemma sample_new: "NewCAConfigSecret cert_server sample_ca fresh_world = (Inr sample_new, fresh_world)"
  by (simp add: NewCAConfigSecret_def bindW_def failing_def readW_def liftW_def Let_def)
    (simp add: cert_server_def sample_template_def fresh_world_def sample_new_def pemEncode_def liftW_def)

lemma created_certificate_accepted_witness:
  "let w = \<lparr>cw_Clock = 1, cw_State = (generateCASecret (operator_watch sample_options) sample_new,
         snd (cw_State fresh_world))\<rparr>
   in ReconcileSecret cert_server (operator_watch sample_options) w = (Inr (), w)"
proof -
  let ?w = "\<lparr>cw_Clock = 1, cw_State = (generateCASecret (operator_watch sample_options) sample_new,
         snd (cw_State fresh_world))\<rparr>"
  have "ReconcileSecret cert_server (operator_watch sample_options) ?w = (Inr (), ?w)"
    by (rule conjunct2 [OF created_certificate_accepted [OF cert_server_pki sample_new cert_server_fields(2)
          cert_server_fields(3) cert_server_fields(1) cert_server_fields(1) cert_server_fields(4) _ cert_server_fields(1)]])
      (simp_all add: fresh_world_def second_def DefaultExpireTimeout_def UpdateCABefore_def)
  then show ?thesis by (simp add: Let_def)
qed

end
