(* ===== verification/Operator_Tools.thy ===== *)
theory Operator_Tools
  imports Disagg_Pods Webhook_Certs
begin

text \<open>
  The programs beside the reconcilers: the start options of the operator
  (\<^verbatim>\<open>cmd/operator/conf\<close>), the listener that takes the place of a component in a debug
  container (\<^verbatim>\<open>cmd/doris-debug\<close>), and the command \<^verbatim>\<open>dorisctl get\<close>
  (\<^verbatim>\<open>common/cmd\<close>). Lines written to the console for information are left out; what
  \<^verbatim>\<open>dorisctl\<close> writes is its result.
\<close>

section \<open>Start options of the operator\<close>

definition Default_Secret_Name :: string where "Default_Secret_Name = ''doris-operator-secret-cert''"

record EnvVariables =
  ev_EnableWebhook :: bool
  ev_OperatorNamespace :: string
  ev_OperatorName :: string
  ev_ServiceName :: string

definition or_default :: "string \<Rightarrow> string \<Rightarrow> string" where
  "or_default s d = (if s = '''' then d else s)"

text \<open>\<open>getenv\<close> is \<^verbatim>\<open>os.Getenv\<close>: empty for a variable that is not set.\<close>

definition ParseEnvs :: "(string \<Rightarrow> string) \<Rightarrow> EnvVariables" where
  "ParseEnvs getenv =
     \<lparr>ev_EnableWebhook = (getenv ''ENABLE_WEBHOOK'' = ''true''),
      ev_OperatorNamespace = or_default (getenv ''OPERATOR_NAMESPACE'') ''doris'',
      ev_OperatorName = or_default (getenv ''OPERATOR_NAME'') ''doris-operator'',
      ev_ServiceName = or_default (getenv ''SERVICE_NAME'') ''doris-operator-service''\<rparr>"

definition NewControllerOptions :: "EnvVariables \<Rightarrow> Options" where
  "NewControllerOptions envs =
     \<lparr>opt_EnableWebHook = ev_EnableWebhook envs, opt_Name = ev_OperatorName envs,
      opt_SecretName = Default_Secret_Name, opt_Namespace = ev_OperatorNamespace envs,
      opt_WebhookService = ev_ServiceName envs\<rparr>"

text \<open>
  Without any variable set the webhooks are off and no watch is registered; a set
  \<^verbatim>\<open>ENABLE_WEBHOOK\<close> registers all three, on the secret in the operator's namespace.
\<close>

lemma default_watches:
  "getenv ''ENABLE_WEBHOOK'' \<noteq> ''true'' \<Longrightarrow> initWatches (NewControllerOptions (ParseEnvs getenv)) = []"
  "getenv ''ENABLE_WEBHOOK'' = ''true'' \<Longrightarrow> length (initWatches (NewControllerOptions (ParseEnvs getenv))) = 3"
  by (simp_all add: initWatches_def NewControllerOptions_def ParseEnvs_def)

section \<open>Debug listener\<close>

text \<open>
  \<open>Stat\<close> is \<^verbatim>\<open>os.Stat\<close>; \<open>ReadProperties\<close> opens a file, hands it to \<^verbatim>\<open>viper\<close> and
  gives its \<^verbatim>\<open>GetString\<close>, which is empty for every key of a file that cannot be read.
\<close>

datatype stat_result = StatOk | StatNotExist | StatFailed

record debug_env =
  LookupEnv :: "string \<Rightarrow> string"
  Stat :: "string \<Rightarrow> stat_result"
  ReadProperties :: "string \<Rightarrow> string \<Rightarrow> string"

definition DORIS_ROOT_KEY :: string where "DORIS_ROOT_KEY = ''DORIS_ROOT''"
definition AnnotationDebugKey :: string where "AnnotationDebugKey = ''selectdb.com.doris/runmode''"
definition AnnotationDebugDorisKey :: string where "AnnotationDebugDorisKey = ''apache.org.doris/runmode''"
definition AnnotationDebugValue :: string where "AnnotationDebugValue = ''debug''"

definition envParse :: "debug_env \<Rightarrow> string" where
  "envParse E = or_default (LookupEnv E DORIS_ROOT_KEY) ''/opt/apache-doris''"

definition GetDefaultPort :: "string \<Rightarrow> int" where
  "GetDefaultPort key = defMap key"

text \<open>File and key of the port of a component; any other component ends the program.\<close>

definition debug_config :: "string \<Rightarrow> string \<Rightarrow> (string \<times> string) option" where
  "debug_config root componentType =
     (if componentType = ''fe'' then Some (root @ ''/fe/conf/fe.conf'', QUERY_PORT)
      else if componentType = ''be'' then Some (root @ ''/be/conf/be.conf'', HEARTBEAT_SERVICE_PORT)
      else if componentType = ''ms'' then Some (root @ ''/ms/conf/doris_cloud.conf'', BRPC_LISTEN_PORT)
      else None)"

text \<open>\<open>None\<close> is \<^verbatim>\<open>os.Exit(1)\<close>.\<close>

definition readConfigListenPort :: "debug_env \<Rightarrow> string \<Rightarrow> string \<Rightarrow> string option" where
  "readConfigListenPort E root componentType =
     (case debug_config root componentType of
        None \<Rightarrow> None
      | Some (configFileName, listenPortName) \<Rightarrow>
          (if Stat E configFileName \<noteq> StatOk then None
           else Some (or_default (ReadProperties E configFileName listenPortName)
                  (Itoa (GetDefaultPort listenPortName)))))"

definition quoted_debug :: string where
  "quoted_debug = [CHR 0x22] @ AnnotationDebugValue @ [CHR 0x22]"

definition kickOffDebug :: "debug_env \<Rightarrow> bool" where
  "kickOffDebug E =
     (let annotationFileName = POD_INFO_PATH @ ''/annotations''
      in if Stat E annotationFileName = StatNotExist then False
         else ReadProperties E annotationFileName AnnotationDebugKey = quoted_debug \<or>
              ReadProperties E annotationFileName AnnotationDebugDorisKey = quoted_debug)"

text \<open>The program up to its listener.\<close>

datatype debug_outcome = NotStarted | ExitsWithError | ListensOn string

definition debug_main :: "debug_env \<Rightarrow> string \<Rightarrow> debug_outcome" where
  "debug_main E componentType =
     (if \<not> kickOffDebug E then NotStarted
      else case readConfigListenPort E (envParse E) componentType of
          None \<Rightarrow> ExitsWithError
        | Some port \<Rightarrow> ListensOn port)"

text \<open>
  A pod that does not ask for the debug mode is never taken over: the listener starts only
  with one of the two annotations set, and then on the port of the configuration.
\<close>

lemma debug_needs_annotation:
  assumes "debug_main E componentType \<noteq> NotStarted"
  shows "\<exists>key \<in> {AnnotationDebugKey, AnnotationDebugDorisKey}.
    ReadProperties E (POD_INFO_PATH @ ''/annotations'') key = quoted_debug"
  using assms by (auto simp: debug_main_def kickOffDebug_def Let_def split: if_splits)

lemma debug_listens_on_configured_port:
  assumes "debug_main E componentType = ListensOn port" and "debug_config (envParse E) componentType = Some (f, key)"
    and "ReadProperties E f key \<noteq> ''''"
  shows "port = ReadProperties E f key"
  using assms by (auto simp: debug_main_def readConfigListenPort_def or_default_def split: if_splits option.splits)

section \<open>dorisctl\<close>

record CtlFrontend =
  ctlf_Name :: string
  ctlf_Host :: string
  ctlf_EditLogPort :: int
  ctlf_HttpPort :: int
  ctlf_QueryPort :: int
  ctlf_RpcPort :: int
  ctlf_ArrowFlightSqlPort :: int
  ctlf_Role :: string
  ctlf_IsMaster :: bool
  ctlf_ClusterId :: string
  ctlf_Join :: bool
  ctlf_Alive :: bool
  ctlf_ReplayedJournalId :: string
  ctlf_LastStartTime :: "string option"
  ctlf_LastHeartbeat :: "string option"
  ctlf_IsHelper :: bool
  ctlf_ErrMsg :: string
  ctlf_Version :: "string option"
  ctlf_CurrentConnected :: string

record CtlBackend =
  ctlb_BackendID :: string
  ctlb_Host :: string
  ctlb_HeartbeatPort :: int
  ctlb_BePort :: int
  ctlb_HttpPort :: int
  ctlb_BrpcPort :: int
  ctlb_ArrowFlightSqlPort :: int
  ctlb_LastStartTime :: "string option"
  ctlb_LastHeartbeat :: "string option"
  ctlb_Alive :: bool
  ctlb_SystemDecommissioned :: bool
  ctlb_TabletNum :: int
  ctlb_DataUsedCapacity :: string
  ctlb_TrashUsedCapacity :: string
  ctlb_TrashUsedCapcacity :: string
  ctlb_AvailCapacity :: string
  ctlb_TotalCapacity :: string
  ctlb_UsedPct :: string
  ctlb_MaxDiskUsedPct :: string
  ctlb_RemoteUsedCapacity :: string
  ctlb_Tag :: string
  ctlb_ErrMsg :: string
  ctlb_Version :: "string option"
  ctlb_Status :: string
  ctlb_HeartbeatFailureCounter :: int
  ctlb_NodeRole :: string
  ctlb_CpuCores :: string
  ctlb_Memory :: string

datatype ctl_node = FrontendNode CtlFrontend | BackendNode CtlBackend

record DorisConfig =
  dcf_FeHost :: string
  dcf_QueryPort :: int
  dcf_User :: string
  dcf_Password :: string
  dcf_SSLCrtPath :: string
  dcf_SSLCaPath :: string
  dcf_SSLKeyPath :: string

text \<open>
  Files, the driver and the printed forms. \<open>CtlMarshal\<close> and \<open>CtlMarshalIndent\<close> are
  \<^verbatim>\<open>json.Marshal\<close> and \<^verbatim>\<open>json.MarshalIndent\<close> on a row, \<open>CtlTag\<close> reads the text of a tag
  into its struct and prints that, \<open>GJson\<close> is the lookup of \<^verbatim>\<open>gjson\<close>, \<open>Suggest\<close> the
  rendered hint. A connection is a number.
\<close>

record 'w ctl_env =
  CtlReadFile :: "string \<Rightarrow> 'w \<Rightarrow> (go_error + string) \<times> 'w"
  CtlAppendCerts :: "string \<Rightarrow> bool"
  CtlLoadKeyPair :: "string \<Rightarrow> string \<Rightarrow> 'w \<Rightarrow> go_error option \<times> 'w"
  CtlRegisterTLS :: "string \<Rightarrow> 'w \<Rightarrow> go_error option \<times> 'w"
  CtlOpen :: "string \<Rightarrow> 'w \<Rightarrow> (go_error + nat) \<times> 'w"
  CtlPing :: "nat \<Rightarrow> 'w \<Rightarrow> go_error option \<times> 'w"
  CtlSelectFrontends :: "nat \<Rightarrow> 'w \<Rightarrow> (go_error + CtlFrontend list) \<times> 'w"
  CtlSelectBackends :: "nat \<Rightarrow> 'w \<Rightarrow> (go_error + CtlBackend list) \<times> 'w"
  CtlMarshal :: "ctl_node \<Rightarrow> go_error + string"
  CtlMarshalIndent :: "ctl_node \<Rightarrow> go_error + string"
  CtlTag :: "string \<Rightarrow> go_error + string"
  GJson :: "string \<Rightarrow> string \<Rightarrow> string"
  Suggest :: "string \<Rightarrow> string"

definition prefixed :: "string \<Rightarrow> ('w \<Rightarrow> go_error option \<times> 'w) \<Rightarrow> 'w \<Rightarrow> (go_error + unit) \<times> 'w" where
  "prefixed msg m = failing msg (runW m)"

definition ctlTLS :: "('w, 'x) ctl_env_scheme \<Rightarrow> DorisConfig \<Rightarrow> 'w \<Rightarrow> (go_error + unit) \<times> 'w" where
  "ctlTLS K dc =
     bindW (failing ''read root ca cert failed,'' (CtlReadFile K (dcf_SSLCaPath dc))) (\<lambda>pem.
       if \<not> CtlAppendCerts K pem then liftW (Inl (ErrorString ''Failed to append ca cert or pem failed.''))
       else
         bindW (prefixed ''load x509 key pair failed,'' (CtlLoadKeyPair K (dcf_SSLCrtPath dc) (dcf_SSLKeyPath dc))) (\<lambda>_.
           prefixed ''register tls config failed,'' (CtlRegisterTLS K ''doris'')))"

definition NewDorisClient :: "('w, 'x) ctl_env_scheme \<Rightarrow> DorisConfig \<Rightarrow> 'w \<Rightarrow> (go_error + nat) \<times> 'w" where
  "NewDorisClient K dc =
     (let dsn = dcf_User dc @ '':'' @ dcf_Password dc @ ''@tcp('' @ dcf_FeHost dc @ '':'' @ Itoa (dcf_QueryPort dc) @ '')/mysql'';
          open = (\<lambda>dsn. failing ''NewDorisSqlDB sqlx.Open failed open doris sql client connection, err: '' (CtlOpen K dsn))
      in if dcf_SSLCaPath dc = '''' then open dsn
         else bindW (ctlTLS K dc) (\<lambda>_. open (dsn @ ''?tls=doris'')))"

definition CtlShowFrontends :: "('w, 'x) ctl_env_scheme \<Rightarrow> nat \<Rightarrow> 'w \<Rightarrow> (go_error + CtlFrontend list) \<times> 'w" where
  "CtlShowFrontends K db = bindW (runW (CtlPing K db)) (\<lambda>_. CtlSelectFrontends K db)"

definition CtlShowBackends :: "('w, 'x) ctl_env_scheme \<Rightarrow> nat \<Rightarrow> 'w \<Rightarrow> (go_error + CtlBackend list) \<times> 'w" where
  "CtlShowBackends K db = bindW (runW (CtlPing K db)) (\<lambda>_. CtlSelectBackends K db)"

definition nl :: string where "nl = [CHR 0x0A]"

definition CutPrefix :: "string \<Rightarrow> string \<Rightarrow> string" where
  "CutPrefix s p = (if HasPrefix s p then drop (length p) s else s)"

text \<open>The text written; the left value is the panic of a frontend taken for a backend.\<close>

definition print_column :: "('w, 'x) ctl_env_scheme \<Rightarrow> ctl_node \<Rightarrow> string \<Rightarrow> string \<Rightarrow> go_error + string" where
  "print_column K i column bytes =
     (if Contains column ''tag'' then
        (case i of
           FrontendNode f \<Rightarrow> Inl (Panic ''i.(*cmdtypes.Backend)'')
         | BackendNode b \<Rightarrow>
             (case CtlTag K (ctlb_Tag b) of
                Inl e \<Rightarrow> Inr (''unmarshal tag failed,'' @ error_text e @ nl)
              | Inr t \<Rightarrow>
                  (let subColumn = CutPrefix column ''tag.''
                   in Inr (if subColumn = '''' then '''' else GJson K t subColumn @ nl))))
      else Inr (GJson K bytes column @ nl))"

definition print_node :: "('w, 'x) ctl_env_scheme \<Rightarrow> string \<Rightarrow> ctl_node \<Rightarrow> go_error + string" where
  "print_node K outputFormat i =
     (case CtlMarshal K i of
        Inl e \<Rightarrow> Inr (error_text e @ nl)
      | Inr bytes \<Rightarrow>
          (if Contains outputFormat ''custom-columns'' then
             (case Split outputFormat ''='' of
                [_, column] \<Rightarrow> print_column K i column bytes
              | _ \<Rightarrow> Inr (''custom-columns not follow the format '' @ [CHR 0x22] @
                     ''custom-columns=tags.compute_group_name'' @ [CHR 0x22] @ outputFormat @ nl))
           else Inr ((case CtlMarshalIndent K i of Inl e \<Rightarrow> error_text e | Inr s \<Rightarrow> s) @ nl)))"

text \<open>An error before the node is found is written and nothing else.\<close>

definition getNode ::
    "('w, 'x) ctl_env_scheme \<Rightarrow> DorisConfig \<Rightarrow> string \<Rightarrow> string \<Rightarrow> 'w \<Rightarrow> (go_error + string) \<times> 'w" where
  "getNode K dc outputFormat node w =
     (case bindW (NewDorisClient K dc) (\<lambda>c.
        bindW (CtlShowFrontends K c) (\<lambda>frontends.
          case List.find (\<lambda>f. ctlf_Host f = node) frontends of
            Some f \<Rightarrow> liftW (Inr (Some (FrontendNode f)))
          | None \<Rightarrow>
              bindW (CtlShowBackends K c) (\<lambda>backends.
                liftW (Inr (map_option BackendNode (List.find (\<lambda>b. ctlb_Host b = node) backends)))))) w of
        (Inl e, w) \<Rightarrow> (Inr (error_text e @ nl), w)
      | (Inr None, w) \<Rightarrow> (Inr '''', w)
      | (Inr (Some i), w) \<Rightarrow> (print_node K outputFormat i, w))"

definition RunGet ::
    "('w, 'x) ctl_env_scheme \<Rightarrow> string \<Rightarrow> DorisConfig \<Rightarrow> string \<Rightarrow> string list \<Rightarrow> 'w \<Rightarrow> (go_error + string) \<times> 'w" where
  "RunGet K cmdParent dc outputFormat args w =
     (case args of
        [metaType, node] \<Rightarrow>
          (if metaType = ''node'' then getNode K dc outputFormat node w
           else if metaType = ''computegroup'' then (Inr '''', w)
           else (Inr (''The type '' @ metaType @ '' not supported.'' @ nl), w))
      | _ \<Rightarrow> (Inr (''You must specify the type of resource to get. '' @ Suggest K cmdParent @ nl), w))"

text \<open>
  The column of the example in the help, \<^verbatim>\<open>tags.compute_group_name\<close>, is looked up whole in
  the tag of a backend, since only \<^verbatim>\<open>tag.\<close> is cut off; on a frontend it panics.
\<close>

lemma documented_column:
  "print_column K (BackendNode b) ''tags.compute_group_name'' bytes =
     (case CtlTag K (ctlb_Tag b) of
        Inl e \<Rightarrow> Inr (''unmarshal tag failed,'' @ error_text e @ nl)
      | Inr t \<Rightarrow> Inr (GJson K t ''tags.compute_group_name'' @ nl))"
  "print_column K (FrontendNode f) ''tags.compute_group_name'' bytes = Inl (Panic ''i.(*cmdtypes.Backend)'')"
  by (simp_all add: print_column_def Contains_def CutPrefix_def HasPrefix_def Let_def split: sum.split)

end
