(* ===== verification/Spec2Isabelle.thy ===== *)
theory Spec2Isabelle
  imports FE_Props Cluster_Order Instance_Props Graceful_Ends
    Doris_FE_Props Doris_Claims Doris_Status Doris_Props Doris_Template
    Disagg_Watches Webhook_Props Operator_Tools
begin

text \<open>
  A verification development for the Apache Doris operator, a Kubernetes operator in Go that
  runs Doris clusters. The theories model its reconcilers, the objects they build, the state
  machines that move pods and nodes, and the tools beside them; the theorems say what a pass
  of a reconciler does to a cluster, and what it never does.

  \<^bold>\<open>The program.\<close> Two kinds of clusters are declared as custom resources. A
  \<^verbatim>\<open>DorisDisaggregatedCluster\<close> (\<^verbatim>\<open>api/disaggregated/v1\<close>) has a meta service, an FE and
  compute groups of backends; a \<^verbatim>\<open>DorisCluster\<close> (\<^verbatim>\<open>api/doris/v1\<close>) has FE, BE, compute
  nodes and brokers. For each kind a reconciler (\<^verbatim>\<open>pkg/controller\<close>) runs a pass whenever the
  resource or an object of it changes: every sub-controller (\<^verbatim>\<open>pkg/controller/sub_controller\<close>)
  brings its services, claims and StatefulSet to the wanted state (Sync), removes what is no
  longer specified (ClearResources) and reports (UpdateComponentStatus); then the reconciler
  writes the status and decides when to run again. Before a StatefulSet shrinks, nodes are
  dropped or decommissioned over SQL (\<^verbatim>\<open>pkg/common/utils/mysql\<close>); pods of a compute group
  are replaced one at a time by a state machine whose state is an annotation
  (\<^verbatim>\<open>graceful_rollout.go\<close>). A third reconciler keeps the certificate of the admission webhooks.

  \<^bold>\<open>How code becomes definitions.\<close> A Go function is a HOL function with its name; a method
  that writes through a pointer returns the changed object; a struct is a record, a string
  enumeration a datatype with a constructor for any other string, a pointer an option. An
  error is a value of \<open>go_error\<close>, a run-time panic (nil dereference, index out of range,
  failed type assertion) the error \<open>Panic\<close>, which every caller passes on. Integers are
  \<open>int\<close> with \<open>wrap32\<close> and \<open>wrap64\<close> where the source can leave its range; times are
  nanoseconds, those of a condition marked as taken from the clock or decoded. Everything outside the repository (API server, event recorder, clock, remote
  executor, SQL driver, property-file reader, object printer, certificate libraries) is a
  field of an environment record: an arbitrary function of its arguments and of the state
  \<open>'w\<close> of the outside world, which it may change. The records extend one another:
  \<open>sql_env\<close>, \<open>kube_env\<close>, \<open>hash_env\<close>, \<open>rollout_env\<close>, \<open>cluster_env\<close>, and \<open>dcr_env\<close>
  for a DorisCluster; \<open>cert_env\<close>, \<open>debug_env\<close> and \<open>ctl_env\<close> stand alone. Nothing is
  assumed of these functions unless a theorem says so. Iteration over a Go map is a list in
  an arbitrary order. Log lines are not modelled; events, messages and statuses are.

  \<^bold>\<open>Foundations.\<close> \<open>Go_Prelude\<close> has the parts of the language and of its library that the
  source uses (errors, binding of fallible actions, integers, strings, maps), with the lemmas
  shared by all; \<open>Go_Json\<close> the JSON decoder, \<open>Sha256\<close> the hash; \<open>Kube_Types\<close> the
  Kubernetes objects, \<open>Kube_Client\<close> the helpers of \<^verbatim>\<open>k8s/client.go\<close>, \<open>Doris_Sql\<close> the SQL
  client, \<open>Statefulset_Equal\<close> the comparison of objects by hash.

  \<^bold>\<open>Disaggregated clusters.\<close> \<open>Disagg_Types\<close> has specification, status and names;
  \<open>Disagg_Sub\<close>, \<open>Disagg_Volumes\<close>, \<open>Disagg_Services\<close> and \<open>Disagg_Pods\<close> the code the
  sub-controllers share; \<open>Disagg_MS\<close>, \<open>Disagg_FE\<close>, \<open>Compute_Groups\<close> with \<open>Compute_Sync\<close>
  the sub-controllers; \<open>Scale_Down\<close> the removal of backends from the FE; \<open>Graceful_Rollout\<close>
  and \<open>Graceful_Machine\<close> the replacement of pods; \<open>Disagg_Cluster\<close> the reconciler;
  \<open>Disagg_Watches\<close> its webhook and pod events. What is shown:
  \<^item> \<open>Graceful_Safety\<close>, \<open>Graceful_Props\<close>, \<open>Graceful_Ends\<close>: the invariant \<open>action_ok\<close> of
    an action, the refinement of the abstract machine \<open>astep\<close> over stages by any sequence of
    polls (locale \<open>poll_machine\<close>), that a pod is deleted only after its drain, when each wait
    ends, that the wait for a drain does end, and what a reconcile leaves on the StatefulSet;
  \<^item> \<open>Scale_Down\<close>, \<open>Compute_Props\<close>: which backends are removed and when, that a decommission
    holds back the StatefulSet, that applying again writes nothing where patches are merged
    (locale \<open>change_marker\<close>, law \<open>merge_patched\<close>), how a graceful scale-down is undone by
    the apply of the same reconcile, what clearing deletes, what validation accepts, when a
    group is ready;
  \<^item> \<open>FE_Props\<close>: the observers that a scale-down drops and when it drops none, the bound of
    the election number, when the FE is ready; \<open>Volume_Props\<close>: names of volumes, growth of claims;
    \<open>Template_Props\<close>: every StatefulSet that is built is well formed; \<open>Instance_Props\<close>: the
    range of the cluster identifier;
  \<^item> \<open>Cluster_Props\<close>, \<open>Cluster_Order\<close>: a pass that settles leaves a healthy cluster, and
    the order of the sub-controllers does not matter for the status (locales \<open>status_part\<close>,
    \<open>independent_parts\<close>).

  \<^bold>\<open>DorisCluster.\<close> \<open>Doris_Types\<close>, \<open>Doris_Volumes\<close>, \<open>Doris_Pods\<close> and \<open>Doris_Sub\<close> have
  types, volumes, objects and common code; \<open>Doris_FE\<close>, \<open>Doris_BE\<close> (with the broker) and
  \<open>Doris_CN\<close> the sub-controllers; \<open>Doris_Cluster\<close> reconciler, watches and webhook. Shown:
  \<^item> \<open>Doris_FE_Props\<close>: the followers survive a scale-down where its guard can read the
    StatefulSet; \<open>Doris_Claims\<close>: when claims are prepared, which are deleted, and volume names
    for which they never are prepared;
  \<^item> \<open>Doris_Status\<close>: members and phases against the pods, statuses against the specification
    (locale \<open>status_family\<close>), that a pass asks for no requeue; \<open>Doris_Template\<close>: the StatefulSets are well
    formed; \<open>Doris_Props\<close>: passes that cannot succeed, restarts after a change of the
    configuration, the watch on config maps, the forgiving comparison.

  \<^bold>\<open>Webhook certificates and tools.\<close> \<open>Webhook_Certs\<close> models \<^verbatim>\<open>certificate\<close> and
  \<^verbatim>\<open>unnamedwatches\<close>, \<open>Webhook_Props\<close> shows that a created certificate is accepted when read
  back and that both webhook configurations trust what the secret holds; \<open>Operator_Tools\<close>
  models the start options, the debug listener and \<^verbatim>\<open>dorisctl get\<close>.

  \<^bold>\<open>Instances.\<close> \<open>Memory_Cluster\<close>, \<open>Doris_Memory\<close> and the end of \<open>Webhook_Props\<close> give the
  environment records computing functions on a world in memory. A theorem with hypotheses is
  followed by a lemma \<open>_witness\<close> that applies it there.

  \<^bold>\<open>Termination and bounds.\<close> All definitions are total; the recursive functions that are not
  structural (splitting strings, decimal numbers, JSON, blocks of a hash) have termination
  proofs, and no fuel is used. A poll of the rollout is one step; sequences of polls are lists.

  \<^bold>\<open>Not modelled.\<close> Generated deep copies, client sets, informers and listers; flags, logging
  and registration with controller-runtime, which call libraries only; help texts of
  \<^verbatim>\<open>dorisctl\<close>; helpers that nothing calls (those for FoundationDB objects and secrets in
  \<^verbatim>\<open>k8s/client.go\<close>). The goroutines that update the statuses of
  compute groups write disjoint parts and are modelled as a loop. The printers behind the
  object hashes (\<^verbatim>\<open>go-spew\<close>), JSON encoding of structs, X.509 and PEM are parameters.
\<close>

end
